(* ===== verification/Prelude.thy ===== *)
theory Prelude
  imports Complex_Main "HOL-Library.Sublist"
begin

text \<open>
  The combinators every component shares. A Python function that may raise is a value of
  \<open>'e + 'a\<close> (\<open>Inl\<close> the exception, \<open>Inr\<close> the result); one that also reads or writes the
  outside world is a \<open>comp\<close>: it takes the state and returns the outcome together with the
  state left behind. An exception keeps the state changes made before it, as in Python.
\<close>

named_theorems result_simps \<open>unfolding of the result and state combinators\<close>

section \<open>Results: a value or an exception\<close>

definition bindR :: "'e + 'a \<Rightarrow> ('a \<Rightarrow> 'e + 'b) \<Rightarrow> 'e + 'b" where
  "bindR m f = (case m of Inl e \<Rightarrow> Inl e | Inr x \<Rightarrow> f x)"

definition guardR :: "bool \<Rightarrow> 'e \<Rightarrow> 'e + unit" where
  "guardR b e = (if b then Inr () else Inl e)"

fun mapR :: "('a \<Rightarrow> 'e + 'b) \<Rightarrow> 'a list \<Rightarrow> 'e + 'b list" where
  "mapR f [] = Inr []"
| "mapR f (x # xs) = bindR (f x) (\<lambda>y. bindR (mapR f xs) (\<lambda>ys. Inr (y # ys)))"

fun foldR :: "('a \<Rightarrow> 'b \<Rightarrow> 'e + 'b) \<Rightarrow> 'a list \<Rightarrow> 'b \<Rightarrow> 'e + 'b" where
  "foldR f [] b = Inr b"
| "foldR f (x # xs) b = bindR (f x b) (foldR f xs)"

text \<open>A loop that stops at the first hit, and one that keeps the elements passing a test.\<close>

fun existsR :: "('a \<Rightarrow> 'e + bool) \<Rightarrow> 'a list \<Rightarrow> 'e + bool" where
  "existsR f [] = Inr False"
| "existsR f (x # xs) = bindR (f x) (\<lambda>b. if b then Inr True else existsR f xs)"

fun filterR :: "('a \<Rightarrow> 'e + bool) \<Rightarrow> 'a list \<Rightarrow> 'e + 'a list" where
  "filterR f [] = Inr []"
| "filterR f (x # xs) = bindR (f x) (\<lambda>b. bindR (filterR f xs) (\<lambda>ys.
     Inr (if b then x # ys else ys)))"

lemma bindR_Inl [simp]: "bindR (Inl e) f = Inl e"
  by (simp add: bindR_def)

lemma bindR_Inr [simp]: "bindR (Inr x) f = f x"
  by (simp add: bindR_def)

lemma bindR_eq_Inr: "bindR m f = Inr y \<longleftrightarrow> (\<exists>x. m = Inr x \<and> f x = Inr y)"
  by (cases m) simp_all

lemma bindR_eq_Inl: "bindR m f = Inl e \<longleftrightarrow> m = Inl e \<or> (\<exists>x. m = Inr x \<and> f x = Inl e)"
  by (cases m) simp_all

lemma bindR_assoc: "bindR (bindR m f) g = bindR m (\<lambda>x. bindR (f x) g)"
  by (cases m) simp_all

lemma guardR_True [simp]: "guardR True e = Inr ()"
  by (simp add: guardR_def)

lemma guardR_False [simp]: "guardR False e = Inl e"
  by (simp add: guardR_def)

lemma guardR_eq_Inr: "guardR b e = Inr u \<longleftrightarrow> b"
  by (simp add: guardR_def)

lemma guardR_eq_Inl: "guardR b e = Inl e' \<longleftrightarrow> \<not> b \<and> e' = e"
  by (auto simp: guardR_def)

lemma mapR_length: "mapR f xs = Inr ys \<Longrightarrow> length ys = length xs"
  by (induction xs arbitrary: ys) (auto simp: bindR_eq_Inr)

lemma mapR_list_all2: "mapR f xs = Inr ys \<longleftrightarrow> list_all2 (\<lambda>x y. f x = Inr y) xs ys"
  by (induction xs arbitrary: ys) (auto simp: bindR_eq_Inr list_all2_Cons1)

lemma mapR_all:
  assumes "mapR f xs = Inr ys" and "\<And>x. x \<in> set xs \<Longrightarrow> P x"
    and "\<And>x y. P x \<Longrightarrow> f x = Inr y \<Longrightarrow> Q y"
  shows "list_all Q ys"
  using assms(1,2)
proof (induction xs arbitrary: ys)
  case (Cons x xs)
  then obtain y zs where y: "f x = Inr y" and zs: "mapR f xs = Inr zs" and ys: "ys = y # zs"
    by (auto simp: bindR_eq_Inr)
  have "Q y" using Cons.prems(2) y by (auto intro: assms(3))
  moreover have "list_all Q zs" by (rule Cons.IH [OF zs]) (simp add: Cons.prems(2))
  ultimately show ?case by (simp add: ys)
qed simp

lemma mapR_Inr: "(\<And>x. x \<in> set xs \<Longrightarrow> f x = Inr (g x)) \<Longrightarrow> mapR f xs = Inr (map g xs)"
  by (induction xs) simp_all

lemma mapR_nth: "mapR f xs = Inr ys \<Longrightarrow> i < length xs \<Longrightarrow> f (xs ! i) = Inr (ys ! i)"
proof (induction xs arbitrary: ys i)
  case Nil
  then show ?case by simp
next
  case (Cons x xs)
  then show ?case by (cases i) (auto simp: bindR_eq_Inr)
qed

lemma existsR_True: "existsR f xs = Inr True \<Longrightarrow> \<exists>x\<in>set xs. f x = Inr True"
  by (induction xs) (auto simp: bindR_eq_Inr split: if_splits)

lemma existsR_False: "existsR f xs = Inr False \<longleftrightarrow> (\<forall>x\<in>set xs. f x = Inr False)"
  by (induction xs) (auto simp: bindR_eq_Inr split: if_splits)

lemma filterR_set:
  "filterR f xs = Inr ys \<Longrightarrow> set ys = {x \<in> set xs. f x = Inr True}"
  by (induction xs arbitrary: ys) (auto simp: bindR_eq_Inr split: if_splits)

lemma filterR_tested: "filterR f xs = Inr ys \<Longrightarrow> x \<in> set xs \<Longrightarrow> \<exists>b. f x = Inr b"
  by (induction xs arbitrary: ys) (auto simp: bindR_eq_Inr split: if_splits)

lemma filterR_filter:
  "(\<And>x. x \<in> set xs \<Longrightarrow> f x = Inr (P x)) \<Longrightarrow> filterR f xs = Inr (filter P xs)"
  by (induction xs) simp_all

lemma existsR_ex:
  "(\<And>x. x \<in> set xs \<Longrightarrow> f x = Inr (P x)) \<Longrightarrow> existsR f xs = Inr (list_ex P xs)"
  by (induction xs) simp_all

lemma foldR_append: "foldR f (xs @ ys) b = bindR (foldR f xs b) (foldR f ys)"
  by (induction xs arbitrary: b) (simp_all add: bindR_def split: sum.splits)

lemma foldR_invariant:
  assumes "foldR f xs b = Inr c" and "I b"
    and "\<And>x b c. x \<in> set xs \<Longrightarrow> I b \<Longrightarrow> f x b = Inr c \<Longrightarrow> I c"
  shows "I c"
  using assms by (induction xs arbitrary: b) (auto simp: bindR_eq_Inr)

lemmas result_eqs = bindR_eq_Inr bindR_eq_Inl guardR_eq_Inr guardR_eq_Inl

declare bindR_Inl [result_simps] bindR_Inr [result_simps]

section \<open>Stateful computations\<close>

type_synonym ('s, 'e, 'a) comp = "'s \<Rightarrow> ('e + 'a) \<times> 's"

definition retS :: "'a \<Rightarrow> ('s, 'e, 'a) comp" where
  "retS x s = (Inr x, s)"

definition raiseS :: "'e \<Rightarrow> ('s, 'e, 'a) comp" where
  "raiseS e s = (Inl e, s)"

definition liftS :: "'e + 'a \<Rightarrow> ('s, 'e, 'a) comp" where
  "liftS r s = (r, s)"

definition getS :: "('s \<Rightarrow> 'a) \<Rightarrow> ('s, 'e, 'a) comp" where
  "getS f s = (Inr (f s), s)"

definition modS :: "('s \<Rightarrow> 's) \<Rightarrow> ('s, 'e, unit) comp" where
  "modS f s = (Inr (), f s)"

definition bindS :: "('s, 'e, 'a) comp \<Rightarrow> ('a \<Rightarrow> ('s, 'e, 'b) comp) \<Rightarrow> ('s, 'e, 'b) comp" where
  "bindS m f s = (case m s of (Inl e, s') \<Rightarrow> (Inl e, s') | (Inr x, s') \<Rightarrow> f x s')"

definition guardS :: "bool \<Rightarrow> 'e \<Rightarrow> ('s, 'e, unit) comp" where
  "guardS b e s = (guardR b e, s)"

text \<open>\<open>catchS m h\<close> is \<open>try: m except: h\<close>; the handler re-raises what it does not handle.
  \<open>finallyS m f\<close> runs \<open>f\<close> on both outcomes; an exception of \<open>f\<close> replaces the outcome.\<close>

definition catchS :: "('s, 'e, 'a) comp \<Rightarrow> ('e \<Rightarrow> ('s, 'e, 'a) comp) \<Rightarrow> ('s, 'e, 'a) comp" where
  "catchS m h s = (case m s of (Inl e, s') \<Rightarrow> h e s' | (Inr x, s') \<Rightarrow> (Inr x, s'))"

definition finallyS :: "('s, 'e, 'a) comp \<Rightarrow> ('s, 'e, unit) comp \<Rightarrow> ('s, 'e, 'a) comp" where
  "finallyS m f s = (case m s of (r, s') \<Rightarrow>
     (case f s' of (Inl e, s'') \<Rightarrow> (Inl e, s'') | (Inr u, s'') \<Rightarrow> (r, s'')))"

fun mapS :: "('a \<Rightarrow> ('s, 'e, 'b) comp) \<Rightarrow> 'a list \<Rightarrow> ('s, 'e, 'b list) comp" where
  "mapS f [] = retS []"
| "mapS f (x # xs) = bindS (f x) (\<lambda>y. bindS (mapS f xs) (\<lambda>ys. retS (y # ys)))"

fun foldS :: "('a \<Rightarrow> 'b \<Rightarrow> ('s, 'e, 'b) comp) \<Rightarrow> 'a list \<Rightarrow> 'b \<Rightarrow> ('s, 'e, 'b) comp" where
  "foldS f [] b = retS b"
| "foldS f (x # xs) b = bindS (f x b) (foldS f xs)"

lemmas comp_defs = retS_def raiseS_def liftS_def getS_def modS_def guardS_def

lemma bindS_retS [simp]: "bindS (retS x) f = f x"
  by (rule ext) (simp add: bindS_def retS_def)

lemma bindS_raiseS [simp]: "bindS (raiseS e) f = raiseS e"
  by (rule ext) (simp add: bindS_def raiseS_def)

lemma bindS_liftS_Inr [simp]: "bindS (liftS (Inr x)) f = f x"
  by (rule ext) (simp add: bindS_def liftS_def)

lemma bindS_liftS_Inl [simp]: "bindS (liftS (Inl e)) f = raiseS e"
  by (rule ext) (simp add: bindS_def liftS_def raiseS_def)

lemma bindS_getS [simp]: "bindS (getS g) f s = f (g s) s"
  by (simp add: bindS_def getS_def)

lemma bindS_modS [simp]: "bindS (modS g) f s = f () (g s)"
  by (simp add: bindS_def modS_def)

lemma bindS_guardS_True [simp]: "bindS (guardS True e) f = f ()"
  by (rule ext) (simp add: bindS_def guardS_def)

lemma bindS_guardS_False [simp]: "bindS (guardS False e) f = raiseS e"
  by (rule ext) (simp add: bindS_def guardS_def raiseS_def)

lemma retS_apply [simp]: "retS x s = (Inr x, s)"
  by (simp add: retS_def)

lemma raiseS_apply [simp]: "raiseS e s = (Inl e, s)"
  by (simp add: raiseS_def)

lemma liftS_apply [simp]: "liftS r s = (r, s)"
  by (simp add: liftS_def)

lemma bindS_eq_Inr:
  "bindS m f s = (Inr y, t) \<longleftrightarrow> (\<exists>x u. m s = (Inr x, u) \<and> f x u = (Inr y, t))"
  by (auto simp: bindS_def split: prod.splits sum.splits)

lemma bindS_eq_Inl:
  "bindS m f s = (Inl e, t) \<longleftrightarrow>
     m s = (Inl e, t) \<or> (\<exists>x u. m s = (Inr x, u) \<and> f x u = (Inl e, t))"
  by (auto simp: bindS_def split: prod.splits sum.splits)

lemma bindS_assoc: "bindS (bindS m f) g = bindS m (\<lambda>x. bindS (f x) g)"
  by (rule ext) (auto simp: bindS_def split: prod.splits sum.splits)

lemma getS_eq: "getS g s = (r, t) \<longleftrightarrow> r = Inr (g s) \<and> t = s"
  by (auto simp: getS_def)

lemma modS_eq: "modS g s = (r, t) \<longleftrightarrow> r = Inr () \<and> t = g s"
  by (auto simp: modS_def)

lemma guardS_eq: "guardS b e s = (r, t) \<longleftrightarrow> t = s \<and> r = guardR b e"
  by (auto simp: guardS_def)

lemma guardS_Inr: "guardS b e s = (Inr x, t) \<longleftrightarrow> b \<and> t = s"
  by (auto simp: guardS_def guardR_def)

lemma guardS_Inl: "guardS b e s = (Inl e', t) \<longleftrightarrow> \<not> b \<and> e' = e \<and> t = s"
  by (auto simp: guardS_def guardR_def)

lemma finallyS_Inr:
  "finallyS m f s = (Inr x, t) \<longleftrightarrow> (\<exists>u. m s = (Inr x, u) \<and> f u = (Inr (), t))"
  by (auto simp: finallyS_def split: prod.splits sum.splits)

lemmas comp_eqs = bindS_eq_Inr bindS_eq_Inl getS_eq modS_eq guardS_Inr guardS_Inl

text \<open>A relation between the state before and after that holds of every run.\<close>

definition keeps :: "('s \<Rightarrow> 's \<Rightarrow> bool) \<Rightarrow> ('s, 'e, 'a) comp \<Rightarrow> bool" where
  "keeps R m \<longleftrightarrow> (\<forall>s. R s (snd (m s)))"

lemma keepsD: "keeps R m \<Longrightarrow> m s = (r, t) \<Longrightarrow> R s t"
  by (metis keeps_def snd_conv)

lemma keepsI: "(\<And>s r t. m s = (r, t) \<Longrightarrow> R s t) \<Longrightarrow> keeps R m"
  by (metis keeps_def surjective_pairing)

lemma keeps_bindS:
  assumes "transp R" and "keeps R m" and "\<And>x. keeps R (f x)"
  shows "keeps R (bindS m f)"
proof (rule keepsI)
  fix s r t
  assume run: "bindS m f s = (r, t)"
  obtain q u where m: "m s = (q, u)" by fastforce
  have su: "R s u" using assms(2) m by (rule keepsD)
  show "R s t"
  proof (cases q)
    case (Inl e)
    with run m su show ?thesis by (simp add: bindS_def)
  next
    case (Inr x)
    with run m have "f x u = (r, t)" by (simp add: bindS_def)
    then have "R u t" by (rule keepsD [OF assms(3)])
    with su show ?thesis by (rule transpD [OF assms(1)])
  qed
qed

text \<open>
  The rules by which a preorder on states is shown to hold across a computation, whatever the
  preorder: "no file changed", "only files under this directory changed", "the clock did not go
  back" are instances.
\<close>

named_theorems keeps_intros \<open>introduction rules for keeps\<close>

locale state_preorder =
  fixes R :: "'s \<Rightarrow> 's \<Rightarrow> bool"
  assumes R_refl: "R s s"
    and R_trans: "R s t \<Longrightarrow> R t u \<Longrightarrow> R s u"
begin

lemma keeps_retS: "keeps R (retS x)"
  by (simp add: keeps_def R_refl)

lemma keeps_raiseS: "keeps R (raiseS e)"
  by (simp add: keeps_def R_refl)

lemma keeps_liftS: "keeps R (liftS r)"
  by (simp add: keeps_def R_refl)

lemma keeps_getS: "keeps R (getS f)"
  by (simp add: keeps_def getS_def R_refl)

lemma keeps_guardS: "keeps R (guardS b e)"
  by (simp add: keeps_def guardS_def R_refl)

lemma keeps_query: "keeps R (\<lambda>s. (f s, s))"
  by (simp add: keeps_def R_refl)

lemma keeps_modS: "(\<And>s. R s (f s)) \<Longrightarrow> keeps R (modS f)"
  by (simp add: keeps_def modS_def)

lemma keeps_bind: "keeps R m \<Longrightarrow> (\<And>x. keeps R (f x)) \<Longrightarrow> keeps R (bindS m f)"
  by (rule keeps_bindS) (auto intro: transpI R_trans)

lemma keeps_catchS: "keeps R m \<Longrightarrow> (\<And>e. keeps R (h e)) \<Longrightarrow> keeps R (catchS m h)"
proof (rule keepsI)
  fix s r t
  assume m: "keeps R m" and h: "\<And>e. keeps R (h e)" and run: "catchS m h s = (r, t)"
  obtain q u where mu: "m s = (q, u)" by fastforce
  with m have su: "R s u" by (rule keepsD)
  show "R s t"
  proof (cases q)
    case (Inl e)
    with run mu have "h e u = (r, t)" by (simp add: catchS_def)
    with h have "R u t" by (rule keepsD)
    with su show ?thesis by (rule R_trans)
  next
    case (Inr x)
    with run mu su show ?thesis by (simp add: catchS_def)
  qed
qed

lemma keeps_finallyS: "keeps R m \<Longrightarrow> keeps R f \<Longrightarrow> keeps R (finallyS m f)"
proof (rule keepsI)
  fix s r t
  assume m: "keeps R m" and f: "keeps R f" and run: "finallyS m f s = (r, t)"
  obtain q u where mu: "m s = (q, u)" by fastforce
  obtain q' v where fv: "f u = (q', v)" by fastforce
  have "t = v" using run mu fv by (simp add: finallyS_def split: sum.splits)
  with keepsD [OF m mu] keepsD [OF f fv] show "R s t" by (blast intro: R_trans)
qed

lemma keeps_mapS: "(\<And>x. keeps R (f x)) \<Longrightarrow> keeps R (mapS f xs)"
  by (induction xs) (auto intro: keeps_retS keeps_bind)

lemma keeps_foldS: "(\<And>x b. keeps R (f x b)) \<Longrightarrow> keeps R (foldS f xs b)"
  by (induction xs arbitrary: b) (auto intro: keeps_retS keeps_bind)

lemma keeps_if: "(b \<Longrightarrow> keeps R m) \<Longrightarrow> (\<not> b \<Longrightarrow> keeps R n) \<Longrightarrow> keeps R (if b then m else n)"
  by simp

lemma keeps_let: "(\<And>x. keeps R (f x)) \<Longrightarrow> keeps R (let x = a in f x)"
  by simp

lemma keeps_prod: "(\<And>x y. keeps R (f x y)) \<Longrightarrow> keeps R (case p of (x, y) \<Rightarrow> f x y)"
  by (cases p) simp

lemma keeps_option:
  "keeps R m \<Longrightarrow> (\<And>x. keeps R (f x)) \<Longrightarrow> keeps R (case p of None \<Rightarrow> m | Some x \<Rightarrow> f x)"
  by (cases p) simp_all

lemmas keeps_rules = keeps_retS keeps_raiseS keeps_liftS keeps_getS keeps_guardS keeps_bind
  keeps_catchS keeps_finallyS keeps_mapS keeps_foldS keeps_if keeps_let keeps_prod keeps_option
  keeps_query

end

section \<open>Lists and association lists\<close>

text \<open>Python's \<open>sorted\<close> with a key: stable, which \<open>insort_key\<close> is.\<close>

text \<open>Lexicographic order on character lists, as Python compares strings.\<close>

fun str_le :: "string \<Rightarrow> string \<Rightarrow> bool" where
  "str_le [] _ = True"
| "str_le (_ # _) [] = False"
| "str_le (a # as) (b # bs) =
     ((of_char a :: nat) < of_char b \<or> (a = b \<and> str_le as bs))"

lemma str_le_refl [simp]: "str_le s s"
  by (induction s) simp_all

lemma str_le_antisym: "str_le s t \<Longrightarrow> str_le t s \<Longrightarrow> s = t"
proof (induction s t rule: str_le.induct)
  case (1 t)
  then show ?case by (cases t) auto
qed auto

lemma str_le_trans: "str_le s t \<Longrightarrow> str_le t u \<Longrightarrow> str_le s u"
proof (induction s t arbitrary: u rule: str_le.induct)
  case (3 a as b bs)
  then show ?case by (cases u) auto
qed auto

lemma str_le_total: "str_le s t \<or> str_le t s"
proof (induction s t rule: str_le.induct)
  case (3 a as b bs)
  have "(of_char a :: nat) = of_char b \<Longrightarrow> a = b" by simp
  with 3 show ?case by force
qed auto

fun insort_by :: "('a \<Rightarrow> string) \<Rightarrow> 'a \<Rightarrow> 'a list \<Rightarrow> 'a list" where
  "insort_by k x [] = [x]"
| "insort_by k x (y # ys) =
     (if str_le (k x) (k y) then x # y # ys else y # insort_by k x ys)"

definition sort_by :: "('a \<Rightarrow> string) \<Rightarrow> 'a list \<Rightarrow> 'a list" where
  "sort_by k xs = foldr (insort_by k) xs []"

lemma set_insort_by [simp]: "set (insort_by k x ys) = insert x (set ys)"
  by (induction ys) auto

lemma set_sort_by [simp]: "set (sort_by k xs) = set xs"
  by (induction xs) (auto simp: sort_by_def)

lemma length_insort_by [simp]: "length (insort_by k x ys) = Suc (length ys)"
  by (induction ys) auto

lemma length_sort_by [simp]: "length (sort_by k xs) = length xs"
  by (induction xs) (auto simp: sort_by_def)

lemma sorted_insort_by:
  "sorted_wrt (\<lambda>a b. str_le (k a) (k b)) ys \<Longrightarrow>
   sorted_wrt (\<lambda>a b. str_le (k a) (k b)) (insort_by k x ys)"
proof (induction ys)
  case (Cons y ys)
  then show ?case
    using str_le_total [of "k x" "k y"] by (auto intro: str_le_trans)
qed simp

lemma sorted_sort_by: "sorted_wrt (\<lambda>a b. str_le (k a) (k b)) (sort_by k xs)"
  by (induction xs) (auto simp: sort_by_def sorted_insort_by)

lemma distinct_insort_by: "distinct (insort_by k x ys) \<longleftrightarrow> x \<notin> set ys \<and> distinct ys"
  by (induction ys) auto

lemma distinct_sort_by [simp]: "distinct (sort_by k xs) \<longleftrightarrow> distinct xs"
  by (induction xs) (auto simp: sort_by_def distinct_insort_by, simp_all add: sort_by_def [symmetric])

end
