(* ===== verification/Py_Float.thy ===== *)
theory Py_Float
  imports Prelude
begin

text \<open>
  Python's \<open>float\<close>: IEEE 754 binary64. A finite float is the rational it denotes; infinities
  and NaN are separate values. Arithmetic computes the exact rational result and rounds it to
  the nearest binary64 value, ties to even. Negative zero is identified with zero: the code
  never tells them apart.
\<close>

datatype pyfloat = Fin rat | PosInf | NegInf | NaN

section \<open>Rounding to binary64\<close>

function ilog2 :: "int \<Rightarrow> int" where
  "ilog2 n = (if n < 2 then 0 else 1 + ilog2 (n div 2))"
  by pat_completeness auto
termination
  by (relation "measure nat") auto

declare ilog2.simps [simp del]

definition pow2 :: "int \<Rightarrow> rat" where
  "pow2 e = (if 0 \<le> e then 2 ^ nat e else 1 / 2 ^ nat (- e))"

text \<open>The exponent of the leading bit of a positive rational.\<close>

definition qlog2 :: "rat \<Rightarrow> int" where
  "qlog2 q = (case quotient_of q of (a, b) \<Rightarrow>
     let e = ilog2 a - ilog2 b
     in if pow2 e \<le> q then e else e - 1)"

definition round_half_even :: "rat \<Rightarrow> int" where
  "round_half_even q = (let f = \<lfloor>q\<rfloor>; r = q - of_int f in
     if r < 1/2 then f else if 1/2 < r then f + 1 else if even f then f else f + 1)"

definition fl_round :: "rat \<Rightarrow> pyfloat" where
  "fl_round q = (if q = 0 then Fin 0 else
     let a = \<bar>q\<bar>; e = max (qlog2 a - 52) (-1074);
         v = of_int (round_half_even (a / pow2 e)) * pow2 e
     in if pow2 1024 \<le> v then (if 0 < q then PosInf else NegInf)
        else Fin (sgn q * v))"

lemma pow2_pos [simp]: "0 < pow2 e"
  by (simp add: pow2_def)

lemma pow2_nonneg [simp]: "0 \<le> pow2 e"
  by (simp add: pow2_def)

lemma round_half_even_of_int [simp]: "round_half_even (of_int n) = n"
  by (simp add: round_half_even_def)

lemma round_half_even_nonneg: "0 \<le> q \<Longrightarrow> 0 \<le> round_half_even q"
  by (auto simp: round_half_even_def Let_def)

lemma round_half_even_near: "\<bar>of_int (round_half_even q) - q\<bar> \<le> 1/2"
proof -
  have "of_int \<lfloor>q\<rfloor> \<le> q" and "q < of_int \<lfloor>q\<rfloor> + 1" by linarith+
  then show ?thesis by (auto simp: round_half_even_def Let_def)
qed

lemma round_half_even_mono: "p \<le> q \<Longrightarrow> round_half_even p \<le> round_half_even q"
proof (cases "\<lfloor>p\<rfloor> = \<lfloor>q\<rfloor>")
  case True
  then show "p \<le> q \<Longrightarrow> ?thesis" by (auto simp: round_half_even_def Let_def)
next
  case False
  assume le: "p \<le> q"
  with False have "\<lfloor>p\<rfloor> + 1 \<le> \<lfloor>q\<rfloor>" using floor_mono [OF le] by linarith
  moreover have "round_half_even p \<le> \<lfloor>p\<rfloor> + 1" and "\<lfloor>q\<rfloor> \<le> round_half_even q"
    by (auto simp: round_half_even_def Let_def)
  ultimately show ?thesis by linarith
qed

lemma fl_round_zero [simp]: "fl_round 0 = Fin 0"
  by (simp add: fl_round_def)

lemma fl_round_not_NaN [simp]: "fl_round q \<noteq> NaN"
  by (simp add: fl_round_def Let_def)

text \<open>Rounding keeps the sign.\<close>

lemma fl_round_nonneg:
  assumes "0 \<le> q" and "fl_round q = Fin r"
  shows "0 \<le> r"
proof (cases "q = 0")
  case True
  with assms show ?thesis by simp
next
  case False
  with assms(1) have q: "0 < q" by simp
  let ?e = "max (qlog2 q - 52) (-1074)"
  have "0 \<le> of_int (round_half_even (q / pow2 ?e)) * pow2 ?e"
    using q by (simp add: round_half_even_nonneg)
  with assms q show ?thesis by (auto simp: fl_round_def Let_def split: if_splits)
qed

section \<open>Comparison and arithmetic\<close>

fun fl_le :: "pyfloat \<Rightarrow> pyfloat \<Rightarrow> bool" where
  "fl_le NaN _ = False"
| "fl_le _ NaN = False"
| "fl_le NegInf _ = True"
| "fl_le _ PosInf = True"
| "fl_le PosInf _ = False"
| "fl_le _ NegInf = False"
| "fl_le (Fin a) (Fin b) = (a \<le> b)"

fun fl_lt :: "pyfloat \<Rightarrow> pyfloat \<Rightarrow> bool" where
  "fl_lt NaN _ = False"
| "fl_lt _ NaN = False"
| "fl_lt PosInf _ = False"
| "fl_lt _ NegInf = False"
| "fl_lt NegInf _ = True"
| "fl_lt _ PosInf = True"
| "fl_lt (Fin a) (Fin b) = (a < b)"

fun fl_eq :: "pyfloat \<Rightarrow> pyfloat \<Rightarrow> bool" where
  "fl_eq NaN _ = False"
| "fl_eq a b = (a = b)"

fun fl_neg :: "pyfloat \<Rightarrow> pyfloat" where
  "fl_neg (Fin a) = Fin (- a)"
| "fl_neg PosInf = NegInf"
| "fl_neg NegInf = PosInf"
| "fl_neg NaN = NaN"

fun fl_abs :: "pyfloat \<Rightarrow> pyfloat" where
  "fl_abs (Fin a) = Fin \<bar>a\<bar>"
| "fl_abs PosInf = PosInf"
| "fl_abs NegInf = PosInf"
| "fl_abs NaN = NaN"

fun fl_add :: "pyfloat \<Rightarrow> pyfloat \<Rightarrow> pyfloat" where
  "fl_add (Fin a) (Fin b) = fl_round (a + b)"
| "fl_add NaN _ = NaN"
| "fl_add _ NaN = NaN"
| "fl_add PosInf NegInf = NaN"
| "fl_add NegInf PosInf = NaN"
| "fl_add PosInf _ = PosInf"
| "fl_add _ PosInf = PosInf"
| "fl_add NegInf _ = NegInf"
| "fl_add _ NegInf = NegInf"

definition fl_sub :: "pyfloat \<Rightarrow> pyfloat \<Rightarrow> pyfloat" where
  "fl_sub a b = fl_add a (fl_neg b)"

fun fl_mul :: "pyfloat \<Rightarrow> pyfloat \<Rightarrow> pyfloat" where
  "fl_mul (Fin a) (Fin b) = fl_round (a * b)"
| "fl_mul NaN _ = NaN"
| "fl_mul _ NaN = NaN"
| "fl_mul (Fin a) y = (if a = 0 then NaN else if 0 < a then y else fl_neg y)"
| "fl_mul x (Fin b) = (if b = 0 then NaN else if 0 < b then x else fl_neg x)"
| "fl_mul PosInf y = y"
| "fl_mul NegInf y = fl_neg y"

text \<open>\<open>fl_div\<close> is division by a non-zero float (Python raises on a zero divisor, which the
  callers write out); \<open>inf / inf\<close> is NaN.\<close>

fun fl_div :: "pyfloat \<Rightarrow> pyfloat \<Rightarrow> pyfloat" where
  "fl_div (Fin a) (Fin b) = fl_round (a / b)"
| "fl_div NaN _ = NaN"
| "fl_div _ NaN = NaN"
| "fl_div (Fin _) _ = Fin 0"
| "fl_div PosInf (Fin b) = (if b < 0 then NegInf else PosInf)"
| "fl_div NegInf (Fin b) = (if b < 0 then PosInf else NegInf)"
| "fl_div _ _ = NaN"

text \<open>Python's \<open>max(a, b)\<close>: the first argument unless the second is strictly greater.\<close>

definition fl_max :: "pyfloat \<Rightarrow> pyfloat \<Rightarrow> pyfloat" where
  "fl_max a b = (if fl_lt a b then b else a)"

lemma fl_le_refl: "a \<noteq> NaN \<Longrightarrow> fl_le a a"
  by (cases a) simp_all

lemma fl_le_trans: "fl_le a b \<Longrightarrow> fl_le b c \<Longrightarrow> fl_le a c"
  by (cases a; cases b; cases c) simp_all

lemma fl_lt_irrefl [simp]: "\<not> fl_lt a a"
  by (cases a) simp_all

lemma fl_lt_trans: "fl_lt a b \<Longrightarrow> fl_lt b c \<Longrightarrow> fl_lt a c"
  by (cases a; cases b; cases c) simp_all

lemma fl_lt_le_trans: "fl_lt a b \<Longrightarrow> fl_le b c \<Longrightarrow> fl_lt a c"
  by (cases a; cases b; cases c) simp_all

lemma fl_le_lt_trans: "fl_le a b \<Longrightarrow> fl_lt b c \<Longrightarrow> fl_lt a c"
  by (cases a; cases b; cases c) simp_all

lemma fl_lt_imp_le: "fl_lt a b \<Longrightarrow> fl_le a b"
  by (cases a; cases b) simp_all

lemma fl_lt_asym: "fl_lt a b \<Longrightarrow> \<not> fl_lt b a"
  by (cases a; cases b) simp_all

lemma fl_not_lt: "a \<noteq> NaN \<Longrightarrow> b \<noteq> NaN \<Longrightarrow> \<not> fl_lt a b \<longleftrightarrow> fl_le b a"
  by (cases a; cases b) auto

lemma fl_lt_le_excl: "fl_lt a b \<Longrightarrow> \<not> fl_le b a"
  by (cases a; cases b) simp_all

lemma fl_lt_NaN [simp]: "\<not> fl_lt a NaN" "\<not> fl_lt NaN a"
  by (cases a; simp)+

lemma fl_le_NaN [simp]: "\<not> fl_le a NaN" "\<not> fl_le NaN a"
  by (cases a; simp)+

section \<open>Shortest decimal form\<close>

text \<open>
  \<open>repr\<close> of a float: the fewest significant digits (at most 17) that read back as the same
  value, closest first, in positional form when the decimal exponent lies in
  \<open>[-4, 16)\<close> and in scientific form otherwise.
\<close>

function show_nat :: "int \<Rightarrow> string" where
  "show_nat n = (if n < 10 then [char_of (48 + n)]
     else show_nat (n div 10) @ [char_of (48 + n mod 10)])"
  by pat_completeness auto
termination
  by (relation "measure nat") auto

declare show_nat.simps [simp del]

definition show_int :: "int \<Rightarrow> string" where
  "show_int i = (if i < 0 then CHR ''-'' # show_nat (- i) else show_nat i)"

definition pow10 :: "int \<Rightarrow> rat" where
  "pow10 e = (if 0 \<le> e then 10 ^ nat e else 1 / 10 ^ nat (- e))"

text \<open>The decimal exponent of a positive rational, by counting digits.\<close>

definition qlog10 :: "rat \<Rightarrow> int" where
  "qlog10 q = (case quotient_of q of (a, b) \<Rightarrow>
     let e = int (length (show_nat a)) - int (length (show_nat b))
     in if pow10 e \<le> q then e else e - 1)"

text \<open>\<open>shortest_digits fuel n q k\<close> is the pair of the digits, as an integer, and of the exponent of
  its last digit; \<open>k\<close> is the decimal exponent of \<open>q\<close> and \<open>n\<close> the number of digits tried.\<close>

fun shortest_digits :: "nat \<Rightarrow> int \<Rightarrow> rat \<Rightarrow> int \<Rightarrow> int \<times> int" where
  "shortest_digits 0 n q k = (round_half_even (q / pow10 (k - 16)), k - 16)"
| "shortest_digits (Suc fuel) n q k =
     (let x = k - n + 1; u = pow10 x; lo = \<lfloor>q / u\<rfloor>; d = round_half_even (q / u);
          d' = (if d = lo then lo + 1 else lo)
      in if fl_round (of_int d * u) = Fin q then (d, x)
         else if fl_round (of_int d' * u) = Fin q then (d', x)
         else shortest_digits fuel (n + 1) q k)"

fun strip_zeros :: "string \<Rightarrow> string" where
  "strip_zeros s = (if s \<noteq> [] \<and> last s = CHR ''0'' then strip_zeros (butlast s) else s)"

declare strip_zeros.simps [simp del]

definition place_point :: "string \<Rightarrow> int \<Rightarrow> string" where
  "place_point ds p = (if -4 < p \<and> p \<le> 16 then
       (if p \<le> 0 then ''0.'' @ replicate (nat (- p)) (CHR ''0'') @ ds
        else if int (length ds) \<le> p then ds @ replicate (nat p - length ds) (CHR ''0'') @ ''.0''
        else take (nat p) ds @ ''.'' @ drop (nat p) ds)
     else (let e = p - 1; es = show_nat \<bar>e\<bar> in
       take 1 ds @ (if length ds = 1 then '''' else ''.'' @ drop 1 ds) @ ''e'' @
       (if e < 0 then ''-'' else ''+'') @ (if length es = 1 then CHR ''0'' # es else es)))"

fun show_float :: "pyfloat \<Rightarrow> string" where
  "show_float NaN = ''nan''"
| "show_float PosInf = ''inf''"
| "show_float NegInf = ''-inf''"
| "show_float (Fin q) = (if q = 0 then ''0.0'' else
     (case shortest_digits 16 1 \<bar>q\<bar> (qlog10 \<bar>q\<bar>) of (d, x) \<Rightarrow>
       let ds = show_nat d
       in (if q < 0 then ''-'' else '''') @ place_point (strip_zeros ds) (x + int (length ds))))"

section \<open>Accuracy of rounding\<close>

lemma pow2_Suc: "pow2 (e + 1) = 2 * pow2 e"
proof (cases "0 \<le> e")
  case True
  then show ?thesis by (simp add: pow2_def nat_add_distrib)
next
  case False
  then have "nat (- e) = Suc (nat (- (e + 1)))" by simp
  with False show ?thesis by (simp add: pow2_def)
qed

lemma pow2_add_nat: "pow2 (e + int n) = 2 ^ n * pow2 e"
proof (induction n)
  case (Suc n)
  have "pow2 (e + int (Suc n)) = pow2 ((e + int n) + 1)" by (simp add: algebra_simps)
  with Suc show ?case by (simp add: pow2_Suc)
qed simp

lemma pow2_mono: "d \<le> e \<Longrightarrow> pow2 d \<le> pow2 e"
proof -
  assume "d \<le> e"
  then have "pow2 e = 2 ^ nat (e - d) * pow2 d" using pow2_add_nat [of d "nat (e - d)"] by simp
  then show ?thesis by simp
qed

lemma ilog2_bounds: "1 \<le> n \<Longrightarrow> 0 \<le> ilog2 n \<and> 2 ^ nat (ilog2 n) \<le> n \<and> n < 2 * 2 ^ nat (ilog2 n)"
proof (induction n rule: ilog2.induct)
  case (1 n)
  show ?case
  proof (cases "n < 2")
    case True
    with 1 show ?thesis by (subst (1 2 3) ilog2.simps) auto
  next
    case False
    then have ih: "0 \<le> ilog2 (n div 2) \<and> 2 ^ nat (ilog2 (n div 2)) \<le> n div 2
        \<and> n div 2 < 2 * 2 ^ nat (ilog2 (n div 2))"
      using 1 by simp
    have "ilog2 n = 1 + ilog2 (n div 2)" using False by (subst ilog2.simps) simp
    moreover have "nat (1 + ilog2 (n div 2)) = Suc (nat (ilog2 (n div 2)))" using ih by linarith
    moreover define P :: int where "P = 2 ^ nat (ilog2 (n div 2))"
    ultimately have *: "ilog2 n = 1 + ilog2 (n div 2)" "2 ^ nat (ilog2 n) = 2 * P" "P \<le> n div 2" "n div 2 < 2 * P"
      using ih by simp_all
    have "2 * P \<le> n" "n < 2 * (2 * P)" using *(3,4) by linarith+
    with ih * show ?thesis by simp
  qed
qed

lemma pow2_qlog2: "0 < q \<Longrightarrow> pow2 (qlog2 q) \<le> q"
proof -
  assume q: "0 < q"
  obtain a b where ab: "quotient_of q = (a, b)" by fastforce
  have b: "0 < b" using quotient_of_denom_pos [OF ab] .
  have qab: "q = of_int a / of_int b" using quotient_of_div [OF ab] .
  with q b have a: "0 < a" by (simp add: zero_less_divide_iff)
  let ?e = "ilog2 a - ilog2 b"
  have la: "0 \<le> ilog2 a" "2 ^ nat (ilog2 a) \<le> a" using ilog2_bounds [of a] a by auto
  have lb: "0 \<le> ilog2 b" "b < 2 * 2 ^ nat (ilog2 b)" using ilog2_bounds [of b] b by auto
  have pa: "pow2 (ilog2 a) \<le> of_int a"
  proof -
    have "(of_int (2 ^ nat (ilog2 a)) :: rat) \<le> of_int a" using la(2) by (simp only: of_int_le_iff)
    then show ?thesis using la(1) by (simp add: pow2_def)
  qed
  have pb: "of_int b \<le> pow2 (ilog2 b + 1)"
  proof -
    have "of_int b \<le> (of_int (2 * 2 ^ nat (ilog2 b)) :: rat)" using lb(2) by (simp only: of_int_le_iff)
    then show ?thesis using lb(1) by (simp only: pow2_Suc) (simp add: pow2_def)
  qed
  have "pow2 (?e - 1) * of_int b \<le> pow2 (?e - 1) * pow2 (ilog2 b + 1)"
    using pb by (simp add: mult_left_mono)
  also have "\<dots> = pow2 (ilog2 a)"
    using pow2_add_nat [of "?e - 1" "nat (ilog2 b + 1)"] lb(1) pow2_add_nat [of 0 "nat (ilog2 b + 1)"]
    by (simp add: pow2_def)
  also have "\<dots> \<le> of_int a" by (rule pa)
  finally have "pow2 (?e - 1) \<le> q" unfolding qab using b by (simp add: pos_le_divide_eq)
  then show ?thesis by (simp add: qlog2_def ab Let_def)
qed

text \<open>A normal number below \<open>2 ^ 1023\<close> is rounded to a finite one, with a relative error of at
  most \<open>2 ^ - 53\<close>.\<close>

lemma fl_round_finite:
  assumes q: "pow2 (-1022) \<le> q" and hi: "q \<le> pow2 1023"
  shows "\<exists>r. fl_round q = Fin r \<and> \<bar>r - q\<bar> \<le> q / 2 ^ 53"
proof -
  have pos: "0 < q" using q pow2_pos [of "-1022"] by linarith
  let ?e = "max (qlog2 q - 52) (-1074)" and ?k = "qlog2 q"
  have q2: "pow2 ?e \<le> q / 2 ^ 52"
  proof (cases "-1074 \<le> ?k - 52")
    case True
    have "pow2 ?k = 2 ^ 52 * pow2 (?k - 52)" using pow2_add_nat [of "?k - 52" 52] by simp
    moreover have "?e = ?k - 52" using True by simp
    ultimately show ?thesis using pow2_qlog2 [OF pos] by (simp add: field_simps)
  next
    case False
    have "pow2 (-1022) = 2 ^ 52 * pow2 (-1074)" using pow2_add_nat [of "-1074" 52] by simp
    moreover have "?e = -1074" using False by simp
    ultimately show ?thesis using q by (simp add: field_simps)
  qed
  define r where "r = of_int (round_half_even (q / pow2 ?e)) * pow2 ?e"
  have "r - q = (of_int (round_half_even (q / pow2 ?e)) - q / pow2 ?e) * pow2 ?e"
    using pow2_pos [of ?e] by (simp only: left_diff_distrib r_def) (simp add: less_imp_neq [symmetric])
  then have "\<bar>r - q\<bar> = \<bar>of_int (round_half_even (q / pow2 ?e)) - q / pow2 ?e\<bar> * pow2 ?e"
    by (simp add: abs_mult)
  also have "\<dots> \<le> 1/2 * pow2 ?e" by (rule mult_right_mono [OF round_half_even_near]) simp
  also have "\<dots> \<le> q / 2 ^ 53" using q2 by simp
  finally have err: "\<bar>r - q\<bar> \<le> q / 2 ^ 53" .
  have "pow2 1024 = 2 * pow2 1023" using pow2_Suc [of 1023] by simp
  moreover have "q / 2 ^ 53 \<le> q / 2" using pos by (intro divide_left_mono) auto
  ultimately have "r < pow2 1024" using err hi pow2_pos [of 1023] pos by linarith
  then have "fl_round q = Fin r" using pos by (simp add: fl_round_def Let_def r_def)
  with err show ?thesis by blast
qed

section \<open>Sorting\<close>

text \<open>\<open>sorted\<close> on floats; the order in which NaN would be left is Python's own.\<close>

fun fl_insort :: "pyfloat \<Rightarrow> pyfloat list \<Rightarrow> pyfloat list" where
  "fl_insort x [] = [x]"
| "fl_insort x (y # ys) = (if fl_lt y x then y # fl_insort x ys else x # y # ys)"

definition fl_sort :: "pyfloat list \<Rightarrow> pyfloat list" where
  "fl_sort xs = foldr fl_insort xs []"

lemma set_fl_insort: "set (fl_insort x ys) = insert x (set ys)"
  by (induction ys) auto

lemma set_fl_sort [simp]: "set (fl_sort xs) = set xs"
  by (induction xs) (simp_all add: fl_sort_def set_fl_insort)

lemma length_fl_insort: "length (fl_insort x ys) = Suc (length ys)"
  by (induction ys) auto

lemma length_fl_sort [simp]: "length (fl_sort xs) = length xs"
  by (induction xs) (simp_all add: fl_sort_def length_fl_insort)

lemma sorted_fl_insort:
  "x \<noteq> NaN \<Longrightarrow> NaN \<notin> set ys \<Longrightarrow> sorted_wrt fl_le ys \<Longrightarrow> sorted_wrt fl_le (fl_insort x ys)"
proof (induction ys)
  case (Cons y ys)
  then have y: "y \<noteq> NaN" and n: "NaN \<notin> set ys" by auto
  show ?case
  proof (cases "fl_lt y x")
    case True
    with Cons n show ?thesis by (auto simp: set_fl_insort intro: fl_lt_imp_le)
  next
    case False
    then have "fl_le x y" using fl_not_lt [of y x] y Cons.prems(1) by blast
    with False Cons.prems show ?thesis by (auto intro: fl_le_trans)
  qed
qed simp

lemma sorted_fl_sort: "NaN \<notin> set xs \<Longrightarrow> sorted_wrt fl_le (fl_sort xs)"
proof (induction xs)
  case (Cons x xs)
  then have "sorted_wrt fl_le (fl_sort xs)" "NaN \<notin> set (fl_sort xs)" "x \<noteq> NaN" by auto
  then show ?case using sorted_fl_insort by (simp add: fl_sort_def)
qed (simp add: fl_sort_def)

end
