(* ===== verification/Errors.thy ===== *)
theory Errors
  imports Py_Float "HOL-Library.AList"
begin

text \<open>
  JSON-shaped Python values, the error taxonomy of \<open>perceptshift_common/errors.py\<close>, the reason
  codes of \<open>perceptshift_common/reason_codes.py\<close>, and the exceptions the modelled code raises:
  \<open>PSErr\<close> is \<open>PerceptShiftError\<close>, \<open>ApiErr\<close> is the API's \<open>ApiError\<close>, \<open>PyErr\<close> an exception of
  Python's own with its class and message.
\<close>

text \<open>A dictionary is the list of its items in insertion order, keys distinct.\<close>

datatype pyval =
    PNone
  | PBool bool
  | PInt int
  | PFloat pyfloat
  | PStr string
  | PList "pyval list"
  | PDict "(string \<times> pyval) list"

type_synonym pydict = "(string \<times> pyval) list"

section \<open>Stable machine-readable codes\<close>

datatype error_code =
    CONFIG_INVALID
  | SCHEMA_UNSUPPORTED
  | PATH_UNSAFE
  | FILE_INTEGRITY_FAILED
  | SIGNATURE_REQUIRED
  | SIGNATURE_INVALID
  | MODEL_INVALID
  | MODEL_RESOURCE_LIMIT
  | MODEL_TENSOR_MISMATCH
  | MODEL_PROVIDER_UNAVAILABLE
  | MODEL_PROVIDER_FALLBACK_EXCESSIVE
  | DATASET_INVALID
  | DATASET_LEAKAGE
  | QUANTIZATION_FAILED
  | QUANTIZATION_UNAVAILABLE
  | QUALITY_GATE_FAILED
  | EQUIVALENCE_GATE_FAILED
  | BENCHMARK_ENVIRONMENT_INVALID
  | BENCHMARK_WORKER_CRASHED
  | BENCHMARK_TIMEOUT
  | PROFILE_INCOMPATIBLE
  | PROFILE_WARMUP_FAILED
  | NO_ELIGIBLE_PROFILE
  | INPUT_STALE
  | INPUT_UNSUPPORTED
  | INFERENCE_FAILED
  | POSTPROCESS_FAILED
  | RESOURCE_EXHAUSTED
  | TELEMETRY_UNAVAILABLE
  | ROS_LIFECYCLE_ERROR
  | AUTH_REQUIRED
  | AUTH_INVALID
  | DATABASE_ERROR
  | INTERNAL_INVARIANT_FAILED
  | DEPENDENCY_UNAVAILABLE
  | RUN_LOCK_HELD
  | RUN_RESUME_INVALID
  | BUNDLE_INVALID
  | NOT_FOUND

fun error_code_str :: "error_code \<Rightarrow> string" where
  "error_code_str CONFIG_INVALID = ''CONFIG_INVALID''"
| "error_code_str SCHEMA_UNSUPPORTED = ''SCHEMA_UNSUPPORTED''"
| "error_code_str PATH_UNSAFE = ''PATH_UNSAFE''"
| "error_code_str FILE_INTEGRITY_FAILED = ''FILE_INTEGRITY_FAILED''"
| "error_code_str SIGNATURE_REQUIRED = ''SIGNATURE_REQUIRED''"
| "error_code_str SIGNATURE_INVALID = ''SIGNATURE_INVALID''"
| "error_code_str MODEL_INVALID = ''MODEL_INVALID''"
| "error_code_str MODEL_RESOURCE_LIMIT = ''MODEL_RESOURCE_LIMIT''"
| "error_code_str MODEL_TENSOR_MISMATCH = ''MODEL_TENSOR_MISMATCH''"
| "error_code_str MODEL_PROVIDER_UNAVAILABLE = ''MODEL_PROVIDER_UNAVAILABLE''"
| "error_code_str MODEL_PROVIDER_FALLBACK_EXCESSIVE = ''MODEL_PROVIDER_FALLBACK_EXCESSIVE''"
| "error_code_str DATASET_INVALID = ''DATASET_INVALID''"
| "error_code_str DATASET_LEAKAGE = ''DATASET_LEAKAGE''"
| "error_code_str QUANTIZATION_FAILED = ''QUANTIZATION_FAILED''"
| "error_code_str QUANTIZATION_UNAVAILABLE = ''QUANTIZATION_UNAVAILABLE''"
| "error_code_str QUALITY_GATE_FAILED = ''QUALITY_GATE_FAILED''"
| "error_code_str EQUIVALENCE_GATE_FAILED = ''EQUIVALENCE_GATE_FAILED''"
| "error_code_str BENCHMARK_ENVIRONMENT_INVALID = ''BENCHMARK_ENVIRONMENT_INVALID''"
| "error_code_str BENCHMARK_WORKER_CRASHED = ''BENCHMARK_WORKER_CRASHED''"
| "error_code_str BENCHMARK_TIMEOUT = ''BENCHMARK_TIMEOUT''"
| "error_code_str PROFILE_INCOMPATIBLE = ''PROFILE_INCOMPATIBLE''"
| "error_code_str PROFILE_WARMUP_FAILED = ''PROFILE_WARMUP_FAILED''"
| "error_code_str NO_ELIGIBLE_PROFILE = ''NO_ELIGIBLE_PROFILE''"
| "error_code_str INPUT_STALE = ''INPUT_STALE''"
| "error_code_str INPUT_UNSUPPORTED = ''INPUT_UNSUPPORTED''"
| "error_code_str INFERENCE_FAILED = ''INFERENCE_FAILED''"
| "error_code_str POSTPROCESS_FAILED = ''POSTPROCESS_FAILED''"
| "error_code_str RESOURCE_EXHAUSTED = ''RESOURCE_EXHAUSTED''"
| "error_code_str TELEMETRY_UNAVAILABLE = ''TELEMETRY_UNAVAILABLE''"
| "error_code_str ROS_LIFECYCLE_ERROR = ''ROS_LIFECYCLE_ERROR''"
| "error_code_str AUTH_REQUIRED = ''AUTH_REQUIRED''"
| "error_code_str AUTH_INVALID = ''AUTH_INVALID''"
| "error_code_str DATABASE_ERROR = ''DATABASE_ERROR''"
| "error_code_str INTERNAL_INVARIANT_FAILED = ''INTERNAL_INVARIANT_FAILED''"
| "error_code_str DEPENDENCY_UNAVAILABLE = ''DEPENDENCY_UNAVAILABLE''"
| "error_code_str RUN_LOCK_HELD = ''RUN_LOCK_HELD''"
| "error_code_str RUN_RESUME_INVALID = ''RUN_RESUME_INVALID''"
| "error_code_str BUNDLE_INVALID = ''BUNDLE_INVALID''"
| "error_code_str NOT_FOUND = ''NOT_FOUND''"

datatype reason_code =
    UNAVAILABLE_PROVIDER
  | UNAVAILABLE_SENSOR
  | UNAVAILABLE_DEPENDENCY
  | UNAVAILABLE_NATIVE_BINARY
  | UNAVAILABLE_PLATFORM
  | UNAVAILABLE_PERMISSION
  | UNAVAILABLE_DATA
  | UNAVAILABLE_POWER
  | UNAVAILABLE_THERMAL
  | UNAVAILABLE_PERF
  | UNAVAILABLE_COCO_TOOLS
  | UNAVAILABLE_QUANTIZATION_API
  | UNAVAILABLE_RUNTIME_STATUS
  | GATE_SCHEMA
  | GATE_INTEGRITY
  | GATE_MODEL_VALIDATION
  | GATE_HOST_COMPATIBILITY
  | GATE_PROVIDER
  | GATE_TENSOR_CONTRACT
  | GATE_SEMANTIC_EQUIVALENCE
  | GATE_QUALITY
  | GATE_MEMORY
  | GATE_LATENCY
  | GATE_ENVIRONMENT
  | GATE_WARMUP
  | GATE_ARTIFACT_COMPLETENESS
  | DATASET_PATH_ESCAPE
  | DATASET_SYMLINK_REJECTED
  | DATASET_MISSING_FILE
  | DATASET_DUPLICATE
  | DATASET_CROSS_SPLIT_LEAKAGE
  | DATASET_DECODE_FAILED
  | TRIAL_THROTTLING
  | TRIAL_TEMPERATURE
  | TRIAL_INCOMPLETE
  | TRIAL_WORKER_CRASH
  | TRIAL_TIMEOUT
  | TRIAL_RESOURCE_LIMIT

fun reason_str :: "reason_code \<Rightarrow> string" where
  "reason_str UNAVAILABLE_PROVIDER = ''unavailable.provider''"
| "reason_str UNAVAILABLE_SENSOR = ''unavailable.sensor''"
| "reason_str UNAVAILABLE_DEPENDENCY = ''unavailable.dependency''"
| "reason_str UNAVAILABLE_NATIVE_BINARY = ''unavailable.native_binary''"
| "reason_str UNAVAILABLE_PLATFORM = ''unavailable.platform''"
| "reason_str UNAVAILABLE_PERMISSION = ''unavailable.permission''"
| "reason_str UNAVAILABLE_DATA = ''unavailable.data''"
| "reason_str UNAVAILABLE_POWER = ''unavailable.power''"
| "reason_str UNAVAILABLE_THERMAL = ''unavailable.thermal''"
| "reason_str UNAVAILABLE_PERF = ''unavailable.perf''"
| "reason_str UNAVAILABLE_COCO_TOOLS = ''unavailable.pycocotools''"
| "reason_str UNAVAILABLE_QUANTIZATION_API = ''unavailable.quantization_api''"
| "reason_str UNAVAILABLE_RUNTIME_STATUS = ''unavailable.runtime_status''"
| "reason_str GATE_SCHEMA = ''gate.schema''"
| "reason_str GATE_INTEGRITY = ''gate.integrity''"
| "reason_str GATE_MODEL_VALIDATION = ''gate.model_validation''"
| "reason_str GATE_HOST_COMPATIBILITY = ''gate.host_compatibility''"
| "reason_str GATE_PROVIDER = ''gate.provider''"
| "reason_str GATE_TENSOR_CONTRACT = ''gate.tensor_contract''"
| "reason_str GATE_SEMANTIC_EQUIVALENCE = ''gate.semantic_equivalence''"
| "reason_str GATE_QUALITY = ''gate.quality''"
| "reason_str GATE_MEMORY = ''gate.memory''"
| "reason_str GATE_LATENCY = ''gate.latency''"
| "reason_str GATE_ENVIRONMENT = ''gate.environment''"
| "reason_str GATE_WARMUP = ''gate.warmup''"
| "reason_str GATE_ARTIFACT_COMPLETENESS = ''gate.artifact_completeness''"
| "reason_str DATASET_PATH_ESCAPE = ''dataset.path_escape''"
| "reason_str DATASET_SYMLINK_REJECTED = ''dataset.symlink_rejected''"
| "reason_str DATASET_MISSING_FILE = ''dataset.missing_file''"
| "reason_str DATASET_DUPLICATE = ''dataset.duplicate''"
| "reason_str DATASET_CROSS_SPLIT_LEAKAGE = ''dataset.cross_split_leakage''"
| "reason_str DATASET_DECODE_FAILED = ''dataset.decode_failed''"
| "reason_str TRIAL_THROTTLING = ''trial.throttling''"
| "reason_str TRIAL_TEMPERATURE = ''trial.temperature''"
| "reason_str TRIAL_INCOMPLETE = ''trial.incomplete''"
| "reason_str TRIAL_WORKER_CRASH = ''trial.worker_crash''"
| "reason_str TRIAL_TIMEOUT = ''trial.timeout''"
| "reason_str TRIAL_RESOURCE_LIMIT = ''trial.resource_limit''"

definition reason_val :: "reason_code \<Rightarrow> pyval" where
  "reason_val r = PStr (reason_str r)"

section \<open>Exceptions\<close>

datatype py_kind =
    TypeError | ValueError | KeyError | IndexError | AttributeError | OverflowError
  | ZeroDivisionError | OSError | FileNotFoundError | JSONDecodeError | UnicodeDecodeError
  | RuntimeError | ImportError | TimeoutError | OtherError string

datatype exc =
    PSErr (ps_code: error_code) (ps_message: string) (ps_remediation: "string option")
      (ps_retryable: bool) (ps_correlation_id: "string option") (ps_details: pydict)
      (ps_cause: "exc option")
  | ApiErr (api_code: string) (api_message: string) (api_status: int) (api_retryable: bool)
      (api_details: pydict) (api_remediation: "string option") (api_correlation_id: string)
  | PyErr (py_kind: py_kind) (py_message: string)

text \<open>\<open>PerceptShiftError\<close> with the arguments the call sites give; the others take the
  dataclass defaults.\<close>

definition ps_error ::
    "error_code \<Rightarrow> string \<Rightarrow> string option \<Rightarrow> pydict \<Rightarrow> exc option \<Rightarrow> exc" where
  "ps_error c m rem det cause = PSErr c m rem False None det cause"

abbreviation ps_err :: "error_code \<Rightarrow> string \<Rightarrow> exc" where
  "ps_err c m \<equiv> ps_error c m None [] None"

abbreviation py_err :: "py_kind \<Rightarrow> exc" where
  "py_err k \<equiv> PyErr k []"

fun kind_name :: "py_kind \<Rightarrow> string" where
  "kind_name TypeError = ''TypeError''"
| "kind_name ValueError = ''ValueError''"
| "kind_name KeyError = ''KeyError''"
| "kind_name IndexError = ''IndexError''"
| "kind_name AttributeError = ''AttributeError''"
| "kind_name OverflowError = ''OverflowError''"
| "kind_name ZeroDivisionError = ''ZeroDivisionError''"
| "kind_name OSError = ''OSError''"
| "kind_name FileNotFoundError = ''FileNotFoundError''"
| "kind_name JSONDecodeError = ''JSONDecodeError''"
| "kind_name UnicodeDecodeError = ''UnicodeDecodeError''"
| "kind_name RuntimeError = ''RuntimeError''"
| "kind_name ImportError = ''ImportError''"
| "kind_name TimeoutError = ''TimeoutError''"
| "kind_name (OtherError n) = n"

text \<open>Python's class hierarchy, as far as the \<open>except\<close> clauses of the code tell classes apart.\<close>

fun is_os_error :: "exc \<Rightarrow> bool" where
  "is_os_error (PyErr k m) = (k \<in> {OSError, FileNotFoundError, TimeoutError})"
| "is_os_error _ = False"

fun is_value_error :: "exc \<Rightarrow> bool" where
  "is_value_error (PyErr k m) = (k \<in> {ValueError, JSONDecodeError, UnicodeDecodeError})"
| "is_value_error _ = False"

fun is_json_error :: "exc \<Rightarrow> bool" where
  "is_json_error (PyErr k m) = (k = JSONDecodeError)"
| "is_json_error _ = False"

fun is_kind :: "py_kind \<Rightarrow> exc \<Rightarrow> bool" where
  "is_kind k (PyErr k' m) = (k = k')"
| "is_kind k _ = False"

fun is_ps :: "exc \<Rightarrow> bool" where
  "is_ps (PSErr c m rem retr corr det cause) = True"
| "is_ps _ = False"

fun is_api :: "exc \<Rightarrow> bool" where
  "is_api (ApiErr c m st retr det rem corr) = True"
| "is_api _ = False"

text \<open>\<open>str(exc)\<close>: \<open>PerceptShiftError.__str__\<close>, and the message of the others.\<close>

fun exc_str :: "exc \<Rightarrow> string" where
  "exc_str (PSErr c m rem retr corr det cause) = error_code_str c @ '': '' @ m"
| "exc_str (ApiErr c m st retr det rem corr) = m"
| "exc_str (PyErr k m) = m"

fun exc_type_name :: "exc \<Rightarrow> string" where
  "exc_type_name (PSErr c m rem retr corr det cause) = ''PerceptShiftError''"
| "exc_type_name (ApiErr c m st retr det rem corr) = ''ApiError''"
| "exc_type_name (PyErr k m) = kind_name k"

text \<open>\<open>PerceptShiftError.to_dict\<close>; only that class has the method.\<close>

fun to_dict :: "exc \<Rightarrow> pydict" where
  "to_dict (PSErr c m rem retr corr det cause) =
     [(''code'', PStr (error_code_str c)), (''message'', PStr m), (''retryable'', PBool retr),
      (''details'', PDict det)]
     @ (case rem of None \<Rightarrow> [] | Some r \<Rightarrow> [(''remediation'', PStr r)])
     @ (case corr of None \<Rightarrow> [] | Some r \<Rightarrow> [(''correlation_id'', PStr r)])
     @ (case cause of None \<Rightarrow> []
        | Some e \<Rightarrow> [(''cause'', PStr (exc_type_name e @ '': '' @ exc_str e))])"
| "to_dict _ = []"

lemma is_ps_ps_error [simp]: "is_ps (ps_error c m rem det cause)"
  by (simp add: ps_error_def)

lemma ps_code_ps_error [simp]: "ps_code (ps_error c m rem det cause) = c"
  by (simp add: ps_error_def)

lemma ps_message_ps_error [simp]: "ps_message (ps_error c m rem det cause) = m"
  by (simp add: ps_error_def)

lemma ps_details_ps_error [simp]: "ps_details (ps_error c m rem det cause) = det"
  by (simp add: ps_error_def)

lemma ps_error_inject [simp]:
  "ps_error c m rem det cause = ps_error c' m' rem' det' cause' \<longleftrightarrow>
     c = c' \<and> m = m' \<and> rem = rem' \<and> det = det' \<and> cause = cause'"
  by (simp add: ps_error_def)

lemma ps_error_neq_PyErr [simp]:
  "ps_error c m rem det cause \<noteq> PyErr k n" "PyErr k n \<noteq> ps_error c m rem det cause"
  by (simp_all add: ps_error_def)

lemma not_os_ps_error [simp]: "\<not> is_os_error (ps_error c m rem det cause)"
  by (simp add: ps_error_def)

lemma not_value_ps_error [simp]: "\<not> is_value_error (ps_error c m rem det cause)"
  by (simp add: ps_error_def)

end
