(* ===== verification/Py_Value.thy ===== *)
theory Py_Value
  imports Errors
begin

text \<open>
  The part of Python's built-ins the code uses on JSON-shaped values: dictionary access and
  update, truth value, \<open>or\<close>, equality, membership, \<open>str\<close>, \<open>repr\<close>, \<open>int\<close>, \<open>float\<close> and the string
  methods. A string is its list of code points below 256. What Python raises is a value here.
\<close>

section \<open>Dictionaries\<close>

abbreviation dlookup :: "pydict \<Rightarrow> string \<Rightarrow> pyval option" where
  "dlookup d k \<equiv> map_of d k"

definition dget :: "pydict \<Rightarrow> string \<Rightarrow> pyval" where
  "dget d k = (case map_of d k of None \<Rightarrow> PNone | Some v \<Rightarrow> v)"

definition dget_or :: "pydict \<Rightarrow> string \<Rightarrow> pyval \<Rightarrow> pyval" where
  "dget_or d k x = (case map_of d k of None \<Rightarrow> x | Some v \<Rightarrow> v)"

definition dhas :: "pydict \<Rightarrow> string \<Rightarrow> bool" where
  "dhas d k = (map_of d k \<noteq> None)"

definition dset :: "string \<Rightarrow> pyval \<Rightarrow> pydict \<Rightarrow> pydict" where
  "dset k v d = AList.update k v d"

definition dupdate :: "pydict \<Rightarrow> pydict \<Rightarrow> pydict" where
  "dupdate d es = fold (\<lambda>(k, v). dset k v) es d"

definition dsetdefault :: "string \<Rightarrow> pyval \<Rightarrow> pydict \<Rightarrow> pydict" where
  "dsetdefault k v d = (if dhas d k then d else dset k v d)"

lemma map_of_dset [simp]: "map_of (dset k v d) = (map_of d)(k \<mapsto> v)"
  by (simp add: dset_def update_conv')

lemma dget_dset [simp]: "dget (dset k v d) k' = (if k = k' then v else dget d k')"
  by (simp add: dget_def)

lemma dget_or_dset [simp]: "dget_or (dset k v d) k' x = (if k = k' then v else dget_or d k' x)"
  by (simp add: dget_or_def)

lemma dhas_dset [simp]: "dhas (dset k v d) k' \<longleftrightarrow> k = k' \<or> dhas d k'"
  by (simp add: dhas_def)

lemma dget_Nil [simp]: "dget [] k = PNone" and dhas_Nil [simp]: "\<not> dhas [] k"
  by (simp_all add: dget_def dhas_def)

lemma dget_Cons [simp]: "dget ((k, v) # d) k' = (if k = k' then v else dget d k')"
  by (simp add: dget_def)

lemma dget_or_Cons [simp]: "dget_or ((k, v) # d) k' x = (if k = k' then v else dget_or d k' x)"
  by (simp add: dget_or_def)

lemma dget_or_Nil [simp]: "dget_or [] k x = x"
  by (simp add: dget_or_def)

lemma dhas_Cons [simp]: "dhas ((k, v) # d) k' \<longleftrightarrow> k = k' \<or> dhas d k'"
  by (simp add: dhas_def)

lemma distinct_dset: "distinct (map fst d) \<Longrightarrow> distinct (map fst (dset k v d))"
  by (simp add: dset_def distinct_update)

lemma keys_dset: "fst ` set (dset k v d) = insert k (fst ` set d)"
  by (simp add: dset_def dom_update)

lemma map_of_dsetdefault:
  "map_of (dsetdefault k v d) = (if dhas d k then map_of d else (map_of d)(k \<mapsto> v))"
  by (simp add: dsetdefault_def)

lemma dhas_dsetdefault [simp]: "dhas (dsetdefault k v d) k' \<longleftrightarrow> k = k' \<or> dhas d k'"
  by (auto simp: dsetdefault_def)

lemma dget_dsetdefault:
  "dget (dsetdefault k v d) k' = (if k = k' \<and> \<not> dhas d k then v else dget d k')"
  by (simp add: dsetdefault_def)

lemma dget_absent: "\<not> dhas d k \<Longrightarrow> dget d k = PNone"
  by (simp add: dget_def dhas_def)

lemma dupdate_Nil [simp]: "dupdate d [] = d"
  by (simp add: dupdate_def)

lemma dupdate_Cons [simp]: "dupdate d ((k, v) # es) = dupdate (dset k v d) es"
  by (simp add: dupdate_def)

lemma map_of_dupdate:
  "distinct (map fst es) \<Longrightarrow> map_of (dupdate d es) = map_of d ++ map_of es"
proof (induction es arbitrary: d)
  case Nil
  then show ?case by simp
next
  case (Cons e es)
  obtain k v where e: "e = (k, v)" by (cases e)
  have "map_of es k = None" using Cons.prems e by (auto simp: map_of_eq_None_iff)
  with Cons e show ?case by (auto simp: map_add_def fun_eq_iff split: option.splits)
qed

lemma distinct_dupdate:
  "distinct (map fst d) \<Longrightarrow> distinct (map fst (dupdate d es))"
proof (induction es arbitrary: d)
  case (Cons e es)
  obtain k v where "e = (k, v)" by (cases e)
  with Cons show ?case by (simp add: distinct_dset)
qed simp

section \<open>Truth, access, equality\<close>

fun truthy :: "pyval \<Rightarrow> bool" where
  "truthy PNone = False"
| "truthy (PBool b) = b"
| "truthy (PInt n) = (n \<noteq> 0)"
| "truthy (PFloat f) = (f \<noteq> Fin 0)"
| "truthy (PStr s) = (s \<noteq> [])"
| "truthy (PList l) = (l \<noteq> [])"
| "truthy (PDict d) = (d \<noteq> [])"

definition py_or :: "pyval \<Rightarrow> pyval \<Rightarrow> pyval" where
  "py_or a b = (if truthy a then a else b)"

fun is_dict :: "pyval \<Rightarrow> bool" where
  "is_dict (PDict d) = True"
| "is_dict _ = False"

fun is_list :: "pyval \<Rightarrow> bool" where
  "is_list (PList l) = True"
| "is_list _ = False"

fun is_str :: "pyval \<Rightarrow> bool" where
  "is_str (PStr s) = True"
| "is_str _ = False"

text \<open>\<open>isinstance(v, int)\<close>, which booleans satisfy.\<close>

fun is_int :: "pyval \<Rightarrow> bool" where
  "is_int (PInt n) = True"
| "is_int (PBool b) = True"
| "is_int _ = False"

fun the_dict :: "pyval \<Rightarrow> pydict" where
  "the_dict (PDict d) = d"
| "the_dict _ = []"

fun the_list :: "pyval \<Rightarrow> pyval list" where
  "the_list (PList l) = l"
| "the_list _ = []"

fun the_str :: "pyval \<Rightarrow> string" where
  "the_str (PStr s) = s"
| "the_str _ = []"

text \<open>A value used as the receiver of \<open>.get\<close>, \<open>.items\<close> and the like.\<close>

fun as_dict :: "pyval \<Rightarrow> exc + pydict" where
  "as_dict (PDict d) = Inr d"
| "as_dict _ = Inl (py_err AttributeError)"

text \<open>\<open>(x.get(k) or {})\<close> used as a dictionary.\<close>

definition sub_dict :: "pydict \<Rightarrow> string \<Rightarrow> exc + pydict" where
  "sub_dict d k = as_dict (py_or (dget d k) (PDict []))"

text \<open>\<open>x["k"]\<close>.\<close>

fun py_item :: "pyval \<Rightarrow> string \<Rightarrow> exc + pyval" where
  "py_item (PDict d) k =
     (case map_of d k of None \<Rightarrow> Inl (py_err KeyError) | Some v \<Rightarrow> Inr v)"
| "py_item _ k = Inl (py_err TypeError)"

definition ditem :: "pydict \<Rightarrow> string \<Rightarrow> exc + pyval" where
  "ditem d k = py_item (PDict d) k"

text \<open>Iteration over a value: lists, the keys of a dictionary, the characters of a string.\<close>

fun py_iter :: "pyval \<Rightarrow> exc + pyval list" where
  "py_iter (PList l) = Inr l"
| "py_iter (PDict d) = Inr (map (PStr \<circ> fst) d)"
| "py_iter (PStr s) = Inr (map (\<lambda>c. PStr [c]) s)"
| "py_iter _ = Inl (py_err TypeError)"

fun py_len :: "pyval \<Rightarrow> exc + int" where
  "py_len (PList l) = Inr (int (length l))"
| "py_len (PDict d) = Inr (int (length d))"
| "py_len (PStr s) = Inr (int (length s))"
| "py_len _ = Inl (py_err TypeError)"

text \<open>\<open>==\<close>: numbers compare by value whatever their type, dictionaries without order.\<close>

fun num_of :: "pyval \<Rightarrow> pyfloat option" where
  "num_of (PBool b) = Some (Fin (if b then 1 else 0))"
| "num_of (PInt n) = Some (Fin (of_int n))"
| "num_of (PFloat f) = Some f"
| "num_of _ = None"

fun py_eq :: "pyval \<Rightarrow> pyval \<Rightarrow> bool"
  and py_eq_list :: "pyval list \<Rightarrow> pyval list \<Rightarrow> bool"
  and py_eq_items :: "pydict \<Rightarrow> pydict \<Rightarrow> bool" where
  "py_eq PNone w = (w = PNone)"
| "py_eq (PStr s) w = (w = PStr s)"
| "py_eq (PBool b) w =
     (case num_of w of None \<Rightarrow> False | Some f \<Rightarrow> fl_eq (Fin (if b then 1 else 0)) f)"
| "py_eq (PInt n) w =
     (case num_of w of None \<Rightarrow> False | Some f \<Rightarrow> fl_eq (Fin (of_int n)) f)"
| "py_eq (PFloat x) w = (case num_of w of None \<Rightarrow> False | Some f \<Rightarrow> fl_eq x f)"
| "py_eq (PList l) w = (case w of PList m \<Rightarrow> py_eq_list l m | _ \<Rightarrow> False)"
| "py_eq (PDict d) w =
     (case w of PDict e \<Rightarrow> length d = length e \<and> py_eq_items d e | _ \<Rightarrow> False)"
| "py_eq_list [] m = (m = [])"
| "py_eq_list (v # l) m = (case m of [] \<Rightarrow> False | w # m' \<Rightarrow> py_eq v w \<and> py_eq_list l m')"
| "py_eq_items [] e = True"
| "py_eq_items ((k, v) # d) e =
     ((case map_of e k of None \<Rightarrow> False | Some w \<Rightarrow> py_eq v w) \<and> py_eq_items d e)"

text \<open>\<open>v in {"a", "b"}\<close> for a literal set of strings: lists and dictionaries are unhashable.\<close>

fun py_in_strs :: "pyval \<Rightarrow> string list \<Rightarrow> exc + bool" where
  "py_in_strs (PList l) ss = Inl (py_err TypeError)"
| "py_in_strs (PDict d) ss = Inl (py_err TypeError)"
| "py_in_strs (PStr s) ss = Inr (s \<in> set ss)"
| "py_in_strs _ ss = Inr False"

lemma py_in_strs_Inr_True: "py_in_strs v ss = Inr True \<longleftrightarrow> (\<exists>s. v = PStr s \<and> s \<in> set ss)"
  by (cases v) auto

text \<open>Every dictionary in a value has distinct keys, as Python's have.\<close>

fun wf_val :: "pyval \<Rightarrow> bool" where
  "wf_val (PList l) = list_all wf_val l"
| "wf_val (PDict d) = (distinct (map fst d) \<and> list_all (\<lambda>kv. wf_val (snd kv)) d)"
| "wf_val _ = True"

abbreviation wf_dict :: "pydict \<Rightarrow> bool" where
  "wf_dict d \<equiv> wf_val (PDict d)"

lemma wf_dget: "wf_dict d \<Longrightarrow> wf_val (dget d k)"
  by (auto simp: dget_def list_all_iff split: option.splits dest: map_of_SomeD)

lemma wf_dset: "wf_dict d \<Longrightarrow> wf_val v \<Longrightarrow> wf_dict (dset k v d)"
  unfolding dset_def by (induction d) (auto simp: dom_update)

lemma wf_distinct: "wf_dict d \<Longrightarrow> distinct (map fst d)"
  by simp

text \<open>\<open>k in v\<close> for a string \<open>k\<close>.\<close>

fun py_contains :: "string \<Rightarrow> pyval \<Rightarrow> exc + bool" where
  "py_contains k (PDict d) = Inr (dhas d k)"
| "py_contains k (PList l) = Inr (list_ex (\<lambda>v. py_eq v (PStr k)) l)"
| "py_contains k (PStr s) = Inr (sublist k s)"
| "py_contains k _ = Inl (py_err TypeError)"

section \<open>Strings\<close>

abbreviation code :: "char \<Rightarrow> int" where
  "code c \<equiv> of_char c"

definition lower_char :: "char \<Rightarrow> char" where
  "lower_char c = (if (65 \<le> code c \<and> code c \<le> 90) \<or>
       (192 \<le> code c \<and> code c \<le> 222 \<and> code c \<noteq> 215) then char_of (code c + 32) else c)"

definition py_lower :: "string \<Rightarrow> string" where
  "py_lower s = map lower_char s"

definition is_space :: "char \<Rightarrow> bool" where
  "is_space c \<longleftrightarrow> (9 \<le> code c \<and> code c \<le> 13) \<or> (28 \<le> code c \<and> code c \<le> 32) \<or>
     code c = 133 \<or> code c = 160"

definition is_digit :: "char \<Rightarrow> bool" where
  "is_digit c \<longleftrightarrow> 48 \<le> code c \<and> code c \<le> 57"

text \<open>\<open>str.isalnum\<close> on code points below 256.\<close>

definition is_alnum :: "char \<Rightarrow> bool" where
  "is_alnum c \<longleftrightarrow> is_digit c \<or> (65 \<le> code c \<and> code c \<le> 90) \<or> (97 \<le> code c \<and> code c \<le> 122) \<or>
     (192 \<le> code c \<and> code c \<noteq> 215 \<and> code c \<noteq> 247) \<or>
     code c \<in> set [170, 178, 179, 181, 185, 186, 188, 189, 190]"

text \<open>\<open>str.isdigit\<close>: non-empty, decimal digits or superscripts.\<close>

definition py_isdigit :: "string \<Rightarrow> bool" where
  "py_isdigit s \<longleftrightarrow> s \<noteq> [] \<and> list_all (\<lambda>c. is_digit c \<or> code c \<in> set [178, 179, 185]) s"

definition py_strip :: "string \<Rightarrow> string" where
  "py_strip s = rev (dropWhile is_space (rev (dropWhile is_space s)))"

definition strip_chars :: "char list \<Rightarrow> string \<Rightarrow> string" where
  "strip_chars cs s = rev (dropWhile (\<lambda>c. c \<in> set cs) (rev (dropWhile (\<lambda>c. c \<in> set cs) s)))"

fun split_on :: "char \<Rightarrow> string \<Rightarrow> string list" where
  "split_on c [] = [[]]"
| "split_on c (x # xs) = (if x = c then [] # split_on c xs
     else (case split_on c xs of [] \<Rightarrow> [[x]] | w # ws \<Rightarrow> (x # w) # ws))"

text \<open>\<open>str.split()\<close> on white space, \<open>str.join\<close>, \<open>str.partition\<close> on one character.\<close>

fun words_acc :: "string \<Rightarrow> string \<Rightarrow> string list" where
  "words_acc [] w = (if w = [] then [] else [rev w])"
| "words_acc (x # xs) w = (if is_space x then (if w = [] then words_acc xs [] else rev w # words_acc xs [])
     else words_acc xs (x # w))"

definition py_words :: "string \<Rightarrow> string list" where
  "py_words s = words_acc s []"

fun join_with :: "string \<Rightarrow> string list \<Rightarrow> string" where
  "join_with sep [] = []"
| "join_with sep [s] = s"
| "join_with sep (s # t # ss) = s @ sep @ join_with sep (t # ss)"

fun partition_on :: "char \<Rightarrow> string \<Rightarrow> string \<times> string \<times> string" where
  "partition_on c [] = ([], [], [])"
| "partition_on c (x # xs) = (if x = c then ([], [c], xs)
     else (case partition_on c xs of (a, m, b) \<Rightarrow> (x # a, m, b)))"

text \<open>\<open>str.replace(old, new)\<close> for a non-empty \<open>old\<close>: leftmost matches, not overlapping.\<close>

function replace_all :: "string \<Rightarrow> string \<Rightarrow> string \<Rightarrow> string" where
  "replace_all old new [] = []"
| "replace_all old new (x # xs) =
     (if old \<noteq> [] \<and> prefix old (x # xs) then new @ replace_all old new (drop (length old) (x # xs))
      else x # replace_all old new xs)"
  by pat_completeness auto
termination
  by (relation "measure (\<lambda>(old, new, s). length s)") (auto simp: prefix_def)

section \<open>str and repr\<close>

definition hex_digit :: "int \<Rightarrow> char" where
  "hex_digit n = char_of (if n < 10 then 48 + n else 87 + n)"

definition repr_char :: "char \<Rightarrow> char \<Rightarrow> string" where
  "repr_char q c = (if c = CHR 0x5C then [CHR 0x5C, CHR 0x5C]
     else if c = q then [CHR 0x5C, q]
     else if code c = 10 then [CHR 0x5C, CHR ''n'']
     else if code c = 13 then [CHR 0x5C, CHR ''r'']
     else if code c = 9 then [CHR 0x5C, CHR ''t'']
     else if code c < 32 \<or> (127 \<le> code c \<and> code c \<le> 160) \<or> code c = 173
     then [CHR 0x5C, CHR ''x'', hex_digit (code c div 16), hex_digit (code c mod 16)]
     else [c])"

definition repr_str :: "string \<Rightarrow> string" where
  "repr_str s = (let q = (if CHR 0x27 \<in> set s \<and> CHR 0x22 \<notin> set s then CHR 0x22 else CHR 0x27)
     in [q] @ concat (map (repr_char q) s) @ [q])"

fun py_repr :: "pyval \<Rightarrow> string"
  and reprs :: "pyval list \<Rightarrow> string list"
  and repr_items :: "pydict \<Rightarrow> string list" where
  "py_repr PNone = ''None''"
| "py_repr (PBool b) = (if b then ''True'' else ''False'')"
| "py_repr (PInt n) = show_int n"
| "py_repr (PFloat f) = show_float f"
| "py_repr (PStr s) = repr_str s"
| "py_repr (PList l) = ''['' @ join_with '', '' (reprs l) @ '']''"
| "py_repr (PDict d) = ''{'' @ join_with '', '' (repr_items d) @ ''}''"
| "reprs [] = []"
| "reprs (v # l) = py_repr v # reprs l"
| "repr_items [] = []"
| "repr_items ((k, v) # d) = (repr_str k @ '': '' @ py_repr v) # repr_items d"

fun py_str :: "pyval \<Rightarrow> string" where
  "py_str (PStr s) = s"
| "py_str v = py_repr v"

section \<open>int and float\<close>

text \<open>Digits with single underscores between them, as \<open>int\<close> and \<open>float\<close> read them.\<close>

fun read_digits :: "string \<Rightarrow> int \<Rightarrow> int \<Rightarrow> (int \<times> int \<times> string)" where
  "read_digits [] acc n = (acc, n, [])"
| "read_digits (c # cs) acc n =
     (if is_digit c then read_digits cs (10 * acc + (code c - 48)) (n + 1)
      else if c = CHR ''_'' \<and> 0 < n then
        (case cs of [] \<Rightarrow> (acc, n, c # cs)
         | d # ds \<Rightarrow> if is_digit d then read_digits cs acc n else (acc, n, c # cs))
      else (acc, n, c # cs))"

fun read_sign :: "string \<Rightarrow> int \<times> string" where
  "read_sign (c # cs) = (if c = CHR ''-'' then (-1, cs) else if c = CHR ''+'' then (1, cs)
     else (1, c # cs))"
| "read_sign [] = (1, [])"

definition parse_int :: "string \<Rightarrow> int option" where
  "parse_int s = (case read_sign (py_strip s) of (sg, t) \<Rightarrow>
     case read_digits t 0 0 of (v, n, rest) \<Rightarrow>
       if 0 < n \<and> rest = [] then Some (sg * v) else None)"

definition parse_exponent :: "string \<Rightarrow> int option" where
  "parse_exponent s = (case s of [] \<Rightarrow> Some 0
     | c # cs \<Rightarrow> if lower_char c \<noteq> CHR ''e'' then None
       else (case read_sign cs of (sg, t) \<Rightarrow> case read_digits t 0 0 of (v, n, rest) \<Rightarrow>
         if 0 < n \<and> rest = [] then Some (sg * v) else None))"

definition parse_float :: "string \<Rightarrow> pyfloat option" where
  "parse_float s = (case read_sign (py_strip s) of (sg, t) \<Rightarrow>
     if py_lower t \<in> {''inf'', ''infinity''} then Some (if sg < 0 then NegInf else PosInf)
     else if py_lower t = ''nan'' then Some NaN
     else (case read_digits t 0 0 of (v, n, rest) \<Rightarrow>
       (case (case rest of CHR ''.'' # r2 \<Rightarrow>
               (case r2 of CHR ''_'' # _ \<Rightarrow> (v, 0, 0, CHR ''_'' # r2)
                | _ \<Rightarrow> (case read_digits r2 v 0 of (v', m, r3) \<Rightarrow> (v', n + m, m, r3)))
             | _ \<Rightarrow> (v, n, 0, rest)) of
          (v', tot, m, r) \<Rightarrow>
            if tot = 0 then None
            else (case parse_exponent r of None \<Rightarrow> None
              | Some e \<Rightarrow> Some (fl_round (of_int (sg * v') * pow10 (e - m)))))))"

fun py_float :: "pyval \<Rightarrow> exc + pyfloat" where
  "py_float (PFloat f) = Inr f"
| "py_float (PInt n) =
     (case fl_round (of_int n) of Fin q \<Rightarrow> Inr (Fin q) | _ \<Rightarrow> Inl (py_err OverflowError))"
| "py_float (PBool b) = Inr (Fin (if b then 1 else 0))"
| "py_float (PStr s) = (case parse_float s of None \<Rightarrow> Inl (py_err ValueError) | Some f \<Rightarrow> Inr f)"
| "py_float _ = Inl (py_err TypeError)"

definition trunc_rat :: "rat \<Rightarrow> int" where
  "trunc_rat q = (if q < 0 then - \<lfloor>- q\<rfloor> else \<lfloor>q\<rfloor>)"

fun py_int :: "pyval \<Rightarrow> exc + int" where
  "py_int (PInt n) = Inr n"
| "py_int (PBool b) = Inr (if b then 1 else 0)"
| "py_int (PFloat (Fin q)) = Inr (trunc_rat q)"
| "py_int (PFloat NaN) = Inl (py_err ValueError)"
| "py_int (PFloat _) = Inl (py_err OverflowError)"
| "py_int (PStr s) = (case parse_int s of None \<Rightarrow> Inl (py_err ValueError) | Some n \<Rightarrow> Inr n)"
| "py_int _ = Inl (py_err TypeError)"

text \<open>Embedding of optional values and of optional strings.\<close>

fun opt_val :: "('a \<Rightarrow> pyval) \<Rightarrow> 'a option \<Rightarrow> pyval" where
  "opt_val f None = PNone"
| "opt_val f (Some x) = f x"

abbreviation opt_str :: "string option \<Rightarrow> pyval" where
  "opt_str \<equiv> opt_val PStr"

lemma truthy_py_or: "truthy (py_or a b) \<longleftrightarrow> truthy a \<or> truthy b"
  by (simp add: py_or_def)

lemma as_dict_Inr: "as_dict v = Inr d \<longleftrightarrow> v = PDict d"
  by (cases v) auto

lemma py_float_numeral_zero [simp]: "py_float (PInt 0) = Inr (Fin 0)"
  by simp

lemma replace_all_id: "\<not> sublist old s \<Longrightarrow> replace_all old new s = s"
proof (induction s)
  case (Cons x xs)
  then have "\<not> prefix old (x # xs)" and "\<not> sublist old xs"
    by (meson prefix_imp_sublist, meson Cons.prems sublist_Cons_right)
  with Cons.IH show ?case by simp
qed simp

end
