(* ===== verification/World.thy ===== *)
theory World
  imports Py_Value
begin

text \<open>
  The outside world the Python packages act on: \<open>pathlib\<close> paths, a file system with
  directories and symbolic links, the process environment and the clock; the third-party and
  C-implemented code they call, as a record \<open>ext\<close> of functions that every definition using it
  takes as its first argument. On top of it \<open>perceptshift_common/hashing.py\<close>.
\<close>

section \<open>Paths\<close>

record ppath =
  p_abs :: bool
  p_parts :: "string list"

definition path_of :: "string \<Rightarrow> ppath" where
  "path_of s = \<lparr>p_abs = (s \<noteq> [] \<and> hd s = CHR ''/''),
     p_parts = filter (\<lambda>c. c \<noteq> [] \<and> c \<noteq> ''.'') (split_on (CHR ''/'') s)\<rparr>"

text \<open>\<open>Path(v)\<close> of a value that may not be a string.\<close>

fun path_arg :: "pyval \<Rightarrow> exc + ppath" where
  "path_arg (PStr s) = Inr (path_of s)"
| "path_arg _ = Inl (py_err TypeError)"

definition path_str :: "ppath \<Rightarrow> string" where
  "path_str p = (if p_abs p then ''/'' @ join_with ''/'' (p_parts p)
     else if p_parts p = [] then ''.'' else join_with ''/'' (p_parts p))"

definition path_join :: "ppath \<Rightarrow> ppath \<Rightarrow> ppath" where
  "path_join p q = (if p_abs q then q else p\<lparr>p_parts := p_parts p @ p_parts q\<rparr>)"

abbreviation path_div :: "ppath \<Rightarrow> string \<Rightarrow> ppath" where
  "path_div p s \<equiv> path_join p (path_of s)"

abbreviation abs_path :: "string list \<Rightarrow> ppath" where
  "abs_path ps \<equiv> \<lparr>p_abs = True, p_parts = ps\<rparr>"

definition path_name :: "ppath \<Rightarrow> string" where
  "path_name p = (if p_parts p = [] then [] else last (p_parts p))"

definition path_parent :: "ppath \<Rightarrow> ppath" where
  "path_parent p = p\<lparr>p_parts := butlast (p_parts p)\<rparr>"

text \<open>\<open>suffix\<close>: from the last dot, when it is neither the first nor the last character.\<close>

definition name_suffix :: "string \<Rightarrow> string" where
  "name_suffix n = (let t = takeWhile (\<lambda>c. c \<noteq> CHR ''.'') (rev n)
     in if t = [] \<or> length n \<le> length t + 1 then [] else CHR ''.'' # rev t)"

definition path_suffix :: "ppath \<Rightarrow> string" where
  "path_suffix p = name_suffix (path_name p)"

definition path_stem :: "ppath \<Rightarrow> string" where
  "path_stem p = (let n = path_name p in take (length n - length (name_suffix n)) n)"

text \<open>\<open>p.relative_to(q)\<close>: \<open>None\<close> is the ValueError.\<close>

definition relative_to :: "ppath \<Rightarrow> ppath \<Rightarrow> ppath option" where
  "relative_to p q = (if p_abs p = p_abs q \<and> prefix (p_parts q) (p_parts p)
     then Some \<lparr>p_abs = False, p_parts = drop (length (p_parts q)) (p_parts p)\<rparr> else None)"

lemma p_abs_join [simp]: "p_abs p \<Longrightarrow> p_abs (path_join p q)"
  by (simp add: path_join_def)

lemma path_of_abs: "p_abs (path_of s) \<longleftrightarrow> (s \<noteq> [] \<and> hd s = CHR ''/'')"
  by (simp add: path_of_def)

lemma relative_to_Some: "relative_to p q = Some r \<Longrightarrow> prefix (p_parts q) (p_parts p)"
  by (auto simp: relative_to_def split: if_splits)

section \<open>The world\<close>

record world =
  w_files :: "(string list \<times> string) list"
  w_dirs :: "string list list"
  w_links :: "(string list \<times> ppath) list"
  w_cwd :: "string list"
  w_home :: "string list"
  w_environ :: "(string \<times> string) list"
  w_ticks :: nat
  w_version :: "string option"
  w_commit :: "string option"
  w_registry :: "(string \<times> pyval) list option"
  w_schemas :: "(string \<times> pyval) list"

text \<open>The last four fields are the results \<open>functools.lru_cache\<close> holds.\<close>

type_synonym 'a io = "(world, exc, 'a) comp"

text \<open>An error of the JSON-schema library: location in the document and message.\<close>

record schema_error =
  se_path :: "pyval list"
  se_message :: string

text \<open>
  What is not under \<open>src/\<close>. \<open>x_sha256\<close> is the hex digest of a byte string, \<open>x_dumps\<close> and
  \<open>x_loads\<close> the JSON text codec (\<open>None\<close> is \<open>JSONDecodeError\<close>), \<open>x_yaml\<close> PyYAML's
  \<open>safe_load\<close> (\<open>None\<close> is \<open>YAMLError\<close>), \<open>x_iter_errors\<close> the Draft 2020-12 validator of a
  registry, a schema and a document, \<open>x_now\<close> the clock at a tick, \<open>x_git\<close> the output and
  return code of \<open>git rev-parse HEAD\<close> (\<open>None\<close> when it cannot be run), \<open>x_installed\<close> the version
  that package metadata reports, and \<open>x_here\<close> the directory of \<open>perceptshift_common\<close>'s modules.
\<close>

record ext =
  x_sha256 :: "string \<Rightarrow> string"
  x_dumps :: "pyval \<Rightarrow> string"
  x_loads :: "string \<Rightarrow> pyval option"
  x_yaml :: "string \<Rightarrow> pyval option"
  x_iter_errors :: "(string \<times> pyval) list \<Rightarrow> pyval \<Rightarrow> pyval \<Rightarrow> schema_error list"
  x_now :: "nat \<Rightarrow> string"
  x_git :: "(string \<times> int) option"
  x_installed :: "string option"
  x_here :: "string list"

section \<open>Symbolic links\<close>

text \<open>
  \<open>realpath\<close>: components are read left to right, \<open>..\<close> drops the last one, a link is replaced by
  its target. The fuel counts link expansions; \<open>None\<close> is the symlink loop.
\<close>

function realpath :: "(string list \<Rightarrow> ppath option) \<Rightarrow> nat \<Rightarrow> string list \<Rightarrow> string list \<Rightarrow>
    string list option" where
  "realpath lk fuel cur [] = Some cur"
| "realpath lk fuel cur (n # ns) =
     (if n = ''..'' then realpath lk fuel (butlast cur) ns
      else (case lk (cur @ [n]) of
        None \<Rightarrow> realpath lk fuel (cur @ [n]) ns
      | Some t \<Rightarrow> (case fuel of 0 \<Rightarrow> None
          | Suc f \<Rightarrow> realpath lk f (if p_abs t then [] else cur) (p_parts t @ ns))))"
  by pat_completeness auto
termination
  by (relation "measures [\<lambda>(lk, fuel, cur, ns). fuel, \<lambda>(lk, fuel, cur, ns). length ns]") auto

definition link_fuel :: nat where
  "link_fuel = 40"

definition full_parts :: "world \<Rightarrow> ppath \<Rightarrow> string list" where
  "full_parts w p = (if p_abs p then p_parts p else w_cwd w @ p_parts p)"

definition real :: "world \<Rightarrow> ppath \<Rightarrow> string list option" where
  "real w p = realpath (map_of (w_links w)) link_fuel [] (full_parts w p)"

text \<open>\<open>Path.resolve(strict=False)\<close>.\<close>

definition resolve :: "world \<Rightarrow> ppath \<Rightarrow> exc + ppath" where
  "resolve w p = (case real w p of None \<Rightarrow> Inl (py_err RuntimeError) | Some q \<Rightarrow> Inr (abs_path q))"

text \<open>The location of the directory entry itself: everything but the last component resolved.\<close>

definition entry :: "world \<Rightarrow> ppath \<Rightarrow> string list option" where
  "entry w p = (let f = full_parts w p in
     if f = [] \<or> last f = ''..'' then real w p
     else map_option (\<lambda>d. d @ [last f]) (real w (abs_path (butlast f))))"

definition is_symlink :: "world \<Rightarrow> ppath \<Rightarrow> bool" where
  "is_symlink w p = (case entry w p of None \<Rightarrow> False | Some e \<Rightarrow> map_of (w_links w) e \<noteq> None)"

definition is_dir_at :: "world \<Rightarrow> string list \<Rightarrow> bool" where
  "is_dir_at w q \<longleftrightarrow> q = [] \<or> q \<in> set (w_dirs w)"

definition is_file :: "world \<Rightarrow> ppath \<Rightarrow> bool" where
  "is_file w p = (case real w p of None \<Rightarrow> False | Some q \<Rightarrow> map_of (w_files w) q \<noteq> None)"

definition is_dir :: "world \<Rightarrow> ppath \<Rightarrow> bool" where
  "is_dir w p = (case real w p of None \<Rightarrow> False | Some q \<Rightarrow> is_dir_at w q)"

definition path_exists :: "world \<Rightarrow> ppath \<Rightarrow> bool" where
  "path_exists w p \<longleftrightarrow> is_file w p \<or> is_dir w p"

lemma realpath_no_links:
  "(\<And>q. lk q = None) \<Longrightarrow> ''..'' \<notin> set ns \<Longrightarrow> realpath lk fuel cur ns = Some (cur @ ns)"
  by (induction lk fuel cur ns rule: realpath.induct) auto

lemma realpath_more_fuel:
  "realpath lk fuel cur ns = Some q \<Longrightarrow> realpath lk (Suc fuel) cur ns = Some q"
proof (induction lk fuel cur ns rule: realpath.induct)
  case (2 lk fuel cur n ns)
  show ?case
  proof (cases "n = ''..'' \<or> lk (cur @ [n]) = None")
    case True
    with 2 show ?thesis by auto
  next
    case False
    then obtain t where t: "n \<noteq> ''..''" "lk (cur @ [n]) = Some t" by auto
    with 2(4) obtain f where "fuel = Suc f" by (cases fuel) auto
    with t 2(3) [OF t(1) t(2)] 2(4) show ?thesis by simp
  qed
qed simp

text \<open>A resolved path has no \<open>..\<close> component: every component on it was read as a name.\<close>

lemma realpath_no_dotdot:
  "realpath lk fuel cur ns = Some q \<Longrightarrow> ''..'' \<notin> set cur \<Longrightarrow> ''..'' \<notin> set q"
proof (induction lk fuel cur ns rule: realpath.induct)
  case (2 lk fuel cur n ns)
  then show ?case
    by (auto split: if_splits option.splits nat.splits dest: in_set_butlastD)
qed simp

lemma real_no_dotdot: "real w p = Some q \<Longrightarrow> ''..'' \<notin> set q"
  unfolding real_def by (erule realpath_no_dotdot) simp

text \<open>No prefix of a resolved path is a link: resolving is idempotent.\<close>

definition link_free :: "(string list \<Rightarrow> ppath option) \<Rightarrow> string list \<Rightarrow> bool" where
  "link_free lk q \<longleftrightarrow> (\<forall>i \<le> length q. i = 0 \<or> lk (take i q) = None)"

lemma link_free_snoc: "link_free lk (q @ [n]) \<longleftrightarrow> link_free lk q \<and> lk (q @ [n]) = None"
  by (auto simp: link_free_def le_Suc_eq)

lemma link_free_butlast: "link_free lk q \<Longrightarrow> link_free lk (butlast q)"
  by (cases q rule: rev_cases) (auto simp: link_free_snoc)

lemma link_free_Nil [simp]: "link_free lk []"
  by (simp add: link_free_def)

lemma realpath_link_free:
  "realpath lk fuel cur ns = Some q \<Longrightarrow> link_free lk cur \<Longrightarrow> link_free lk q"
proof (induction lk fuel cur ns rule: realpath.induct)
  case (2 lk fuel cur n ns)
  then show ?case
    by (auto split: if_splits option.splits nat.splits simp: link_free_snoc link_free_butlast)
qed simp

lemma realpath_of_link_free:
  assumes "link_free lk (cur @ ns)" and "''..'' \<notin> set ns"
  shows "realpath lk fuel cur ns = Some (cur @ ns)"
  using assms
proof (induction ns arbitrary: cur)
  case (Cons n ns)
  then have lf: "link_free lk ((cur @ [n]) @ ns)" by simp
  then have "lk (cur @ [n]) = None"
    unfolding link_free_def by (drule_tac x = "Suc (length cur)" in spec) simp
  moreover have "n \<noteq> ''..''" and "''..'' \<notin> set ns" using Cons.prems by auto
  ultimately show ?case using Cons.IH [OF lf] by simp
qed simp

lemma real_idem:
  assumes "real w p = Some q"
  shows "real w (abs_path q) = Some q"
proof -
  have "link_free (map_of (w_links w)) q" and "''..'' \<notin> set q"
    using assms unfolding real_def by (auto dest: realpath_link_free realpath_no_dotdot)
  then show ?thesis by (simp add: real_def full_parts_def realpath_of_link_free)
qed

section \<open>File operations\<close>

text \<open>UTF-8 on code points below 256.\<close>

definition utf8_encode :: "string \<Rightarrow> string" where
  "utf8_encode s = concat (map (\<lambda>c. if code c < 128 then [c]
     else [char_of (192 + code c div 64), char_of (128 + code c mod 64)]) s)"

fun utf8_decode :: "string \<Rightarrow> string option" where
  "utf8_decode [] = Some []"
| "utf8_decode (b # bs) =
     (if code b < 128 then map_option (Cons b) (utf8_decode bs)
      else (case bs of [] \<Rightarrow> None
        | c # cs \<Rightarrow> if code b \<in> {194, 195} \<and> 128 \<le> code c \<and> code c < 192
            then map_option (Cons (char_of ((code b - 192) * 64 + (code c - 128)))) (utf8_decode cs)
            else None))"

lemma code_bound: "0 \<le> code c" "code c < 256"
  using of_char_mod_256 [of c, where 'a = int]
  by (metis pos_mod_sign zero_less_numeral, metis pos_mod_bound zero_less_numeral)

lemma utf8_decode_encode: "utf8_decode (utf8_encode s) = Some s"
proof (induction s)
  case Nil
  then show ?case by (simp add: utf8_encode_def)
next
  case (Cons c s)
  show ?case
  proof (cases "code c < 128")
    case True
    with Cons show ?thesis by (simp add: utf8_encode_def)
  next
    case False
    have r: "2 \<le> code c div 64" "code c div 64 \<le> 3" "0 \<le> code c mod 64" "code c mod 64 < 64"
      using False code_bound [of c] by auto
    then have "code (char_of (192 + code c div 64)) = 192 + code c div 64"
      and "code (char_of (128 + code c mod 64)) = 128 + code c mod 64"
      by (simp_all add: of_char_of)
    moreover have "code c div 64 * 64 + code c mod 64 = code c" by simp
    moreover have "192 + code c div 64 \<in> {194, 195}" using r by auto
    ultimately show ?thesis using Cons r by (auto simp: utf8_encode_def)
  qed
qed

definition read_bytes :: "ppath \<Rightarrow> string io" where
  "read_bytes p w = (case real w p of None \<Rightarrow> (Inl (py_err OSError), w)
     | Some q \<Rightarrow> (case map_of (w_files w) q of
         None \<Rightarrow> (Inl (py_err (if is_dir_at w q then OSError else FileNotFoundError)), w)
       | Some b \<Rightarrow> (Inr b, w)))"

definition read_text :: "ppath \<Rightarrow> string io" where
  "read_text p = bindS (read_bytes p) (\<lambda>b. liftS (case utf8_decode b of
     None \<Rightarrow> Inl (py_err UnicodeDecodeError) | Some t \<Rightarrow> Inr t))"

text \<open>Opening for writing follows links and needs the directory to exist.\<close>

definition write_bytes :: "ppath \<Rightarrow> string \<Rightarrow> unit io" where
  "write_bytes p b w = (case real w p of None \<Rightarrow> (Inl (py_err OSError), w)
     | Some q \<Rightarrow>
       if is_dir_at w q then (Inl (py_err OSError), w)
       else if \<not> is_dir_at w (butlast q) then (Inl (py_err FileNotFoundError), w)
       else (Inr (), w\<lparr>w_files := AList.update q b (w_files w)\<rparr>))"

definition write_text :: "ppath \<Rightarrow> string \<Rightarrow> unit io" where
  "write_text p t = write_bytes p (utf8_encode t)"

text \<open>\<open>os.replace\<close>: the entry itself moves, over whatever file or link has the target's name.\<close>

definition rename :: "ppath \<Rightarrow> ppath \<Rightarrow> unit io" where
  "rename p q w = (case (entry w p, entry w q) of
     (Some a, Some b) \<Rightarrow>
       if is_dir_at w b \<or> \<not> is_dir_at w (butlast b) then (Inl (py_err OSError), w)
       else (case map_of (w_links w) a of
         Some t \<Rightarrow> (Inr (), w\<lparr>w_links := AList.update b t (AList.delete a (w_links w)),
            w_files := AList.delete b (w_files w)\<rparr>)
       | None \<Rightarrow> (case map_of (w_files w) a of
           None \<Rightarrow> (Inl (py_err FileNotFoundError), w)
         | Some c \<Rightarrow> (Inr (), w\<lparr>w_links := AList.delete b (w_links w),
            w_files := AList.update b c (AList.delete a (w_files w))\<rparr>)))
   | _ \<Rightarrow> (Inl (py_err OSError), w))"

text \<open>\<open>mkdir(parents=True, exist_ok=ok)\<close>: creates the missing directories on the way.\<close>

definition mkdirs :: "bool \<Rightarrow> ppath \<Rightarrow> unit io" where
  "mkdirs ok p w = (case real w p of None \<Rightarrow> (Inl (py_err OSError), w)
     | Some q \<Rightarrow>
       if list_ex (\<lambda>i. map_of (w_files w) (take i q) \<noteq> None) [0..<Suc (length q)]
       then (Inl (py_err OSError), w)
       else if is_dir_at w q \<and> \<not> ok then (Inl (py_err OSError), w)
       else (Inr (), w\<lparr>w_dirs := filter (\<lambda>d. d \<notin> set (w_dirs w))
              (map (\<lambda>i. take i q) [1..<Suc (length q)]) @ w_dirs w\<rparr>))"

definition unlink :: "ppath \<Rightarrow> unit io" where
  "unlink p w = (case entry w p of None \<Rightarrow> (Inl (py_err OSError), w)
     | Some e \<Rightarrow>
       if map_of (w_links w) e \<noteq> None then (Inr (), w\<lparr>w_links := AList.delete e (w_links w)\<rparr>)
       else if map_of (w_files w) e \<noteq> None then (Inr (), w\<lparr>w_files := AList.delete e (w_files w)\<rparr>)
       else (Inl (py_err FileNotFoundError), w))"

text \<open>\<open>os.environ.get\<close>.\<close>

definition getenv :: "world \<Rightarrow> string \<Rightarrow> string option" where
  "getenv w k = map_of (w_environ w) k"

section \<open>hashing.py\<close>

definition sha256_bytes :: "ext \<Rightarrow> string \<Rightarrow> string" where
  "sha256_bytes X b = x_sha256 X b"

definition sha256_text :: "ext \<Rightarrow> string \<Rightarrow> string" where
  "sha256_text X t = sha256_bytes X (utf8_encode t)"

text \<open>The read loop of \<open>sha256_file\<close>: chunks until an empty one; a negative size reads all.\<close>

function chunks :: "int \<Rightarrow> string \<Rightarrow> string list" where
  "chunks n b = (let c = (if n < 0 then b else take (nat n) b) in
     if c = [] then [] else c # chunks n (drop (length c) b))"
  by pat_completeness auto
termination
  by (relation "measure (\<lambda>(n, b). length b)") (auto split: if_splits)

declare chunks.simps [simp del]

definition default_chunk :: int where
  "default_chunk = 1024 * 1024"

definition sha256_file_sized :: "ext \<Rightarrow> int \<Rightarrow> ppath \<Rightarrow> string io" where
  "sha256_file_sized X n p =
     bindS (read_bytes p) (\<lambda>b. retS (x_sha256 X (concat (chunks n b))))"

definition sha256_file :: "ext \<Rightarrow> ppath \<Rightarrow> string io" where
  "sha256_file X p = sha256_file_sized X default_chunk p"

text \<open>\<open>json.dumps(..., allow_nan=False)\<close> raises ValueError on a non-finite float.\<close>

fun json_finite :: "pyval \<Rightarrow> bool" where
  "json_finite (PFloat f) = (case f of Fin q \<Rightarrow> True | _ \<Rightarrow> False)"
| "json_finite (PList l) = list_all json_finite l"
| "json_finite (PDict d) = list_all (\<lambda>kv. json_finite (snd kv)) d"
| "json_finite _ = True"

definition canonical_json_dumps :: "ext \<Rightarrow> pyval \<Rightarrow> exc + string" where
  "canonical_json_dumps X v = bindR (guardR (json_finite v) (py_err ValueError)) (\<lambda>u.
     Inr (x_dumps X v))"

definition sha256_canonical :: "ext \<Rightarrow> pyval \<Rightarrow> exc + string" where
  "sha256_canonical X v = bindR (canonical_json_dumps X v) (\<lambda>t. Inr (sha256_text X t))"

definition tmp_path :: "ppath \<Rightarrow> ppath" where
  "tmp_path p = p\<lparr>p_parts := butlast (p_parts p) @ [path_name p @ ''.tmp'']\<rparr>"

definition write_atomic_text :: "ppath \<Rightarrow> string \<Rightarrow> unit io" where
  "write_atomic_text p t =
     bindS (mkdirs True (path_parent p)) (\<lambda>u.
     bindS (guardS (path_name p \<noteq> []) (py_err ValueError)) (\<lambda>u.
     bindS (write_text (tmp_path p) t) (\<lambda>u.
     rename (tmp_path p) p)))"

definition write_atomic_json :: "ext \<Rightarrow> ppath \<Rightarrow> pyval \<Rightarrow> unit io" where
  "write_atomic_json X p v =
     bindS (liftS (canonical_json_dumps X v)) (\<lambda>t. write_atomic_text p (t @ [CHR 0x0A]))"

text \<open>\<open>json.loads\<close> and \<open>json.loads(path.read_text(encoding="utf-8"))\<close>.\<close>

definition json_loads :: "ext \<Rightarrow> string \<Rightarrow> exc + pyval" where
  "json_loads X s = (case x_loads X s of None \<Rightarrow> Inl (py_err JSONDecodeError) | Some v \<Rightarrow> Inr v)"

definition read_json :: "ext \<Rightarrow> ppath \<Rightarrow> pyval io" where
  "read_json X p = bindS (read_text p) (\<lambda>t. liftS (json_loads X t))"

lemma concat_chunks: "n \<noteq> 0 \<Longrightarrow> concat (chunks n b) = b"
proof (induction n b rule: chunks.induct)
  case (1 n b)
  define c where "c = (if n < 0 then b else take (nat n) b)"
  have split: "c @ drop (length c) b = b" by (auto simp: c_def min_def)
  show ?case
  proof (cases "c = []")
    case True
    with 1(2) have "b = []" by (auto simp: c_def split: if_splits)
    with True show ?thesis by (subst chunks.simps) (simp add: Let_def)
  next
    case False
    have "chunks n b = c # chunks n (drop (length c) b)"
      using False by (subst chunks.simps) (simp only: Let_def c_def [symmetric] if_False)
    with 1(1) [OF c_def False 1(2)] split show ?thesis by simp
  qed
qed

lemma sha256_file_whole [code]:
  "sha256_file X p = bindS (read_bytes p) (\<lambda>b. retS (sha256_bytes X b))"
  by (simp add: sha256_file_def sha256_file_sized_def default_chunk_def concat_chunks sha256_bytes_def)

lemma read_bytes_pure: "snd (read_bytes p w) = w"
  by (simp add: read_bytes_def split: option.splits)

lemma is_file_read_bytes: "is_file w p \<longleftrightarrow> (\<exists>b. read_bytes p w = (Inr b, w))"
  by (auto simp: is_file_def read_bytes_def split: option.splits)

text \<open>Evaluation of a concrete run: the steps in order, nothing under a binder.\<close>

lemma bindS_cong: "s = s' \<Longrightarrow> bindS m f s = bindS m f s'"
  by simp

lemma catchS_cong: "s = s' \<Longrightarrow> catchS m h s = catchS m h s'"
  by simp

lemmas run_congs = bindS_cong catchS_cong prod.case_cong_weak sum.case_cong_weak
  option.case_cong_weak list.case_cong_weak if_weak_cong

lemmas world_defs = Let_def bindS_def catchS_def comp_defs guardR_def path_of_def path_join_def
  path_str_def path_name_def path_parent_def name_suffix_def path_suffix_def full_parts_def
  real_def resolve_def entry_def is_dir_at_def is_file_def is_dir_def is_symlink_def
  read_bytes_def read_text_def write_bytes_def write_text_def rename_def mkdirs_def getenv_def
  sha256_file_whole sha256_bytes_def canonical_json_dumps_def tmp_path_def write_atomic_text_def
  write_atomic_json_def json_loads_def read_json_def utf8_encode_def dset_def dupdate_def

end
