(* ===== verification/Common_Docs.thy ===== *)
theory Common_Docs
  imports World
begin

text \<open>
  The rest of \<open>perceptshift_common\<close>: \<open>version.py\<close> and \<open>producer.py\<close> (cached metadata and the
  document envelope), \<open>schema.py\<close> (schema lookup, validation, document loading), \<open>paths.py\<close> (XDG
  directories) and \<open>path_security.py\<close> (resolution under a root).
\<close>

section \<open>version.py\<close>

definition default_version :: string where
  "default_version = ''0.1.0''"

definition path_parents :: "ppath \<Rightarrow> ppath list" where
  "path_parents p = map (\<lambda>i. p\<lparr>p_parts := take i (p_parts p)\<rparr>) (rev [0..<length (p_parts p)])"

definition read_version_file :: "ppath \<Rightarrow> string io" where
  "read_version_file f = bindS (getS (\<lambda>w. is_file w f)) (\<lambda>there.
     if there then bindS (read_text f) (\<lambda>t.
       retS (if py_strip t \<noteq> [] then py_strip t else default_version))
     else retS default_version)"

definition compute_version :: "ext \<Rightarrow> string io" where
  "compute_version X = (case x_installed X of Some v \<Rightarrow> retS v
     | None \<Rightarrow>
       bindS (\<lambda>w. (resolve w (abs_path (x_here X @ [''version.py''])), w)) (\<lambda>here.
       if length (path_parents here) \<le> 4 then raiseS (py_err IndexError)
       else read_version_file (path_div (path_parents here ! 4) ''VERSION'')))"

definition get_version :: "ext \<Rightarrow> string io" where
  "get_version X = bindS (getS w_version) (\<lambda>c. case c of Some v \<Rightarrow> retS v
     | None \<Rightarrow> bindS (compute_version X) (\<lambda>v.
         bindS (modS (w_version_update (\<lambda>_. Some v))) (\<lambda>u. retS v)))"

section \<open>producer.py\<close>

definition compute_commit :: "ext \<Rightarrow> world \<Rightarrow> string" where
  "compute_commit X w = (case getenv w ''PERCEPTSHIFT_GIT_COMMIT'' of
     Some c \<Rightarrow> if c \<noteq> [] then py_strip c else
       (case x_git X of None \<Rightarrow> ''unknown'' | Some (out, rc) \<Rightarrow>
          if rc \<noteq> 0 \<or> py_strip out = [] then ''unknown'' else py_strip out)
   | None \<Rightarrow> (case x_git X of None \<Rightarrow> ''unknown'' | Some (out, rc) \<Rightarrow>
          if rc \<noteq> 0 \<or> py_strip out = [] then ''unknown'' else py_strip out))"

definition git_commit :: "ext \<Rightarrow> string io" where
  "git_commit X = bindS (getS w_commit) (\<lambda>c. case c of Some v \<Rightarrow> retS v
     | None \<Rightarrow> bindS (getS (compute_commit X)) (\<lambda>v.
         bindS (modS (w_commit_update (\<lambda>_. Some v))) (\<lambda>u. retS v)))"

text \<open>Each reading of the clock is a tick.\<close>

definition utc_now_rfc3339 :: "ext \<Rightarrow> string io" where
  "utc_now_rfc3339 X w = (Inr (x_now X (w_ticks w)), w\<lparr>w_ticks := Suc (w_ticks w)\<rparr>)"

definition producer_metadata :: "ext \<Rightarrow> pydict io" where
  "producer_metadata X =
     bindS (get_version X) (\<lambda>v. bindS (git_commit X) (\<lambda>c.
     retS [(''product'', PStr ''perceptshift''), (''version'', PStr v), (''git_commit'', PStr c)]))"

definition envelope_fields :: "ext \<Rightarrow> string \<Rightarrow> pydict io" where
  "envelope_fields X doc_type =
     bindS (utc_now_rfc3339 X) (\<lambda>now. bindS (producer_metadata X) (\<lambda>p.
     retS [(''schema_version'', PStr ''1.0''), (''document_type'', PStr doc_type),
       (''created_at'', PStr now), (''producer'', PDict p)]))"

section \<open>paths.py\<close>

definition xdg_dir :: "world \<Rightarrow> string \<Rightarrow> string list \<Rightarrow> ppath" where
  "xdg_dir w var fallback = path_div (case getenv w var of
     Some b \<Rightarrow> if b \<noteq> [] then path_of b else abs_path (w_home w @ fallback)
   | None \<Rightarrow> abs_path (w_home w @ fallback)) ''perceptshift''"

definition config_dir :: "world \<Rightarrow> ppath" where
  "config_dir w = xdg_dir w ''XDG_CONFIG_HOME'' [''.config'']"

definition data_dir :: "world \<Rightarrow> ppath" where
  "data_dir w = xdg_dir w ''XDG_DATA_HOME'' [''.local'', ''share'']"

definition state_dir :: "world \<Rightarrow> ppath" where
  "state_dir w = xdg_dir w ''XDG_STATE_HOME'' [''.local'', ''state'']"

definition cache_dir :: "world \<Rightarrow> ppath" where
  "cache_dir w = xdg_dir w ''XDG_CACHE_HOME'' [''.cache'']"

definition runtime_dir :: "world \<Rightarrow> ppath option" where
  "runtime_dir w = (case getenv w ''XDG_RUNTIME_DIR'' of
     None \<Rightarrow> None
   | Some b \<Rightarrow> if b = [] then None else Some (path_div (path_of b) ''perceptshift''))"

definition runs_index_dir :: "world \<Rightarrow> ppath" where
  "runs_index_dir w = path_div (data_dir w) ''runs''"

text \<open>Permission bits are not part of the world: \<open>chmod\<close> and its ignored failure leave no trace.\<close>

definition ensure_dir :: "ppath \<Rightarrow> ppath io" where
  "ensure_dir p = bindS (mkdirs True p) (\<lambda>u. retS p)"

definition path_inventory :: "world \<Rightarrow> pydict" where
  "path_inventory w =
     [(''config'', PStr (path_str (config_dir w))),
      (''data'', PStr (path_str (data_dir w))),
      (''state'', PStr (path_str (state_dir w))),
      (''cache'', PStr (path_str (cache_dir w))),
      (''runtime'', opt_val (\<lambda>p. PStr (path_str p)) (runtime_dir w)),
      (''runs_index'', PStr (path_str (runs_index_dir w)))]"

section \<open>path\_security.py\<close>

definition require_absolute :: "ppath \<Rightarrow> string \<Rightarrow> exc + ppath" where
  "require_absolute p field =
     bindR (guardR (p_abs p) (ps_error PATH_UNSAFE (field @ '' must be an absolute path'') None
       [(''path'', PStr (path_str p))] None)) (\<lambda>u. Inr p)"

definition resolve_under_root ::
    "world \<Rightarrow> ppath \<Rightarrow> string \<Rightarrow> bool \<Rightarrow> string \<Rightarrow> exc + ppath" where
  "resolve_under_root w base rel allow_symlinks field =
     bindR (require_absolute base ''root'') (\<lambda>r0.
     bindR (resolve w r0) (\<lambda>root_resolved.
     let probe = path_div root_resolved rel in
     bindR (resolve w probe) (\<lambda>candidate.
     bindR (guardR (relative_to candidate root_resolved \<noteq> None)
       (ps_error PATH_UNSAFE (field @ '' escapes dataset root'')
         (Some ''Keep all dataset paths under the declared root'')
         [(''root'', PStr (path_str root_resolved)), (''path'', PStr (path_str candidate))]
         (Some (py_err ValueError)))) (\<lambda>u.
     bindR (guardR (\<not> (is_symlink w probe \<and> \<not> allow_symlinks))
       (ps_error PATH_UNSAFE (field @ '' resolves through a symlink which is rejected by policy'')
         (Some ''Replace symlinks with real files or enable an explicit symlink policy'')
         [(''path'', PStr (path_str probe))] None)) (\<lambda>u.
     Inr candidate)))))"

lemma resolve_Inr: "resolve w p = Inr q \<longleftrightarrow> (\<exists>r. real w p = Some r \<and> q = abs_path r)"
  by (auto simp: resolve_def split: option.splits)

lemma resolve_under_root_Inr:
  assumes "resolve_under_root w base rel allow field = Inr q"
  shows "\<exists>r. p_abs base \<and> real w base = Some r \<and> p_abs q \<and> prefix r (p_parts q)
    \<and> real w (path_div (abs_path r) rel) = Some (p_parts q)
    \<and> (is_symlink w (path_div (abs_path r) rel) \<longrightarrow> allow)"
  using assms
  by (auto simp: resolve_under_root_def require_absolute_def result_eqs resolve_Inr Let_def
      dest: relative_to_Some)

section \<open>schema.py\<close>

definition SCHEMA_FILENAMES :: "(string \<times> string) list" where
  "SCHEMA_FILENAMES =
     [(''runtime_config'', ''runtime-config-v1.schema.json''),
      (''forge_config'', ''forge-config-v1.schema.json''),
      (''dataset_manifest'', ''dataset-manifest-v1.schema.json''),
      (''candidate_manifest'', ''candidate-manifest-v1.schema.json''),
      (''profile_bundle'', ''profile-bundle-v1.schema.json''),
      (''benchmark_sample'', ''benchmark-sample-v1.schema.json''),
      (''benchmark_summary'', ''benchmark-summary-v1.schema.json''),
      (''host_fingerprint'', ''host-fingerprint-v1.schema.json''),
      (''quality_attestation'', ''quality-attestation-v1.schema.json''),
      (''telemetry_event'', ''telemetry-event-v1.schema.json''),
      (''preprocess_contract'', ''preprocess-contract-v1.schema.json'')]"

definition schemas_under :: "ppath \<Rightarrow> ppath" where
  "schemas_under p = path_div (path_div p ''config'') ''schemas''"

definition repository_root :: "ext \<Rightarrow> ppath io" where
  "repository_root X =
     bindS (\<lambda>w. (resolve w (abs_path (x_here X @ [''schema.py''])), w)) (\<lambda>here.
     bindS (getS (\<lambda>w. find (\<lambda>p. is_dir w (schemas_under p)) (path_parents here))) (\<lambda>found.
     case found of Some p \<Rightarrow> retS p
     | None \<Rightarrow> bindS (getS (\<lambda>w. abs_path (w_cwd w))) (\<lambda>env.
         bindS (getS (\<lambda>w. is_dir w (schemas_under env))) (\<lambda>there.
         if there then retS env
         else raiseS (ps_error INTERNAL_INVARIANT_FAILED ''Unable to locate config/schemas directory''
           (Some ''Run from the PerceptShift repository or install package data correctly'')
           [] None)))))"

definition schemas_dir :: "ext \<Rightarrow> ppath io" where
  "schemas_dir X = bindS (repository_root X) (\<lambda>r. retS (schemas_under r))"

text \<open>The names in a directory, and the percent-encoding of \<open>Path.as_uri\<close>.\<close>

definition entry_names :: "world \<Rightarrow> ppath \<Rightarrow> string list" where
  "entry_names w p = (case real w p of None \<Rightarrow> []
     | Some d \<Rightarrow> remdups (map last (filter (\<lambda>q. q \<noteq> [] \<and> butlast q = d)
         (map fst (w_files w) @ map fst (w_links w) @ w_dirs w))))"

definition hex_upper :: "int \<Rightarrow> char" where
  "hex_upper n = char_of (if n < 10 then 48 + n else 55 + n)"

definition uri_quote :: "string \<Rightarrow> string" where
  "uri_quote s = concat (map (\<lambda>c. if is_alnum c \<and> code c < 128 \<or> c \<in> set ''/_.-~'' then [c]
     else [CHR ''%'', hex_upper (code c div 16), hex_upper (code c mod 16)])
     (utf8_encode s))"

definition registry_entries :: "string \<Rightarrow> ppath \<Rightarrow> pydict \<Rightarrow> exc + (string \<times> pyval) list" where
  "registry_entries name path raw =
     (case dget_or raw ''$id'' (PStr (''file://'' @ uri_quote (path_str path))) of
        PStr i \<Rightarrow> Inr ([(i, PDict raw), (name, PDict raw), (''./'' @ name, PDict raw)]
          @ (if prefix ''https://'' i then [(last (split_on (CHR ''/'') i), PDict raw)] else []))
      | _ \<Rightarrow> Inl (py_err AttributeError))"

definition compute_registry :: "ext \<Rightarrow> (string \<times> pyval) list io" where
  "compute_registry X = bindS (schemas_dir X) (\<lambda>d.
     bindS (getS (\<lambda>w. sort_by id (filter (suffix ''.schema.json'') (entry_names w d)))) (\<lambda>names.
     foldS (\<lambda>n reg. bindS (read_json X (path_div d n)) (\<lambda>v.
       bindS (liftS (as_dict v)) (\<lambda>raw.
       bindS (liftS (registry_entries n (path_div d n) raw)) (\<lambda>es. retS (rev es @ reg)))))
       names []))"

definition registry :: "ext \<Rightarrow> (string \<times> pyval) list io" where
  "registry X = bindS (getS w_registry) (\<lambda>c. case c of Some r \<Rightarrow> retS r
     | None \<Rightarrow> bindS (compute_registry X) (\<lambda>r.
         bindS (modS (w_registry_update (\<lambda>_. Some r))) (\<lambda>u. retS r)))"

definition compute_schema :: "ext \<Rightarrow> string \<Rightarrow> pyval io" where
  "compute_schema X name = (case map_of SCHEMA_FILENAMES name of
     None \<Rightarrow> raiseS (ps_error SCHEMA_UNSUPPORTED (''Unknown schema name: '' @ name) None
       [(''known'', PList (map PStr (sort_by id (map fst SCHEMA_FILENAMES))))] None)
   | Some file \<Rightarrow> bindS (schemas_dir X) (\<lambda>d. let p = path_div d file in
       bindS (getS (\<lambda>w. is_file w p)) (\<lambda>there.
       bindS (guardS there (ps_err SCHEMA_UNSUPPORTED (''Schema file missing: '' @ path_str p)))
       (\<lambda>u. read_json X p))))"

definition load_schema :: "ext \<Rightarrow> string \<Rightarrow> pyval io" where
  "load_schema X name = bindS (getS (\<lambda>w. map_of (w_schemas w) name)) (\<lambda>c. case c of Some v \<Rightarrow> retS v
     | None \<Rightarrow> bindS (compute_schema X name) (\<lambda>v.
         bindS (modS (w_schemas_update (Cons (name, v)))) (\<lambda>u. retS v)))"

text \<open>Order of error locations: element by element, indices before names.\<close>

fun loc_le :: "pyval list \<Rightarrow> pyval list \<Rightarrow> bool" where
  "loc_le [] bs = True"
| "loc_le (a # as) [] = False"
| "loc_le (a # as) (b # bs) = (if a = b then loc_le as bs else (case (a, b) of
     (PInt m, PInt n) \<Rightarrow> m \<le> n
   | (PStr s, PStr t) \<Rightarrow> str_le s t
   | (PInt m, _) \<Rightarrow> True
   | _ \<Rightarrow> False))"

fun first_error :: "schema_error list \<Rightarrow> schema_error \<Rightarrow> schema_error" where
  "first_error [] e = e"
| "first_error (f # fs) e =
     first_error fs (if loc_le (se_path e) (se_path f) then e else f)"

definition schema_failure :: "string \<Rightarrow> schema_error list \<Rightarrow> exc" where
  "schema_failure schema_name errs = (let first = first_error (tl errs) (hd errs);
     joined = join_with ''.'' (map py_str (se_path first));
     path = (if joined \<noteq> [] then joined else ''<root>'') in
     ps_error CONFIG_INVALID (''Schema validation failed at '' @ path @ '': '' @ se_message first)
       (Some ''Fix the document to match config/schemas contracts'')
       [(''schema'', PStr schema_name), (''error_count'', PInt (int (length errs))),
        (''path'', PStr path)]
       (Some (PyErr (OtherError ''ValidationError'') (se_message first))))"

definition validate_document :: "ext \<Rightarrow> pyval \<Rightarrow> string \<Rightarrow> pyval io" where
  "validate_document X document schema_name =
     bindS (load_schema X schema_name) (\<lambda>schema.
     bindS (registry X) (\<lambda>reg.
     let errs = x_iter_errors X reg schema document in
     bindS (guardS (errs = []) (schema_failure schema_name errs)) (\<lambda>u. retS document)))"

definition load_json_document :: "ext \<Rightarrow> ppath \<Rightarrow> pyval io" where
  "load_json_document X p =
     bindS (catchS (read_json X p) (\<lambda>e.
       if is_os_error e \<or> is_json_error e
       then raiseS (ps_error CONFIG_INVALID (''Failed to load JSON document: '' @ path_str p)
         None [] (Some e))
       else raiseS e)) (\<lambda>data.
     bindS (guardS (is_dict data)
       (ps_err CONFIG_INVALID (''JSON document must be an object: '' @ path_str p))) (\<lambda>u.
     retS data))"

definition yaml_safe_load :: "ext \<Rightarrow> string \<Rightarrow> exc + pyval" where
  "yaml_safe_load X t =
     (case x_yaml X t of None \<Rightarrow> Inl (py_err (OtherError ''YAMLError'')) | Some v \<Rightarrow> Inr v)"

definition load_yaml_document :: "ext \<Rightarrow> ppath \<Rightarrow> pyval io" where
  "load_yaml_document X p =
     bindS (catchS (bindS (read_text p) (\<lambda>t. liftS (yaml_safe_load X t))) (\<lambda>e.
       if is_os_error e \<or> is_kind (OtherError ''YAMLError'') e
       then raiseS (ps_error CONFIG_INVALID (''Failed to load YAML document: '' @ path_str p)
         None [] (Some e))
       else raiseS e)) (\<lambda>data.
     bindS (guardS (is_dict data)
       (ps_err CONFIG_INVALID (''YAML document must be an object: '' @ path_str p))) (\<lambda>u.
     retS data))"

definition load_config_document :: "ext \<Rightarrow> ppath \<Rightarrow> pyval io" where
  "load_config_document X p = (let sfx = py_lower (path_suffix p) in
     if sfx \<in> {''.yaml'', ''.yml''} then load_yaml_document X p
     else if sfx = ''.json'' then load_json_document X p
     else raiseS (ps_error CONFIG_INVALID (''Unsupported config extension: '' @ sfx)
       (Some ''Use .yaml, .yml, or .json'') [] None))"


lemmas docs_defs = get_version_def git_commit_def utc_now_rfc3339_def producer_metadata_def
  envelope_fields_def load_schema_def registry_def validate_document_def

end
