(* ===== verification/Doc_Store.thy ===== *)
theory Doc_Store
  imports Common_Docs
begin

text \<open>
  Laws of the file operations in a world without symbolic links: where a path leads, what a write
  changes, that a document written atomically is read back and leaves no temporary file. They are
  stated as an interface, a document store, and the relation "only files under this directory
  changed" follows for every operation that writes only there.
\<close>

section \<open>Where a path leads\<close>

definition norm_parts :: "string list \<Rightarrow> string list \<Rightarrow> string list" where
  "norm_parts cur ns = foldl (\<lambda>c n. if n = ''..'' then butlast c else c @ [n]) cur ns"

definition place :: "world \<Rightarrow> ppath \<Rightarrow> string list" where
  "place w p = norm_parts [] (full_parts w p)"

definition plain :: "world \<Rightarrow> bool" where
  "plain w \<longleftrightarrow> w_links w = []"

lemma norm_parts_Cons:
  "norm_parts cur (n # ns) = norm_parts (if n = ''..'' then butlast cur else cur @ [n]) ns"
  by (simp add: norm_parts_def)

lemma norm_parts_append: "norm_parts cur (xs @ ys) = norm_parts (norm_parts cur xs) ys"
  by (simp add: norm_parts_def)

lemma norm_parts_names: "''..'' \<notin> set ns \<Longrightarrow> norm_parts cur ns = cur @ ns"
  by (induction ns arbitrary: cur) (auto simp: norm_parts_def)

lemma realpath_plain: "realpath (\<lambda>_. None) fuel cur ns = Some (norm_parts cur ns)"
  by (induction ns arbitrary: cur) (simp_all add: norm_parts_def)

lemma real_plain: "plain w \<Longrightarrow> real w p = Some (place w p)"
proof -
  assume "plain w"
  then have "map_of (w_links w) = (\<lambda>_. None)" by (simp add: plain_def)
  then show ?thesis unfolding real_def place_def by (simp only: realpath_plain)
qed

lemma entry_plain:
  assumes "plain w"
  shows "entry w p = Some (place w p)"
proof (cases "full_parts w p = [] \<or> last (full_parts w p) = ''..''")
  case True
  with assms show ?thesis by (simp add: entry_def Let_def real_plain)
next
  case False
  let ?f = "full_parts w p"
  have "place w p = norm_parts [] (butlast ?f @ [last ?f])"
    using False by (simp add: place_def)
  also have "\<dots> = norm_parts [] (butlast ?f) @ [last ?f]"
    using False unfolding norm_parts_append by (simp add: norm_parts_def)
  also have "norm_parts [] (butlast ?f) = place w (abs_path (butlast ?f))"
    by (simp add: place_def full_parts_def)
  finally show ?thesis
    using False assms by (simp add: entry_def Let_def real_plain)
qed

text \<open>A path of one ordinary component.\<close>

definition plain_name :: "string \<Rightarrow> bool" where
  "plain_name n \<longleftrightarrow> path_of n = \<lparr>p_abs = False, p_parts = [n]\<rparr> \<and> n \<noteq> ''..''"

lemma full_parts_div: "plain_name n \<Longrightarrow> full_parts w (path_div p n) = full_parts w p @ [n]"
  by (simp add: plain_name_def path_join_def full_parts_def)

lemma place_div: "plain_name n \<Longrightarrow> place w (path_div p n) = place w p @ [n]"
  by (simp add: place_def full_parts_div norm_parts_append) (simp add: norm_parts_def plain_name_def)

lemma tmp_path_div: "plain_name n \<Longrightarrow> tmp_path (path_div p n) =
    p\<lparr>p_parts := p_parts p @ [n @ ''.tmp'']\<rparr>"
  by (simp add: plain_name_def path_join_def tmp_path_def path_name_def)

section \<open>What a write changes\<close>

definition same_setting :: "world \<Rightarrow> world \<Rightarrow> bool" where
  "same_setting w w' \<longleftrightarrow> w_links w' = w_links w \<and> w_cwd w' = w_cwd w \<and> w_home w' = w_home w
     \<and> w_environ w' = w_environ w"

lemma same_setting_place: "same_setting w w' \<Longrightarrow> place w' p = place w p"
  by (simp add: same_setting_def place_def full_parts_def)

lemma same_setting_place_fun: "same_setting w w' \<Longrightarrow> place w' = place w"
  by (rule ext) (rule same_setting_place)

lemma same_setting_plain: "same_setting w w' \<Longrightarrow> plain w' \<longleftrightarrow> plain w"
  by (simp add: same_setting_def plain_def)

abbreviation file_at :: "world \<Rightarrow> string list \<Rightarrow> string option" where
  "file_at w q \<equiv> map_of (w_files w) q"

lemma mkdirs_effect:
  "mkdirs ok p w = (r, w') \<Longrightarrow> same_setting w w' \<and> w_files w' = w_files w"
  by (auto simp: mkdirs_def same_setting_def split: option.splits if_splits)

lemma write_bytes_effect:
  assumes "plain w" and "write_bytes p b w = (r, w')"
  shows "same_setting w w' \<and> file_at w' = (if r = Inr () then (file_at w)(place w p \<mapsto> b) else file_at w)"
  using assms
  by (auto simp: write_bytes_def real_plain same_setting_def update_conv' split: if_splits)

lemma rename_effect:
  assumes "plain w" and "rename p q w = (r, w')"
  shows "same_setting w w' \<and> (case r of
      Inl e \<Rightarrow> file_at w' = file_at w
    | Inr u \<Rightarrow> \<exists>c. file_at w (place w p) = Some c
        \<and> file_at w' = (file_at w)(place w p := None, place w q \<mapsto> c))"
  using assms
  by (auto simp: rename_def entry_plain same_setting_def update_conv' delete_conv' plain_def
      split: if_splits option.splits)

lemma place_parent: "p_parts p \<noteq> [] \<Longrightarrow> path_name p \<noteq> ''..'' \<Longrightarrow>
    place w p = place w (path_parent p) @ [path_name p]"
proof -
  assume ne: "p_parts p \<noteq> []" and nd: "path_name p \<noteq> ''..''"
  have "full_parts w p = full_parts w (path_parent p) @ [path_name p]"
    using ne by (simp add: full_parts_def path_parent_def path_name_def)
  with nd show ?thesis by (simp add: place_def norm_parts_append) (simp add: norm_parts_def)
qed

text \<open>The temporary name is never \<open>..\<close> and never the name itself.\<close>

lemma place_tmp:
  assumes "p_parts p \<noteq> []" and "path_name p \<noteq> ''..''"
  shows "place w (tmp_path p) = place w (path_parent p) @ [path_name p @ ''.tmp'']"
    and "place w (tmp_path p) \<noteq> place w p"
proof -
  have "path_name p @ ''.tmp'' \<noteq> ''..''"
  proof
    assume "path_name p @ ''.tmp'' = ''..''"
    then have "length (path_name p @ ''.tmp'') = length ''..''" by (rule arg_cong)
    then show False by simp
  qed
  then show *: "place w (tmp_path p) = place w (path_parent p) @ [path_name p @ ''.tmp'']"
    using place_parent [of "tmp_path p" w] assms(1)
    by (simp add: tmp_path_def path_parent_def path_name_def)
  show "place w (tmp_path p) \<noteq> place w p"
    unfolding * place_parent [OF assms, of w] by simp
qed

definition proper_file :: "ppath \<Rightarrow> bool" where
  "proper_file p \<longleftrightarrow> p_parts p \<noteq> [] \<and> path_name p \<noteq> [] \<and> path_name p \<noteq> ''..''"

lemma write_atomic_text_effect:
  assumes pl: "plain w" and pf: "proper_file p" and run: "write_atomic_text p t w = (r, w')"
  shows "same_setting w w'
    \<and> (\<forall>q. q \<noteq> place w p \<longrightarrow> q \<noteq> place w (tmp_path p) \<longrightarrow> file_at w' q = file_at w q)
    \<and> (r = Inr () \<longrightarrow> file_at w' (place w p) = Some (utf8_encode t)
        \<and> file_at w' (place w (tmp_path p)) = None)"
proof -
  obtain r1 w1 where m: "mkdirs True (path_parent p) w = (r1, w1)" by fastforce
  note e1 = mkdirs_effect [OF m]
  show ?thesis
  proof (cases r1)
    case (Inl e)
    with run m e1 show ?thesis by (auto simp: write_atomic_text_def bindS_def)
  next
    case (Inr u)
    obtain r2 w2 where wr: "write_bytes (tmp_path p) (utf8_encode t) w1 = (r2, w2)" by fastforce
    have pl1: "plain w1" using e1 pl same_setting_plain by blast
    note e2 = write_bytes_effect [OF pl1 wr]
    have plc: "place w1 = place w" "place w2 = place w"
      using e1 e2 same_setting_place_fun [of w w1] same_setting_place_fun [of w1 w2] by simp_all
    have nm: "path_name p \<noteq> []" using pf by (simp add: proper_file_def)
    show ?thesis
    proof (cases r2)
      case (Inl e)
      with run m Inr wr nm e1 e2 show ?thesis
        by (auto simp: write_atomic_text_def bindS_def write_text_def guardS_def same_setting_def)
    next
      case (Inr u2)
      with run m \<open>r1 = Inr u\<close> wr nm have ren: "rename (tmp_path p) p w2 = (r, w')"
        by (simp add: write_atomic_text_def bindS_def write_text_def guardS_def)
      have pl2: "plain w2" using e2 pl1 same_setting_plain by blast
      have f2: "file_at w2 = (file_at w)(place w (tmp_path p) \<mapsto> utf8_encode t)"
        using e1 e2 Inr plc by auto
      have ne: "place w (tmp_path p) \<noteq> place w p"
        using pf place_tmp(2) by (simp add: proper_file_def)
      have ss: "same_setting w w'"
        using rename_effect [OF pl2 ren] e1 e2 by (auto simp: same_setting_def)
      show ?thesis
      proof (cases r)
        case (Inl e)
        with rename_effect [OF pl2 ren] f2 ss show ?thesis by auto
      next
        case (Inr u3)
        with rename_effect [OF pl2 ren] f2 ss ne plc show ?thesis by auto
      qed
    qed
  qed
qed

text \<open>A first write into an existing directory, as an equation.\<close>

lemma mkdirs_existing:
  assumes "plain w" and "''..'' \<notin> set d" and "\<And>i. 0 < i \<Longrightarrow> i \<le> length d \<Longrightarrow> take i d \<in> set (w_dirs w)"
    and "\<And>i. map_of (w_files w) (take i d) = None"
  shows "mkdirs True (abs_path d) w = (Inr (), w)"
proof -
  have r: "real w (abs_path d) = Some d"
    using assms(1,2) by (simp add: real_plain place_def full_parts_def norm_parts_names)
  have "filter (\<lambda>q. q \<notin> set (w_dirs w)) (map (\<lambda>i. take i d) [1..<Suc (length d)]) = []"
    using assms(3) assms(3) [of "length d"] by (auto simp: filter_empty_conv Suc_le_eq)
  moreover have "\<not> list_ex (\<lambda>i. map_of (w_files w) (take i d) \<noteq> None) [0..<Suc (length d)]"
    using assms(4) by (simp add: list_ex_iff)
  ultimately show ?thesis by (simp add: mkdirs_def r)
qed

lemma update_fresh: "k \<notin> fst ` set xs \<Longrightarrow> AList.update k v xs = xs @ [(k, v)]"
  by (induction xs) auto

lemma write_bytes_fresh:
  assumes "plain w" and "''..'' \<notin> set d" and "n \<noteq> ''..''" and "d \<in> set (w_dirs w)"
    and "d @ [n] \<notin> set (w_dirs w)" and "d @ [n] \<notin> fst ` set (w_files w)"
  shows "write_bytes (abs_path (d @ [n])) b w = (Inr (), w\<lparr>w_files := w_files w @ [(d @ [n], b)]\<rparr>)"
proof -
  have r: "real w (abs_path (d @ [n])) = Some (d @ [n])"
    using assms(1-3) by (simp add: real_plain place_def full_parts_def norm_parts_names)
  have "AList.update (d @ [n]) b (w_files w) = w_files w @ [(d @ [n], b)]"
    using assms(6) by (rule update_fresh)
  with r assms show ?thesis by (simp add: write_bytes_def is_dir_at_def)
qed

lemma rename_fresh:
  assumes "plain w" and "''..'' \<notin> set d" and "n \<noteq> ''..''" and "m \<noteq> ''..''" and "d \<in> set (w_dirs w)"
    and "d @ [n] \<notin> set (w_dirs w)" and "d @ [n] \<notin> fst ` set fs" "d @ [m] \<notin> fst ` set fs" "m \<noteq> n"
    and "w_files w = fs @ [(d @ [m], b)]"
  shows "rename (abs_path (d @ [m])) (abs_path (d @ [n])) w = (Inr (), w\<lparr>w_files := fs @ [(d @ [n], b)]\<rparr>)"
proof -
  have e: "entry w (abs_path (d @ [k])) = Some (d @ [k])" if "k \<noteq> ''..''" for k
    using assms(1,2) that by (simp add: entry_plain place_def full_parts_def norm_parts_names)
  have del: "AList.delete (d @ [m]) (fs @ [(d @ [m], b)]) = fs" using assms(8)
    by (induction fs) (auto simp: AList.delete_eq)
  have up: "AList.update (d @ [n]) b fs = fs @ [(d @ [n], b)]"
    using assms(7) by (rule update_fresh)
  have mo: "map_of (fs @ [(d @ [m], b)]) (d @ [m]) = Some b"
    using assms(8) by (simp add: map_add_def map_of_eq_None_iff split: option.split) (metis image_eqI fst_conv map_of_SomeD)
  show ?thesis
    using assms(1,3-6) e [OF assms(4)] e [OF assms(3)] mo del up
    by (simp add: rename_def is_dir_at_def plain_def assms(10))
qed

lemma write_atomic_fresh:
  assumes "plain w" and "''..'' \<notin> set d" and "d \<noteq> []" and "n \<noteq> ''..''" "n \<noteq> []"
    and "\<And>i. 0 < i \<Longrightarrow> i \<le> length d \<Longrightarrow> take i d \<in> set (w_dirs w)" and "\<And>i. map_of (w_files w) (take i d) = None"
    and "d @ [n] \<notin> set (w_dirs w)" "d @ [n @ ''.tmp''] \<notin> set (w_dirs w)"
    and "d @ [n] \<notin> fst ` set (w_files w)" "d @ [n @ ''.tmp''] \<notin> fst ` set (w_files w)"
  shows "write_atomic_text (abs_path (d @ [n])) t w = (Inr (), w\<lparr>w_files := w_files w @ [(d @ [n], utf8_encode t)]\<rparr>)"
proof -
  have tmp: "n @ ''.tmp'' \<noteq> ''..''" 
  proof
    assume "n @ ''.tmp'' = ''..''"
    then have "length (n @ ''.tmp'') = length ''..''" by (rule arg_cong)
    then show False by simp
  qed
  have d: "d \<in> set (w_dirs w)" using assms(6) [of "length d"] assms(3) by simp
  let ?w = "w\<lparr>w_files := w_files w @ [(d @ [n @ ''.tmp''], utf8_encode t)]\<rparr>"
  have a: "mkdirs True (abs_path d) w = (Inr (), w)" by (rule mkdirs_existing) (use assms in auto)
  have b: "write_bytes (abs_path (d @ [n @ ''.tmp''])) (utf8_encode t) w = (Inr (), ?w)"
    by (rule write_bytes_fresh) (use assms d tmp in auto)
  have c: "rename (abs_path (d @ [n @ ''.tmp''])) (abs_path (d @ [n])) ?w
      = (Inr (), ?w\<lparr>w_files := w_files w @ [(d @ [n], utf8_encode t)]\<rparr>)"
    by (rule rename_fresh) (use assms d tmp in \<open>auto simp: plain_def\<close>)
  have "path_parent (abs_path (d @ [n])) = abs_path d" "path_name (abs_path (d @ [n])) = n"
    "tmp_path (abs_path (d @ [n])) = abs_path (d @ [n @ ''.tmp''])"
    by (simp_all add: path_parent_def path_name_def tmp_path_def)
  then show ?thesis using a b c assms(5)
    by (simp add: write_atomic_text_def bindS_def write_text_def guardS_def guardR_def)
qed

section \<open>The document store\<close>

text \<open>
  What the packages rely on when they keep documents in files: a document written is read back,
  a write disturbs no document whose locations are disjoint from its own, and the world stays fit
  for the next operation.
\<close>

locale document_store =
  fixes store :: "ppath \<Rightarrow> 'v \<Rightarrow> unit io"
    and fetch :: "ppath \<Rightarrow> 'v io"
    and fit :: "world \<Rightarrow> bool"
    and usable :: "ppath \<Rightarrow> bool"
    and apart :: "world \<Rightarrow> ppath \<Rightarrow> ppath \<Rightarrow> bool"
  assumes read_after_write:
      "fit w \<Longrightarrow> usable p \<Longrightarrow> store p v w = (Inr (), w') \<Longrightarrow> fetch p w' = (Inr v, w')"
    and write_frame:
      "fit w \<Longrightarrow> usable p \<Longrightarrow> store p v w = (r, w') \<Longrightarrow> apart w p q \<Longrightarrow>
       fetch q w = (Inr x, w) \<Longrightarrow> fetch q w' = (Inr x, w')"
    and write_fit: "fit w \<Longrightarrow> usable p \<Longrightarrow> store p v w = (r, w') \<Longrightarrow> fit w'"
    and write_apart: "fit w \<Longrightarrow> usable p \<Longrightarrow> store p v w = (r, w') \<Longrightarrow> apart w' = apart w"
begin

text \<open>A series of writes; the first failure ends it.\<close>

definition write_all :: "(ppath \<times> 'v) list \<Rightarrow> unit io" where
  "write_all ds = foldS (\<lambda>(p, v) u. store p v) ds ()"

lemma write_all_fit: "fit w \<Longrightarrow> list_all (usable \<circ> fst) ds \<Longrightarrow> write_all ds w = (r, w') \<Longrightarrow> fit w'"
proof (induction ds arbitrary: w)
  case Nil
  then show ?case by (simp add: write_all_def)
next
  case (Cons d ds)
  obtain p v where d: "d = (p, v)" by fastforce
  obtain r1 w1 where w: "store p v w = (r1, w1)" by fastforce
  have "fit w1" using Cons.prems d w write_fit by auto
  with Cons d w show ?case
    by (cases r1) (auto simp: write_all_def bindS_def)
qed

lemma write_all_frame:
  "fit w \<Longrightarrow> list_all (usable \<circ> fst) ds \<Longrightarrow> list_all (\<lambda>d. apart w (fst d) q) ds \<Longrightarrow>
   write_all ds w = (r, w') \<Longrightarrow> fetch q w = (Inr x, w) \<Longrightarrow> fetch q w' = (Inr x, w')"
proof (induction ds arbitrary: w)
  case Nil
  then show ?case by (simp add: write_all_def)
next
  case (Cons d ds)
  obtain p v where d: "d = (p, v)" by fastforce
  obtain r1 w1 where w: "store p v w = (r1, w1)" by fastforce
  have f: "fit w1" and a: "apart w1 = apart w" and rd: "fetch q w1 = (Inr x, w1)"
    using Cons.prems d w write_fit write_apart write_frame by auto
  show ?case
  proof (cases r1)
    case (Inl e)
    with Cons.prems d w rd show ?thesis by (auto simp: write_all_def bindS_def)
  next
    case (Inr u)
    with Cons.prems d w have "write_all ds w1 = (r, w')" by (simp add: write_all_def bindS_def)
    with Cons.IH [OF f] Cons.prems d a rd show ?thesis by simp
  qed
qed

text \<open>Every document of a completed series of writes to places apart from one another is there.\<close>

lemma write_all_read:
  assumes "fit w" and "list_all (usable \<circ> fst) ds"
    and "sorted_wrt (\<lambda>d e. apart w (fst e) (fst d)) ds"
    and "write_all ds w = (Inr (), w')" and "(p, v) \<in> set ds"
  shows "fetch p w' = (Inr v, w')"
  using assms
proof (induction ds arbitrary: w)
  case (Cons d ds)
  obtain p1 v1 where d: "d = (p1, v1)" by fastforce
  from Cons.prems(4) d obtain w1 where w: "store p1 v1 w = (Inr (), w1)"
      and rest: "write_all ds w1 = (Inr (), w')"
    by (auto simp: write_all_def bindS_eq_Inr)
  have f: "fit w1" and a: "apart w1 = apart w"
    using Cons.prems d w write_fit write_apart by auto
  show ?case
  proof (cases "(p, v) \<in> set ds")
    case True
    with Cons.IH [OF f _ _ rest] Cons.prems a show ?thesis by simp
  next
    case False
    with Cons.prems(5) d have pv: "p = p1" "v = v1" by auto
    have "fetch p w1 = (Inr v, w1)" using read_after_write Cons.prems d w pv by auto
    then show ?thesis
      using write_all_frame [OF f _ _ rest] Cons.prems d a pv by (simp add: list_all_iff)
  qed
qed simp

end

definition text_apart :: "world \<Rightarrow> ppath \<Rightarrow> ppath \<Rightarrow> bool" where
  "text_apart w p q \<longleftrightarrow> place w q \<noteq> place w p \<and> place w q \<noteq> place w (tmp_path p)"


interpretation text_store: document_store write_atomic_text read_text plain proper_file text_apart
proof
  fix w p v w'
  assume w: "plain w" "proper_file p" and run: "write_atomic_text p v w = (Inr (), w')"
  from write_atomic_text_effect [OF w run] have pl: "plain w'" "place w' p = place w p"
      and f: "file_at w' (place w p) = Some (utf8_encode v)"
    using w same_setting_plain same_setting_place by auto
  then show "read_text p w' = (Inr v, w')"
    by (simp add: read_text_def read_bytes_def bindS_def real_plain utf8_decode_encode)
next
  fix w p v r w' q x
  assume w: "plain w" "proper_file p" and run: "write_atomic_text p v w = (r, w')"
    and ap: "text_apart w p q" and rd: "read_text q w = (Inr x, w)"
  from write_atomic_text_effect [OF w run] have pl: "plain w'" "place w' q = place w q"
      and f: "file_at w' (place w q) = file_at w (place w q)"
    using w ap same_setting_plain same_setting_place by (auto simp: text_apart_def)
  with rd w show "read_text q w' = (Inr x, w')"
    by (auto simp: read_text_def read_bytes_def bindS_def real_plain split: option.splits sum.splits)
next
  fix w p v r w'
  assume w: "plain w" "proper_file p" and run: "write_atomic_text p v w = (r, w')"
  from write_atomic_text_effect [OF this] show "plain w'"
    using w same_setting_plain by blast
  from write_atomic_text_effect [OF w run] have "place w' = place w"
    using same_setting_place_fun by blast
  then show "text_apart w' = text_apart w" by (simp add: text_apart_def fun_eq_iff)
qed

section \<open>Only files under a directory\<close>

text \<open>In a world without links, the operation kept the setting and the files outside \<open>d\<close>.\<close>

definition only_under :: "ppath \<Rightarrow> world \<Rightarrow> world \<Rightarrow> bool" where
  "only_under d w w' \<longleftrightarrow> (plain w \<longrightarrow> same_setting w w'
     \<and> (\<forall>q. \<not> prefix (place w d) q \<longrightarrow> file_at w' q = file_at w q))"

interpretation only_under: state_preorder "only_under d"
proof
  show "only_under d w w" for w by (simp add: only_under_def same_setting_def)
  show "only_under d s u" if "only_under d s t" "only_under d t u" for s t u
    using that same_setting_place [of s t] same_setting_plain [of s t]
    by (auto simp: only_under_def same_setting_def)
qed

text \<open>Operations that change nothing but the clock and the caches, and those that touch no file.\<close>

definition reads_only :: "world \<Rightarrow> world \<Rightarrow> bool" where
  "reads_only w w' \<longleftrightarrow> w_files w' = w_files w \<and> w_dirs w' = w_dirs w \<and> w_links w' = w_links w
     \<and> w_cwd w' = w_cwd w \<and> w_home w' = w_home w \<and> w_environ w' = w_environ w"

interpretation reads_only: state_preorder reads_only
  by unfold_locales (auto simp: reads_only_def)

definition same_files :: "world \<Rightarrow> world \<Rightarrow> bool" where
  "same_files w w' \<longleftrightarrow> same_setting w w' \<and> w_files w' = w_files w"

interpretation same_files: state_preorder same_files
  by unfold_locales (auto simp: same_files_def same_setting_def)

lemma reads_same_files: "keeps reads_only m \<Longrightarrow> keeps same_files m"
  by (auto simp: keeps_def same_files_def reads_only_def same_setting_def)

lemma same_files_only_under: "keeps same_files m \<Longrightarrow> keeps (only_under d) m"
  by (auto simp: keeps_def same_files_def only_under_def)

lemma keeps_pyval:
  "keeps R a \<Longrightarrow> (\<And>x. keeps R (b x)) \<Longrightarrow> (\<And>x. keeps R (i x)) \<Longrightarrow> (\<And>x. keeps R (f x)) \<Longrightarrow>
   (\<And>x. keeps R (s x)) \<Longrightarrow> (\<And>x. keeps R (l x)) \<Longrightarrow> (\<And>x. keeps R (d x)) \<Longrightarrow>
   keeps R (case v of PNone \<Rightarrow> a | PBool x \<Rightarrow> b x | PInt x \<Rightarrow> i x | PFloat x \<Rightarrow> f x
     | PStr x \<Rightarrow> s x | PList x \<Rightarrow> l x | PDict x \<Rightarrow> d x)"
  by (cases v) simp_all

lemma keeps_sum:
  "(\<And>x. keeps R (f x)) \<Longrightarrow> (\<And>x. keeps R (g x)) \<Longrightarrow> keeps R (case v of Inl x \<Rightarrow> f x | Inr x \<Rightarrow> g x)"
  by (cases v) simp_all

lemma keeps_same_mkdirs: "keeps same_files (mkdirs ok p)"
  by (rule keepsI) (auto simp: same_files_def dest: mkdirs_effect)

lemma keeps_reads_read_bytes: "keeps reads_only (read_bytes p)"
  by (simp add: keeps_def read_bytes_pure reads_only.R_refl)

lemma keeps_reads_tick: "keeps reads_only (utc_now_rfc3339 X)"
  by (simp add: keeps_def utc_now_rfc3339_def reads_only_def)

lemma keeps_reads_cache:
  "keeps reads_only (modS (w_version_update f))" "keeps reads_only (modS (w_commit_update g))"
  "keeps reads_only (modS (w_registry_update h))" "keeps reads_only (modS (w_schemas_update k))"
  by (simp_all add: keeps_def modS_def reads_only_def)

lemmas reads_only_basic = reads_only.keeps_rules keeps_pyval keeps_sum keeps_reads_read_bytes
  keeps_reads_tick keeps_reads_cache

lemma keeps_reads_read_text: "keeps reads_only (read_text p)"
  unfolding read_text_def by (intro reads_only_basic)

lemma keeps_reads_read_json: "keeps reads_only (read_json X p)"
  unfolding read_json_def by (intro reads_only_basic keeps_reads_read_text)

lemma keeps_reads_sha256_file: "keeps reads_only (sha256_file X p)"
  unfolding sha256_file_whole by (intro reads_only_basic)

lemma keeps_reads_get_version: "keeps reads_only (get_version X)"
  unfolding get_version_def compute_version_def read_version_file_def
  by (intro reads_only_basic keeps_reads_read_text)

lemma keeps_reads_git_commit: "keeps reads_only (git_commit X)"
  unfolding git_commit_def by (intro reads_only_basic)

lemma keeps_reads_envelope: "keeps reads_only (envelope_fields X t)"
  unfolding envelope_fields_def producer_metadata_def
  by (intro reads_only_basic keeps_reads_get_version keeps_reads_git_commit)

lemma keeps_reads_load_schema: "keeps reads_only (load_schema X n)"
  unfolding load_schema_def compute_schema_def schemas_dir_def repository_root_def
  by (intro reads_only_basic keeps_reads_read_json)

lemma keeps_reads_registry: "keeps reads_only (registry X)"
  unfolding registry_def compute_registry_def schemas_dir_def repository_root_def
  by (intro reads_only_basic keeps_reads_read_json)

lemma keeps_reads_validate: "keeps reads_only (validate_document X d n)"
  unfolding validate_document_def
  by (intro reads_only_basic keeps_reads_load_schema keeps_reads_registry)

lemma keeps_reads_load_json: "keeps reads_only (load_json_document X p)"
  unfolding load_json_document_def by (intro reads_only_basic keeps_reads_read_json)

lemma keeps_reads_load_yaml: "keeps reads_only (load_yaml_document X p)"
  unfolding load_yaml_document_def by (intro reads_only_basic keeps_reads_read_text)

lemma keeps_reads_load_config: "keeps reads_only (load_config_document X p)"
  unfolding load_config_document_def by (intro reads_only_basic keeps_reads_load_json keeps_reads_load_yaml)

lemmas reads_only_intros = reads_only_basic keeps_reads_read_text keeps_reads_read_json
  keeps_reads_sha256_file keeps_reads_get_version keeps_reads_envelope keeps_reads_validate
  keeps_reads_load_json keeps_reads_load_yaml keeps_reads_load_config

lemmas keeps_same_read_bytes = keeps_reads_read_bytes [THEN reads_same_files]
lemmas keeps_same_tick = keeps_reads_tick [THEN reads_same_files]
lemmas keeps_same_read_json = keeps_reads_read_json [THEN reads_same_files]
lemmas keeps_same_sha256_file = keeps_reads_sha256_file [THEN reads_same_files]
lemmas keeps_same_get_version = keeps_reads_get_version [THEN reads_same_files]
lemmas keeps_same_envelope = keeps_reads_envelope [THEN reads_same_files]
lemmas keeps_same_validate = keeps_reads_validate [THEN reads_same_files]

lemmas same_files_intros = same_files.keeps_rules keeps_pyval keeps_sum keeps_same_mkdirs keeps_same_read_bytes
  keeps_same_tick keeps_same_read_json keeps_same_sha256_file keeps_same_get_version
  keeps_same_envelope keeps_same_validate

text \<open>What is read is the same before and after such an operation.\<close>

lemma reads_only_same:
  assumes "reads_only w w'"
  shows "full_parts w' = full_parts w" "real w' = real w" "entry w' = entry w" "is_file w' = is_file w"
    "is_dir w' = is_dir w" "is_symlink w' = is_symlink w" "resolve w' = resolve w"
    "fst (read_bytes p w') = fst (read_bytes p w)"
    "entry_names w' = entry_names w" "resolve_under_root w' = resolve_under_root w"
proof -
  have f: "full_parts w' = full_parts w" by (rule ext) (use assms in \<open>simp add: full_parts_def reads_only_def\<close>)
  have r: "real w' = real w" by (rule ext) (use assms in \<open>simp add: real_def f reads_only_def\<close>)
  have e: "entry w' = entry w" by (rule ext) (simp add: entry_def f r Let_def)
  have rs: "resolve w' = resolve w" by (rule ext) (simp add: resolve_def r)
  have sy: "is_symlink w' = is_symlink w"
    by (rule ext) (use assms in \<open>simp add: is_symlink_def e reads_only_def split: option.splits\<close>)
  show "full_parts w' = full_parts w" "real w' = real w" "entry w' = entry w" "resolve w' = resolve w"
    "is_symlink w' = is_symlink w" by (fact f r e rs sy)+
  show "is_file w' = is_file w" "is_dir w' = is_dir w"
    by (rule ext, use assms in \<open>simp add: is_file_def is_dir_def is_dir_at_def r reads_only_def split: option.splits\<close>)+
  show "fst (read_bytes p w') = fst (read_bytes p w)"
    using assms by (simp add: read_bytes_def r is_dir_at_def reads_only_def split: option.splits)
  show "entry_names w' = entry_names w"
    by (rule ext) (use assms in \<open>simp add: entry_names_def r reads_only_def split: option.splits\<close>)
  show "resolve_under_root w' = resolve_under_root w"
    by (intro ext) (simp add: resolve_under_root_def rs sy Let_def)
qed

lemma reads_only_text:
  assumes "reads_only w w'"
  shows "fst (read_text p w') = fst (read_text p w)"
  using reads_only_same(8) [OF assms, of p]
  by (cases "read_bytes p w"; cases "read_bytes p w'") (auto simp: read_text_def bindS_def liftS_def split: sum.splits)

lemma read_bytes_eq: "read_bytes p w = (r, u) \<longleftrightarrow> fst (read_bytes p w) = r \<and> u = w"
  using read_bytes_pure [of p w] by (cases "read_bytes p w") auto

lemma only_under_write_atomic:
  assumes "plain_name n" and "plain_name (n @ ''.tmp'')"
  shows "keeps (only_under d) (write_atomic_text (path_div d n) t)"
proof (rule keepsI)
  fix w r w'
  assume run: "write_atomic_text (path_div d n) t w = (r, w')"
  have pf: "proper_file (path_div d n)"
    using assms(1) by (auto simp: plain_name_def proper_file_def path_join_def path_name_def path_of_def)
  have "tmp_path (path_div d n) = path_div d (n @ ''.tmp'')"
    using assms by (simp add: tmp_path_div) (simp add: plain_name_def path_join_def)
  then have "place w (tmp_path (path_div d n)) = place w d @ [n @ ''.tmp'']"
    using assms(2) by (simp add: place_div)
  then show "only_under d w w'"
    using write_atomic_text_effect [OF _ pf run] place_div [OF assms(1), of w d]
    by (auto simp: only_under_def prefix_def)
qed

section \<open>A sample of the outside world\<close>

text \<open>A concrete instance of the parameters, for runs on concrete inputs.\<close>

definition sample_ext :: ext where
  "sample_ext = \<lparr>x_sha256 = id, x_dumps = (\<lambda>v. ''{}''), x_loads = (\<lambda>s. Some (PDict [(''k'', PNone)])),
     x_yaml = (\<lambda>s. None), x_iter_errors = (\<lambda>r s d. []), x_now = (\<lambda>n. ''2025-01-01T00:00:00Z''),
     x_git = None, x_installed = Some ''0.1.0'', x_here = [''srv'']\<rparr>"

lemma sample_ext_simps:
  "x_sha256 sample_ext = id" "x_dumps sample_ext = (\<lambda>v. ''{}'')"
  "x_loads sample_ext = (\<lambda>s. Some (PDict [(''k'', PNone)]))"
  "x_iter_errors sample_ext = (\<lambda>r s d. [])" "x_now sample_ext = (\<lambda>n. ''2025-01-01T00:00:00Z'')"
  by (simp_all add: sample_ext_def)

lemma json_finite_dset:
  "json_finite v \<Longrightarrow> json_finite (PDict d) \<Longrightarrow> json_finite (PDict (dset k v d))"
  unfolding dset_def by (induction d) auto

lemma json_finite_dupdate:
  "json_finite (PDict d) \<Longrightarrow> json_finite (PDict es) \<Longrightarrow> json_finite (PDict (dupdate d es))"
proof (induction es arbitrary: d)
  case (Cons e es)
  obtain k v where "e = (k, v)" by fastforce
  with Cons json_finite_dset [of v d k] show ?case by simp
qed simp

lemma sample_dumps:
  "json_finite v \<Longrightarrow> canonical_json_dumps sample_ext v = Inr ''{}''"
  by (simp add: canonical_json_dumps_def sample_ext_simps)

end
