(* ===== verification/Certification.thy ===== *)
theory Certification
  imports Py_Value
begin

text \<open>
  \<open>perceptshift_forge/certification/__init__.py\<close>: the thirteen gates over the certification
  context, the verdict \<open>is_certified\<close>, and the Pareto selection of certified candidates.
\<close>

section \<open>Gates\<close>

record gate_result =
  g_name :: string
  g_passed :: bool
  g_required :: bool
  g_evidence :: "pyval list"
  g_measured :: pyval
  g_threshold :: pyval
  g_reasons :: "reason_code list"
  g_remediation :: "string option"

definition gate_result_to_dict :: "gate_result \<Rightarrow> pydict" where
  "gate_result_to_dict g =
     [(''name'', PStr (g_name g)), (''pass'', PBool (g_passed g)),
      (''required'', PBool (g_required g)),
      (''evidence_references'', PList (g_evidence g)),
      (''measured_value'', g_measured g), (''threshold'', g_threshold g),
      (''reason_codes'', PList (map reason_val (g_reasons g))),
      (''remediation'', opt_str (g_remediation g))]"

type_synonym gate = "pydict \<Rightarrow> exc + gate_result"

text \<open>\<open>bool(ctx.get(k, False))\<close>, and \<open>list(ctx.get(k, []))\<close>, a TypeError on what cannot be
  iterated.\<close>

definition ctx_flag :: "pydict \<Rightarrow> string \<Rightarrow> bool" where
  "ctx_flag ctx k = truthy (dget_or ctx k (PBool False))"

definition ctx_list :: "pydict \<Rightarrow> string \<Rightarrow> exc + pyval list" where
  "ctx_list ctx k = py_iter (dget_or ctx k (PList []))"

text \<open>The constructor call all gates share: the reason code and the remediation appear exactly
  when the gate is not \<open>fine\<close>.\<close>

definition mk_gate ::
    "string \<Rightarrow> bool \<Rightarrow> bool \<Rightarrow> bool \<Rightarrow> exc + pyval list \<Rightarrow> pyval \<Rightarrow> pyval \<Rightarrow> reason_code \<Rightarrow>
      string \<Rightarrow> exc + gate_result" where
  "mk_gate name passed required fine evidence measured limit reason remedy =
     bindR evidence (\<lambda>ev.
     Inr \<lparr>g_name = name, g_passed = passed, g_required = required, g_evidence = ev,
       g_measured = measured, g_threshold = limit,
       g_reasons = (if fine then [] else [reason]),
       g_remediation = (if fine then None else Some remedy)\<rparr>)"

definition schema_gate :: gate where
  "schema_gate ctx = (let ok = ctx_flag ctx ''schema_valid'' in
     mk_gate ''schema_gate'' ok True ok (ctx_list ctx ''schema_evidence'')
       (PBool ok) (PBool True) GATE_SCHEMA
       ''Repair documents to satisfy config/schemas contracts'')"

definition integrity_gate :: gate where
  "integrity_gate ctx = (let ok = ctx_flag ctx ''integrity_ok'' in
     mk_gate ''integrity_gate'' ok True ok (ctx_list ctx ''integrity_evidence'')
       (PBool ok) (PBool True) GATE_INTEGRITY ''Recompute and compare SHA-256 inventories'')"

definition model_validation_gate :: gate where
  "model_validation_gate ctx = (let ok = ctx_flag ctx ''model_valid'' in
     mk_gate ''model_validation_gate'' ok True ok (ctx_list ctx ''model_evidence'')
       (PBool ok) (PBool True) GATE_MODEL_VALIDATION ''Run onnx.checker and fix model issues'')"

definition host_compatibility_gate :: gate where
  "host_compatibility_gate ctx = (let ok = ctx_flag ctx ''host_compatible'' in
     mk_gate ''host_compatibility_gate'' ok True ok (ctx_list ctx ''host_evidence'')
       (PBool ok) (PBool True) GATE_HOST_COMPATIBILITY ''Certify on a matching host fingerprint'')"

definition provider_gate :: gate where
  "provider_gate ctx = (let ok = ctx_flag ctx ''provider_ok'' in
     mk_gate ''provider_gate'' ok True ok (ctx_list ctx ''provider_evidence'')
       (dget ctx ''provider_assignment'') (dget ctx ''provider_threshold'')
       GATE_PROVIDER ''Adjust EP order or relax provider requirements'')"

definition tensor_contract_gate :: gate where
  "tensor_contract_gate ctx = (let ok = ctx_flag ctx ''tensor_contract_ok'' in
     mk_gate ''tensor_contract_gate'' ok True ok (ctx_list ctx ''tensor_evidence'')
       (PBool ok) (PBool True) GATE_TENSOR_CONTRACT
       ''Align model IO tensors with adapter contracts'')"

definition semantic_equivalence_gate :: gate where
  "semantic_equivalence_gate ctx =
     (let required = truthy (dget_or ctx ''require_output_equivalence'' (PBool True));
          ok = ctx_flag ctx ''equivalence_ok'' in
     mk_gate ''semantic_equivalence_gate'' (if required then ok else True) required
       (ok \<or> \<not> required) (ctx_list ctx ''equivalence_evidence'')
       (dget ctx ''equivalence_score'') (dget ctx ''equivalence_threshold'')
       GATE_SEMANTIC_EQUIVALENCE ''Investigate output digests vs baseline'')"

definition quality_gate :: gate where
  "quality_gate ctx = (let ok = ctx_flag ctx ''quality_ok'' in
     mk_gate ''quality_gate'' ok True ok (ctx_list ctx ''quality_evidence'')
       (dget ctx ''quality_value'') (dget ctx ''quality_threshold'')
       GATE_QUALITY ''Improve quality or relax documented thresholds'')"

text \<open>\<open>v is not None and limit is not None and float(v) <= float(limit)\<close>.\<close>

definition within_limit :: "pyval \<Rightarrow> pyval \<Rightarrow> exc + bool" where
  "within_limit v limit = (if v = PNone \<or> limit = PNone then Inr False
     else bindR (py_float v) (\<lambda>x. bindR (py_float limit) (\<lambda>y. Inr (fl_le x y))))"

definition memory_gate :: gate where
  "memory_gate ctx = (let peak = dget ctx ''peak_rss_mb''; limit = dget ctx ''maximum_peak_rss_mb'' in
     bindR (within_limit peak limit) (\<lambda>ok.
     mk_gate ''memory_gate'' ok True ok (ctx_list ctx ''memory_evidence'') peak limit
       GATE_MEMORY ''Reduce peak RSS or raise maximum_peak_rss_mb''))"

definition latency_gate :: gate where
  "latency_gate ctx = (let measured = dget ctx ''latency_ms''; deadline = dget ctx ''deadline_ms'' in
     bindR (within_limit measured deadline) (\<lambda>ok.
     mk_gate ''latency_gate'' ok True ok (ctx_list ctx ''latency_evidence'') measured deadline
       GATE_LATENCY ''Select a faster candidate or raise deadline_ms''))"

definition environment_gate :: gate where
  "environment_gate ctx =
     (let required = truthy (dget_or ctx ''require_valid_environment'' (PBool True));
          status = dget_or ctx ''environment_status'' (PStr ''invalid'') in
     bindR (py_in_strs status [''valid'', ''valid_with_warnings'']) (\<lambda>ok.
     let passed = (if required then ok else True) in
     mk_gate ''environment_gate'' passed required passed (ctx_list ctx ''environment_evidence'')
       status (PStr ''valid|valid_with_warnings'') GATE_ENVIRONMENT
       ''Resolve preflight environment failures''))"

definition warmup_gate :: gate where
  "warmup_gate ctx = (let ok = ctx_flag ctx ''warmup_ok'' in
     mk_gate ''warmup_gate'' ok True ok (ctx_list ctx ''warmup_evidence'')
       (dget ctx ''warmup_iterations_completed'') (dget ctx ''warmup_iterations_required'')
       GATE_WARMUP ''Ensure warmup iterations complete without errors'')"

definition artifact_completeness_gate :: gate where
  "artifact_completeness_gate ctx = (let ok = ctx_flag ctx ''artifacts_complete'' in
     mk_gate ''artifact_completeness_gate'' ok True ok (ctx_list ctx ''artifact_evidence'')
       (PBool ok) (PBool True) GATE_ARTIFACT_COMPLETENESS
       ''Restore missing trial/evaluation/certification artifacts'')"

definition ALL_GATES :: "gate list" where
  "ALL_GATES = [schema_gate, integrity_gate, model_validation_gate, host_compatibility_gate,
     provider_gate, tensor_contract_gate, semantic_equivalence_gate, quality_gate, memory_gate,
     latency_gate, environment_gate, warmup_gate, artifact_completeness_gate]"

definition run_certification_gates :: "pydict \<Rightarrow> exc + gate_result list" where
  "run_certification_gates ctx = mapR (\<lambda>gate. gate ctx) ALL_GATES"

definition is_certified :: "gate_result list \<Rightarrow> bool" where
  "is_certified results = list_all g_passed (filter g_required results)"

section \<open>Pareto selection\<close>

text \<open>\<open>None\<close>: the early \<open>return False\<close> on a missing objective to maximize. Otherwise the pair
  (\<open>better_or_equal\<close>, \<open>strictly_better\<close>).\<close>

fun compare_max :: "pydict \<Rightarrow> pydict \<Rightarrow> string list \<Rightarrow> bool \<times> bool \<Rightarrow>
    exc + (bool \<times> bool) option" where
  "compare_max a b [] acc = Inr (Some acc)"
| "compare_max a b (k # ks) (boe, strict) = (let av = dget a k; bv = dget b k in
     if av = PNone \<or> bv = PNone then Inr None
     else bindR (py_float av) (\<lambda>x. bindR (py_float bv) (\<lambda>y.
       compare_max a b ks (boe \<and> \<not> fl_lt x y, strict \<or> fl_lt y x))))"

fun compare_min :: "pydict \<Rightarrow> pydict \<Rightarrow> string list \<Rightarrow> bool \<times> bool \<Rightarrow> exc + bool \<times> bool" where
  "compare_min a b [] acc = Inr acc"
| "compare_min a b (k # ks) (boe, strict) = (let av = dget a k; bv = dget b k in
     if av = PNone \<or> bv = PNone then compare_min a b ks (boe, strict)
     else bindR (py_float av) (\<lambda>x. bindR (py_float bv) (\<lambda>y.
       compare_min a b ks (boe \<and> \<not> fl_lt y x, strict \<or> fl_lt x y))))"

definition dominates :: "string list \<Rightarrow> string list \<Rightarrow> pydict \<Rightarrow> pydict \<Rightarrow> exc + bool" where
  "dominates maximize minimize a b =
     bindR (compare_max a b maximize (True, False)) (\<lambda>r. case r of None \<Rightarrow> Inr False
     | Some acc \<Rightarrow> bindR (compare_min a b minimize acc) (\<lambda>(boe, strict). Inr (boe \<and> strict)))"

text \<open>Every element of the list is an object of its own: \<open>other is candidate\<close> compares positions.\<close>

definition dominated_at :: "string list \<Rightarrow> string list \<Rightarrow> pydict list \<Rightarrow> nat \<Rightarrow> exc + bool" where
  "dominated_at maximize minimize feasible i =
     existsR (\<lambda>j. if j = i then Inr False
       else dominates maximize minimize (feasible ! j) (feasible ! i)) [0..<length feasible]"

definition candidate_key :: "pydict \<Rightarrow> string" where
  "candidate_key c = py_str (dget_or c ''candidate_id'' (PStr []))"

definition is_feasible :: "pydict \<Rightarrow> bool" where
  "is_feasible c \<longleftrightarrow> dget c ''certified'' = PBool True"

definition pareto_select_by ::
    "string list \<Rightarrow> string list \<Rightarrow> pydict list \<Rightarrow> exc + pydict list" where
  "pareto_select_by maximize minimize candidates = (let feasible = filter is_feasible candidates in
     bindR (filterR (\<lambda>i. bindR (dominated_at maximize minimize feasible i) (\<lambda>b. Inr (\<not> b)))
       [0..<length feasible]) (\<lambda>idx.
     Inr (sort_by candidate_key (map (nth feasible) idx))))"

definition pareto_select :: "pydict list \<Rightarrow> exc + pydict list" where
  "pareto_select = pareto_select_by [''quality''] [''p99_latency_ms'', ''peak_rss_mb'']"


section \<open>The contract of a gate\<close>

text \<open>
  What \<open>run_certification_gates\<close> and the report rely on: a gate has one name, it gives its one
  reason code and a remediation exactly when it did not pass, and a gate that is not required
  passes. \<open>mandatory_gate\<close> is required on every context.
\<close>

locale certification_gate =
  fixes gate :: gate and name :: string and reason :: reason_code
  assumes gate_named: "gate ctx = Inr g \<Longrightarrow> g_name g = name"
    and gate_reasons: "gate ctx = Inr g \<Longrightarrow> g_reasons g = (if g_passed g then [] else [reason])"
    and gate_remedy: "gate ctx = Inr g \<Longrightarrow> g_remediation g = None \<longleftrightarrow> g_passed g"
    and gate_waived: "gate ctx = Inr g \<Longrightarrow> g_required g \<or> g_passed g"
begin

lemma blocks_iff_reason:
  "gate ctx = Inr g \<Longrightarrow> (g_required g \<longrightarrow> g_passed g) \<longleftrightarrow> g_reasons g = []"
  by (cases "g_passed g") (auto dest: gate_reasons gate_waived)

lemma failed_explained:
  assumes "gate ctx = Inr g" and "\<not> g_passed g"
  shows "g_name g = name \<and> g_required g \<and> g_reasons g = [reason] \<and> g_remediation g \<noteq> None"
  using assms(2) gate_named [OF assms(1)] gate_reasons [OF assms(1)] gate_remedy [OF assms(1)]
    gate_waived [OF assms(1)] by auto

end

locale mandatory_gate = certification_gate +
  assumes gate_mandatory: "gate ctx = Inr g \<Longrightarrow> g_required g"
begin

lemma blocks_when_failed: "gate ctx = Inr g \<Longrightarrow> g_passed g \<longleftrightarrow> (g_required g \<longrightarrow> g_passed g)"
  using gate_mandatory by blast

end

lemma mk_gate_Inr:
  "mk_gate n p r f ev m l c rem = Inr g \<longleftrightarrow> (\<exists>es. ev = Inr es \<and> g = \<lparr>g_name = n, g_passed = p,
     g_required = r, g_evidence = es, g_measured = m, g_threshold = l,
     g_reasons = (if f then [] else [c]), g_remediation = (if f then None else Some rem)\<rparr>)"
  by (auto simp: mk_gate_def bindR_eq_Inr)

lemmas gate_defs = schema_gate_def integrity_gate_def model_validation_gate_def
  host_compatibility_gate_def provider_gate_def tensor_contract_gate_def
  semantic_equivalence_gate_def quality_gate_def memory_gate_def latency_gate_def
  environment_gate_def warmup_gate_def artifact_completeness_gate_def

lemmas gate_simps = mk_gate_Inr bindR_eq_Inr Let_def

interpretation schema: mandatory_gate schema_gate "''schema_gate''" GATE_SCHEMA
  by unfold_locales (auto simp: schema_gate_def gate_simps split: if_splits)

interpretation integrity: mandatory_gate integrity_gate "''integrity_gate''" GATE_INTEGRITY
  by unfold_locales (auto simp: integrity_gate_def gate_simps split: if_splits)

interpretation model_validation: mandatory_gate model_validation_gate
    "''model_validation_gate''" GATE_MODEL_VALIDATION
  by unfold_locales (auto simp: model_validation_gate_def gate_simps split: if_splits)

interpretation host_compatibility: mandatory_gate host_compatibility_gate
    "''host_compatibility_gate''" GATE_HOST_COMPATIBILITY
  by unfold_locales (auto simp: host_compatibility_gate_def gate_simps split: if_splits)

interpretation provider: mandatory_gate provider_gate "''provider_gate''" GATE_PROVIDER
  by unfold_locales (auto simp: provider_gate_def gate_simps split: if_splits)

interpretation tensor_contract: mandatory_gate tensor_contract_gate
    "''tensor_contract_gate''" GATE_TENSOR_CONTRACT
  by unfold_locales (auto simp: tensor_contract_gate_def gate_simps split: if_splits)

interpretation semantic_equivalence: certification_gate semantic_equivalence_gate
    "''semantic_equivalence_gate''" GATE_SEMANTIC_EQUIVALENCE
  by unfold_locales (auto simp: semantic_equivalence_gate_def gate_simps split: if_splits)

interpretation quality: mandatory_gate quality_gate "''quality_gate''" GATE_QUALITY
  by unfold_locales (auto simp: quality_gate_def gate_simps split: if_splits)

interpretation memory: mandatory_gate memory_gate "''memory_gate''" GATE_MEMORY
  by unfold_locales (auto simp: memory_gate_def gate_simps split: if_splits)

interpretation latency: mandatory_gate latency_gate "''latency_gate''" GATE_LATENCY
  by unfold_locales (auto simp: latency_gate_def gate_simps split: if_splits)

interpretation environment: certification_gate environment_gate
    "''environment_gate''" GATE_ENVIRONMENT
  by unfold_locales (auto simp: environment_gate_def gate_simps split: if_splits)

interpretation warmup: mandatory_gate warmup_gate "''warmup_gate''" GATE_WARMUP
  by unfold_locales (auto simp: warmup_gate_def gate_simps split: if_splits)

interpretation artifact_completeness: mandatory_gate artifact_completeness_gate
    "''artifact_completeness_gate''" GATE_ARTIFACT_COMPLETENESS
  by unfold_locales (auto simp: artifact_completeness_gate_def gate_simps split: if_splits)

lemmas all_gates_blocks = schema.blocks_iff_reason integrity.blocks_iff_reason
  model_validation.blocks_iff_reason host_compatibility.blocks_iff_reason
  provider.blocks_iff_reason tensor_contract.blocks_iff_reason
  semantic_equivalence.blocks_iff_reason quality.blocks_iff_reason memory.blocks_iff_reason
  latency.blocks_iff_reason environment.blocks_iff_reason warmup.blocks_iff_reason
  artifact_completeness.blocks_iff_reason

lemmas all_gates_named = schema.gate_named integrity.gate_named model_validation.gate_named
  host_compatibility.gate_named provider.gate_named tensor_contract.gate_named
  semantic_equivalence.gate_named quality.gate_named memory.gate_named latency.gate_named
  environment.gate_named warmup.gate_named artifact_completeness.gate_named

lemmas all_gates_explained = schema.failed_explained integrity.failed_explained model_validation.failed_explained
  host_compatibility.failed_explained provider.failed_explained tensor_contract.failed_explained
  semantic_equivalence.failed_explained quality.failed_explained memory.failed_explained
  latency.failed_explained environment.failed_explained warmup.failed_explained
  artifact_completeness.failed_explained

lemma run_gates_Inr:
  "run_certification_gates ctx = Inr gs \<longleftrightarrow> list_all2 (\<lambda>gate g. gate ctx = Inr g) ALL_GATES gs"
  by (simp add: run_certification_gates_def mapR_list_all2)

lemma gate_blocks_iff_reason:
  "gate \<in> set ALL_GATES \<Longrightarrow> gate ctx = Inr g \<Longrightarrow>
   (g_required g \<longrightarrow> g_passed g) \<longleftrightarrow> g_reasons g = []"
  unfolding ALL_GATES_def by (auto dest: all_gates_blocks)

lemma gate_failed_explained:
  "gate \<in> set ALL_GATES \<Longrightarrow> gate ctx = Inr g \<Longrightarrow>
   g_passed g \<or> (g_required g \<and> g_reasons g \<noteq> [] \<and> g_remediation g \<noteq> None)"
  unfolding ALL_GATES_def by (auto dest: all_gates_explained)

definition gate_names :: "string list" where
  "gate_names = [''schema_gate'', ''integrity_gate'', ''model_validation_gate'',
     ''host_compatibility_gate'', ''provider_gate'', ''tensor_contract_gate'',
     ''semantic_equivalence_gate'', ''quality_gate'', ''memory_gate'', ''latency_gate'',
     ''environment_gate'', ''warmup_gate'', ''artifact_completeness_gate'']"

lemma run_gates_named: "run_certification_gates ctx = Inr gs \<Longrightarrow> map g_name gs = gate_names"
  unfolding run_gates_Inr ALL_GATES_def gate_names_def
  by (auto simp: list_all2_Cons1 dest!: all_gates_named)

lemma is_certified_Cons:
  "is_certified (g # gs) \<longleftrightarrow> (g_required g \<longrightarrow> g_passed g) \<and> is_certified gs"
  by (simp add: is_certified_def)

lemma is_certified_Nil: "is_certified []"
  by (simp add: is_certified_def)

lemmas is_certified_simps = is_certified_Cons is_certified_Nil

lemma run_gates_certified_iff_no_reason:
  assumes "run_certification_gates ctx = Inr gs"
  shows "is_certified gs \<longleftrightarrow> concat (map g_reasons gs) = []"
proof -
  have "(g_required g \<longrightarrow> g_passed g) \<longleftrightarrow> g_reasons g = []" if "g \<in> set gs" for g
  proof -
    from that obtain i where "i < length gs" "gs ! i = g" by (auto simp: in_set_conv_nth)
    with assms have "ALL_GATES ! i \<in> set ALL_GATES" "(ALL_GATES ! i) ctx = Inr g"
      unfolding run_gates_Inr by (auto simp: list_all2_conv_all_nth)
    then show ?thesis by (rule gate_blocks_iff_reason)
  qed
  then show ?thesis by (auto simp: is_certified_def list_all_iff)
qed

lemma run_gates_explained:
  assumes "run_certification_gates ctx = Inr gs"
  shows "list_all (\<lambda>g. g_passed g \<or> (g_required g \<and> g_reasons g \<noteq> [] \<and> g_remediation g \<noteq> None)) gs"
proof -
  have "g_passed g \<or> (g_required g \<and> g_reasons g \<noteq> [] \<and> g_remediation g \<noteq> None)"
    if "g \<in> set gs" for g
  proof -
    from that obtain i where "i < length gs" "gs ! i = g" by (auto simp: in_set_conv_nth)
    with assms have "ALL_GATES ! i \<in> set ALL_GATES" "(ALL_GATES ! i) ctx = Inr g"
      unfolding run_gates_Inr by (auto simp: list_all2_conv_all_nth)
    then show ?thesis by (rule gate_failed_explained)
  qed
  then show ?thesis by (simp add: list_all_iff)
qed

text \<open>What each gate decides.\<close>

lemma schema_verdict:
  "schema_gate ctx = Inr g \<Longrightarrow> (g_required g \<longrightarrow> g_passed g) \<longleftrightarrow> ctx_flag ctx ''schema_valid''"
  by (auto simp: schema_gate_def gate_simps)

lemma integrity_verdict:
  "integrity_gate ctx = Inr g \<Longrightarrow> (g_required g \<longrightarrow> g_passed g) \<longleftrightarrow> ctx_flag ctx ''integrity_ok''"
  by (auto simp: integrity_gate_def gate_simps)

lemma model_validation_verdict:
  "model_validation_gate ctx = Inr g \<Longrightarrow> (g_required g \<longrightarrow> g_passed g) \<longleftrightarrow> ctx_flag ctx ''model_valid''"
  by (auto simp: model_validation_gate_def gate_simps)

lemma host_compatibility_verdict:
  "host_compatibility_gate ctx = Inr g \<Longrightarrow> (g_required g \<longrightarrow> g_passed g) \<longleftrightarrow> ctx_flag ctx ''host_compatible''"
  by (auto simp: host_compatibility_gate_def gate_simps)

lemma provider_verdict:
  "provider_gate ctx = Inr g \<Longrightarrow> (g_required g \<longrightarrow> g_passed g) \<longleftrightarrow> ctx_flag ctx ''provider_ok''"
  by (auto simp: provider_gate_def gate_simps)

lemma tensor_contract_verdict:
  "tensor_contract_gate ctx = Inr g \<Longrightarrow> (g_required g \<longrightarrow> g_passed g) \<longleftrightarrow> ctx_flag ctx ''tensor_contract_ok''"
  by (auto simp: tensor_contract_gate_def gate_simps)

lemma quality_verdict:
  "quality_gate ctx = Inr g \<Longrightarrow> (g_required g \<longrightarrow> g_passed g) \<longleftrightarrow> ctx_flag ctx ''quality_ok''"
  by (auto simp: quality_gate_def gate_simps)

lemma warmup_verdict:
  "warmup_gate ctx = Inr g \<Longrightarrow> (g_required g \<longrightarrow> g_passed g) \<longleftrightarrow> ctx_flag ctx ''warmup_ok''"
  by (auto simp: warmup_gate_def gate_simps)

lemma artifact_completeness_verdict:
  "artifact_completeness_gate ctx = Inr g \<Longrightarrow> (g_required g \<longrightarrow> g_passed g) \<longleftrightarrow> ctx_flag ctx ''artifacts_complete''"
  by (auto simp: artifact_completeness_gate_def gate_simps)

lemma semantic_equivalence_verdict:
  "semantic_equivalence_gate ctx = Inr g \<Longrightarrow> (g_required g \<longrightarrow> g_passed g) \<longleftrightarrow>
    (truthy (dget_or ctx ''require_output_equivalence'' (PBool True)) \<longrightarrow>
     ctx_flag ctx ''equivalence_ok'')"
  by (auto simp: semantic_equivalence_gate_def gate_simps)

lemma memory_verdict:
  "memory_gate ctx = Inr g \<Longrightarrow> (g_required g \<longrightarrow> g_passed g) \<longleftrightarrow>
    within_limit (dget ctx ''peak_rss_mb'') (dget ctx ''maximum_peak_rss_mb'') = Inr True"
  by (auto simp: memory_gate_def gate_simps)

lemma latency_verdict:
  "latency_gate ctx = Inr g \<Longrightarrow> (g_required g \<longrightarrow> g_passed g) \<longleftrightarrow>
    within_limit (dget ctx ''latency_ms'') (dget ctx ''deadline_ms'') = Inr True"
  by (auto simp: latency_gate_def gate_simps)

lemma environment_verdict:
  "environment_gate ctx = Inr g \<Longrightarrow> (g_required g \<longrightarrow> g_passed g) \<longleftrightarrow>
    (truthy (dget_or ctx ''require_valid_environment'' (PBool True)) \<longrightarrow>
     dget_or ctx ''environment_status'' (PStr ''invalid'')
       \<in> {PStr ''valid'', PStr ''valid_with_warnings''})"
  by (cases "dget_or ctx ''environment_status'' (PStr ''invalid'')")
    (auto simp: environment_gate_def gate_simps)

lemmas gate_verdicts = schema_verdict integrity_verdict model_validation_verdict
  host_compatibility_verdict provider_verdict tensor_contract_verdict quality_verdict
  warmup_verdict artifact_completeness_verdict semantic_equivalence_verdict memory_verdict
  latency_verdict environment_verdict

section \<open>Domination is a strict order on complete candidates\<close>

text \<open>The objectives of a candidate as numbers: present and convertible by \<open>float\<close>, not a NaN.\<close>

definition objective :: "pydict \<Rightarrow> string \<Rightarrow> pyfloat option" where
  "objective c k = (if dget c k = PNone then None else
     (case py_float (dget c k) of Inl e \<Rightarrow> None
      | Inr f \<Rightarrow> if f = NaN then None else Some f))"

definition complete_candidate :: "string list \<Rightarrow> pydict \<Rightarrow> bool" where
  "complete_candidate ks c \<longleftrightarrow> list_all (\<lambda>k. objective c k \<noteq> None) ks"

definition value_of :: "pydict \<Rightarrow> string \<Rightarrow> pyfloat" where
  "value_of c k = the (objective c k)"

definition no_worse :: "string list \<Rightarrow> string list \<Rightarrow> pydict \<Rightarrow> pydict \<Rightarrow> bool" where
  "no_worse mx mn a b \<longleftrightarrow> list_all (\<lambda>k. fl_le (value_of b k) (value_of a k)) mx
     \<and> list_all (\<lambda>k. fl_le (value_of a k) (value_of b k)) mn"

definition better :: "string list \<Rightarrow> string list \<Rightarrow> pydict \<Rightarrow> pydict \<Rightarrow> bool" where
  "better mx mn a b \<longleftrightarrow> no_worse mx mn a b \<and>
     (list_ex (\<lambda>k. fl_lt (value_of b k) (value_of a k)) mx
      \<or> list_ex (\<lambda>k. fl_lt (value_of a k) (value_of b k)) mn)"

lemma objectiveD:
  assumes "objective c k \<noteq> None"
  shows "dget c k \<noteq> PNone" "py_float (dget c k) = Inr (value_of c k)" "value_of c k \<noteq> NaN"
  using assms by (auto simp: objective_def value_of_def split: if_splits sum.splits)

lemma compare_max_complete:
  assumes "complete_candidate ks a" and "complete_candidate ks b"
  shows "compare_max a b ks (boe, st) = Inr (Some
    (boe \<and> list_all (\<lambda>k. fl_le (value_of b k) (value_of a k)) ks,
     st \<or> list_ex (\<lambda>k. fl_lt (value_of b k) (value_of a k)) ks))"
  using assms
proof (induction ks arbitrary: boe st)
  case (Cons k ks)
  then show ?case
    using objectiveD [of a k] objectiveD [of b k]
    by (simp add: complete_candidate_def Let_def fl_not_lt)
qed simp

lemma compare_min_complete:
  assumes "complete_candidate ks a" and "complete_candidate ks b"
  shows "compare_min a b ks (boe, st) = Inr
    (boe \<and> list_all (\<lambda>k. fl_le (value_of a k) (value_of b k)) ks,
     st \<or> list_ex (\<lambda>k. fl_lt (value_of a k) (value_of b k)) ks)"
  using assms
proof (induction ks arbitrary: boe st)
  case (Cons k ks)
  then show ?case
    using objectiveD [of a k] objectiveD [of b k]
    by (simp add: complete_candidate_def Let_def fl_not_lt)
qed simp

lemma dominates_complete:
  assumes "complete_candidate (mx @ mn) a" and "complete_candidate (mx @ mn) b"
  shows "dominates mx mn a b = Inr (better mx mn a b)"
proof -
  have "complete_candidate mx a" "complete_candidate mn a" "complete_candidate mx b"
      "complete_candidate mn b"
    using assms by (simp_all add: complete_candidate_def)
  then show ?thesis
    by (simp add: dominates_def compare_max_complete compare_min_complete better_def no_worse_def)
qed

lemma better_irrefl: "\<not> better mx mn a a"
  by (simp add: better_def list_ex_iff)

lemma better_trans: "better mx mn a b \<Longrightarrow> better mx mn b c \<Longrightarrow> better mx mn a c"
  unfolding better_def no_worse_def list_all_iff list_ex_iff
  by (blast intro: fl_le_trans fl_lt_le_trans fl_le_lt_trans)

text \<open>Under a strict order on finitely many positions, every one is or is below an undominated one.\<close>

lemma exists_undominated:
  assumes irr: "\<And>i. \<not> R i i" and tr: "\<And>i j k. R i j \<Longrightarrow> R j k \<Longrightarrow> R i k" and "i < (n::nat)"
  shows "\<exists>k<n. (k = i \<or> R k i) \<and> (\<forall>j<n. \<not> R j k)"
  using assms(3)
proof (induction "card {j. j < n \<and> R j i}" arbitrary: i rule: less_induct)
  case less
  show ?case
  proof (cases "\<exists>j<n. R j i")
    case False
    with less.prems show ?thesis by blast
  next
    case True
    then obtain j where j: "j < n" "R j i" by blast
    have "{k. k < n \<and> R k j} \<subset> {k. k < n \<and> R k i}" using j irr tr by blast
    then have "card {k. k < n \<and> R k j} < card {k. k < n \<and> R k i}" by (simp add: psubset_card_mono)
    from less.hyps [OF this j(1)] j(2) tr show ?thesis by blast
  qed
qed

section \<open>The frontier\<close>

definition undominated :: "string list \<Rightarrow> string list \<Rightarrow> pydict list \<Rightarrow> nat \<Rightarrow> bool" where
  "undominated mx mn cs i \<longleftrightarrow> (\<forall>j < length cs. j \<noteq> i \<longrightarrow> \<not> better mx mn (cs ! j) (cs ! i))"

lemma dominated_at_complete:
  assumes "\<forall>c\<in>set cs. complete_candidate (mx @ mn) c" and "i < length cs"
  shows "dominated_at mx mn cs i = Inr (\<not> undominated mx mn cs i)"
proof -
  have "(if j = i then Inr False else dominates mx mn (cs ! j) (cs ! i))
      = Inr (j \<noteq> i \<and> better mx mn (cs ! j) (cs ! i))" if "j \<in> set [0..<length cs]" for j
    using that assms by (simp add: dominates_complete)
  from existsR_ex [of "[0..<length cs]", OF this] show ?thesis
    by (auto simp: dominated_at_def undominated_def list_ex_iff)
qed

lemma pareto_select_by_complete:
  assumes "\<forall>c\<in>set (filter is_feasible cs). complete_candidate (mx @ mn) c"
  shows "pareto_select_by mx mn cs = Inr (sort_by candidate_key (map (nth (filter is_feasible cs))
    (filter (undominated mx mn (filter is_feasible cs)) [0..<length (filter is_feasible cs)])))"
proof -
  let ?f = "filter is_feasible cs"
  have "bindR (dominated_at mx mn ?f i) (\<lambda>b. Inr (\<not> b)) = Inr (undominated mx mn ?f i)"
    if "i \<in> set [0..<length ?f]" for i
    using that assms by (simp add: dominated_at_complete)
  from filterR_filter [of "[0..<length ?f]", OF this] show ?thesis
    by (simp add: pareto_select_by_def Let_def)
qed

lemma pareto_select_by_set:
  assumes "pareto_select_by mx mn cs = Inr fs"
  shows "set fs = {filter is_feasible cs ! i | i. i < length (filter is_feasible cs)
     \<and> dominated_at mx mn (filter is_feasible cs) i = Inr False}"
  using assms filterR_set
  by (fastforce simp: pareto_select_by_def Let_def bindR_eq_Inr)

lemma pareto_select_by_sorted:
  "pareto_select_by mx mn cs = Inr fs \<Longrightarrow>
   sorted_wrt (\<lambda>a b. str_le (candidate_key a) (candidate_key b)) fs"
  by (auto simp: pareto_select_by_def Let_def bindR_eq_Inr sorted_sort_by)


lemma candidate_covered:
  assumes "i < length cs"
  shows "\<exists>k<length cs. (k = i \<or> better mx mn (cs ! k) (cs ! i)) \<and> undominated mx mn cs k"
  using exists_undominated [of "\<lambda>j i. better mx mn (cs ! j) (cs ! i)" i "length cs"] assms
    better_irrefl better_trans
  unfolding undominated_def by (smt (verit, best))

section \<open>Properties\<close>

text \<open>C8. A context is certified exactly when its nine plain checks hold, peak memory and latency
  are known and within their limits, the equivalence check holds unless it was not required, and the
  environment status is valid (perhaps with warnings) unless that was not required.\<close>

theorem certified_iff_context:
  assumes "run_certification_gates ctx = Inr gs"
  shows "is_certified gs \<longleftrightarrow>
    list_all (ctx_flag ctx) [''schema_valid'', ''integrity_ok'', ''model_valid'',
      ''host_compatible'', ''provider_ok'', ''tensor_contract_ok'', ''quality_ok'', ''warmup_ok'',
      ''artifacts_complete'']
    \<and> within_limit (dget ctx ''peak_rss_mb'') (dget ctx ''maximum_peak_rss_mb'') = Inr True
    \<and> within_limit (dget ctx ''latency_ms'') (dget ctx ''deadline_ms'') = Inr True
    \<and> (truthy (dget_or ctx ''require_output_equivalence'' (PBool True)) \<longrightarrow>
        ctx_flag ctx ''equivalence_ok'')
    \<and> (truthy (dget_or ctx ''require_valid_environment'' (PBool True)) \<longrightarrow>
        dget_or ctx ''environment_status'' (PStr ''invalid'')
          \<in> {PStr ''valid'', PStr ''valid_with_warnings''})"
proof -
  from assms obtain g1 g2 g3 g4 g5 g6 g7 g8 g9 g10 g11 g12 g13 where run:
      "schema_gate ctx = Inr g1" "integrity_gate ctx = Inr g2"
      "model_validation_gate ctx = Inr g3" "host_compatibility_gate ctx = Inr g4"
      "provider_gate ctx = Inr g5" "tensor_contract_gate ctx = Inr g6"
      "semantic_equivalence_gate ctx = Inr g7" "quality_gate ctx = Inr g8"
      "memory_gate ctx = Inr g9" "latency_gate ctx = Inr g10"
      "environment_gate ctx = Inr g11" "warmup_gate ctx = Inr g12"
      "artifact_completeness_gate ctx = Inr g13"
      and gs: "gs = [g1, g2, g3, g4, g5, g6, g7, g8, g9, g10, g11, g12, g13]"
    unfolding run_gates_Inr ALL_GATES_def by (auto simp: list_all2_Cons1)
  show ?thesis
    unfolding gs is_certified_simps schema_verdict [OF run(1)] integrity_verdict [OF run(2)] model_validation_verdict [OF run(3)]
    host_compatibility_verdict [OF run(4)] provider_verdict [OF run(5)] tensor_contract_verdict [OF run(6)]
    semantic_equivalence_verdict [OF run(7)] quality_verdict [OF run(8)] memory_verdict [OF run(9)]
    latency_verdict [OF run(10)] environment_verdict [OF run(11)] warmup_verdict [OF run(12)]
    artifact_completeness_verdict [OF run(13)]
    by (simp only: is_certified_Nil list.pred_inject simp_thms) blast
qed

definition good_context :: pydict where
  "good_context = [(''schema_valid'', PBool True), (''integrity_ok'', PBool True),
     (''model_valid'', PBool True), (''host_compatible'', PBool True), (''provider_ok'', PBool True),
     (''tensor_contract_ok'', PBool True), (''quality_ok'', PBool True), (''warmup_ok'', PBool True),
     (''artifacts_complete'', PBool True), (''equivalence_ok'', PBool True),
     (''peak_rss_mb'', PFloat (Fin 100)), (''maximum_peak_rss_mb'', PFloat (Fin 512)),
     (''latency_ms'', PFloat (Fin 8)), (''deadline_ms'', PFloat (Fin 33)),
     (''environment_status'', PStr ''valid''), (''schema_evidence'', PList [PStr ''e.json''])]"

definition good_gates :: "gate_result list" where
  "good_gates = (case run_certification_gates good_context of Inr gs \<Rightarrow> gs | Inl e \<Rightarrow> [])"

lemma good_gates_pass: "\<exists>gs. run_certification_gates good_context = Inr gs \<and> is_certified gs"
  by (simp add: good_context_def run_certification_gates_def ALL_GATES_def gate_defs mk_gate_def
      ctx_flag_def ctx_list_def within_limit_def is_certified_def)

lemma run_good_context: "run_certification_gates good_context = Inr good_gates"
  and certified_good: "is_certified good_gates"
  using good_gates_pass by (auto simp: good_gates_def)

theorem certified_iff_context_witness: "is_certified good_gates"
  unfolding certified_iff_context [OF run_good_context]
  by (simp add: ctx_flag_def within_limit_def good_context_def)

text \<open>C17. The gates report in their fixed order; the verdict is positive exactly when no gate gives
  a reason code, and a gate that did not pass is required, gives a reason code and a remediation.\<close>

theorem verdict_is_explained:
  assumes "run_certification_gates ctx = Inr gs"
  shows "map g_name gs = gate_names
    \<and> (is_certified gs \<longleftrightarrow> concat (map g_reasons gs) = [])
    \<and> list_all (\<lambda>g. g_passed g \<or> (g_required g \<and> g_reasons g \<noteq> [] \<and> g_remediation g \<noteq> None)) gs"
  using run_gates_named [OF assms] run_gates_certified_iff_no_reason [OF assms]
    run_gates_explained [OF assms] by blast

theorem verdict_is_explained_witness: "concat (map g_reasons good_gates) = []"
  using verdict_is_explained [OF run_good_context] certified_good by blast

text \<open>C9. When every certified candidate has its objectives as numbers, the selection returns the
  undominated ones, sorted by id, and every certified candidate is on the frontier or is beaten by
  one that is; in particular the frontier is empty only when nothing is certified.\<close>

theorem pareto_frontier:
  assumes "\<forall>c\<in>set (filter is_feasible cs).
    complete_candidate [''quality'', ''p99_latency_ms'', ''peak_rss_mb''] c"
  shows "\<exists>fs. pareto_select cs = Inr fs
    \<and> sorted_wrt (\<lambda>a b. str_le (candidate_key a) (candidate_key b)) fs
    \<and> set fs = {c \<in> set cs. is_feasible c \<and> \<not> (\<exists>d\<in>set cs. is_feasible d \<and>
        better [''quality''] [''p99_latency_ms'', ''peak_rss_mb''] d c)}
    \<and> (\<forall>c\<in>set cs. is_feasible c \<longrightarrow>
        c \<in> set fs \<or> (\<exists>d\<in>set fs. better [''quality''] [''p99_latency_ms'', ''peak_rss_mb''] d c))"
proof -
  define F where "F = filter is_feasible cs"
  let ?mx = "[''quality'']" and ?mn = "[''p99_latency_ms'', ''peak_rss_mb'']"
  obtain fs where run: "pareto_select cs = Inr fs"
      and fs: "fs = sort_by candidate_key (map (nth F) (filter (undominated ?mx ?mn F) [0..<length F]))"
    using pareto_select_by_complete [of cs ?mx ?mn] assms
    by (simp add: pareto_select_def F_def)
  have und: "undominated ?mx ?mn F i \<longleftrightarrow> (\<forall>d\<in>set F. \<not> better ?mx ?mn d (F ! i))"
    if "i < length F" for i
    using that better_irrefl unfolding undominated_def by (metis in_set_conv_nth)
  have mem: "c \<in> set fs \<longleftrightarrow> (\<exists>i<length F. c = F ! i \<and> undominated ?mx ?mn F i)" for c
    unfolding fs by auto
  have "c \<in> set fs \<longleftrightarrow> c \<in> set F \<and> (\<forall>d\<in>set F. \<not> better ?mx ?mn d c)" for c
    using mem [of c] und by (metis in_set_conv_nth)
  then have "set fs = {c \<in> set F. \<forall>d\<in>set F. \<not> better ?mx ?mn d c}" by blast
  moreover have "c \<in> set fs \<or> (\<exists>d\<in>set fs. better ?mx ?mn d c)" if "c \<in> set F" for c
  proof -
    from that obtain i where i: "i < length F" "c = F ! i" by (auto simp: in_set_conv_nth)
    from candidate_covered [OF i(1), of ?mx ?mn] mem i(2) show ?thesis by blast
  qed
  moreover have "sorted_wrt (\<lambda>a b. str_le (candidate_key a) (candidate_key b)) fs"
    unfolding fs by (rule sorted_sort_by)
  ultimately show ?thesis using run unfolding F_def by auto
qed

definition sample_candidate :: "string \<Rightarrow> rat \<Rightarrow> pyval \<Rightarrow> pyval \<Rightarrow> pydict" where
  "sample_candidate i q lat rss = [(''candidate_id'', PStr i), (''certified'', PBool True),
     (''quality'', PFloat (Fin q)), (''p99_latency_ms'', lat), (''peak_rss_mb'', rss)]"

definition two_candidates :: "pydict list" where
  "two_candidates = [sample_candidate ''b'' (9/10) (PFloat (Fin 8)) (PFloat (Fin 100)),
     sample_candidate ''a'' (9/10) (PFloat (Fin 9)) (PFloat (Fin 100))]"

theorem pareto_frontier_witness:
  "\<exists>fs. pareto_select two_candidates = Inr fs \<and> set fs \<subseteq> set two_candidates \<and> fs \<noteq> []"
proof -
  let ?c = "sample_candidate ''b'' (9/10) (PFloat (Fin 8)) (PFloat (Fin 100))"
  have "\<forall>c\<in>set (filter is_feasible two_candidates).
      complete_candidate [''quality'', ''p99_latency_ms'', ''peak_rss_mb''] c"
    by (simp add: two_candidates_def sample_candidate_def complete_candidate_def objective_def)
  from pareto_frontier [OF this] obtain fs where run: "pareto_select two_candidates = Inr fs"
      and sub: "set fs = {c \<in> set two_candidates. is_feasible c \<and> \<not> (\<exists>d\<in>set two_candidates.
        is_feasible d \<and> better [''quality''] [''p99_latency_ms'', ''peak_rss_mb''] d c)}"
      and cov: "\<forall>c\<in>set two_candidates. is_feasible c \<longrightarrow>
        c \<in> set fs \<or> (\<exists>d\<in>set fs. better [''quality''] [''p99_latency_ms'', ''peak_rss_mb''] d c)"
    by (elim exE conjE) (rule that)
  have c: "?c \<in> set two_candidates" "is_feasible ?c"
    by (simp_all add: two_candidates_def sample_candidate_def is_feasible_def)
  have "fs \<noteq> []" using bspec [OF cov c(1), rule_format, OF c(2)] by (cases fs) simp_all
  moreover have "set fs \<subseteq> set two_candidates" unfolding sub by (rule Collect_restrict)
  ultimately show ?thesis using run by (intro exI [of _ fs] conjI)
qed

text \<open>Four candidates of one quality; the first has no memory measurement, the third no latency.\<close>

definition candidate_circle :: "rat \<Rightarrow> rat \<Rightarrow> rat \<Rightarrow> rat \<Rightarrow> rat \<Rightarrow> rat \<Rightarrow> rat \<Rightarrow> pydict list" where
  "candidate_circle q x0 x1 x2 y1 y2 y3 =
     [sample_candidate ''a'' q (PFloat (Fin x1)) PNone,
      sample_candidate ''b'' q (PFloat (Fin x2)) (PFloat (Fin y1)),
      sample_candidate ''c'' q PNone (PFloat (Fin y2)),
      sample_candidate ''d'' q (PFloat (Fin x0)) (PFloat (Fin y3))]"

lemma sample_fields: "dget (sample_candidate i q lat rss) ''quality'' = PFloat (Fin q)"
  "dget (sample_candidate i q lat rss) ''p99_latency_ms'' = lat" "dget (sample_candidate i q lat rss) ''peak_rss_mb'' = rss"
  "is_feasible (sample_candidate i q lat rss)"
  by (simp_all add: sample_candidate_def dget_def is_feasible_def)

text \<open>C24. With measurements missing the comparison is not an order. Whatever their common quality and
  their measurements \<open>x0 < x1 < x2\<close> and \<open>y1 < y2 < y3\<close>, four certified candidates, of which one has no
  memory measurement and one no latency, dominate one another in a circle, each the next, and the
  selection returns an empty frontier although all four are certified.\<close>

theorem pareto_frontier_can_vanish:
  assumes "x0 < x1" "x1 < x2" "y1 < y2" "y2 < y3" and "cs = candidate_circle q x0 x1 x2 y1 y2 y3"
  shows "list_all is_feasible cs \<and> length cs = 4 \<and> pareto_select cs = Inr []
    \<and> (\<forall>i<4. dominates [''quality''] [''p99_latency_ms'', ''peak_rss_mb''] (cs ! i) (cs ! ((i + 1) mod 4)) = Inr True)"
proof -
  have l: "length cs = 4" "list_all is_feasible cs" "filter is_feasible cs = cs"
    using assms(5) by (simp_all add: candidate_circle_def sample_fields)
  have d: "dominates [''quality''] [''p99_latency_ms'', ''peak_rss_mb''] (cs ! i) (cs ! ((i + 1) mod 4)) = Inr True"
    if "i < 4" for i
  proof -
    have "i = 0 \<or> i = 1 \<or> i = 2 \<or> i = 3" using that by auto
    then show ?thesis using assms by (auto simp: candidate_circle_def dominates_def sample_fields)
  qed
  have total: "\<exists>b. dominates [''quality''] [''p99_latency_ms'', ''peak_rss_mb''] x y = Inr b" if "x \<in> set cs" "y \<in> set cs" for x y
    using that assms(5) by (auto simp: candidate_circle_def dominates_def sample_fields)
  have "dominated_at [''quality''] [''p99_latency_ms'', ''peak_rss_mb''] cs i = Inr True" if "i < 4" for i
  proof -
    let ?f = "\<lambda>j. if j = i then Inr False else dominates [''quality''] [''p99_latency_ms'', ''peak_rss_mb''] (cs ! j) (cs ! i)"
    let ?j = "(i + 3) mod 4"
    have "?f j = Inr (?f j = Inr True)" if "j \<in> set [0..<length cs]" for j
      using total [of "cs ! j" "cs ! i"] that \<open>i < 4\<close> l(1) by (auto)
    note ex = existsR_ex [of "[0..<length cs]", OF this]
    have "i = 0 \<or> i = 1 \<or> i = 2 \<or> i = 3" using that by auto
    then have j: "?j \<noteq> i" "(?j + 1) mod 4 = i" by auto
    have "?j < 4" by simp
    with d [of ?j] j have "?f ?j = Inr True" by simp
    moreover have "?j \<in> set [0..<length cs]" using \<open>?j < 4\<close> l(1) by simp
    ultimately have "list_ex (\<lambda>j. ?f j = Inr True) [0..<length cs]" unfolding list_ex_iff by (rule bexI)
    with ex show ?thesis by (simp add: dominated_at_def)
  qed
  then have e: "filterR (\<lambda>i. bindR (dominated_at [''quality''] [''p99_latency_ms'', ''peak_rss_mb''] cs i) (\<lambda>b. Inr (\<not> b))) [0..<length cs] = Inr []"
    by (subst filterR_filter [where P = "\<lambda>_. False"]) (simp_all add: l(1))
  have "pareto_select cs = Inr []"
    by (simp add: pareto_select_def pareto_select_by_def l(3) e sort_by_def)
  with l d show ?thesis by blast
qed
theorem pareto_frontier_can_vanish_witness:
  "pareto_select (candidate_circle (9/10) 0 1 2 1 2 3) = Inr []"
  using pareto_frontier_can_vanish [of 0 1 2 1 2 3 _ "9/10", OF _ _ _ _ refl] by simp

end
