(* ===== verification/Cert_Context.thy ===== *)
theory Cert_Context
  imports Doc_Store Certification
begin

text \<open>
  \<open>perceptshift_forge/certification/context.py\<close>: the gate inputs computed from the artifacts of
  a candidate, each with an evidence document written under the workspace. \<open>onnx\_check\<close> stands
  for \<open>onnx.load\<close> followed by \<open>onnx.checker.check\_model\<close> and gives the graph's inputs and outputs.
\<close>

type_synonym onnx_lib = "world \<Rightarrow> ppath \<Rightarrow> exc + pyval list \<times> pyval list"

record cert_inputs =
  ci_root :: ppath
  ci_candidate :: string
  ci_manifest :: pydict
  ci_trial :: pydict
  ci_evaluation :: pydict
  ci_inspection :: "pydict option"
  ci_cfg :: pydict
  ci_environment :: "string option"
  ci_host_path :: "ppath option"

definition pass_fail :: "bool \<Rightarrow> pyval" where
  "pass_fail ok = PStr (if ok then ''pass'' else ''fail'')"

definition evidence_dir :: "cert_inputs \<Rightarrow> ppath" where
  "evidence_dir ci = path_div (path_div (path_div (ci_root ci) ''certification'') ''evidence'')
     (ci_candidate ci)"

definition evidence_ref :: "ppath \<Rightarrow> pyval" where
  "evidence_ref path = PStr (''certification/evidence/'' @ path_name path)"

definition write_evidence :: "ext \<Rightarrow> ppath \<Rightarrow> string \<Rightarrow> pydict \<Rightarrow> (pyval \<times> string) io" where
  "write_evidence X dir name payload = (let path = path_div dir (name @ ''.json'') in
     bindS (envelope_fields X ''perceptshift.certification_evidence'') (\<lambda>doc.
     bindS (get_version X) (\<lambda>v.
     bindS (utc_now_rfc3339 X) (\<lambda>now.
     bindS (write_atomic_json X path (PDict (dupdate doc (dupdate
       [(''validator'', PStr name), (''validator_version'', PStr v), (''timestamp'', PStr now)]
       payload)))) (\<lambda>u.
     bindS (sha256_file X path) (\<lambda>h.
     retS (evidence_ref path, h)))))))"

text \<open>The evidence document of one validator; only its reference enters the context.\<close>

definition evidence :: "ext \<Rightarrow> cert_inputs \<Rightarrow> string \<Rightarrow> pydict \<Rightarrow> pyval io" where
  "evidence X ci name payload =
     bindS (write_evidence X (evidence_dir ci) name payload) (\<lambda>(ref, h). retS ref)"

section \<open>The policy fields\<close>

record cert_policy =
  cp_equivalence :: bool
  cp_environment :: bool
  cp_peak :: pyfloat
  cp_deadline :: pyfloat
  cp_quality :: pyval

definition certification_policy :: "pydict \<Rightarrow> exc + cert_policy" where
  "certification_policy cfg =
     bindR (py_float (py_or (dget cfg ''maximum_peak_rss_mb'') (PInt 2048))) (\<lambda>peak.
     bindR (py_float (py_or (dget cfg ''deadline_ms'') (PFloat (Fin 100)))) (\<lambda>deadline.
     bindR (sub_dict cfg ''quality'') (\<lambda>q.
     Inr \<lparr>cp_equivalence = truthy (dget cfg ''require_output_equivalence''),
       cp_environment = truthy (dget cfg ''require_valid_environment''),
       cp_peak = peak, cp_deadline = deadline, cp_quality = dget q ''minimum_absolute_value''\<rparr>)))"

section \<open>The validators\<close>

text \<open>Schema validity of the manifest; any exception of the validation is a failure.\<close>

definition schema_check :: "ext \<Rightarrow> cert_inputs \<Rightarrow> (bool \<times> pyval) io" where
  "schema_check X ci = (let m = filter (\<lambda>kv. fst kv \<noteq> ''model_absolute_path'') (ci_manifest ci) in
     bindS (catchS (bindS (validate_document X (PDict m) ''candidate_manifest'') (\<lambda>u.
         retS (True, ''candidate_manifest schema valid'')))
       (\<lambda>e. retS (False, exc_str e))) (\<lambda>(ok, msg).
     bindS (evidence X ci ''schema'' [(''status'', pass_fail ok), (''message'', PStr msg)]) (\<lambda>ref.
     retS (ok, ref))))"

definition candidate_model_path :: "cert_inputs \<Rightarrow> exc + ppath" where
  "candidate_model_path ci = (let a = dget (ci_manifest ci) ''model_absolute_path'' in
     if truthy a then path_arg a
     else Inr (path_div (ci_root ci) (py_str (dget_or (ci_manifest ci) ''model_path'' (PStr [])))))"

definition expected_hash :: "cert_inputs \<Rightarrow> string" where
  "expected_hash ci = py_str (py_or (dget (ci_manifest ci) ''model_sha256'') (PStr []))"

definition integrity_check :: "ext \<Rightarrow> cert_inputs \<Rightarrow> ppath \<Rightarrow> (bool \<times> pyval) io" where
  "integrity_check X ci model = (let expected = expected_hash ci in
     bindS (getS (\<lambda>w. is_file w model)) (\<lambda>there.
     bindS (if there \<and> expected \<noteq> [] then
         bindS (sha256_file X model) (\<lambda>actual. retS (actual = expected,
           if actual = expected then ''hash match'' else ''hash mismatch '' @ actual))
       else retS (False, ''model missing'')) (\<lambda>(ok, msg).
     bindS (evidence X ci ''integrity'' [(''status'', pass_fail ok), (''message'', PStr msg),
       (''expected_sha256'', PStr expected)]) (\<lambda>ref.
     retS (ok, ref)))))"

text \<open>\<open>model\_path.stat().st\_size\<close> is inside the \<open>try\<close>: its exception too means the check failed.\<close>

definition onnx_validation ::
    "ext \<Rightarrow> onnx_lib \<Rightarrow> ppath \<Rightarrow> string \<Rightarrow> string \<Rightarrow> (bool \<times> string \<times> pydict) io" where
  "onnx_validation X onnx_check model expected actual =
     (let hash_ok = (actual = expected) in
     catchS (bindS (\<lambda>w. (onnx_check w model, w)) (\<lambda>(ins, outs).
         bindS (read_bytes model) (\<lambda>b.
         retS (True, ''onnx.checker.check_model passed'',
           [(''sha256'', PStr actual), (''expected_sha256'', PStr expected),
            (''hash_ok'', PBool hash_ok), (''onnx_ok'', PBool True), (''inputs'', PList ins),
            (''outputs'', PList outs), (''model_size_bytes'', PInt (int (length b)))]))))
       (\<lambda>e. retS (False, exc_str e,
          [(''sha256'', PStr actual), (''expected_sha256'', PStr expected),
           (''hash_ok'', PBool hash_ok), (''onnx_ok'', PBool False),
           (''message'', PStr (exc_str e))])))"

definition model_check :: "ext \<Rightarrow> onnx_lib \<Rightarrow> cert_inputs \<Rightarrow> ppath \<Rightarrow> (bool \<times> pyval) io" where
  "model_check X onnx_check ci model = (let expected = expected_hash ci in
     bindS (getS (\<lambda>w. is_file w model)) (\<lambda>there.
     bindS (if there \<and> expected \<noteq> [] then
         bindS (sha256_file X model) (\<lambda>actual.
         bindS (onnx_validation X onnx_check model expected actual) (\<lambda>(onnx_ok, onnx_msg, details).
         let hash_ok = (actual = expected); ok = (hash_ok \<and> onnx_ok) in
         retS (ok, if ok then ''candidate validation ok''
             else ''hash_ok='' @ py_str (PBool hash_ok) @ ''; '' @ onnx_msg, details)))
       else retS (False, ''candidate model missing'', [])) (\<lambda>(ok, msg, details).
     bindS (evidence X ci ''model_validation''
       [(''status'', pass_fail ok), (''message'', PStr msg), (''candidate_validation'', PDict details),
        (''baseline_inspection_sha256'',
           dget (case ci_inspection ci of None \<Rightarrow> [] | Some d \<Rightarrow> d) ''sha256'')]) (\<lambda>ref.
     retS (ok, ref)))))"

definition host_check :: "ext \<Rightarrow> cert_inputs \<Rightarrow> (bool \<times> pyval) io" where
  "host_check X ci =
     bindS (getS (\<lambda>w. case ci_host_path ci of None \<Rightarrow> False | Some p \<Rightarrow> is_file w p)) (\<lambda>there.
     bindS (if there then
         catchS (bindS (read_json X (the (ci_host_path ci))) (\<lambda>doc.
             retS (truthy doc, ''host fingerprint present'')))
           (\<lambda>e. if is_os_error e \<or> is_json_error e
             then retS (False, ''host fingerprint unreadable'') else raiseS e)
       else retS (False, ''host fingerprint unavailable'')) (\<lambda>(ok0, msg0).
     let soft = (\<not> ok0 \<and> \<not> truthy (dget (ci_cfg ci) ''require_valid_environment''));
       ok = (ok0 \<or> soft);
       msg = (if soft
         then ''host check soft-pass: require_valid_environment=false and no fingerprint''
         else msg0) in
     bindS (evidence X ci ''host'' [(''status'', pass_fail ok), (''message'', PStr msg)]) (\<lambda>ref.
     retS (ok, ref))))"

text \<open>\<open>p in registered\<close>: a list compares elements, a dictionary hashes, a string searches.\<close>

fun py_in :: "pyval \<Rightarrow> pyval \<Rightarrow> exc + bool" where
  "py_in p (PList l) = Inr (list_ex (\<lambda>v. py_eq v p) l)"
| "py_in p (PDict d) = (if is_list p \<or> is_dict p then Inl (py_err TypeError)
     else Inr (list_ex (\<lambda>kv. py_eq (PStr (fst kv)) p) d))"
| "py_in p (PStr s) = (case p of PStr t \<Rightarrow> Inr (sublist t s) | _ \<Rightarrow> Inl (py_err TypeError))"
| "py_in p _ = Inl (py_err TypeError)"

definition provider_registered :: "pyval \<Rightarrow> pyval \<Rightarrow> exc + bool" where
  "provider_registered registered requested =
     (if \<not> truthy registered then Inr False
      else if \<not> truthy requested then Inr True
      else bindR (py_iter requested) (existsR (\<lambda>p. py_in p registered)))"

text \<open>The XNNPACK assignment: the triple is (\<open>provider\_ok\<close>, \<open>assignment\_ok\<close>, \<open>assignment\_reason\<close>).\<close>

definition xnnpack_required ::
    "pyval \<Rightarrow> pyval \<Rightarrow> bool \<Rightarrow> bool \<times> bool \<times> pyval \<Rightarrow> exc + bool \<times> bool \<times> pyval" where
  "xnnpack_required fraction unavailable required st =
     (if \<not> required then Inr st
      else if fraction = PNone
      then Inr (False, False, py_or unavailable (PStr ''UNAVAILABLE_PROVIDER_ASSIGNMENT''))
      else bindR (py_float fraction) (\<lambda>f.
        Inr (if fl_le f (Fin 0) then (False, False, PStr ''XNNPACK_ASSIGNMENT_EMPTY'') else st)))"

definition cpu_fallback_limited ::
    "pyval \<Rightarrow> pyval \<Rightarrow> pyval \<Rightarrow> bool \<times> bool \<times> pyval \<Rightarrow> exc + bool \<times> bool \<times> pyval" where
  "cpu_fallback_limited fraction unavailable limit st =
     (if limit = PNone then Inr st
      else if fraction = PNone
      then Inr (False, False, py_or unavailable (PStr ''UNAVAILABLE_PROVIDER_ASSIGNMENT''))
      else bindR (py_float fraction) (\<lambda>f. bindR (py_float limit) (\<lambda>m.
        Inr (if fl_lt m (fl_sub (Fin 1) f)
          then (False, False, PStr ''CPU_FALLBACK_EXCEEDS_LIMIT'') else st))))"

record provider_view =
  pv_ok :: bool
  pv_registered :: pyval
  pv_requested :: pyval
  pv_warnings :: pyval
  pv_fraction :: pyval
  pv_assignment_ok :: bool
  pv_assignment_reason :: pyval

definition provider_decision :: "cert_inputs \<Rightarrow> exc + provider_view" where
  "provider_decision ci =
     bindR (sub_dict (ci_trial ci) ''summary'') (\<lambda>summary.
     bindR (sub_dict summary ''provider_report'') (\<lambda>report.
     bindR (sub_dict (ci_manifest ci) ''session'') (\<lambda>session.
     let registered = py_or (dget report ''registered_providers'') (PList []);
         requested = py_or (dget session ''provider_order'') (PList []);
         fraction = dget report ''xnnpack_node_fraction'';
         unavailable = dget report ''xnnpack_fraction_unavailable_reason'' in
     bindR (provider_registered registered requested) (\<lambda>ok0.
     bindR (xnnpack_required fraction unavailable
       (truthy (dget (ci_cfg ci) ''require_xnnpack_assignment'')) (ok0, True, PNone)) (\<lambda>st1.
     bindR (cpu_fallback_limited fraction unavailable
       (dget (ci_cfg ci) ''maximum_cpu_fallback_fraction'') st1) (\<lambda>(ok, assigned, reason).
     Inr \<lparr>pv_ok = ok, pv_registered = registered, pv_requested = requested,
       pv_warnings = py_or (dget report ''warnings'') (PList []), pv_fraction = fraction,
       pv_assignment_ok = assigned, pv_assignment_reason = reason\<rparr>))))))"

definition provider_policy :: "pydict \<Rightarrow> pydict" where
  "provider_policy cfg =
     [(''require_xnnpack_assignment'', PBool (truthy (dget cfg ''require_xnnpack_assignment''))),
      (''maximum_cpu_fallback_fraction'', dget cfg ''maximum_cpu_fallback_fraction'')]"

definition provider_check :: "ext \<Rightarrow> cert_inputs \<Rightarrow> (provider_view \<times> pyval) io" where
  "provider_check X ci = bindS (liftS (provider_decision ci)) (\<lambda>pv.
     bindS (evidence X ci ''provider''
       ([(''status'', pass_fail (pv_ok pv)), (''registered_providers'', pv_registered pv),
         (''requested'', pv_requested pv), (''warnings'', pv_warnings pv)]
        @ provider_policy (ci_cfg ci)
        @ [(''xnnpack_node_fraction'', pv_fraction pv),
         (''assignment_ok'', PBool (pv_assignment_ok pv)),
         (''assignment_reason'', pv_assignment_reason pv),
         (''node_assignment_fraction'', PDict [(''xnnpack'', pv_fraction pv),
            (''status'', pass_fail (pv_assignment_ok pv)),
            (''reason'', pv_assignment_reason pv)])])) (\<lambda>ref.
     retS (pv, ref)))"

definition tensor_check :: "ext \<Rightarrow> cert_inputs \<Rightarrow> bool \<Rightarrow> (bool \<times> pyval) io" where
  "tensor_check X ci model_valid =
     (let inputs = py_or (dget (case ci_inspection ci of None \<Rightarrow> [] | Some d \<Rightarrow> d) ''inputs'') (PList []);
          ok = (truthy inputs \<or> model_valid) in
     bindS (evidence X ci ''tensor_contract'' [(''status'', pass_fail ok), (''inputs'', inputs)]) (\<lambda>ref.
     retS (ok, ref)))"

definition equivalence_check :: "ext \<Rightarrow> cert_inputs \<Rightarrow> (bool \<times> pyval) io" where
  "equivalence_check X ci = (let ev = ci_evaluation ci;
       ok = (truthy (dget_or ev ''equivalence_ok'' (PBool False))
         \<or> py_eq (dget ev ''equivalence_status'') (PStr ''not_required'')) in
     bindS (evidence X ci ''equivalence'' [(''status'', pass_fail ok), (''equivalence_ok'', PBool ok),
       (''score'', dget ev ''equivalence_score''), (''evidence'', dget ev ''equivalence_evidence'')])
       (\<lambda>ref. retS (ok, ref)))"

definition quality_check :: "ext \<Rightarrow> cert_inputs \<Rightarrow> (bool \<times> pyval) io" where
  "quality_check X ci = (let ev = ci_evaluation ci;
       ok = truthy (dget_or ev ''quality_ok'' (PBool False)) in
     bindS (evidence X ci ''quality'' [(''status'', pass_fail ok), (''quality_ok'', PBool ok),
       (''quality_value'', dget ev ''quality_value''), (''metric'', dget ev ''quality_metric_name''),
       (''unavailable_reason'', dget ev ''unavailable_reason''),
       (''attestation_ref'', dget ev ''attestation_path'')]) (\<lambda>ref. retS (ok, ref)))"

definition memory_check :: "ext \<Rightarrow> cert_inputs \<Rightarrow> pyfloat \<Rightarrow> (pyval \<times> pyval) io" where
  "memory_check X ci limit = (let peak = dget (ci_trial ci) ''peak_rss_mb'' in
     bindS (liftS (within_limit peak (PFloat limit))) (\<lambda>ok.
     bindS (evidence X ci ''memory'' [(''status'', pass_fail ok), (''peak_rss_mb'', peak),
       (''unavailable_reason'', if peak \<noteq> PNone then PNone
          else py_or (dget (ci_trial ci) ''peak_rss_unavailable_reason'') (reason_val UNAVAILABLE_SENSOR)),
       (''limit_mb'', PFloat limit)]) (\<lambda>ref. retS (peak, ref))))"

definition trial_latency :: "pydict \<Rightarrow> pyval" where
  "trial_latency trial =
     (if dget trial ''p99_ms'' = PNone then dget trial ''mean_ms'' else dget trial ''p99_ms'')"

definition latency_check :: "ext \<Rightarrow> cert_inputs \<Rightarrow> pyfloat \<Rightarrow> (pyval \<times> pyval) io" where
  "latency_check X ci deadline = (let t = ci_trial ci; latency = trial_latency t in
     bindS (liftS (within_limit latency (PFloat deadline))) (\<lambda>ok.
     bindS (evidence X ci ''latency'' [(''status'', pass_fail ok), (''latency_ms'', latency),
       (''deadline_ms'', PFloat deadline),
       (''stats'', PDict [(''mean_ms'', dget t ''mean_ms''), (''p50_ms'', dget t ''p50_ms''),
         (''p99_ms'', dget t ''p99_ms''), (''sample_count'', dget t ''sample_count'')])])
       (\<lambda>ref. retS (latency, ref))))"

definition environment_value :: "cert_inputs \<Rightarrow> pyval" where
  "environment_value ci = py_or (opt_str (ci_environment ci)) (PStr ''invalid'')"

definition environment_check :: "ext \<Rightarrow> cert_inputs \<Rightarrow> bool \<Rightarrow> (pyval \<times> pyval) io" where
  "environment_check X ci required =
     bindS (evidence X ci ''environment'' [(''status'', environment_value ci),
       (''require_valid_environment'', PBool required)]) (\<lambda>ref. retS (environment_value ci, ref))"

definition warmup_check :: "ext \<Rightarrow> cert_inputs \<Rightarrow> (bool \<times> pyval) io" where
  "warmup_check X ci = bindS (liftS (sub_dict (ci_trial ci) ''summary'')) (\<lambda>summary.
     let ok = truthy (dget_or (ci_trial ci) ''warmup_ok''
           (PBool (py_eq (dget summary ''status'') (PStr ''ok'')))) in
     bindS (evidence X ci ''warmup'' [(''status'', pass_fail ok), (''warmup_ok'', PBool ok),
       (''summary_status'', dget summary ''status'')]) (\<lambda>ref. retS (ok, ref)))"

definition artifact_check :: "ext \<Rightarrow> cert_inputs \<Rightarrow> ppath \<Rightarrow> (bool \<times> pyval) io" where
  "artifact_check X ci model =
     bindS (getS (\<lambda>w. (is_file w (path_div (path_div (ci_root ci) ''trials'')
           (ci_candidate ci @ ''.summary.json'')),
         is_file w (path_div (path_div (ci_root ci) ''evaluation'') (ci_candidate ci @ ''.json'')),
         is_file w model))) (\<lambda>(t, e, m).
     let ok = (t \<and> e \<and> m) in
     bindS (evidence X ci ''artifacts'' [(''status'', pass_fail ok), (''trial'', PBool t),
       (''evaluation'', PBool e), (''model'', PBool m)]) (\<lambda>ref. retS (ok, ref)))"

section \<open>The context\<close>

definition build_certification_context ::
    "ext \<Rightarrow> onnx_lib \<Rightarrow> cert_inputs \<Rightarrow> pydict io" where
  "build_certification_context X onnx_check ci =
     bindS (mkdirs True (evidence_dir ci)) (\<lambda>u.
     bindS (liftS (certification_policy (ci_cfg ci))) (\<lambda>pol.
     bindS (schema_check X ci) (\<lambda>(schema_ok, schema_ref).
     bindS (liftS (candidate_model_path ci)) (\<lambda>model.
     bindS (integrity_check X ci model) (\<lambda>(integ_ok, integ_ref).
     bindS (model_check X onnx_check ci model) (\<lambda>(model_ok, model_ref).
     bindS (host_check X ci) (\<lambda>(host_ok, host_ref).
     bindS (provider_check X ci) (\<lambda>(pv, provider_ref).
     bindS (tensor_check X ci model_ok) (\<lambda>(tensor_ok, tensor_ref).
     bindS (equivalence_check X ci) (\<lambda>(equiv_ok, equiv_ref).
     bindS (quality_check X ci) (\<lambda>(quality_ok, quality_ref).
     bindS (memory_check X ci (cp_peak pol)) (\<lambda>(peak, memory_ref).
     bindS (latency_check X ci (cp_deadline pol)) (\<lambda>(latency, latency_ref).
     bindS (environment_check X ci (cp_environment pol)) (\<lambda>(env, env_ref).
     bindS (warmup_check X ci) (\<lambda>(warm_ok, warm_ref).
     bindS (artifact_check X ci model) (\<lambda>(art_ok, art_ref).
     retS [(''require_output_equivalence'', PBool (cp_equivalence pol)),
       (''require_valid_environment'', PBool (cp_environment pol)),
       (''maximum_peak_rss_mb'', PFloat (cp_peak pol)), (''deadline_ms'', PFloat (cp_deadline pol)),
       (''quality_threshold'', cp_quality pol),
       (''schema_valid'', PBool schema_ok), (''schema_evidence'', PList [schema_ref]),
       (''integrity_ok'', PBool integ_ok), (''integrity_evidence'', PList [integ_ref]),
       (''model_valid'', PBool model_ok), (''model_evidence'', PList [model_ref]),
       (''host_compatible'', PBool host_ok), (''host_evidence'', PList [host_ref]),
       (''provider_ok'', PBool (pv_ok pv)), (''provider_evidence'', PList [provider_ref]),
       (''provider_assignment'', pv_registered pv),
       (''provider_threshold'', PDict (provider_policy (ci_cfg ci))),
       (''tensor_contract_ok'', PBool tensor_ok), (''tensor_evidence'', PList [tensor_ref]),
       (''equivalence_ok'', PBool equiv_ok), (''equivalence_evidence'', PList [equiv_ref]),
       (''equivalence_score'', dget (ci_evaluation ci) ''equivalence_score''),
       (''quality_ok'', PBool quality_ok), (''quality_evidence'', PList [quality_ref]),
       (''quality_value'', dget (ci_evaluation ci) ''quality_value''),
       (''peak_rss_mb'', peak), (''memory_evidence'', PList [memory_ref]),
       (''latency_ms'', latency), (''latency_evidence'', PList [latency_ref]),
       (''environment_status'', env), (''environment_evidence'', PList [env_ref]),
       (''warmup_ok'', PBool warm_ok), (''warmup_evidence'', PList [warm_ref]),
       (''warmup_iterations_completed'', dget (ci_trial ci) ''warmup_iterations''),
       (''artifacts_complete'', PBool art_ok), (''artifact_evidence'', PList [art_ref])]))))))))))))))))"


section \<open>What each validator decides\<close>

lemma bindS_InrE:
  assumes "bindS m f s = (Inr y, t)"
  obtains x u where "m s = (Inr x, u)" and "f x u = (Inr y, t)"
  using assms by (auto simp: bindS_eq_Inr)

text \<open>Evidence is written only below the candidate's evidence directory.\<close>

definition evidence_names :: "string list" where
  "evidence_names = [''schema'', ''integrity'', ''model_validation'', ''host'', ''provider'',
     ''tensor_contract'', ''equivalence'', ''quality'', ''memory'', ''latency'', ''environment'',
     ''warmup'', ''artifacts'']"

lemma length_evidence_names: "length evidence_names = 13"
  by (simp add: evidence_names_def)

lemma distinct_evidence_names: "distinct evidence_names"
  by (simp add: evidence_names_def)

lemma evidence_names_plain:
  "list_all (\<lambda>n. plain_name (n @ ''.json'') \<and> plain_name (n @ ''.json.tmp'')) evidence_names"
  by (simp add: evidence_names_def plain_name_def path_of_def)

lemma keeps_evidence:
  assumes "name \<in> set evidence_names"
  shows "keeps (only_under (evidence_dir ci)) (evidence X ci name payload)"
proof -
  have n: "plain_name (name @ ''.json'')" "plain_name ((name @ ''.json'') @ ''.tmp'')"
    using assms evidence_names_plain by (auto simp: list_all_iff)
  show ?thesis
    unfolding evidence_def write_evidence_def write_atomic_json_def Let_def
    by (intro only_under.keeps_rules only_under_write_atomic [OF n]
        same_files_intros [THEN same_files_only_under])
qed

lemma evidence_named:
  "''schema'' \<in> set evidence_names" "''integrity'' \<in> set evidence_names"
  "''model_validation'' \<in> set evidence_names" "''host'' \<in> set evidence_names"
  "''provider'' \<in> set evidence_names" "''tensor_contract'' \<in> set evidence_names"
  "''equivalence'' \<in> set evidence_names" "''quality'' \<in> set evidence_names"
  "''memory'' \<in> set evidence_names" "''latency'' \<in> set evidence_names"
  "''environment'' \<in> set evidence_names" "''warmup'' \<in> set evidence_names"
  "''artifacts'' \<in> set evidence_names"
  by (simp_all add: evidence_names_def)

lemmas cert_keeps = only_under.keeps_rules keeps_evidence evidence_named
  keeps_same_read_json [THEN same_files_only_under] keeps_same_read_bytes [THEN same_files_only_under]
  keeps_same_sha256_file [THEN same_files_only_under] keeps_same_validate [THEN same_files_only_under]
  keeps_same_mkdirs [THEN same_files_only_under]

lemma keeps_checks:
  "keeps (only_under (evidence_dir ci)) (schema_check X ci)"
  "keeps (only_under (evidence_dir ci)) (integrity_check X ci model)"
  "keeps (only_under (evidence_dir ci)) (model_check X onnx_check ci model)"
  "keeps (only_under (evidence_dir ci)) (host_check X ci)"
  "keeps (only_under (evidence_dir ci)) (provider_check X ci)"
  "keeps (only_under (evidence_dir ci)) (tensor_check X ci b)"
  "keeps (only_under (evidence_dir ci)) (equivalence_check X ci)"
  "keeps (only_under (evidence_dir ci)) (quality_check X ci)"
  "keeps (only_under (evidence_dir ci)) (memory_check X ci f)"
  "keeps (only_under (evidence_dir ci)) (latency_check X ci f)"
  "keeps (only_under (evidence_dir ci)) (environment_check X ci b)"
  "keeps (only_under (evidence_dir ci)) (warmup_check X ci)"
  "keeps (only_under (evidence_dir ci)) (artifact_check X ci model)"
  unfolding schema_check_def integrity_check_def model_check_def onnx_validation_def host_check_def
    provider_check_def tensor_check_def equivalence_check_def quality_check_def memory_check_def
    latency_check_def environment_check_def warmup_check_def artifact_check_def
  by (intro cert_keeps)+

lemma keeps_build: "keeps (only_under (evidence_dir ci)) (build_certification_context X onnx_check ci)"
  unfolding build_certification_context_def by (intro cert_keeps keeps_checks)

lemma integrity_check_ok:
  assumes "integrity_check X ci model w = (Inr (ok, ref), w')" and ok
  shows "expected_hash ci \<noteq> [] \<and> (\<exists>b. read_bytes model w = (Inr b, w) \<and> x_sha256 X b = expected_hash ci)"
  using assms
  by (auto simp: integrity_check_def Let_def bindS_eq_Inr sha256_file_whole sha256_bytes_def read_bytes_eq
      split: if_splits)

lemma model_check_ok:
  assumes "model_check X onnx_check ci model w = (Inr (ok, ref), w')" and ok
  shows "\<exists>b io. read_bytes model w = (Inr b, w) \<and> x_sha256 X b = expected_hash ci
    \<and> onnx_check w model = Inr io"
  using assms
  by (auto simp: model_check_def onnx_validation_def Let_def bindS_eq_Inr sha256_file_whole
      sha256_bytes_def catchS_def read_bytes_eq split: if_splits prod.splits sum.splits)

lemma host_check_ok:
  assumes "host_check X ci w = (Inr (ok, ref), w')" and ok
    and "truthy (dget (ci_cfg ci) ''require_valid_environment'')"
  shows "\<exists>p doc. ci_host_path ci = Some p \<and> fst (read_json X p w) = Inr doc \<and> truthy doc"
  using assms
  by (auto simp: host_check_def Let_def bindS_eq_Inr catchS_def
      split: if_splits prod.splits sum.splits option.splits)

lemma artifact_check_ok:
  assumes "artifact_check X ci model w = (Inr (ok, ref), w')"
  shows "ok \<longleftrightarrow> is_file w (path_div (path_div (ci_root ci) ''trials'') (ci_candidate ci @ ''.summary.json''))
    \<and> is_file w (path_div (path_div (ci_root ci) ''evaluation'') (ci_candidate ci @ ''.json''))
    \<and> is_file w model"
  using assms by (auto simp: artifact_check_def Let_def bindS_eq_Inr)

lemma provider_check_ok:
  "provider_check X ci w = (Inr (pv, ref), w') \<Longrightarrow> provider_decision ci = Inr pv"
  by (auto simp: provider_check_def bindS_eq_Inr)

lemma simple_checks:
  "equivalence_check X ci w = (Inr (b, ref), w') \<Longrightarrow>
     b \<longleftrightarrow> truthy (dget_or (ci_evaluation ci) ''equivalence_ok'' (PBool False))
       \<or> py_eq (dget (ci_evaluation ci) ''equivalence_status'') (PStr ''not_required'')"
  "quality_check X ci w = (Inr (b, ref), w') \<Longrightarrow>
     b \<longleftrightarrow> truthy (dget_or (ci_evaluation ci) ''quality_ok'' (PBool False))"
  "memory_check X ci f w = (Inr (v, ref), w') \<Longrightarrow> v = dget (ci_trial ci) ''peak_rss_mb''"
  "latency_check X ci f w = (Inr (v, ref), w') \<Longrightarrow> v = trial_latency (ci_trial ci)"
  "environment_check X ci b' w = (Inr (v, ref), w') \<Longrightarrow> v = environment_value ci"
  by (auto simp: equivalence_check_def quality_check_def memory_check_def latency_check_def
      environment_check_def Let_def bindS_eq_Inr)

text \<open>The run of the whole, taken apart: each validator ran in a world that differs from the first
  one only below the evidence directory, and the context holds what the validators decided.\<close>

record cert_trace =
  ct_policy :: cert_policy
  ct_model :: ppath
  ct_integrity :: bool
  ct_onnx :: bool
  ct_host :: bool
  ct_provider :: provider_view
  ct_equivalence :: bool
  ct_quality :: bool
  ct_artifacts :: bool

definition traced :: "ext \<Rightarrow> onnx_lib \<Rightarrow> cert_inputs \<Rightarrow> world \<Rightarrow> cert_trace \<Rightarrow> bool" where
  "traced X onnx_check ci w t \<longleftrightarrow>
     certification_policy (ci_cfg ci) = Inr (ct_policy t)
     \<and> candidate_model_path ci = Inr (ct_model t)
     \<and> (\<exists>w1 r w2. only_under (evidence_dir ci) w w1
         \<and> integrity_check X ci (ct_model t) w1 = (Inr (ct_integrity t, r), w2))
     \<and> (\<exists>w1 r w2. only_under (evidence_dir ci) w w1
         \<and> model_check X onnx_check ci (ct_model t) w1 = (Inr (ct_onnx t, r), w2))
     \<and> (\<exists>w1 r w2. only_under (evidence_dir ci) w w1 \<and> host_check X ci w1 = (Inr (ct_host t, r), w2))
     \<and> provider_decision ci = Inr (ct_provider t)
     \<and> ct_equivalence t = (truthy (dget_or (ci_evaluation ci) ''equivalence_ok'' (PBool False))
         \<or> py_eq (dget (ci_evaluation ci) ''equivalence_status'') (PStr ''not_required''))
     \<and> ct_quality t = truthy (dget_or (ci_evaluation ci) ''quality_ok'' (PBool False))
     \<and> (\<exists>w1 r w2. only_under (evidence_dir ci) w w1
         \<and> artifact_check X ci (ct_model t) w1 = (Inr (ct_artifacts t, r), w2))"

definition trace_context :: "cert_inputs \<Rightarrow> cert_trace \<Rightarrow> pydict \<Rightarrow> bool" where
  "trace_context ci t ctx \<longleftrightarrow>
     dget_or ctx ''integrity_ok'' (PBool False) = PBool (ct_integrity t)
     \<and> dget_or ctx ''model_valid'' (PBool False) = PBool (ct_onnx t)
     \<and> dget_or ctx ''host_compatible'' (PBool False) = PBool (ct_host t)
     \<and> dget_or ctx ''provider_ok'' (PBool False) = PBool (pv_ok (ct_provider t))
     \<and> dget_or ctx ''equivalence_ok'' (PBool False) = PBool (ct_equivalence t)
     \<and> dget_or ctx ''quality_ok'' (PBool False) = PBool (ct_quality t)
     \<and> dget_or ctx ''artifacts_complete'' (PBool False) = PBool (ct_artifacts t)
     \<and> dget ctx ''peak_rss_mb'' = dget (ci_trial ci) ''peak_rss_mb''
     \<and> dget ctx ''maximum_peak_rss_mb'' = PFloat (cp_peak (ct_policy t))
     \<and> dget ctx ''latency_ms'' = trial_latency (ci_trial ci)
     \<and> dget ctx ''deadline_ms'' = PFloat (cp_deadline (ct_policy t))
     \<and> dget_or ctx ''require_output_equivalence'' (PBool True)
         = PBool (cp_equivalence (ct_policy t))
     \<and> dget_or ctx ''require_valid_environment'' (PBool True)
         = PBool (cp_environment (ct_policy t))
     \<and> dget_or ctx ''environment_status'' (PStr ''invalid'') = environment_value ci"

lemma build_traced:
  assumes "build_certification_context X onnx_check ci w = (Inr ctx, w')"
  shows "\<exists>t. traced X onnx_check ci w t \<and> trace_context ci t ctx"
proof -
  let ?R = "only_under (evidence_dir ci)"
  note step = keepsD [OF keeps_checks(1)] keepsD [OF keeps_checks(2)] keepsD [OF keeps_checks(3)]
  from assms obtain u w1 pol sc w2 model ig w3 ml w4 hs w5 pv w6 tn w7 eq w8 ql w9 mm w10 lt w11
      en w12 wm w13 ar w14 where
    m: "mkdirs True (evidence_dir ci) w = (Inr u, w1)"
    and pol: "certification_policy (ci_cfg ci) = Inr pol"
    and sc: "schema_check X ci w1 = (Inr sc, w2)"
    and model: "candidate_model_path ci = Inr model"
    and ig: "integrity_check X ci model w2 = (Inr ig, w3)"
    and ml: "model_check X onnx_check ci model w3 = (Inr ml, w4)"
    and hs: "host_check X ci w4 = (Inr hs, w5)"
    and pv: "provider_check X ci w5 = (Inr pv, w6)"
    and tn: "tensor_check X ci (fst ml) w6 = (Inr tn, w7)"
    and eq: "equivalence_check X ci w7 = (Inr eq, w8)"
    and ql: "quality_check X ci w8 = (Inr ql, w9)"
    and mm: "memory_check X ci (cp_peak pol) w9 = (Inr mm, w10)"
    and lt: "latency_check X ci (cp_deadline pol) w10 = (Inr lt, w11)"
    and en: "environment_check X ci (cp_environment pol) w11 = (Inr en, w12)"
    and wm: "warmup_check X ci w12 = (Inr wm, w13)"
    and ar: "artifact_check X ci model w13 = (Inr ar, w14)"
    and ctx: "ctx = [(''require_output_equivalence'', PBool (cp_equivalence pol)),
       (''require_valid_environment'', PBool (cp_environment pol)),
       (''maximum_peak_rss_mb'', PFloat (cp_peak pol)), (''deadline_ms'', PFloat (cp_deadline pol)),
       (''quality_threshold'', cp_quality pol),
       (''schema_valid'', PBool (fst sc)), (''schema_evidence'', PList [snd sc]),
       (''integrity_ok'', PBool (fst ig)), (''integrity_evidence'', PList [snd ig]),
       (''model_valid'', PBool (fst ml)), (''model_evidence'', PList [snd ml]),
       (''host_compatible'', PBool (fst hs)), (''host_evidence'', PList [snd hs]),
       (''provider_ok'', PBool (pv_ok (fst pv))), (''provider_evidence'', PList [snd pv]),
       (''provider_assignment'', pv_registered (fst pv)),
       (''provider_threshold'', PDict (provider_policy (ci_cfg ci))),
       (''tensor_contract_ok'', PBool (fst tn)), (''tensor_evidence'', PList [snd tn]),
       (''equivalence_ok'', PBool (fst eq)), (''equivalence_evidence'', PList [snd eq]),
       (''equivalence_score'', dget (ci_evaluation ci) ''equivalence_score''),
       (''quality_ok'', PBool (fst ql)), (''quality_evidence'', PList [snd ql]),
       (''quality_value'', dget (ci_evaluation ci) ''quality_value''),
       (''peak_rss_mb'', fst mm), (''memory_evidence'', PList [snd mm]),
       (''latency_ms'', fst lt), (''latency_evidence'', PList [snd lt]),
       (''environment_status'', fst en), (''environment_evidence'', PList [snd en]),
       (''warmup_ok'', PBool (fst wm)), (''warmup_evidence'', PList [snd wm]),
       (''warmup_iterations_completed'', dget (ci_trial ci) ''warmup_iterations''),
       (''artifacts_complete'', PBool (fst ar)), (''artifact_evidence'', PList [snd ar])]"
    unfolding build_certification_context_def case_prod_beta
    by (elim bindS_InrE) (simp only: liftS_apply retS_apply prod.inject sum.inject)
  have r1: "?R w w1" using m keeps_same_mkdirs [THEN same_files_only_under] by (rule keepsD [rotated])
  have r2: "?R w w2" using r1 keepsD [OF keeps_checks(1) sc] by (rule only_under.R_trans)
  have r3: "?R w w3" using r2 keepsD [OF keeps_checks(2) ig] by (rule only_under.R_trans)
  have r4: "?R w w4" using r3 keepsD [OF keeps_checks(3) ml] by (rule only_under.R_trans)
  have r5: "?R w w5" using r4 keepsD [OF keeps_checks(4) hs] by (rule only_under.R_trans)
  have r6: "?R w w6" using r5 keepsD [OF keeps_checks(5) pv] by (rule only_under.R_trans)
  have r7: "?R w w7" using r6 keepsD [OF keeps_checks(6) tn] by (rule only_under.R_trans)
  have r8: "?R w w8" using r7 keepsD [OF keeps_checks(7) eq] by (rule only_under.R_trans)
  have r9: "?R w w9" using r8 keepsD [OF keeps_checks(8) ql] by (rule only_under.R_trans)
  have r10: "?R w w10" using r9 keepsD [OF keeps_checks(9) mm] by (rule only_under.R_trans)
  have r11: "?R w w11" using r10 keepsD [OF keeps_checks(10) lt] by (rule only_under.R_trans)
  have r12: "?R w w12" using r11 keepsD [OF keeps_checks(11) en] by (rule only_under.R_trans)
  have r13: "?R w w13" using r12 keepsD [OF keeps_checks(12) wm] by (rule only_under.R_trans)
  let ?t = "\<lparr>ct_policy = pol, ct_model = model, ct_integrity = fst ig, ct_onnx = fst ml,
    ct_host = fst hs, ct_provider = fst pv, ct_equivalence = fst eq, ct_quality = fst ql,
    ct_artifacts = fst ar\<rparr>"
  have d: "provider_decision ci = Inr (fst pv)" using pv provider_check_ok by (metis surjective_pairing)
  have v: "fst eq \<longleftrightarrow> truthy (dget_or (ci_evaluation ci) ''equivalence_ok'' (PBool False))
        \<or> py_eq (dget (ci_evaluation ci) ''equivalence_status'') (PStr ''not_required'')"
      "fst ql \<longleftrightarrow> truthy (dget_or (ci_evaluation ci) ''quality_ok'' (PBool False))"
      "fst mm = dget (ci_trial ci) ''peak_rss_mb''" "fst lt = trial_latency (ci_trial ci)"
      "fst en = environment_value ci"
    using simple_checks(1) [of X ci w7 "fst eq" "snd eq"] simple_checks(2) [of X ci w8 "fst ql" "snd ql"]
      simple_checks(3) [of X ci _ w9 "fst mm" "snd mm"] simple_checks(4) [of X ci _ w10 "fst lt" "snd lt"]
      simple_checks(5) [of X ci _ w11 "fst en" "snd en"] eq ql mm lt en by simp_all
  have "traced X onnx_check ci w ?t"
    unfolding traced_def cert_trace.simps
  proof (intro conjI)
    show "\<exists>wa r wb. ?R w wa \<and> integrity_check X ci model wa = (Inr (fst ig, r), wb)"
      using r2 ig by (intro exI [of _ w2] exI [of _ "snd ig"] exI [of _ w3]) simp
    show "\<exists>wa r wb. ?R w wa \<and> model_check X onnx_check ci model wa = (Inr (fst ml, r), wb)"
      using r3 ml by (intro exI [of _ w3] exI [of _ "snd ml"] exI [of _ w4]) simp
    show "\<exists>wa r wb. ?R w wa \<and> host_check X ci wa = (Inr (fst hs, r), wb)"
      using r4 hs by (intro exI [of _ w4] exI [of _ "snd hs"] exI [of _ w5]) simp
    show "\<exists>wa r wb. ?R w wa \<and> artifact_check X ci model wa = (Inr (fst ar, r), wb)"
      using r13 ar by (intro exI [of _ w13] exI [of _ "snd ar"] exI [of _ w14]) simp
  qed (rule pol model d v)+
  moreover have "trace_context ci ?t ctx"
    unfolding trace_context_def ctx by (simp add: v)
  ultimately show ?thesis by blast
qed

section \<open>Properties\<close>

text \<open>C18. The provider decision is positive only with a non-empty list of registered providers, of
  which one was requested (if any was), and, where the policy asks for it, with a known XNNPACK
  fraction that is not zero or less and leaves no more CPU fallback than allowed.\<close>

theorem provider_ok_requires:
  assumes "provider_decision ci = Inr pv" and "pv_ok pv"
  shows "truthy (pv_registered pv)
    \<and> (truthy (pv_requested pv) \<longrightarrow> (\<exists>ps p. py_iter (pv_requested pv) = Inr ps \<and> p \<in> set ps
        \<and> py_in p (pv_registered pv) = Inr True))
    \<and> (truthy (dget (ci_cfg ci) ''require_xnnpack_assignment'') \<longrightarrow>
        (\<exists>f. py_float (pv_fraction pv) = Inr f \<and> \<not> fl_le f (Fin 0)))
    \<and> (dget (ci_cfg ci) ''maximum_cpu_fallback_fraction'' \<noteq> PNone \<longrightarrow>
        (\<exists>f m. py_float (pv_fraction pv) = Inr f
          \<and> py_float (dget (ci_cfg ci) ''maximum_cpu_fallback_fraction'') = Inr m
          \<and> \<not> fl_lt m (fl_sub (Fin 1) f)))
    \<and> pv_assignment_ok pv"
proof -
  from assms(1) obtain summary report session ok0 st1 ok assigned reason where
      reg: "provider_registered (pv_registered pv) (pv_requested pv) = Inr ok0"
    and xnn: "xnnpack_required (pv_fraction pv) (dget report ''xnnpack_fraction_unavailable_reason'')
        (truthy (dget (ci_cfg ci) ''require_xnnpack_assignment'')) (ok0, True, PNone) = Inr st1"
    and cpu: "cpu_fallback_limited (pv_fraction pv) (dget report ''xnnpack_fraction_unavailable_reason'')
        (dget (ci_cfg ci) ''maximum_cpu_fallback_fraction'') st1 = Inr (ok, assigned, reason)"
    and pv: "ok = pv_ok pv" "assigned = pv_assignment_ok pv"
    by (auto simp: provider_decision_def Let_def bindR_eq_Inr)
  have st: "st1 = (True, True, PNone)" and ok: ok0
    using xnn cpu pv assms(2)
    by (auto simp: xnnpack_required_def cpu_fallback_limited_def bindR_eq_Inr split: if_splits)
  have "truthy (pv_registered pv)" and "truthy (pv_requested pv) \<longrightarrow> (\<exists>ps p.
      py_iter (pv_requested pv) = Inr ps \<and> p \<in> set ps \<and> py_in p (pv_registered pv) = Inr True)"
    using reg ok existsR_True
    by (fastforce simp: provider_registered_def bindR_eq_Inr split: if_splits)+
  moreover have "truthy (dget (ci_cfg ci) ''require_xnnpack_assignment'') \<longrightarrow>
      (\<exists>f. py_float (pv_fraction pv) = Inr f \<and> \<not> fl_le f (Fin 0))"
    using xnn st by (auto simp: xnnpack_required_def bindR_eq_Inr split: if_splits)
  moreover have "dget (ci_cfg ci) ''maximum_cpu_fallback_fraction'' \<noteq> PNone \<longrightarrow>
      (\<exists>f m. py_float (pv_fraction pv) = Inr f
          \<and> py_float (dget (ci_cfg ci) ''maximum_cpu_fallback_fraction'') = Inr m
          \<and> \<not> fl_lt m (fl_sub (Fin 1) f))" and "pv_assignment_ok pv"
    using cpu st pv assms(2)
    by (auto simp: cpu_fallback_limited_def bindR_eq_Inr split: if_splits)
  ultimately show ?thesis by blast
qed

text \<open>
  One document plays every document of the sample workspace: the steps done so far, the candidate's
  manifest, its trial and its evaluation, the environment.
\<close>

definition sample_document :: pydict where
  "sample_document = [(''candidate_id'', PStr ''c1''), (''model_path'', PStr ''m.onnx''),
     (''model_absolute_path'', PStr ''/ws/m.onnx''), (''model_sha256'', PStr ''onnx''),
     (''session'', PDict [(''provider_order'', PList [PStr ''CPUExecutionProvider''])]),
     (''summary'', PDict [(''status'', PStr ''ok''), (''provider_report'',
         PDict [(''registered_providers'', PList [PStr ''CPUExecutionProvider''])])]),
     (''peak_rss_mb'', PFloat (Fin 100)), (''p99_ms'', PFloat (Fin 8)),
     (''equivalence_ok'', PBool True), (''quality_ok'', PBool True), (''status'', PStr ''valid''),
     (''config_hash'', PStr ''h''), (''product_version'', PStr ''0.1.0''),
     (''steps'', PDict (map (\<lambda>n. (n, PDict [(''completed'', PBool True)])) [''environment'', ''datasets'', ''model'',
        ''dataset_stream'', ''quantization'', ''candidates'', ''benchmarking'', ''evaluating_quality'']))]"

definition cert_ext :: ext where
  "cert_ext = sample_ext\<lparr>x_loads := (\<lambda>s. Some (PDict sample_document))\<rparr>"

lemma cert_ext_simps:
  "x_sha256 cert_ext = id" "x_dumps cert_ext = (\<lambda>v. ''{}'')" "x_loads cert_ext = (\<lambda>s. Some (PDict sample_document))"
  "x_iter_errors cert_ext = (\<lambda>r s d. [])" "x_now cert_ext = (\<lambda>n. ''2025-01-01T00:00:00Z'')"
  by (simp_all add: cert_ext_def sample_ext_simps)

lemma cert_dumps: "json_finite v \<Longrightarrow> canonical_json_dumps cert_ext v = Inr ''{}''"
  by (simp add: canonical_json_dumps_def cert_ext_simps)

definition sample_world :: world where
  "sample_world = \<lparr>w_files = ([''ws'', ''m.onnx''], ''onnx'') # map (\<lambda>q. (''ws'' # q, ''{}''))
       [[''trials'', ''c1.summary.json''], [''evaluation'', ''c1.json''], [''environment'', ''host-fingerprint.json''],
        [''environment'', ''status.json''], [''candidates'', ''status'', ''pipeline.json''],
        [''candidates'', ''manifests'', ''c1.json''], [''inputs'', ''model-manifest.json''],
        [''inputs'', ''calibration-manifest.json''], [''inputs'', ''evaluation-manifest.json''], [''run.json'']],
     w_dirs = map (Cons ''ws'') [[], [''trials''], [''evaluation''], [''environment''], [''candidates''],
        [''candidates'', ''status''], [''candidates'', ''manifests''], [''inputs'']], w_links = [],
     w_cwd = [], w_home = [''home''], w_environ = [], w_ticks = 0, w_version = Some ''0.1.0'',
     w_commit = Some ''abc'', w_registry = Some [], w_schemas = [(''candidate_manifest'', PDict [])]\<rparr>"

definition sample_host :: ppath where
  "sample_host = abs_path [''ws'', ''environment'', ''host-fingerprint.json'']"

definition sample_cfg :: pydict where
  "sample_cfg = [(''require_output_equivalence'', PBool True), (''require_valid_environment'', PBool True),
       (''maximum_peak_rss_mb'', PFloat (Fin 512)), (''deadline_ms'', PFloat (Fin 33))]"

definition sample_inputs :: cert_inputs where
  "sample_inputs = \<lparr>ci_root = abs_path [''ws''], ci_candidate = ''c1'', ci_manifest = sample_document,
     ci_trial = sample_document, ci_evaluation = sample_document, ci_inspection = Some sample_document,
     ci_cfg = sample_cfg, ci_environment = Some ''valid'', ci_host_path = Some sample_host\<rparr>"

definition sample_onnx :: onnx_lib where
  "sample_onnx w p = Inr ([], [])"

theorem provider_ok_requires_witness:
  "\<exists>pv. provider_decision sample_inputs = Inr pv \<and> pv_ok pv \<and> truthy (pv_registered pv)"
proof -
  have "\<exists>pv. provider_decision sample_inputs = Inr pv \<and> pv_ok pv"
    by (simp add: provider_decision_def sample_inputs_def sample_cfg_def sample_document_def sub_dict_def py_or_def Let_def
        provider_registered_def xnnpack_required_def cpu_fallback_limited_def)
  with provider_ok_requires show ?thesis by blast
qed

text \<open>The worlds the sample run goes through: the first \<open>k\<close> evidence documents are written.\<close>

definition sample_after :: "nat \<Rightarrow> world" where
  "sample_after k = sample_world\<lparr>w_files := w_files sample_world @ map (\<lambda>n.
       ([''ws'', ''certification'', ''evidence'', ''c1'', n @ ''.json''], ''{}'' @ [CHR 0x0A]))
       (take k evidence_names),
     w_dirs := [[''ws'', ''certification''], [''ws'', ''certification'', ''evidence''],
       [''ws'', ''certification'', ''evidence'', ''c1'']] @ w_dirs sample_world,
     w_ticks := 2 * k\<rparr>"

abbreviation sample_model :: ppath where
  "sample_model \<equiv> abs_path [''ws'', ''m.onnx'']"

lemma sample_inputs_simps:
  "evidence_dir sample_inputs = abs_path [''ws'', ''certification'', ''evidence'', ''c1'']"
  "expected_hash sample_inputs = ''onnx''" "candidate_model_path sample_inputs = Inr sample_model"
  "certification_policy (ci_cfg sample_inputs) = Inr \<lparr>cp_equivalence = True, cp_environment = True,
     cp_peak = Fin 512, cp_deadline = Fin 33, cp_quality = PNone\<rparr>"
  "ci_root sample_inputs = abs_path [''ws'']" "ci_candidate sample_inputs = ''c1''"
  "ci_inspection sample_inputs = Some sample_document" "ci_environment sample_inputs = Some ''valid''"
  "ci_trial sample_inputs = sample_document" "ci_evaluation sample_inputs = sample_document"
  "dget (ci_cfg sample_inputs) ''require_valid_environment'' = PBool True"
  "dget (ci_cfg sample_inputs) ''require_xnnpack_assignment'' = PNone"
  "dget (ci_cfg sample_inputs) ''maximum_cpu_fallback_fraction'' = PNone"
  "json_finite (PDict (ci_manifest sample_inputs))"
  "ci_host_path sample_inputs = Some sample_host" "provider_policy (ci_cfg sample_inputs) = provider_policy sample_cfg"
  by (simp_all add: sample_inputs_def sample_cfg_def sample_document_def evidence_dir_def path_join_def path_of_def
      expected_hash_def py_or_def candidate_model_path_def certification_policy_def sub_dict_def)

lemma sample_provider: "provider_decision sample_inputs = Inr \<lparr>pv_ok = True,
    pv_registered = PList [PStr ''CPUExecutionProvider''],
    pv_requested = PList [PStr ''CPUExecutionProvider''], pv_warnings = PList [],
    pv_fraction = PNone, pv_assignment_ok = True, pv_assignment_reason = PNone\<rparr>"
  by (simp add: provider_decision_def sample_inputs_def sample_cfg_def sample_document_def sub_dict_def py_or_def Let_def
      provider_registered_def xnnpack_required_def cpu_fallback_limited_def)

definition sample_tick :: "nat \<Rightarrow> world" where
  "sample_tick k = (sample_after k)\<lparr>w_ticks := 2 * Suc k\<rparr>"

lemma sample_start: "mkdirs True (evidence_dir sample_inputs) sample_world = (Inr (), sample_after 0)"
  by (simp add: sample_after_def sample_world_def sample_inputs_simps mkdirs_def real_def
      full_parts_def is_dir_at_def)

definition sample_ref :: "string \<Rightarrow> pyval" where
  "sample_ref n = PStr (''certification/evidence/'' @ n @ ''.json'')"

lemma evidence_name_absent:
  assumes "k < 13"
  shows "[''ws'', ''certification'', ''evidence'', ''c1'', evidence_names ! k @ ''.json'']
      \<notin> fst ` set (w_files (sample_after k))"
    and "[''ws'', ''certification'', ''evidence'', ''c1'', (evidence_names ! k @ ''.json'') @ ''.tmp'']
      \<notin> fst ` set (w_files (sample_after k))"
proof -
  have "evidence_names ! k \<notin> set (take k evidence_names)"
    using assms by (auto simp: in_set_conv_nth nth_eq_iff_index_eq [of evidence_names] evidence_names_def [symmetric]
        distinct_evidence_names length_evidence_names)
  moreover have "(m @ ''.json'') @ ''.tmp'' \<noteq> n @ ''.json''" for m n :: string
  proof
    assume "(m @ ''.json'') @ ''.tmp'' = n @ ''.json''"
    then have "last ((m @ ''.json'') @ ''.tmp'') = last (n @ ''.json'')" by (rule arg_cong)
    then show False by simp
  qed
  ultimately show "[''ws'', ''certification'', ''evidence'', ''c1'', evidence_names ! k @ ''.json'']
      \<notin> fst ` set (w_files (sample_after k))"
    "[''ws'', ''certification'', ''evidence'', ''c1'', (evidence_names ! k @ ''.json'') @ ''.tmp'']
      \<notin> fst ` set (w_files (sample_after k))"
    by (auto simp: sample_after_def sample_world_def)
qed

lemma sample_write:
  assumes "k < 13"
  shows "write_atomic_text (path_div (evidence_dir sample_inputs) (evidence_names ! k @ ''.json'')) (''{}'' @ [CHR 0x0A])
    (sample_tick k) = (Inr (), sample_after (Suc k))"
proof -
  let ?d = "[''ws'', ''certification'', ''evidence'', ''c1'']"
  let ?n = "evidence_names ! k @ ''.json''"
  have "plain_name ?n" using assms evidence_names_plain by (simp add: list_all_length length_evidence_names)
  then have p: "path_div (evidence_dir sample_inputs) ?n = abs_path (?d @ [?n])"
    by (simp add: plain_name_def path_join_def sample_inputs_simps)
  have "write_atomic_text (abs_path (?d @ [?n])) (''{}'' @ [CHR 0x0A]) (sample_tick k) = (Inr (), (sample_tick k)
      \<lparr>w_files := w_files (sample_tick k) @ [(?d @ [?n], utf8_encode (''{}'' @ [CHR 0x0A]))]\<rparr>)"
  proof (rule write_atomic_fresh)
    show "plain (sample_tick k)" by (simp add: plain_def sample_tick_def sample_after_def sample_world_def)
    show "take i ?d \<in> set (w_dirs (sample_tick k))" if "0 < i" "i \<le> length ?d" for i
    proof -
      from that have "i \<in> {1, 2, 3, 4}" by auto
      then show ?thesis by (auto simp: sample_tick_def sample_after_def sample_world_def)
    qed
    show "map_of (w_files (sample_tick k)) (take i ?d) = None" for i
    proof -
      have "i = 0 \<or> i = 1 \<or> i = 2 \<or> i = 3 \<or> 4 \<le> i" by auto
      then have "take i ?d = [] \<or> take i ?d = [''ws''] \<or> take i ?d = [''ws'', ''certification'']
          \<or> take i ?d = [''ws'', ''certification'', ''evidence''] \<or> take i ?d = ?d"
        by (elim disjE) simp_all
      then show ?thesis
        by (elim disjE) (simp_all add: map_of_eq_None_iff sample_tick_def sample_after_def sample_world_def image_image image_iff)
    qed
  qed (use assms evidence_name_absent [OF assms] in \<open>auto simp: sample_tick_def sample_after_def sample_world_def plain_name_def\<close>)
  then show ?thesis unfolding p using assms
    by (simp add: sample_tick_def sample_after_def take_Suc_conv_app_nth length_evidence_names utf8_encode_def)
qed

lemma sample_envelope:
  "\<exists>doc. json_finite (PDict doc) \<and> envelope_fields cert_ext t (sample_after k)
      = (Inr doc, (sample_after k)\<lparr>w_ticks := Suc (2 * k)\<rparr>)"
  by (simp add: sample_after_def sample_world_def docs_defs bindS_def comp_defs cert_ext_simps)

lemma sample_evidence:
  assumes "json_finite (PDict payload)" and "k < 13"
  shows "evidence cert_ext sample_inputs (evidence_names ! k) payload (sample_after k)
    = (Inr (sample_ref (evidence_names ! k)), sample_after (Suc k))"
proof -
  let ?n = "evidence_names ! k"
  let ?p = "path_div (evidence_dir sample_inputs) (?n @ ''.json'')"
  have pn: "plain_name (?n @ ''.json'')"
    using assms(2) evidence_names_plain by (simp add: list_all_length evidence_names_def)
  then have pf: "proper_file ?p" and nm: "path_name ?p = ?n @ ''.json''"
    by (simp_all add: plain_name_def proper_file_def path_join_def path_name_def)
  from sample_envelope obtain doc where doc: "json_finite (PDict doc)"
    and env: "envelope_fields cert_ext ''perceptshift.certification_evidence'' (sample_after k)
      = (Inr doc, (sample_after k)\<lparr>w_ticks := Suc (2 * k)\<rparr>)" by blast
  have fin: "json_finite (PDict (dupdate doc (dupdate [(''validator'', PStr ?n),
      (''validator_version'', PStr v), (''timestamp'', PStr s)] payload)))" for v s
    using assms(1) doc by (intro json_finite_dupdate) simp_all
  have wr: "write_atomic_text ?p (''{}'' @ [CHR 0x0A]) (sample_tick k) = (Inr (), sample_after (Suc k))"
    by (rule sample_write) (rule assms(2))
  have "plain (sample_tick k)"
    by (simp add: plain_def sample_tick_def sample_after_def sample_world_def)
  from text_store.read_after_write [OF this pf wr]
  obtain h where h: "sha256_file cert_ext ?p (sample_after (Suc k)) = (Inr h, sample_after (Suc k))"
    by (auto simp: read_text_def sha256_file_whole bindS_eq_Inr)
  have ver: "get_version cert_ext ((sample_after k)\<lparr>w_ticks := Suc (2 * k)\<rparr>)
      = (Inr ''0.1.0'', (sample_after k)\<lparr>w_ticks := Suc (2 * k)\<rparr>)"
    by (simp add: get_version_def sample_after_def sample_world_def)
  show ?thesis
    using fin wr h
    by (simp add: evidence_def write_evidence_def write_atomic_json_def Let_def bindS_def env ver
        utc_now_rfc3339_def cert_ext_simps cert_dumps evidence_ref_def nm sample_ref_def
        sample_tick_def)
qed

lemmas sample_evidences =
  sample_evidence [of _ 0, unfolded evidence_names_def, simplified]
  sample_evidence [of _ 1, unfolded evidence_names_def, simplified]
  sample_evidence [of _ 2, unfolded evidence_names_def, simplified]
  sample_evidence [of _ 3, unfolded evidence_names_def, simplified]
  sample_evidence [of _ 4, unfolded evidence_names_def, simplified]
  sample_evidence [of _ 5, unfolded evidence_names_def, simplified]
  sample_evidence [of _ 6, unfolded evidence_names_def, simplified]
  sample_evidence [of _ 7, unfolded evidence_names_def, simplified]
  sample_evidence [of _ 8, unfolded evidence_names_def, simplified]
  sample_evidence [of _ 9, unfolded evidence_names_def, simplified]
  sample_evidence [of _ 10, unfolded evidence_names_def, simplified]
  sample_evidence [of _ 11, unfolded evidence_names_def, simplified]
  sample_evidence [of _ 12, unfolded evidence_names_def, simplified]

lemmas check_defs = schema_check_def integrity_check_def model_check_def onnx_validation_def
  host_check_def provider_check_def tensor_check_def equivalence_check_def quality_check_def
  memory_check_def latency_check_def environment_check_def warmup_check_def artifact_check_def
  provider_policy_def environment_value_def
  trial_latency_def within_limit_def sub_dict_def py_or_def pass_fail_def

lemma sample_reads:
  "is_file (sample_after k) sample_model"
  "read_bytes sample_model (sample_after k) = (Inr ''onnx'', sample_after k)"
  "sha256_file cert_ext sample_model (sample_after k) = (Inr ''onnx'', sample_after k)"
  "is_file (sample_after k) sample_host"
  "read_json cert_ext sample_host (sample_after k)
    = (Inr (PDict sample_document), sample_after k)"
  "is_file (sample_after k) (abs_path [''ws'', ''trials'', ''c1.summary.json''])"
  "is_file (sample_after k) (abs_path [''ws'', ''evaluation'', ''c1.json''])"
  by (simp_all add: sample_after_def sample_world_def sample_host_def world_defs cert_ext_simps sample_inputs_simps)

lemma sample_schema:
  "validate_document cert_ext d ''candidate_manifest'' (sample_after k) = (Inr d, sample_after k)"
  by (simp add: sample_after_def sample_world_def docs_defs bindS_def comp_defs cert_ext_simps Let_def)

lemma sample_steps:
  "schema_check cert_ext sample_inputs (sample_after 0) =
     (Inr (True, sample_ref ''schema''), sample_after 1)"
  "integrity_check cert_ext sample_inputs sample_model (sample_after 1) =
     (Inr (True, sample_ref ''integrity''), sample_after 2)"
  "model_check cert_ext sample_onnx sample_inputs sample_model (sample_after 2) =
     (Inr (True, sample_ref ''model_validation''), sample_after 3)"
  "host_check cert_ext sample_inputs (sample_after 3) =
     (Inr (True, sample_ref ''host''), sample_after 4)"
  "provider_check cert_ext sample_inputs (sample_after 4) =
     (Inr (projr (provider_decision sample_inputs), sample_ref ''provider''), sample_after 5)"
  "tensor_check cert_ext sample_inputs True (sample_after 5) =
     (Inr (True, sample_ref ''tensor_contract''), sample_after 6)"
  "equivalence_check cert_ext sample_inputs (sample_after 6) =
     (Inr (True, sample_ref ''equivalence''), sample_after 7)"
  "quality_check cert_ext sample_inputs (sample_after 7) =
     (Inr (True, sample_ref ''quality''), sample_after 8)"
  "memory_check cert_ext sample_inputs (Fin 512) (sample_after 8) =
     (Inr (PFloat (Fin 100), sample_ref ''memory''), sample_after 9)"
  "latency_check cert_ext sample_inputs (Fin 33) (sample_after 9) =
     (Inr (PFloat (Fin 8), sample_ref ''latency''), sample_after 10)"
  "environment_check cert_ext sample_inputs True (sample_after 10) =
     (Inr (PStr ''valid'', sample_ref ''environment''), sample_after 11)"
  "warmup_check cert_ext sample_inputs (sample_after 11) =
     (Inr (True, sample_ref ''warmup''), sample_after 12)"
  "artifact_check cert_ext sample_inputs sample_model (sample_after 12) =
     (Inr (True, sample_ref ''artifacts''), sample_after 13)"
  by (simp_all add: check_defs Let_def bindS_def catchS_def comp_defs path_join_def path_of_def
      numeral_2_eq_2 [symmetric] sample_evidences sample_reads sample_inputs_simps
      sample_provider sample_onnx_def sample_schema sample_document_def cong: run_congs)

definition sample_context :: pydict where
  "sample_context = [(''require_output_equivalence'', PBool True), (''require_valid_environment'', PBool True),
     (''maximum_peak_rss_mb'', PFloat (Fin 512)), (''deadline_ms'', PFloat (Fin 33)), (''quality_threshold'', PNone),
     (''schema_valid'', PBool True), (''schema_evidence'', PList [sample_ref ''schema'']),
     (''integrity_ok'', PBool True), (''integrity_evidence'', PList [sample_ref ''integrity'']),
     (''model_valid'', PBool True), (''model_evidence'', PList [sample_ref ''model_validation'']),
     (''host_compatible'', PBool True), (''host_evidence'', PList [sample_ref ''host'']),
     (''provider_ok'', PBool True), (''provider_evidence'', PList [sample_ref ''provider'']),
     (''provider_assignment'', PList [PStr ''CPUExecutionProvider'']),
     (''provider_threshold'', PDict (provider_policy sample_cfg)),
     (''tensor_contract_ok'', PBool True), (''tensor_evidence'', PList [sample_ref ''tensor_contract'']),
     (''equivalence_ok'', PBool True), (''equivalence_evidence'', PList [sample_ref ''equivalence'']),
     (''equivalence_score'', PNone), (''quality_ok'', PBool True), (''quality_evidence'', PList [sample_ref ''quality'']),
     (''quality_value'', PNone), (''peak_rss_mb'', PFloat (Fin 100)), (''memory_evidence'', PList [sample_ref ''memory'']),
     (''latency_ms'', PFloat (Fin 8)), (''latency_evidence'', PList [sample_ref ''latency'']),
     (''environment_status'', PStr ''valid''), (''environment_evidence'', PList [sample_ref ''environment'']),
     (''warmup_ok'', PBool True), (''warmup_evidence'', PList [sample_ref ''warmup'']),
     (''warmup_iterations_completed'', PNone), (''artifacts_complete'', PBool True),
     (''artifact_evidence'', PList [sample_ref ''artifacts''])]"

lemma sample_built:
  "build_certification_context cert_ext sample_onnx sample_inputs sample_world = (Inr sample_context, sample_after 13)"
  unfolding build_certification_context_def
  by (simp only: bindS_def sample_start sample_inputs_simps(3,4) liftS_apply sample_steps prod.case sum.case
      cert_policy.simps retS_apply)
    (simp add: sample_context_def sample_inputs_simps sample_provider sample_document_def)

definition sample_gates :: "gate_result list" where
  "sample_gates = projr (run_certification_gates sample_context)"

definition gate_finite :: "gate_result \<Rightarrow> bool" where
  "gate_finite g \<longleftrightarrow> json_finite (PDict (gate_result_to_dict g))"

lemma sample_gates_pass:
  "\<exists>gs. run_certification_gates sample_context = Inr gs \<and> is_certified gs \<and> list_all gate_finite gs"
  by (simp add: sample_context_def run_certification_gates_def ALL_GATES_def gate_defs mk_gate_def
      ctx_flag_def ctx_list_def within_limit_def is_certified_def)
    (simp add: gate_finite_def gate_result_to_dict_def provider_policy_def sample_cfg_def sample_ref_def)

lemma sample_verdict: "run_certification_gates sample_context = Inr sample_gates" "is_certified sample_gates"
    "list_all gate_finite sample_gates"
  using sample_gates_pass by (auto simp: sample_gates_def)

lemma sample_certified:
  "\<exists>ctx gs. build_certification_context cert_ext sample_onnx sample_inputs sample_world
      = (Inr ctx, sample_after 13) \<and> run_certification_gates ctx = Inr gs \<and> is_certified gs"
  using sample_built sample_verdict by blast

text \<open>C1. What a certificate stands for. When the context was built in a world without links, the
  model file lies outside the evidence directory and all gates passed, then in the world the build
  started from the model file has the recorded digest and passed the ONNX check as it stands,
  the provider decision was positive, quality was met, peak memory and latency are within the
  limits, and the environment and the equivalence check are good where the policy requires them.\<close>

theorem certified_candidate:
  assumes run: "build_certification_context X onnx_check ci w = (Inr ctx, w')"
    and gates: "run_certification_gates ctx = Inr gs" and cert: "is_certified gs"
    and plain: "plain w" and model: "candidate_model_path ci = Inr model"
    and outside: "\<not> prefix (place w (evidence_dir ci)) (place w model)"
  shows "(\<exists>b. file_at w (place w model) = Some b \<and> x_sha256 X b = expected_hash ci)
    \<and> expected_hash ci \<noteq> []
    \<and> (\<exists>w1 io. only_under (evidence_dir ci) w w1 \<and> onnx_check w1 model = Inr io)
    \<and> (\<exists>pv. provider_decision ci = Inr pv \<and> pv_ok pv)
    \<and> truthy (dget_or (ci_evaluation ci) ''quality_ok'' (PBool False))
    \<and> (\<exists>pol. certification_policy (ci_cfg ci) = Inr pol
        \<and> within_limit (dget (ci_trial ci) ''peak_rss_mb'') (PFloat (cp_peak pol)) = Inr True
        \<and> within_limit (trial_latency (ci_trial ci)) (PFloat (cp_deadline pol)) = Inr True
        \<and> (cp_environment pol \<longrightarrow>
            environment_value ci \<in> {PStr ''valid'', PStr ''valid_with_warnings''})
        \<and> (cp_equivalence pol \<longrightarrow> truthy (dget_or (ci_evaluation ci) ''equivalence_ok'' (PBool False))
            \<or> py_eq (dget (ci_evaluation ci) ''equivalence_status'') (PStr ''not_required'')))"
proof -
  from build_traced [OF run] obtain t where t: "traced X onnx_check ci w t"
      and ctx: "trace_context ci t ctx" by blast
  have mt: "ct_model t = model" using t model by (simp add: traced_def)
  note c = certified_iff_context [OF gates, THEN iffD1, OF cert]
  have flags: "ct_integrity t" "ct_onnx t" "pv_ok (ct_provider t)" "ct_quality t"
    using c ctx by (simp_all add: trace_context_def ctx_flag_def)
  have lims: "within_limit (dget (ci_trial ci) ''peak_rss_mb'') (PFloat (cp_peak (ct_policy t))) = Inr True"
      "within_limit (trial_latency (ci_trial ci)) (PFloat (cp_deadline (ct_policy t))) = Inr True"
    using c ctx by (simp_all add: trace_context_def)
  have env: "cp_environment (ct_policy t) \<longrightarrow>
      environment_value ci \<in> {PStr ''valid'', PStr ''valid_with_warnings''}"
    and eqv: "cp_equivalence (ct_policy t) \<longrightarrow> ct_equivalence t"
    using c ctx by (simp_all add: trace_context_def ctx_flag_def)
  from t obtain w1 r w2 where o1: "only_under (evidence_dir ci) w w1"
      and ig: "integrity_check X ci model w1 = (Inr (ct_integrity t, r), w2)"
    unfolding traced_def mt by blast
  from integrity_check_ok [OF ig flags(1)] obtain b where ne: "expected_hash ci \<noteq> []"
      and rd: "read_bytes model w1 = (Inr b, w1)" and sha: "x_sha256 X b = expected_hash ci" by blast
  have "file_at w1 (place w1 model) = Some b"
    using rd o1 plain same_setting_plain
    by (auto simp: read_bytes_def only_under_def real_plain split: option.splits)
  then have stored: "file_at w (place w model) = Some b"
    using o1 plain outside same_setting_place [of w w1 model] by (auto simp: only_under_def)
  from t obtain w3 r' w4 where o3: "only_under (evidence_dir ci) w w3"
      and ml: "model_check X onnx_check ci model w3 = (Inr (ct_onnx t, r'), w4)"
    unfolding traced_def mt by blast
  from model_check_ok [OF ml flags(2)] obtain io where io: "onnx_check w3 model = Inr io" by blast
  have pol: "certification_policy (ci_cfg ci) = Inr (ct_policy t)"
      and pv: "provider_decision ci = Inr (ct_provider t)"
      and q: "truthy (dget_or (ci_evaluation ci) ''quality_ok'' (PBool False))"
      and e: "cp_equivalence (ct_policy t) \<longrightarrow> truthy (dget_or (ci_evaluation ci) ''equivalence_ok'' (PBool False))
            \<or> py_eq (dget (ci_evaluation ci) ''equivalence_status'') (PStr ''not_required'')"
    using t flags(4) eqv by (simp_all add: traced_def)
  show ?thesis
    using stored sha ne o3 io pv flags(3) q pol lims env e by blast
qed

theorem certified_candidate_witness:
  "\<exists>b. file_at sample_world [''ws'', ''m.onnx''] = Some b \<and> x_sha256 cert_ext b = expected_hash sample_inputs"
proof -
  from sample_certified obtain ctx gs where
    "build_certification_context cert_ext sample_onnx sample_inputs sample_world
      = (Inr ctx, sample_after 13)" "run_certification_gates ctx = Inr gs" "is_certified gs" by blast
  from certified_candidate [OF this, of sample_model]
  have "plain sample_world \<Longrightarrow> candidate_model_path sample_inputs = Inr sample_model \<Longrightarrow>
      \<not> prefix (place sample_world (evidence_dir sample_inputs)) (place sample_world sample_model) \<Longrightarrow>
      (\<exists>b. file_at sample_world (place sample_world sample_model) = Some b
        \<and> x_sha256 cert_ext b = expected_hash sample_inputs)"
    by blast
  moreover have "place sample_world sample_model = [''ws'', ''m.onnx'']"
      "\<not> prefix (place sample_world (evidence_dir sample_inputs)) [''ws'', ''m.onnx'']"
    by (simp_all add: place_def full_parts_def norm_parts_def sample_inputs_simps)
  ultimately show ?thesis by (simp add: plain_def sample_world_def sample_inputs_simps)
qed

text \<open>C25. The reference recorded for an evidence document leaves out the candidate's directory: the
  document is stored below \<open>certification/evidence/<candidate>\<close>, and the reference, read from the
  workspace root, names another place.\<close>

theorem evidence_reference_misses_document:
  assumes run: "write_evidence X (evidence_dir ci) name payload w = (Inr (ref, digest), w')"
    and plain: "plain w" and names: "name \<in> set evidence_names"
    and cand: "plain_name (ci_candidate ci)"
  shows "\<exists>b. file_at w' (place w (ci_root ci) @ [''certification'', ''evidence'', ci_candidate ci,
      name @ ''.json'']) = Some b \<and> x_sha256 X b = digest
    \<and> ref = PStr (''certification/evidence/'' @ name @ ''.json'')
    \<and> place w (path_div (ci_root ci) (''certification/evidence/'' @ name @ ''.json''))
        \<noteq> place w (ci_root ci) @ [''certification'', ''evidence'', ci_candidate ci, name @ ''.json'']"
proof -
  let ?p = "path_div (evidence_dir ci) (name @ ''.json'')"
  have pn: "plain_name (name @ ''.json'')" using names evidence_names_plain by (auto simp: list_all_iff)
  have pf: "proper_file ?p" and nm: "path_name ?p = name @ ''.json''"
    using pn by (simp_all add: plain_name_def proper_file_def path_join_def path_name_def)
  have pl: "place w ?p = place w (ci_root ci) @ [''certification'', ''evidence'', ci_candidate ci, name @ ''.json'']"
  proof -
    have "plain_name ''certification''" "plain_name ''evidence''"
      by (simp_all add: plain_name_def path_of_def)
    with pn cand show ?thesis by (simp add: evidence_dir_def place_div)
  qed
  let ?q = "path_div (ci_root ci) (''certification/evidence/'' @ name @ ''.json'')"
  from run obtain doc w1 v w2 now w3 t w4 where
      env: "envelope_fields X ''perceptshift.certification_evidence'' w = (Inr doc, w1)"
    and ver: "get_version X w1 = (Inr v, w2)" and tick: "utc_now_rfc3339 X w2 = (Inr now, w3)"
    and wr: "write_atomic_text ?p t w3 = (Inr (), w4)"
    and sha: "sha256_file X ?p w4 = (Inr digest, w')" and ref: "ref = evidence_ref ?p"
    by (auto simp: write_evidence_def write_atomic_json_def Let_def bindS_eq_Inr)
  have "same_files w w3"
    using keepsD [OF keeps_same_envelope env] keepsD [OF keeps_same_get_version ver]
      keepsD [OF keeps_same_tick tick] by (blast intro: same_files.R_trans)
  then have p3: "plain w3" "place w3 x = place w x" for x
    using plain same_setting_plain same_setting_place by (auto simp: same_files_def)
  from write_atomic_text_effect [OF p3(1) pf wr] have p4: "plain w4" "place w4 x = place w x" for x
    using p3 same_setting_plain same_setting_place by auto
  have "file_at w' (place w ?p) = Some b \<and> x_sha256 X b = digest" if "fst (read_bytes ?p w4) = Inr b" for b
    using that sha p4
    by (auto simp: sha256_file_whole bindS_eq_Inr read_bytes_eq read_bytes_def real_plain
        sha256_bytes_def split: option.splits)
  moreover obtain b where "fst (read_bytes ?p w4) = Inr b"
    using sha by (auto simp: sha256_file_whole bindS_eq_Inr read_bytes_eq)
  moreover have "length (place w ?q) < length (place w ?p)"
  proof -
    have q: "p_abs (path_of (''certification/evidence/'' @ name @ ''.json'')) = False"
        "p_parts (path_of (''certification/evidence/'' @ name @ ''.json''))
          = [''certification'', ''evidence'', name @ ''.json'']"
      using pn by (auto simp: plain_name_def path_of_def)
    have "full_parts w ?q = full_parts w (ci_root ci) @ [''certification'', ''evidence'', name @ ''.json'']"
      unfolding path_join_def full_parts_def q by simp
    then have "place w ?q = place w (ci_root ci) @ [''certification'', ''evidence'', name @ ''.json'']"
      using pn by (simp add: place_def norm_parts_append norm_parts_names plain_name_def)
    with pl show ?thesis by simp
  qed
  ultimately show ?thesis
    using pl nm by (auto simp: ref evidence_ref_def)
qed

theorem evidence_reference_misses_document_witness:
  "\<exists>ref digest w'. write_evidence cert_ext (evidence_dir sample_inputs) ''host'' [] (sample_after 3)
      = (Inr (ref, digest), w')
    \<and> place (sample_after 3) (path_div (ci_root sample_inputs) ''certification/evidence/host.json'')
      \<noteq> place (sample_after 3) (ci_root sample_inputs) @ [''certification'', ''evidence'', ''c1'', ''host.json'']"
proof -
  have "evidence cert_ext sample_inputs ''host'' [] (sample_after 3) = (Inr (sample_ref ''host''), sample_after 4)"
    using sample_evidence [of "[]" 3] by (simp add: evidence_names_def)
  then obtain ref digest w' where run: "write_evidence cert_ext (evidence_dir sample_inputs) ''host'' []
      (sample_after 3) = (Inr (ref, digest), w')"
    by (auto simp: evidence_def bindS_eq_Inr)
  have pl: "plain (sample_after 3)" "plain_name (ci_candidate sample_inputs)"
    by (simp_all add: plain_def sample_after_def sample_world_def plain_name_def path_of_def
        sample_inputs_simps)
  from evidence_reference_misses_document [OF run pl(1) evidence_named(4) pl(2)] run show ?thesis
    by (auto simp: sample_inputs_simps)
qed

end
