(* ===== verification/Preprocess.thy ===== *)
theory Preprocess
  imports Common_Docs
begin

text \<open>
  \<open>perceptshift_forge/preprocess.py\<close>: the canonical preprocessing contract, built from layers of
  configuration in order of precedence, with the semantic fields checked before it is emitted.
\<close>

section \<open>Layers\<close>

definition default_accepted :: "string list" where
  "default_accepted = [''rgb8'', ''bgr8'', ''rgba8'', ''bgra8'', ''mono8'']"

definition legacy_keys :: "string list" where
  "legacy_keys = [''width'', ''height'', ''layout'', ''dtype'', ''color_order'', ''resize'',
     ''expected_input'', ''input_variant'']"

text \<open>\<open>if new not in out and old in out: out[new] = out[old]\<close>.\<close>

definition rename_alias :: "string \<Rightarrow> string \<Rightarrow> pydict \<Rightarrow> pydict" where
  "rename_alias new old out =
     (if \<not> dhas out new \<and> dhas out old then dset new (dget out old) out else out)"

definition normalize_legacy_aliases :: "pydict \<Rightarrow> exc + pydict" where
  "normalize_legacy_aliases raw =
     (let out = rename_alias ''output_dtype'' ''dtype'' (rename_alias ''input_layout'' ''layout''
        (rename_alias ''input_height'' ''height'' (rename_alias ''input_width'' ''width'' raw))) in
     bindR (case dget out ''resize'' of
         PList [a, b] \<Rightarrow> bindR (py_int a) (\<lambda>w. bindR (py_int b) (\<lambda>h.
           Inr (dsetdefault ''input_height'' (PInt h) (dsetdefault ''input_width'' (PInt w) out))))
       | _ \<Rightarrow> Inr out) (\<lambda>out.
     Inr (case dget out ''color_order'' of
         PStr c \<Rightarrow> if dhas out ''swap_rb'' then out
           else if py_lower c = ''bgr'' then dset ''swap_rb'' (PBool True) out
           else if py_lower c = ''rgb'' then dset ''swap_rb'' (PBool False) out
           else out
       | _ \<Rightarrow> out)))"

text \<open>\<open>int(d) if isinstance(d, int) and d > 0 else None\<close>.\<close>

fun dim_of :: "pyval \<Rightarrow> int option" where
  "dim_of (PInt n) = (if 0 < n then Some n else None)"
| "dim_of (PBool b) = (if b then Some 1 else None)"
| "dim_of _ = None"

definition set_dims :: "int option \<Rightarrow> int option \<Rightarrow> pydict \<Rightarrow> pydict" where
  "set_dims h w d = (case (h, w) of (Some h', Some w') \<Rightarrow>
     dset ''input_width'' (PInt w') (dset ''input_height'' (PInt h') d) | _ \<Rightarrow> d)"

definition infer_shape :: "pyval list \<Rightarrow> pyval \<Rightarrow> exc + pydict" where
  "infer_shape shape layout = (let dims = map dim_of shape; n = length dims in
     bindR (py_in_strs layout [''nchw'', ''nhwc'']) (\<lambda>explicit.
     let d0 = (if explicit then [(''input_layout'', layout)]
         else if dims ! 1 = Some 3 then [(''input_layout'', PStr ''nchw'')]
         else if dims ! (n - 1) = Some 3 then [(''input_layout'', PStr ''nhwc'')] else []) in
     Inr (if dget d0 ''input_layout'' = PStr ''nchw'' \<and> dims ! (n - 2) \<noteq> None \<and> dims ! (n - 1) \<noteq> None
       then set_dims (dims ! (n - 2)) (dims ! (n - 1)) d0
       else if dget d0 ''input_layout'' = PStr ''nhwc'' then set_dims (dims ! 1) (dims ! 2) d0
       else d0)))"

definition copy_key :: "pydict \<Rightarrow> string \<Rightarrow> pydict \<Rightarrow> pydict" where
  "copy_key src k d = (if dhas src k then dset k (dget src k) d else d)"

definition infer_from_expected_input :: "pydict \<Rightarrow> exc + pydict" where
  "infer_from_expected_input expected =
     (let shape = py_or (dget expected ''shape'') (dget expected ''input_shape'');
          layout = py_or (dget expected ''layout'') (dget expected ''input_layout'') in
     bindR (case shape of
         PList l \<Rightarrow> if 4 \<le> length l then infer_shape l layout else Inr []
       | _ \<Rightarrow> Inr []) (\<lambda>d.
     let d = (if dhas d ''input_layout'' then d else copy_key expected ''input_layout'' d) in
     Inr (fold (copy_key expected) [''scale'', ''mean'', ''std'', ''swap_rb''] d)))"

definition merge_item :: "string \<times> pyval \<Rightarrow> pydict \<Rightarrow> pydict" where
  "merge_item kv result = (if fst kv \<in> set legacy_keys \<or> snd kv = PNone \<or> dhas result (fst kv)
     then result else dset (fst kv) (snd kv) result)"

definition merge_layers :: "pydict list \<Rightarrow> pydict" where
  "merge_layers layers = fold (fold merge_item) layers []"

section \<open>The semantic fields\<close>

text \<open>\<open>int(v) <= 0\<close> with TypeError and ValueError counted as missing; an overflow is raised.\<close>

definition bad_dimension :: "pyval \<Rightarrow> exc + bool" where
  "bad_dimension v = (case py_int v of
     Inr n \<Rightarrow> Inr (n \<le> 0)
   | Inl e \<Rightarrow> if is_kind TypeError e \<or> is_value_error e then Inr True else Inl e)"

fun is_triple :: "pyval \<Rightarrow> bool" where
  "is_triple (PList l) = (length l = 3)"
| "is_triple _ = False"

definition semantic_gap :: "pydict \<Rightarrow> string \<Rightarrow> exc + bool" where
  "semantic_gap merged k = (let v = dget merged k in
     if v = PNone then Inr True
     else if k \<in> {''mean'', ''std''} then Inr (\<not> is_triple v)
     else if k \<in> {''input_width'', ''input_height''} then bad_dimension v
     else if k = ''input_layout'' then
       bindR (py_in_strs v [''nchw'', ''nhwc'']) (\<lambda>b. Inr (\<not> b))
     else Inr False)"

definition semantic_fields :: "string list" where
  "semantic_fields = [''input_width'', ''input_height'', ''input_layout'', ''scale'', ''mean'', ''std'']"

definition required_semantic_gaps :: "pydict \<Rightarrow> exc + string list" where
  "required_semantic_gaps merged = filterR (semantic_gap merged) semantic_fields"

section \<open>The contract\<close>

definition explicit_layers :: "pydict \<Rightarrow> exc + pydict list" where
  "explicit_layers model_cfg = mapR normalize_legacy_aliases
     (map the_dict (filter (\<lambda>v. is_dict v \<and> truthy v)
       [dget model_cfg ''preprocess'', dget model_cfg ''preprocess_contract'']))"

definition dataset_layers :: "pydict option \<Rightarrow> exc + pydict list" where
  "dataset_layers manifest = (case manifest of None \<Rightarrow> Inr []
     | Some m \<Rightarrow> (let ds = dget m ''preprocess_contract'' in
         if is_dict ds \<and> truthy ds
         then bindR (normalize_legacy_aliases (the_dict ds)) (\<lambda>d. Inr [d]) else Inr []))"

definition inferred_layers :: "pydict \<Rightarrow> exc + pydict list" where
  "inferred_layers model_cfg = (let expected = py_or (dget model_cfg ''expected_input'') (PDict []) in
     if is_dict expected \<and> truthy expected
     then bindR (infer_from_expected_input (the_dict expected)) (\<lambda>d.
       Inr (if d = [] then [] else [d]))
     else Inr [])"

definition variant_layers :: "pydict \<Rightarrow> exc + pydict list" where
  "variant_layers variant = (if variant = [] then Inr []
     else bindR (normalize_legacy_aliases variant) (\<lambda>d. Inr [d]))"

definition apply_defaults :: "string \<Rightarrow> pydict \<Rightarrow> pydict" where
  "apply_defaults backend merged =
     dsetdefault ''letterbox_pad_value'' PNone (dsetdefault ''swap_rb'' (PBool False)
     (dsetdefault ''source_color_handling'' (PStr ''convert_to_rgb'')
     (dsetdefault ''output_dtype'' (PStr ''float32'')
     (dsetdefault ''resize_interpolation'' (PStr ''bilinear'')
     (dsetdefault ''resize_mode'' (PStr ''stretch'')
     (dsetdefault ''accepted_source_formats'' (PList (map PStr default_accepted))
     (dset ''backend'' (PStr (if backend \<in> {''scalar'', ''neon'', ''neon_auto''} then backend
        else ''scalar'')) merged)))))))"

definition semantic_failure :: "string list \<Rightarrow> string \<Rightarrow> exc" where
  "semantic_failure missing adapter = ps_error CONFIG_INVALID
     (''Cannot build canonical preprocess contract; missing semantic fields: ''
        @ join_with '', '' missing)
     (Some (''Set model.preprocess (or dataset preprocess_contract) with ''
        @ ''input_width/input_height/input_layout/scale/mean/std. ''
        @ ''Do not rely on invented ImageNet defaults for arbitrary models.''))
     [(''missing_fields'', PList (map PStr missing)), (''adapter'', PStr adapter)] None"

definition triple_of :: "rat \<Rightarrow> pyval" where
  "triple_of q = PList [PFloat (Fin q), PFloat (Fin q), PFloat (Fin q)]"

definition default_scale :: pyval where
  "default_scale = PFloat (fl_div (Fin 1) (Fin 255))"

definition tensor_fields :: "pydict \<Rightarrow> pydict" where
  "tensor_fields merged = dsetdefault ''std'' (triple_of 1) (dsetdefault ''mean'' (triple_of 0)
     (dsetdefault ''scale'' default_scale (dsetdefault ''input_layout'' (PStr ''nchw'') merged)))"

definition tensor_placeholder :: "pydict \<Rightarrow> pydict" where
  "tensor_placeholder merged =
     (if \<not> dhas merged ''input_width'' \<or> \<not> dhas merged ''input_height''
      then tensor_fields (dsetdefault ''input_height'' (PInt 1) (dsetdefault ''input_width'' (PInt 1) merged))
      else tensor_fields merged)"

definition float_list :: "pyval \<Rightarrow> exc + pyval list" where
  "float_list v = bindR (py_iter v) (mapR (\<lambda>x. bindR (py_float x) (\<lambda>f. Inr (PFloat f))))"

definition contract_of :: "pydict \<Rightarrow> exc + pydict" where
  "contract_of m =
     bindR (bindR (ditem m ''input_width'') py_int) (\<lambda>w.
     bindR (bindR (ditem m ''input_height'') py_int) (\<lambda>h.
     bindR (ditem m ''input_layout'') (\<lambda>layout.
     bindR (bindR (ditem m ''accepted_source_formats'') py_iter) (\<lambda>formats.
     bindR (ditem m ''source_color_handling'') (\<lambda>handling.
     bindR (ditem m ''resize_mode'') (\<lambda>mode.
     bindR (ditem m ''resize_interpolation'') (\<lambda>interp.
     bindR (bindR (ditem m ''scale'') py_float) (\<lambda>scale.
     bindR (bindR (ditem m ''mean'') float_list) (\<lambda>mean.
     bindR (bindR (ditem m ''std'') float_list) (\<lambda>std.
     bindR (ditem m ''swap_rb'') (\<lambda>swap.
     bindR (ditem m ''output_dtype'') (\<lambda>dtype.
     bindR (ditem m ''backend'') (\<lambda>backend.
     Inr [(''input_width'', PInt w), (''input_height'', PInt h),
       (''input_layout'', PStr (py_str layout)), (''accepted_source_formats'', PList formats),
       (''source_color_handling'', PStr (py_str handling)), (''resize_mode'', PStr (py_str mode)),
       (''resize_interpolation'', PStr (py_str interp)), (''scale'', PFloat scale),
       (''mean'', PList mean), (''std'', PList std), (''swap_rb'', PBool (truthy swap)),
       (''letterbox_pad_value'', dget m ''letterbox_pad_value''),
       (''output_dtype'', PStr (py_str dtype)), (''backend'', PStr (py_str backend))])))))))))))))"

text \<open>The contract before its schema validation; the last argument is \<open>require_image_semantics\<close>.\<close>

definition adapter_of :: "pydict \<Rightarrow> string" where
  "adapter_of model_cfg = py_str (py_or (dget model_cfg ''adapter'') (PStr ''raw_tensor''))"

definition preprocess_contract ::
    "pydict \<Rightarrow> pydict option \<Rightarrow> string \<Rightarrow> pydict \<Rightarrow> bool option \<Rightarrow> exc + pydict" where
  "preprocess_contract forge manifest backend variant require =
     bindR (sub_dict forge ''model'') (\<lambda>model_cfg.
     let adapter = adapter_of model_cfg;
         image = (case require of Some b \<Rightarrow> b
           | None \<Rightarrow> adapter \<in> {''image_classification'', ''yolo_v8_detection''}) in
     bindR (explicit_layers model_cfg) (\<lambda>l1.
     bindR (dataset_layers manifest) (\<lambda>l2.
     bindR (inferred_layers model_cfg) (\<lambda>l3.
     bindR (variant_layers variant) (\<lambda>l4.
     let merged = apply_defaults backend (merge_layers (l1 @ l2 @ l3 @ l4)) in
     bindR (required_semantic_gaps merged) (\<lambda>missing.
     if missing = [] then contract_of merged
     else bindR (guardR (\<not> image \<and> adapter = ''raw_tensor'') (semantic_failure missing adapter)) (\<lambda>u.
       contract_of (tensor_placeholder merged))))))))"

definition build_canonical_preprocess ::
    "ext \<Rightarrow> pydict \<Rightarrow> pydict option \<Rightarrow> string \<Rightarrow> pydict \<Rightarrow> bool option \<Rightarrow> pydict io" where
  "build_canonical_preprocess X forge manifest backend variant require =
     bindS (liftS (preprocess_contract forge manifest backend variant require)) (\<lambda>contract.
     bindS (validate_document X (PDict contract) ''preprocess_contract'') (\<lambda>u. retS contract))"

section \<open>Precedence\<close>

text \<open>The first layer with a value decides.\<close>

definition layer_value :: "pydict \<Rightarrow> string \<Rightarrow> pyval option" where
  "layer_value d k = (if k \<in> set legacy_keys \<or> dget d k = PNone then None else Some (dget d k))"

fun first_value :: "pydict list \<Rightarrow> string \<Rightarrow> pyval option" where
  "first_value [] k = None"
| "first_value (d # ds) k = (case layer_value d k of None \<Rightarrow> first_value ds k | Some v \<Rightarrow> Some v)"

lemma map_of_merge_item:
  "map_of (merge_item (k, v) r) k' = (case map_of r k' of Some x \<Rightarrow> Some x
    | None \<Rightarrow> if k = k' \<and> k \<notin> set legacy_keys \<and> v \<noteq> PNone then Some v else None)"
  by (auto simp: merge_item_def dhas_def split: option.splits)

lemma map_of_merge_layer:
  "distinct (map fst d) \<Longrightarrow> map_of (fold merge_item d r) k =
    (case map_of r k of Some x \<Rightarrow> Some x | None \<Rightarrow> layer_value d k)"
proof (induction d arbitrary: r)
  case Nil
  then show ?case by (simp add: layer_value_def split: option.splits)
next
  case (Cons e d)
  obtain k1 v1 where e: "e = (k1, v1)" by fastforce
  have "k1 \<notin> fst ` set d" using Cons.prems e by auto
  then have "dget d k1 = PNone" by (auto simp: dget_def map_of_eq_None_iff [symmetric] split: option.splits)
  with Cons e show ?case
    by (auto simp: map_of_merge_item layer_value_def split: option.splits)
qed

lemma map_of_fold_layers:
  "list_all (\<lambda>d. distinct (map fst d)) ds \<Longrightarrow> map_of (fold (fold merge_item) ds r) k =
    (case map_of r k of Some x \<Rightarrow> Some x | None \<Rightarrow> first_value ds k)"
  by (induction ds arbitrary: r) (auto simp: map_of_merge_layer split: option.splits)

lemma map_of_merge_layers:
  "list_all (\<lambda>d. distinct (map fst d)) ds \<Longrightarrow> map_of (merge_layers ds) k = first_value ds k"
  by (simp add: merge_layers_def map_of_fold_layers)

lemma first_value_append:
  "first_value (xs @ ys) k = (case first_value xs k of None \<Rightarrow> first_value ys k | Some v \<Rightarrow> Some v)"
  by (induction xs) (auto split: option.splits)

section \<open>Facts about the builder\<close>

lemma wf_rename_alias: "wf_dict d \<Longrightarrow> wf_dict (rename_alias n old d)"
  unfolding rename_alias_def by (simp del: wf_val.simps add: wf_dset wf_dget)

lemma wf_normalize:
  assumes "normalize_legacy_aliases d = Inr e" and "wf_dict d"
  shows "wf_dict e"
proof -
  let ?o = "rename_alias ''output_dtype'' ''dtype'' (rename_alias ''input_layout'' ''layout''
        (rename_alias ''input_height'' ''height'' (rename_alias ''input_width'' ''width'' d)))"
  have o: "wf_dict ?o" using assms(2) by (intro wf_rename_alias)
  have sd: "wf_dict (dsetdefault k (PInt n) x)" if "wf_dict x" for k n x
    using that wf_dset [of x "PInt n" k] by (simp add: dsetdefault_def del: wf_val.simps(2))
  obtain out where "(case dget ?o ''resize'' of
         PList [a, b] \<Rightarrow> bindR (py_int a) (\<lambda>w. bindR (py_int b) (\<lambda>h.
           Inr (dsetdefault ''input_height'' (PInt h) (dsetdefault ''input_width'' (PInt w) ?o))))
       | _ \<Rightarrow> Inr ?o) = Inr out"
    and e: "e = (case dget out ''color_order'' of
         PStr c \<Rightarrow> if dhas out ''swap_rb'' then out
           else if py_lower c = ''bgr'' then dset ''swap_rb'' (PBool True) out
           else if py_lower c = ''rgb'' then dset ''swap_rb'' (PBool False) out
           else out
       | _ \<Rightarrow> out)"
    using assms(1) by (auto simp: normalize_legacy_aliases_def Let_def bindR_eq_Inr)
  then have "wf_dict out"
    using o sd by (auto simp: bindR_eq_Inr simp del: wf_val.simps(2) split: pyval.splits list.splits)
  then show ?thesis
    unfolding e using wf_dset [of out "PBool _" "''swap_rb''"]
    by (simp del: wf_val.simps(2) split: pyval.splits)
qed

lemma wf_explicit_layers:
  assumes "explicit_layers m = Inr ls" and "wf_dict m"
  shows "list_all wf_dict ls"
proof -
  have "wf_dict d" if "d \<in> set (map the_dict (filter (\<lambda>v. is_dict v \<and> truthy v)
       [dget m ''preprocess'', dget m ''preprocess_contract'']))" for d
  proof -
    from that obtain v where "v \<in> {dget m ''preprocess'', dget m ''preprocess_contract''}"
      "is_dict v" "d = the_dict v" by (auto simp only: set_map set_filter set_simps)
    moreover have "wf_val v" using calculation assms(2) wf_dget by blast
    ultimately show ?thesis by (cases v) auto
  qed
  then show ?thesis
    using mapR_all [OF assms(1) [unfolded explicit_layers_def], where P = wf_dict and Q = wf_dict]
      wf_normalize by blast
qed

text \<open>How the contract reads each field of the merged layers.\<close>

definition field_conversion :: "string \<Rightarrow> pyval \<Rightarrow> exc + pyval" where
  "field_conversion k v =
     (if k \<in> {''input_width'', ''input_height''} then bindR (py_int v) (\<lambda>n. Inr (PInt n))
      else if k \<in> {''mean'', ''std''} then bindR (float_list v) (\<lambda>l. Inr (PList l))
      else if k = ''scale'' then bindR (py_float v) (\<lambda>f. Inr (PFloat f))
      else if k = ''accepted_source_formats'' then bindR (py_iter v) (\<lambda>l. Inr (PList l))
      else if k = ''swap_rb'' then Inr (PBool (truthy v))
      else if k = ''letterbox_pad_value'' then Inr v
      else Inr (PStr (py_str v)))"

definition contract_keys :: "string list" where
  "contract_keys = [''input_width'', ''input_height'', ''input_layout'', ''accepted_source_formats'',
     ''source_color_handling'', ''resize_mode'', ''resize_interpolation'', ''scale'', ''mean'', ''std'',
     ''swap_rb'', ''output_dtype'', ''backend'']"

lemma ditem_Inr: "ditem d k = Inr v \<longleftrightarrow> map_of d k = Some v"
  by (auto simp: ditem_def split: option.splits)

lemma contract_of_fields:
  assumes "contract_of m = Inr c"
  shows "list_all (\<lambda>k. \<exists>v. map_of m k = Some v \<and> field_conversion k v = Inr (dget c k)) contract_keys"
  using assms
  by (auto simp: contract_of_def bindR_eq_Inr ditem_Inr contract_keys_def field_conversion_def)


lemma wf_inferred:
  assumes "infer_from_expected_input d = Inr e"
  shows "distinct (map fst e)"
proof -
  have ck: "distinct (map fst (copy_key src k x))" if "distinct (map fst x)" for src k x
    using that distinct_dset by (simp add: copy_key_def)
  have fold_ck: "distinct (map fst (fold (copy_key src) ks x))" if "distinct (map fst x)" for src ks x
    using that by (induction ks arbitrary: x) (auto simp: ck)
  have sh: "distinct (map fst x)" if "infer_shape l v = Inr x" for l v x
    using that by (auto simp: infer_shape_def Let_def bindR_eq_Inr set_dims_def dset_def
        split: if_splits option.splits intro!: distinct_update)
  from assms obtain x where
      x: "(case py_or (dget d ''shape'') (dget d ''input_shape'') of
         PList l \<Rightarrow> if 4 \<le> length l
           then infer_shape l (py_or (dget d ''layout'') (dget d ''input_layout'')) else Inr []
       | _ \<Rightarrow> Inr []) = Inr x"
    and e: "e = fold (copy_key d) [''scale'', ''mean'', ''std'', ''swap_rb'']
      (if dhas x ''input_layout'' then x else copy_key d ''input_layout'' x)"
    unfolding infer_from_expected_input_def Let_def bindR_eq_Inr sum.inject by blast
  have "distinct (map fst x)"
    using x sh by (auto split: pyval.splits if_splits)
  then show ?thesis unfolding e using ck fold_ck by auto
qed

text \<open>The layers of a run in order of precedence.\<close>

definition run_layers :: "pydict \<Rightarrow> pydict option \<Rightarrow> pydict \<Rightarrow> exc + pydict list" where
  "run_layers model_cfg manifest variant =
     bindR (explicit_layers model_cfg) (\<lambda>l1. bindR (dataset_layers manifest) (\<lambda>l2.
     bindR (inferred_layers model_cfg) (\<lambda>l3. bindR (variant_layers variant) (\<lambda>l4.
     Inr (l1 @ l2 @ l3 @ l4)))))"

lemma preprocess_contract_eq:
  "preprocess_contract forge manifest backend variant require =
     bindR (sub_dict forge ''model'') (\<lambda>m. bindR (run_layers m manifest variant) (\<lambda>ls.
     let adapter = adapter_of m;
         image = (case require of Some b \<Rightarrow> b
           | None \<Rightarrow> adapter \<in> {''image_classification'', ''yolo_v8_detection''});
         merged = apply_defaults backend (merge_layers ls) in
     bindR (required_semantic_gaps merged) (\<lambda>missing.
     if missing = [] then contract_of merged
     else bindR (guardR (\<not> image \<and> adapter = ''raw_tensor'') (semantic_failure missing adapter)) (\<lambda>u.
       contract_of (tensor_placeholder merged)))))"
  by (simp add: preprocess_contract_def run_layers_def bindR_assoc Let_def)

lemma run_layers_distinct:
  assumes "run_layers m manifest variant = Inr ls" and "wf_dict m" and "wf_dict variant"
    and "\<And>d. manifest = Some d \<Longrightarrow> wf_dict d"
  shows "list_all (\<lambda>d. distinct (map fst d)) ls"
proof -
  from assms(1) obtain l1 l2 l3 l4 where l: "explicit_layers m = Inr l1"
    "dataset_layers manifest = Inr l2" "inferred_layers m = Inr l3" "variant_layers variant = Inr l4"
    and ls: "ls = l1 @ l2 @ l3 @ l4"
    by (auto simp: run_layers_def bindR_eq_Inr)
  have "list_all wf_dict l1" using l(1) assms(2) by (rule wf_explicit_layers)
  moreover have "list_all wf_dict l2"
  proof (cases "manifest = None \<or> l2 = []")
    case True
    with l(2) show ?thesis by (auto simp: dataset_layers_def)
  next
    case False
    then obtain d ds e where d: "manifest = Some d" "dget d ''preprocess_contract'' = PDict ds"
        and e: "normalize_legacy_aliases ds = Inr e" "l2 = [e]"
      using l(2) by (cases "dget (the manifest) ''preprocess_contract''")
        (auto simp: dataset_layers_def Let_def bindR_eq_Inr split: if_splits)
    have "wf_dict ds" using wf_dget [OF assms(4) [OF d(1)], of "''preprocess_contract''"] d(2) by metis
    with wf_normalize [OF e(1)] e(2) show ?thesis by (simp del: wf_val.simps)
  qed
  moreover have "list_all (\<lambda>d. distinct (map fst d)) l3"
    using l(3) by (auto simp: inferred_layers_def Let_def bindR_eq_Inr split: if_splits dest: wf_inferred)
  moreover have "list_all wf_dict l4"
  proof (cases "variant = []")
    case True
    with l(4) show ?thesis by (simp add: variant_layers_def)
  next
    case False
    with l(4) obtain e where "normalize_legacy_aliases variant = Inr e" "l4 = [e]"
      by (auto simp: variant_layers_def bindR_eq_Inr)
    with wf_normalize [OF _ assms(3)] show ?thesis by (simp del: wf_val.simps)
  qed
  moreover have "list_all (\<lambda>d. distinct (map fst d)) xs" if "list_all wf_dict xs" for xs
    using that by (induction xs) auto
  ultimately show ?thesis unfolding ls list_all_append by blast
qed

lemma dsetdefault_other: "k \<noteq> k' \<Longrightarrow> map_of (dsetdefault k v d) k' = map_of d k'"
  by (simp add: dsetdefault_def)

lemma dsetdefault_keeps: "map_of d k' = Some x \<Longrightarrow> map_of (dsetdefault k v d) k' = Some x"
  by (auto simp: dsetdefault_def dhas_def)

lemma map_of_apply_defaults:
  "k \<in> set semantic_fields \<Longrightarrow> map_of (apply_defaults backend m) k = map_of m k"
  unfolding semantic_fields_def set_simps
  by (elim insertE emptyE) (simp_all add: apply_defaults_def dsetdefault_other)

lemma map_of_tensor_placeholder:
  "map_of m k = Some v \<Longrightarrow> map_of (tensor_placeholder m) k = Some v"
  by (simp add: tensor_placeholder_def tensor_fields_def dsetdefault_keeps)

lemma dget_merge_not_None: "list_all (\<lambda>d. distinct (map fst d)) ls \<Longrightarrow>
    map_of (merge_layers ls) k = Some v \<Longrightarrow> v \<noteq> PNone"
  by (induction ls) (auto simp: map_of_merge_layers layer_value_def split: option.splits if_splits)

text \<open>A layer whose keys are all decided already adds nothing.\<close>

lemma merge_layer_decided:
  assumes "\<And>k v. (k, v) \<in> set d \<Longrightarrow> k \<in> set legacy_keys \<or> v = PNone \<or> dhas r k"
  shows "fold merge_item d r = r"
  using assms
proof (induction d)
  case (Cons e d)
  have "merge_item e r = r" using Cons.prems by (cases e) (auto simp: merge_item_def)
  with Cons show ?case by (simp add: fold_Cons comp_def)
qed simp

lemma merge_layers_decided:
  assumes "\<And>d k v. d \<in> set ds \<Longrightarrow> (k, v) \<in> set d \<Longrightarrow>
      k \<in> set legacy_keys \<or> v = PNone \<or> dhas (merge_layers ls) k"
  shows "merge_layers (ls @ ds) = merge_layers ls"
proof -
  have "fold (fold merge_item) ds (merge_layers ls) = merge_layers ls"
    using assms
  proof (induction ds)
    case (Cons d ds)
    have "fold merge_item d (merge_layers ls) = merge_layers ls"
      using Cons.prems by (intro merge_layer_decided) auto
    moreover have "fold (fold merge_item) ds (merge_layers ls) = merge_layers ls"
      by (rule Cons.IH) (use Cons.prems in auto)
    ultimately show ?case by simp
  qed simp
  then show ?thesis by (simp add: merge_layers_def)
qed

lemma semantic_in_contract: "k \<in> set semantic_fields \<Longrightarrow> k \<in> set contract_keys"
  unfolding semantic_fields_def set_simps
  by (elim insertE emptyE) (simp_all add: contract_keys_def)

lemma semantic_members:
  "''input_width'' \<in> set semantic_fields" "''input_height'' \<in> set semantic_fields"
  "''input_layout'' \<in> set semantic_fields" "''mean'' \<in> set semantic_fields"
  "''std'' \<in> set semantic_fields"
  by (simp_all add: semantic_fields_def)

section \<open>Properties\<close>

text \<open>C26. Precedence: when the explicit preprocessing entry of the model gives a value to a semantic
  field, the contract carries that value, whatever the dataset manifest, the inferred shape and the
  input variant say.\<close>

theorem explicit_preprocess_wins:
  assumes run: "preprocess_contract forge manifest backend variant require = Inr c"
    and m: "sub_dict forge ''model'' = Inr m" and wf: "wf_dict m" "wf_dict variant"
      "\<And>d. manifest = Some d \<Longrightarrow> wf_dict d"
    and d: "dget m ''preprocess'' = PDict d" "d \<noteq> []" "normalize_legacy_aliases d = Inr e"
    and k: "k \<in> set semantic_fields" "layer_value e k = Some v"
  shows "field_conversion k v = Inr (dget c k)"
proof -
  from run m obtain ls where ls: "run_layers m manifest variant = Inr ls"
    and c: "contract_of (apply_defaults backend (merge_layers ls)) = Inr c
      \<or> contract_of (tensor_placeholder (apply_defaults backend (merge_layers ls))) = Inr c"
    by (auto simp: preprocess_contract_eq Let_def bindR_eq_Inr split: if_splits)
  from ls d obtain rest where "ls = e # rest"
    by (auto simp: run_layers_def explicit_layers_def bindR_eq_Inr)
  then have "map_of (merge_layers ls) k = Some v"
    using run_layers_distinct [OF ls wf] k(2) by (simp add: map_of_merge_layers)
  then have v: "map_of (apply_defaults backend (merge_layers ls)) k = Some v"
    using k(1) by (simp add: map_of_apply_defaults)
  have kk: "k \<in> set contract_keys" using k(1) by (auto simp: semantic_fields_def contract_keys_def)
  from c show ?thesis
  proof
    assume "contract_of (apply_defaults backend (merge_layers ls)) = Inr c"
    from contract_of_fields [OF this] kk v show ?thesis by (auto simp: list_all_iff)
  next
    assume "contract_of (tensor_placeholder (apply_defaults backend (merge_layers ls))) = Inr c"
    from contract_of_fields [OF this] kk map_of_tensor_placeholder [OF v] show ?thesis
      by (auto simp: list_all_iff)
  qed
qed

definition sample_preprocess :: pydict where
  "sample_preprocess = [(''width'', PInt 224), (''height'', PInt 224), (''layout'', PStr ''nchw''),
     (''scale'', PFloat (Fin (1/256))), (''mean'', PList [PInt 0, PInt 0, PInt 0]),
     (''std'', PList [PFloat (Fin 1), PFloat (Fin 1), PFloat (Fin 1)])]"

definition sample_model_cfg :: pydict where
  "sample_model_cfg = [(''adapter'', PStr ''image_classification''),
     (''preprocess'', PDict sample_preprocess)]"

definition sample_forge :: pydict where
  "sample_forge = [(''model'', PDict sample_model_cfg)]"

lemma sample_forge_model: "sub_dict sample_forge ''model'' = Inr sample_model_cfg"
  by (simp add: sub_dict_def sample_forge_def py_or_def sample_model_cfg_def)

lemma sample_wf: "wf_dict sample_model_cfg" "wf_dict [(''scale'', PInt 1)]"
  by (simp_all add: sample_model_cfg_def sample_preprocess_def)

definition sample_norm :: pydict where
  "sample_norm = sample_preprocess @ [(''input_width'', PInt 224), (''input_height'', PInt 224),
     (''input_layout'', PStr ''nchw'')]"

definition sample_merged :: pydict where
  "sample_merged = drop 3 sample_norm @ [(''backend'', PStr ''neon''),
     (''accepted_source_formats'', PList (map PStr default_accepted)),
     (''resize_mode'', PStr ''stretch''), (''resize_interpolation'', PStr ''bilinear''),
     (''output_dtype'', PStr ''float32''), (''source_color_handling'', PStr ''convert_to_rgb''),
     (''swap_rb'', PBool False), (''letterbox_pad_value'', PNone)]"

lemmas sample_defs = sample_preprocess_def sample_norm_def sample_merged_def

lemma sample_normalized: "normalize_legacy_aliases sample_preprocess = Inr sample_norm"
  by (simp add: sample_defs normalize_legacy_aliases_def rename_alias_def dset_def)

lemma variant_normalized: "normalize_legacy_aliases [(''scale'', PInt 1)] = Inr [(''scale'', PInt 1)]"
  by (simp add: normalize_legacy_aliases_def rename_alias_def)

lemma sample_layers:
  "run_layers sample_model_cfg None [(''scale'', PInt 1)] = Inr [sample_norm, [(''scale'', PInt 1)]]"
  "run_layers sample_model_cfg None [] = Inr [sample_norm]"
  by (simp_all add: run_layers_def explicit_layers_def dataset_layers_def inferred_layers_def
      variant_layers_def sample_model_cfg_def py_or_def sample_normalized variant_normalized)
    (simp_all add: sample_preprocess_def)

lemma sample_merge:
  "apply_defaults ''neon'' (merge_layers [sample_norm, [(''scale'', PInt 1)]]) = sample_merged"
  by (simp add: sample_defs merge_layers_def merge_item_def legacy_keys_def apply_defaults_def
      dsetdefault_def dset_def)

lemma sample_complete: "required_semantic_gaps sample_merged = Inr []"
  by (simp add: required_semantic_gaps_def semantic_fields_def semantic_gap_def sample_defs
      bad_dimension_def)

lemma sample_contract:
  "\<exists>c. preprocess_contract sample_forge None ''neon'' [(''scale'', PInt 1)] None = Inr c
     \<and> json_finite (PDict c)"
proof -
  have "\<exists>c. contract_of sample_merged = Inr c \<and> json_finite (PDict c)"
    by (simp add: contract_of_def ditem_def sample_defs float_list_def default_accepted_def)
  then show ?thesis
    by (simp add: preprocess_contract_eq sample_forge_model sample_layers sample_merge sample_complete)
qed

theorem explicit_preprocess_wins_witness:
  "\<exists>c. preprocess_contract sample_forge None ''neon'' [(''scale'', PInt 1)] None = Inr c
     \<and> dget c ''scale'' = PFloat (Fin (1/256))"
proof -
  from sample_contract obtain c where
      run: "preprocess_contract sample_forge None ''neon'' [(''scale'', PInt 1)] None = Inr c" by blast
  have e: "layer_value sample_norm ''scale'' = Some (PFloat (Fin (1/256)))"
    by (simp add: sample_defs layer_value_def legacy_keys_def)
  have d: "dget sample_model_cfg ''preprocess'' = PDict sample_preprocess" "sample_preprocess \<noteq> []"
    by (simp_all add: sample_model_cfg_def sample_preprocess_def)
  have k: "''scale'' \<in> set semantic_fields" by (simp add: semantic_fields_def)
  have "field_conversion ''scale'' (PFloat (Fin (1/256))) = Inr (dget c ''scale'')"
    using explicit_preprocess_wins [OF run sample_forge_model sample_wf _ d sample_normalized k e] by simp
  with run show ?thesis by (simp add: field_conversion_def)
qed

text \<open>C27. The contract of an image adapter is usable: positive dimensions, a known layout, three
  means and three deviations.\<close>

theorem image_contract_sound:
  assumes run: "preprocess_contract forge manifest backend variant None = Inr c"
    and m: "sub_dict forge ''model'' = Inr m"
    and image: "adapter_of m \<in> {''image_classification'', ''yolo_v8_detection''}"
  shows "\<exists>w h mean std. dget c ''input_width'' = PInt w \<and> 0 < w
    \<and> dget c ''input_height'' = PInt h \<and> 0 < h
    \<and> dget c ''input_layout'' \<in> {PStr ''nchw'', PStr ''nhwc''}
    \<and> dget c ''mean'' = PList mean \<and> length mean = 3 \<and> dget c ''std'' = PList std \<and> length std = 3"
proof -
  from run m image obtain ls where
      gaps: "required_semantic_gaps (apply_defaults backend (merge_layers ls)) = Inr []"
    and c: "contract_of (apply_defaults backend (merge_layers ls)) = Inr c"
    by (auto simp: preprocess_contract_eq Let_def bindR_eq_Inr guardR_eq_Inr split: if_splits)
  let ?m = "apply_defaults backend (merge_layers ls)"
  have no: "semantic_gap ?m k = Inr False" if "k \<in> set semantic_fields" for k
    using filterR_set [OF gaps [unfolded required_semantic_gaps_def]]
      filterR_tested [OF gaps [unfolded required_semantic_gaps_def] that] that
    by (metis (mono_tags, lifting) empty_iff empty_set mem_Collect_eq)
  have fields: "\<exists>v. dget ?m k = v \<and> semantic_gap ?m k = Inr False
      \<and> field_conversion k v = Inr (dget c k)" if "k \<in> set semantic_fields" for k
    using contract_of_fields [OF c] semantic_in_contract [OF that] no [OF that]
    by (auto simp: list_all_iff dget_def)
  have dim: "\<exists>n. dget c k = PInt n \<and> 0 < n"
    if k: "k = ''input_width'' \<or> k = ''input_height''" for k
  proof -
    have "k \<in> set semantic_fields" using k semantic_members by metis
    from fields [OF this] obtain v where "dget ?m k = v" and g: "semantic_gap ?m k = Inr False"
      and v: "field_conversion k v = Inr (dget c k)" by blast
    then have "bad_dimension v = Inr False"
      using k by (elim disjE) (simp_all add: semantic_gap_def split: if_splits)
    moreover have "\<exists>n. py_int v = Inr n \<and> dget c k = PInt n"
      using v k by (elim disjE) (auto simp: field_conversion_def bindR_eq_Inr)
    ultimately show ?thesis by (auto simp: bad_dimension_def)
  qed
  have triple: "\<exists>l. dget c k = PList l \<and> length l = 3" if k: "k = ''mean'' \<or> k = ''std''" for k
  proof -
    have "k \<in> set semantic_fields" using k semantic_members by metis
    from fields [OF this] obtain v where "dget ?m k = v" and g: "semantic_gap ?m k = Inr False"
      and v: "field_conversion k v = Inr (dget c k)" by blast
    then have "is_triple v"
      using k by (elim disjE) (simp_all add: semantic_gap_def split: if_splits)
    moreover have "\<exists>l. float_list v = Inr l \<and> dget c k = PList l"
      using v k by (elim disjE) (auto simp: field_conversion_def bindR_eq_Inr)
    ultimately show ?thesis
      by (cases v) (auto simp: float_list_def bindR_eq_Inr dest: mapR_length)
  qed
  have layout: "dget c ''input_layout'' \<in> {PStr ''nchw'', PStr ''nhwc''}"
  proof -
    from fields [OF semantic_members(3)] obtain v where "dget ?m ''input_layout'' = v"
      and g: "semantic_gap ?m ''input_layout'' = Inr False"
      and v: "field_conversion ''input_layout'' v = Inr (dget c ''input_layout'')" by blast
    then have "py_in_strs v [''nchw'', ''nhwc''] = Inr True"
      by (auto simp: semantic_gap_def bindR_eq_Inr split: if_splits)
    with v show ?thesis by (auto simp: py_in_strs_Inr_True field_conversion_def)
  qed
  obtain w h mean std where "dget c ''input_width'' = PInt w" "0 < w"
      "dget c ''input_height'' = PInt h" "0 < h" "dget c ''mean'' = PList mean" "length mean = 3"
      "dget c ''std'' = PList std" "length std = 3"
    using dim triple by metis
  with layout show ?thesis by simp
qed

theorem image_contract_sound_witness:
  "\<exists>c w. preprocess_contract sample_forge None ''neon'' [(''scale'', PInt 1)] None = Inr c
     \<and> dget c ''input_width'' = PInt w \<and> 0 < w"
proof -
  from sample_contract obtain c where
      run: "preprocess_contract sample_forge None ''neon'' [(''scale'', PInt 1)] None = Inr c" by blast
  have "adapter_of sample_model_cfg \<in> {''image_classification'', ''yolo_v8_detection''}"
    by (simp add: adapter_of_def sample_model_cfg_def py_or_def)
  from image_contract_sound [OF run sample_forge_model this] run show ?thesis by blast
qed

text \<open>C28. An input variant that only gives values to fields decided by the other layers changes
  nothing: it fills gaps and never overrides.\<close>

theorem variant_never_overrides:
  assumes m: "sub_dict forge ''model'' = Inr m" and base: "run_layers m manifest [] = Inr ls"
    and v: "variant \<noteq> []" "normalize_legacy_aliases variant = Inr e"
    and decided: "\<And>k x. (k, x) \<in> set e \<Longrightarrow>
      k \<in> set legacy_keys \<or> x = PNone \<or> dhas (merge_layers ls) k"
  shows "preprocess_contract forge manifest backend variant require
    = preprocess_contract forge manifest backend [] require"
proof -
  have "run_layers m manifest variant = Inr (ls @ [e])"
    using base v by (auto simp: run_layers_def variant_layers_def bindR_eq_Inr)
  moreover have "merge_layers (ls @ [e]) = merge_layers ls"
    using decided by (intro merge_layers_decided) auto
  ultimately show ?thesis using m base by (simp add: preprocess_contract_eq)
qed

lemma variant_changes_nothing:
  "preprocess_contract sample_forge None ''neon'' [(''scale'', PInt 1)] None
   = preprocess_contract sample_forge None ''neon'' [] None"
proof -
  have "merge_layers [sample_norm, [(''scale'', PInt 1)]] = merge_layers [sample_norm]"
    by (simp add: sample_defs merge_layers_def merge_item_def legacy_keys_def)
  then show ?thesis by (simp add: preprocess_contract_eq sample_forge_model sample_layers)
qed

theorem variant_never_overrides_witness:
  "preprocess_contract sample_forge None ''neon'' [(''scale'', PInt 1)] None
   = preprocess_contract sample_forge None ''neon'' [] None"
proof -
  have "dhas (merge_layers [sample_norm]) ''scale''"
    by (simp add: sample_defs merge_layers_def merge_item_def legacy_keys_def)
  then have "k \<in> set legacy_keys \<or> x = PNone \<or> dhas (merge_layers [sample_norm]) k"
    if "(k, x) \<in> set [(''scale'', PInt 1)]" for k x
    using that by simp
  from variant_never_overrides [OF sample_forge_model sample_layers(2) _ variant_normalized this]
  show ?thesis by simp
qed

end
