(* ===== verification/Candidates.thy ===== *)
theory Candidates
  imports Preprocess Doc_Store
begin

text \<open>
  \<open>perceptshift_forge/candidates/__init__.py\<close>: the candidates of a forge configuration, one for each
  content-addressed combination of model, provider, thread counts and preprocessing.
\<close>

record candidate_spec =
  cs_id :: string
  cs_label :: string
  cs_model_path :: string
  cs_model_sha256 :: string
  cs_manifest :: pydict

definition semantic_payload ::
    "string \<Rightarrow> pydict \<Rightarrow> pydict \<Rightarrow> pydict \<Rightarrow> pyval \<Rightarrow> pydict" where
  "semantic_payload model_sha adapter preprocess session lineage =
     [(''model_sha256'', PStr model_sha), (''adapter'', PDict adapter),
      (''preprocess'', PDict preprocess), (''session'', PDict session), (''lineage'', lineage)]"

section \<open>The dimensions\<close>

text \<open>\<open>cfg.get(k) or default\<close> as an operand of the product.\<close>

definition dimension :: "pydict \<Rightarrow> string \<Rightarrow> pyval list \<Rightarrow> exc + pyval list" where
  "dimension cfg k dflt = py_iter (py_or (dget cfg k) (PList dflt))"

definition baseline_model :: "string \<Rightarrow> pydict" where
  "baseline_model h = [(''label'', PStr ''baseline''),
     (''model_path'', PStr ''models/baseline/model.onnx''), (''model_sha256'', PStr h),
     (''lineage'', PDict [(''transformation'', PStr ''baseline''), (''parent_sha256'', PStr h)])]"

definition variant_model :: "string \<Rightarrow> pyval \<Rightarrow> exc + pydict" where
  "variant_model h variant = bindR (as_dict variant) (\<lambda>v.
     Inr [(''label'', PStr (py_str (dget_or v ''label'' (PStr ''user_variant'')))),
       (''model_path'', PStr (py_str (dget v ''model_path''))),
       (''model_sha256'', PStr (py_str (dget_or v ''model_sha256'' (PStr [])))),
       (''lineage'', PDict [(''transformation'', PStr ''user_variant''), (''parent_sha256'', PStr h),
          (''variant'', variant)])])"

definition candidate_models :: "pydict \<Rightarrow> string \<Rightarrow> pydict list \<Rightarrow> exc + pydict list" where
  "candidate_models cfg h quantized =
     bindR (dimension cfg ''user_model_variants'' []) (\<lambda>vs.
     bindR (mapR (variant_model h) vs) (\<lambda>users.
     Inr ((if truthy (dget_or cfg ''include_baseline'' (PBool True)) then [baseline_model h] else [])
       @ users @ quantized)))"

record combination =
  cb_model :: pydict
  cb_provider :: pyval
  cb_xnnpack :: pyval
  cb_intra :: pyval
  cb_inter :: pyval
  cb_spin :: pyval
  cb_graph :: pyval
  cb_backend :: pyval
  cb_variant :: pyval

definition default_provider :: pyval where
  "default_provider = PDict [(''name'', PStr ''cpu''),
     (''provider_order'', PList [PStr ''CPUExecutionProvider''])]"

text \<open>\<open>itertools.product\<close>: the rightmost operand varies fastest.\<close>

definition cartesian :: "pydict list \<Rightarrow> pyval list list \<Rightarrow> combination list" where
  "cartesian models dims = (case dims of
     [ps, xs, is, js, ss, gs, bs, vs] \<Rightarrow>
       concat (map (\<lambda>m. concat (map (\<lambda>p. concat (map (\<lambda>x. concat (map (\<lambda>i. concat (map (\<lambda>j.
       concat (map (\<lambda>s. concat (map (\<lambda>g. concat (map (\<lambda>b. map (\<lambda>v.
         \<lparr>cb_model = m, cb_provider = p, cb_xnnpack = x, cb_intra = i, cb_inter = j, cb_spin = s,
           cb_graph = g, cb_backend = b, cb_variant = v\<rparr>) vs) bs)) gs)) ss)) js)) is)) xs)) ps)) models)
   | _ \<Rightarrow> [])"

definition candidate_dimensions :: "pydict \<Rightarrow> exc + pyval list list" where
  "candidate_dimensions cfg = mapR (\<lambda>(k, d). dimension cfg k d)
     [(''execution_providers'', [default_provider]), (''xnnpack_thread_counts'', [PNone]),
      (''ort_intra_op_thread_counts'', [PInt 1]), (''ort_inter_op_thread_counts'', [PInt 1]),
      (''allow_intra_op_spinning'', [PBool False]), (''graph_optimization_levels'', [PStr ''all'']),
      (''preprocess_backends'', [PStr ''scalar'']), (''input_variants'', [PDict []])]"

section \<open>One combination\<close>

definition session_of :: "combination \<Rightarrow> exc + pydict \<times> pydict" where
  "session_of c =
     bindR (as_dict (cb_provider c)) (\<lambda>p.
     bindR (py_iter (py_or (dget p ''provider_order'') (PList []))) (\<lambda>order.
     bindR (py_int (cb_intra c)) (\<lambda>intra. bindR (py_int (cb_inter c)) (\<lambda>inter.
     Inr (p, [(''provider_order'', PList order), (''provider_name'', dget p ''name''),
       (''intra_op_threads'', PInt intra), (''inter_op_threads'', PInt inter),
       (''allow_intra_op_spinning'', PBool (truthy (cb_spin c))),
       (''graph_optimization_level'', cb_graph c), (''xnnpack_threads'', cb_xnnpack c)])))))"

text \<open>The content address of a combination.\<close>

definition candidate_identity :: "ext \<Rightarrow> pydict \<Rightarrow> pydict \<Rightarrow> pydict \<Rightarrow> pydict \<Rightarrow> exc + string" where
  "candidate_identity X adapter preprocess session model =
     bindR (ditem model ''model_sha256'') (\<lambda>sha.
     bindR (sha256_canonical X (PDict (semantic_payload (py_str sha) adapter preprocess session
       (py_or (dget model ''lineage'') (PDict []))))) (\<lambda>h.
     Inr (take 32 h)))"

definition manifest_session :: "pydict \<Rightarrow> pydict" where
  "manifest_session s = map (\<lambda>k. (k, dget s k)) [''provider_order'', ''intra_op_threads'',
     ''inter_op_threads'', ''allow_intra_op_spinning'', ''graph_optimization_level'', ''xnnpack_threads'']"

definition candidate_manifest ::
    "ext \<Rightarrow> string \<Rightarrow> pydict \<Rightarrow> pydict \<Rightarrow> pydict \<Rightarrow> pydict \<Rightarrow> combination \<Rightarrow> string \<Rightarrow> pydict io" where
  "candidate_manifest X baseline_hash adapter preprocess session provider c cid =
     (let model = cb_model c in
     bindS (envelope_fields X ''perceptshift.candidate_manifest'') (\<lambda>env.
     bindS (liftS (ditem model ''label'')) (\<lambda>label.
     bindS (liftS (ditem model ''model_path'')) (\<lambda>path.
     bindS (liftS (ditem model ''model_sha256'')) (\<lambda>sha.
     bindS (utc_now_rfc3339 X) (\<lambda>now.
     retS (dupdate env
       [(''candidate_id'', PStr cid),
        (''label'', PStr (py_str label @ ''/'' @ py_str (dget provider ''name'') @ ''/''
           @ py_str (cb_backend c))),
        (''model_path'', path), (''model_sha256'', sha), (''adapter'', PDict adapter),
        (''preprocess'', PDict preprocess), (''session'', PDict (manifest_session session)),
        (''provenance'', PDict [(''parent_baseline_model_hash'', PStr baseline_hash),
          (''lineage'', py_or (dget model ''lineage'') (PDict [])), (''created_at'', PStr now)])])))))))"

text \<open>The loop body; the accumulator is the list of specs so far, whose ids are the set \<open>seen\<close>.\<close>

definition add_candidate ::
    "ext \<Rightarrow> pydict \<Rightarrow> pydict option \<Rightarrow> string \<Rightarrow> pydict \<Rightarrow> combination \<Rightarrow> candidate_spec list \<Rightarrow>
      candidate_spec list io" where
  "add_candidate X forge dataset baseline_hash adapter c specs =
     bindS (liftS (session_of c)) (\<lambda>(provider, session).
     bindS (build_canonical_preprocess X forge dataset (py_str (cb_backend c))
       (the_dict (cb_variant c)) None) (\<lambda>preprocess.
     bindS (liftS (candidate_identity X adapter preprocess session (cb_model c))) (\<lambda>cid.
     if cid \<in> cs_id ` set specs then retS specs
     else
       bindS (candidate_manifest X baseline_hash adapter preprocess session provider c cid) (\<lambda>m.
       bindS (validate_document X (PDict m) ''candidate_manifest'') (\<lambda>u.
       retS (specs @ [\<lparr>cs_id = cid, cs_label = py_str (dget m ''label''),
         cs_model_path = py_str (dget m ''model_path''),
         cs_model_sha256 = py_str (dget m ''model_sha256''), cs_manifest = m\<rparr>]))))))"

definition too_many :: "nat \<Rightarrow> int \<Rightarrow> exc" where
  "too_many n maximum = ps_error CONFIG_INVALID
     (''Candidate cartesian product size '' @ show_int (int n) @ '' exceeds maximum_candidates=''
        @ show_int maximum)
     (Some ''Narrow candidate dimensions or raise the override deliberately'')
     [(''estimated_candidates'', PInt (int n))] None"

definition generate_candidates ::
    "ext \<Rightarrow> pydict \<Rightarrow> ppath \<Rightarrow> pydict list \<Rightarrow> int \<Rightarrow> pydict option \<Rightarrow> candidate_spec list io" where
  "generate_candidates X forge baseline quantized maximum dataset =
     bindS (getS (\<lambda>w. is_file w baseline)) (\<lambda>there.
     bindS (guardS there (ps_err MODEL_INVALID (''Baseline model missing: '' @ path_str baseline))) (\<lambda>u.
     bindS (sha256_file X baseline) (\<lambda>h.
     bindS (liftS (sub_dict forge ''candidates'')) (\<lambda>cfg.
     bindS (liftS (sub_dict forge ''model'')) (\<lambda>model_cfg.
     let config = py_or (dget model_cfg ''adapter_config'') (PDict []) in
     bindS (liftS (sha256_canonical X config)) (\<lambda>ch.
     let adapter = [(''name'', dget model_cfg ''adapter''), (''config'', config),
       (''config_hash'', PStr ch)] in
     bindS (liftS (candidate_models cfg h quantized)) (\<lambda>models.
     bindS (liftS (candidate_dimensions cfg)) (\<lambda>dims.
     let combos = cartesian models dims in
     bindS (guardS (int (length combos) \<le> maximum) (too_many (length combos) maximum)) (\<lambda>u.
     foldS (add_candidate X forge dataset h adapter) combos [])))))))))"

section \<open>Lemmas\<close>

lemma concat_map_length: "(\<And>x. x \<in> set xs \<Longrightarrow> length (f x) = n) \<Longrightarrow> length (concat (map f xs)) = length xs * n"
  by (induction xs) auto

lemma cartesian_length:
  "length (cartesian models [ps, xs, is, js, ss, gs, bs, vs]) =
     length models * (length ps * (length xs * (length is * (length js * (length ss * (length gs
       * (length bs * length vs)))))))"
  by (simp add: cartesian_def concat_map_length)

text \<open>What every step of the loop keeps: distinct ids, each spec carrying its id, never more
  specs than combinations seen.\<close>

definition specs_ok :: "candidate_spec list \<Rightarrow> bool" where
  "specs_ok specs \<longleftrightarrow> distinct (map cs_id specs)
     \<and> list_all (\<lambda>s. dget (cs_manifest s) ''candidate_id'' = PStr (cs_id s)) specs"

lemma candidate_manifest_id:
  "candidate_manifest X h a p s pr c cid w = (Inr m, w') \<Longrightarrow> dget m ''candidate_id'' = PStr cid"
  by (auto simp: candidate_manifest_def Let_def bindS_eq_Inr dget_def map_of_dupdate
      split: option.splits)

lemma add_candidate_step:
  assumes "add_candidate X forge ds h a c specs w = (Inr specs', w')" and "specs_ok specs"
  shows "specs_ok specs' \<and> length specs' \<le> Suc (length specs) \<and> set specs \<subseteq> set specs'
    \<and> (\<exists>p session pre cid wa wb. session_of c = Inr (p, session)
        \<and> build_canonical_preprocess X forge ds (py_str (cb_backend c)) (the_dict (cb_variant c)) None wa
            = (Inr pre, wb)
        \<and> candidate_identity X a pre session (cb_model c) = Inr cid \<and> cid \<in> cs_id ` set specs')"
proof -
  from assms(1) obtain p session pre w1 cid where
      s: "session_of c = Inr (p, session)"
    and b: "build_canonical_preprocess X forge ds (py_str (cb_backend c)) (the_dict (cb_variant c)) None w
        = (Inr pre, w1)"
    and i: "candidate_identity X a pre session (cb_model c) = Inr cid"
    and rest: "(if cid \<in> cs_id ` set specs then retS specs
     else
       bindS (candidate_manifest X h a pre session p c cid) (\<lambda>m.
       bindS (validate_document X (PDict m) ''candidate_manifest'') (\<lambda>u.
       retS (specs @ [\<lparr>cs_id = cid, cs_label = py_str (dget m ''label''),
         cs_model_path = py_str (dget m ''model_path''),
         cs_model_sha256 = py_str (dget m ''model_sha256''), cs_manifest = m\<rparr>])))) w1
       = (Inr specs', w')"
    by (auto simp: add_candidate_def bindS_eq_Inr)
  have "specs_ok specs' \<and> length specs' \<le> Suc (length specs) \<and> set specs \<subseteq> set specs'
      \<and> cid \<in> cs_id ` set specs'"
  proof (cases "cid \<in> cs_id ` set specs")
    case True
    with rest assms(2) show ?thesis by simp
  next
    case False
    with rest obtain m w2 where m: "candidate_manifest X h a pre session p c cid w1 = (Inr m, w2)"
      and sp: "specs' = specs @ [\<lparr>cs_id = cid, cs_label = py_str (dget m ''label''),
         cs_model_path = py_str (dget m ''model_path''),
         cs_model_sha256 = py_str (dget m ''model_sha256''), cs_manifest = m\<rparr>]"
      by (auto simp: bindS_eq_Inr)
    with False assms(2) candidate_manifest_id [OF m] show ?thesis
      by (auto simp: specs_ok_def)
  qed
  with s b i show ?thesis by blast
qed

lemma candidates_loop:
  assumes "foldS (add_candidate X forge ds h a) combos specs w = (Inr specs', w')" and "specs_ok specs"
  shows "specs_ok specs' \<and> length specs' \<le> length specs + length combos \<and> set specs \<subseteq> set specs'
    \<and> (\<forall>c\<in>set combos. \<exists>p session pre cid wa wb. session_of c = Inr (p, session)
        \<and> build_canonical_preprocess X forge ds (py_str (cb_backend c)) (the_dict (cb_variant c)) None wa
            = (Inr pre, wb)
        \<and> candidate_identity X a pre session (cb_model c) = Inr cid \<and> cid \<in> cs_id ` set specs')"
  using assms
proof (induction combos arbitrary: specs w)
  case (Cons c combos)
  from Cons.prems(1) obtain s1 w1 where st: "add_candidate X forge ds h a c specs w = (Inr s1, w1)"
      and rest: "foldS (add_candidate X forge ds h a) combos s1 w1 = (Inr specs', w')"
    by (auto simp: bindS_eq_Inr)
  note step = add_candidate_step [OF st Cons.prems(2)]
  note ih = Cons.IH [OF rest step [THEN conjunct1]]
  from step ih show ?case by (fastforce simp: image_iff)
qed simp

section \<open>Properties\<close>

text \<open>C29. The candidates returned have distinct ids, each manifest carries the id of its candidate,
  and there are at most \<open>maximum\<close> of them.\<close>

theorem candidates_distinct_bounded:
  assumes "generate_candidates X forge baseline quantized maximum dataset w = (Inr specs, w')"
  shows "distinct (map cs_id specs) \<and> int (length specs) \<le> maximum
    \<and> (\<forall>s\<in>set specs. dget (cs_manifest s) ''candidate_id'' = PStr (cs_id s))"
proof -
  from assms obtain h a combos w1 where
      loop: "foldS (add_candidate X forge dataset h a) combos [] w1 = (Inr specs, w')"
    and bound: "int (length combos) \<le> maximum"
    by (auto simp: generate_candidates_def Let_def comp_eqs guardR_eq_Inr)
  have "specs_ok []" by (simp add: specs_ok_def)
  from candidates_loop [OF loop this] bound show ?thesis
    by (auto simp: specs_ok_def list_all_iff)
qed

section \<open>A run on two input variants\<close>

definition cand_forge :: pydict where
  "cand_forge = [(''model'', PDict sample_model_cfg),
     (''candidates'', PDict [(''preprocess_backends'', PList [PStr ''neon'']),
        (''input_variants'', PList [PDict [(''scale'', PInt 1)], PDict []])])]"

definition cand_world :: world where
  "cand_world = \<lparr>w_files = [([''ws'', ''m.onnx''], ''onnx'')], w_dirs = [[''ws'']], w_links = [],
     w_cwd = [], w_home = [], w_environ = [], w_ticks = 0, w_version = Some ''0.1.0'',
     w_commit = Some ''abc'', w_registry = Some [],
     w_schemas = [(''candidate_manifest'', PDict []), (''preprocess_contract'', PDict [])]\<rparr>"

definition cand_combo :: "pyval \<Rightarrow> combination" where
  "cand_combo v = \<lparr>cb_model = baseline_model ''onnx'', cb_provider = default_provider,
     cb_xnnpack = PNone, cb_intra = PInt 1, cb_inter = PInt 1, cb_spin = PBool False,
     cb_graph = PStr ''all'', cb_backend = PStr ''neon'', cb_variant = v\<rparr>"

definition cand_adapter :: pydict where
  "cand_adapter = [(''name'', PStr ''image_classification''), (''config'', PDict []),
     (''config_hash'', PStr ''{}'')]"

definition cand_session :: pydict where
  "cand_session = [(''provider_order'', PList [PStr ''CPUExecutionProvider'']),
     (''provider_name'', PStr ''cpu''), (''intra_op_threads'', PInt 1), (''inter_op_threads'', PInt 1),
     (''allow_intra_op_spinning'', PBool False), (''graph_optimization_level'', PStr ''all''),
     (''xnnpack_threads'', PNone)]"

lemma cand_session: "session_of (cand_combo v) = Inr (the_dict default_provider, cand_session)"
  by (simp add: session_of_def cand_combo_def default_provider_def cand_session_def py_or_def)

lemma cand_preprocess:
  assumes "preprocess_contract sample_forge None ''neon'' [(''scale'', PInt 1)] None = Inr c"
    and "v = [(''scale'', PInt 1)] \<or> v = []"
  shows "preprocess_contract cand_forge None ''neon'' v None = Inr c"
proof -
  have "sub_dict cand_forge ''model'' = sub_dict sample_forge ''model''"
    by (simp add: sub_dict_def cand_forge_def sample_forge_def)
  then have "preprocess_contract cand_forge None ''neon'' v None
      = preprocess_contract sample_forge None ''neon'' v None"
    by (simp add: preprocess_contract_eq)
  with assms variant_changes_nothing show ?thesis by auto
qed

lemma cand_validate:
  "n \<in> {''candidate_manifest'', ''preprocess_contract''} \<Longrightarrow>
    validate_document sample_ext d n (cand_world\<lparr>w_ticks := t\<rparr>) = (Inr d, cand_world\<lparr>w_ticks := t\<rparr>)"
  by (auto simp: cand_world_def docs_defs bindS_def comp_defs sample_ext_simps Let_def)

lemma cand_manifest:
  "\<exists>m. candidate_manifest sample_ext ''onnx'' cand_adapter c cand_session (the_dict default_provider)
     (cand_combo v) cid (cand_world\<lparr>w_ticks := t\<rparr>) = (Inr m, cand_world\<lparr>w_ticks := t + 2\<rparr>)"
  by (simp add: candidate_manifest_def Let_def bindS_def comp_defs docs_defs cand_combo_def
      baseline_model_def ditem_def sample_ext_simps cand_world_def)

lemma cand_identity:
  "json_finite (PDict c) \<Longrightarrow>
    candidate_identity sample_ext cand_adapter c cand_session (baseline_model ''onnx'') = Inr ''{}''"
  by (simp add: candidate_identity_def ditem_def baseline_model_def sha256_canonical_def sample_dumps
      semantic_payload_def cand_adapter_def cand_session_def py_or_def sha256_text_def
      sha256_bytes_def sample_ext_simps utf8_encode_def)

lemma cand_run:
  "\<exists>s w'. generate_candidates sample_ext cand_forge (abs_path [''ws'', ''m.onnx'']) [] 2 None cand_world
     = (Inr [s], w') \<and> cs_id s = ''{}''"
proof -
  from sample_contract obtain c where
      pc: "preprocess_contract sample_forge None ''neon'' [(''scale'', PInt 1)] None = Inr c"
    and fin: "json_finite (PDict c)" by blast
  have build: "build_canonical_preprocess sample_ext cand_forge None ''neon'' v None (cand_world\<lparr>w_ticks := t\<rparr>)
      = (Inr c, cand_world\<lparr>w_ticks := t\<rparr>)" if "v = [(''scale'', PInt 1)] \<or> v = []" for v t
    using cand_preprocess [OF pc that] cand_validate [of "''preprocess_contract''" "PDict c" t]
    by (simp add: build_canonical_preprocess_def bindS_def)
  obtain m where m: "candidate_manifest sample_ext ''onnx'' cand_adapter c cand_session
      (the_dict default_provider) (cand_combo (PDict [(''scale'', PInt 1)])) ''{}''
      (cand_world\<lparr>w_ticks := 0\<rparr>) = (Inr m, cand_world\<lparr>w_ticks := 2\<rparr>)"
    using cand_manifest [of c "PDict [(''scale'', PInt 1)]" "''{}''" 0] by auto
  let ?s = "\<lparr>cs_id = ''{}'', cs_label = py_str (dget m ''label''),
         cs_model_path = py_str (dget m ''model_path''),
         cs_model_sha256 = py_str (dget m ''model_sha256''), cs_manifest = m\<rparr>"
  have w0: "cand_world\<lparr>w_ticks := 0\<rparr> = cand_world" by (simp add: cand_world_def)
  have combo: "cb_backend (cand_combo v) = PStr ''neon''" "cb_variant (cand_combo v) = v"
      "cb_model (cand_combo v) = baseline_model ''onnx''" for v
    by (simp_all add: cand_combo_def)
  have step1: "add_candidate sample_ext cand_forge None ''onnx'' cand_adapter
      (cand_combo (PDict [(''scale'', PInt 1)])) [] cand_world = (Inr [?s], cand_world\<lparr>w_ticks := 2\<rparr>)"
    using build [of "[(''scale'', PInt 1)]" 0] m cand_validate [of "''candidate_manifest''" "PDict m" 2]
    by (simp add: add_candidate_def bindS_def cand_session combo w0 cand_identity [OF fin])
  have step2: "add_candidate sample_ext cand_forge None ''onnx'' cand_adapter
      (cand_combo (PDict [])) [?s] (cand_world\<lparr>w_ticks := 2\<rparr>) = (Inr [?s], cand_world\<lparr>w_ticks := 2\<rparr>)"
    using build [of "[]" 2]
    by (simp add: add_candidate_def bindS_def cand_session combo cand_identity [OF fin])
  have cfg: "sub_dict cand_forge ''candidates'' = Inr [(''preprocess_backends'', PList [PStr ''neon'']),
        (''input_variants'', PList [PDict [(''scale'', PInt 1)], PDict []])]"
    and mc: "sub_dict cand_forge ''model'' = Inr sample_model_cfg"
    by (simp_all add: sub_dict_def cand_forge_def py_or_def sample_model_cfg_def)
  have rd: "is_file cand_world (abs_path [''ws'', ''m.onnx''])"
      "sha256_file sample_ext (abs_path [''ws'', ''m.onnx'']) cand_world = (Inr ''onnx'', cand_world)"
    by (simp_all add: cand_world_def world_defs sample_ext_simps)
  have ch: "sha256_canonical sample_ext (py_or (dget sample_model_cfg ''adapter_config'') (PDict [])) = Inr ''{}''"
    by (simp add: sha256_canonical_def sample_dumps sample_model_cfg_def py_or_def sha256_text_def
        sha256_bytes_def sample_ext_simps utf8_encode_def)
  have ad: "[(''name'', dget sample_model_cfg ''adapter''),
      (''config'', py_or (dget sample_model_cfg ''adapter_config'') (PDict [])),
      (''config_hash'', PStr ''{}'')] = cand_adapter"
    by (simp add: cand_adapter_def sample_model_cfg_def py_or_def)
  have mods: "candidate_models [(''preprocess_backends'', PList [PStr ''neon'']),
        (''input_variants'', PList [PDict [(''scale'', PInt 1)], PDict []])] ''onnx'' []
      = Inr [baseline_model ''onnx'']"
    by (simp add: candidate_models_def dimension_def py_or_def)
  have dims: "candidate_dimensions [(''preprocess_backends'', PList [PStr ''neon'']),
        (''input_variants'', PList [PDict [(''scale'', PInt 1)], PDict []])]
      = Inr [[default_provider], [PNone], [PInt 1], [PInt 1], [PBool False], [PStr ''all''],
          [PStr ''neon''], [PDict [(''scale'', PInt 1)], PDict []]]"
    by (simp add: candidate_dimensions_def dimension_def py_or_def)
  have combos: "cartesian [baseline_model ''onnx''] [[default_provider], [PNone], [PInt 1], [PInt 1],
      [PBool False], [PStr ''all''], [PStr ''neon''], [PDict [(''scale'', PInt 1)], PDict []]]
      = [cand_combo (PDict [(''scale'', PInt 1)]), cand_combo (PDict [])]"
    by (simp add: cartesian_def cand_combo_def)
  have "generate_candidates sample_ext cand_forge (abs_path [''ws'', ''m.onnx'']) [] 2 None cand_world
      = (Inr [?s], cand_world\<lparr>w_ticks := 2\<rparr>)"
    using step1 step2
    by (simp add: generate_candidates_def bindS_def comp_defs rd cfg mc ch mods dims combos Let_def ad)
  then show ?thesis by simp
qed

theorem candidates_distinct_bounded_witness:
  "\<exists>specs w'. generate_candidates sample_ext cand_forge (abs_path [''ws'', ''m.onnx'']) [] 2 None cand_world
     = (Inr specs, w') \<and> distinct (map cs_id specs) \<and> specs \<noteq> []"
proof -
  from cand_run obtain s w' where run: "generate_candidates sample_ext cand_forge
      (abs_path [''ws'', ''m.onnx'']) [] 2 None cand_world = (Inr [s], w')" by blast
  from candidates_distinct_bounded [OF run] run show ?thesis by auto
qed

end
