(* ===== verification/Bundle.thy ===== *)
theory Bundle
  imports Doc_Store
begin

text \<open>
  \<open>perceptshift_forge/bundle.py\<close>: verification of a profile bundle (manifest digest, inventory,
  undeclared models, signature), its import, the detached Ed25519 signature and the local MAC.
  The \<open>cryptography\<close> package and BLAKE2b are the parameter \<open>crypto\<close>. The loop over \<open>rglob\<close> reads
  the directory entries in the order the world lists them.
\<close>

section \<open>The cryptographic library\<close>

text \<open>
  Keys are their raw bytes. \<open>k_pub_ok\<close> says whether \<open>from_public_bytes\<close> accepts a string,
  \<open>k_private_pem\<close> and \<open>k_public_pem\<close> are the PEM loaders (\<open>Inl\<close> the exception, \<open>None\<close> a key of
  another algorithm), \<open>k_blake2b\<close> the keyed 32-byte hex digest.
\<close>

record crypto =
  k_available :: bool
  k_sign :: "string \<Rightarrow> string \<Rightarrow> string"
  k_public :: "string \<Rightarrow> string"
  k_verify :: "string \<Rightarrow> string \<Rightarrow> string \<Rightarrow> bool"
  k_pub_ok :: "string \<Rightarrow> bool"
  k_private_pem :: "string \<Rightarrow> exc + string option"
  k_public_pem :: "string \<Rightarrow> exc + string option"
  k_blake2b :: "string \<Rightarrow> string \<Rightarrow> string"

section \<open>Hexadecimal and lenient decoding\<close>

definition to_hex :: "string \<Rightarrow> string" where
  "to_hex b = concat (map (\<lambda>c. [hex_digit (code c div 16), hex_digit (code c mod 16)]) b)"

definition hex_val :: "char \<Rightarrow> int option" where
  "hex_val c = (if 48 \<le> code c \<and> code c \<le> 57 then Some (code c - 48)
     else if 97 \<le> code c \<and> code c \<le> 102 then Some (code c - 87)
     else if 65 \<le> code c \<and> code c \<le> 70 then Some (code c - 55) else None)"

definition ascii_space :: "char \<Rightarrow> bool" where
  "ascii_space c \<longleftrightarrow> (9 \<le> code c \<and> code c \<le> 13) \<or> code c = 32"

text \<open>\<open>bytes.fromhex\<close>: white space is skipped between pairs; \<open>None\<close> is the ValueError.\<close>

fun from_hex :: "string \<Rightarrow> string option" where
  "from_hex [] = Some []"
| "from_hex (c # cs) = (if ascii_space c then from_hex cs
     else (case cs of [] \<Rightarrow> None
       | d # ds \<Rightarrow> (case (hex_val c, hex_val d) of
           (Some a, Some b) \<Rightarrow> map_option (Cons (char_of (16 * a + b))) (from_hex ds)
         | _ \<Rightarrow> None)))"

definition all_hex :: "string \<Rightarrow> bool" where
  "all_hex s \<longleftrightarrow> list_all (\<lambda>c. hex_val c \<noteq> None) s"

text \<open>
  \<open>decode("utf-8", errors="ignore")\<close>: bytes that start no well-formed sequence are dropped. A code
  point above 255 stands as a blank when it is white space and as a question mark otherwise; the
  only use strips the text and tests it for hex digits.
\<close>

fun utf8_seq :: "string \<Rightarrow> (int \<times> nat) option" where
  "utf8_seq (b # c # rest) =
     (let x = code b; y = code c; cont = (\<lambda>z. 128 \<le> z \<and> z < (192 :: int)) in
      if 194 \<le> x \<and> x < 224 \<and> cont y then Some ((x - 192) * 64 + (y - 128), 2)
      else if 224 \<le> x \<and> x < 240 \<and> cont y \<and> (x = 224 \<longrightarrow> 160 \<le> y) \<and> (x = 237 \<longrightarrow> y < 160) then
        (case rest of [] \<Rightarrow> None | d # rest' \<Rightarrow> if cont (code d)
           then Some ((x - 224) * 4096 + (y - 128) * 64 + (code d - 128), 3) else None)
      else if 240 \<le> x \<and> x < 245 \<and> cont y \<and> (x = 240 \<longrightarrow> 144 \<le> y) \<and> (x = 244 \<longrightarrow> y < 144) then
        (case rest of d # e # rest' \<Rightarrow> if cont (code d) \<and> cont (code e)
           then Some (65536, 4) else None
         | _ \<Rightarrow> None)
      else None)"
| "utf8_seq _ = None"

definition stand_in :: "int \<Rightarrow> char" where
  "stand_in cp = (if cp < 256 then char_of cp
     else if cp = 5760 \<or> (8192 \<le> cp \<and> cp \<le> 8202) \<or> cp \<in> set [8232, 8233, 8239, 8287, 12288]
     then CHR '' '' else CHR ''?'')"

function utf8_ignore :: "string \<Rightarrow> string" where
  "utf8_ignore [] = []"
| "utf8_ignore (b # bs) = (if code b < 128 then b # utf8_ignore bs
     else (case utf8_seq (b # bs) of None \<Rightarrow> utf8_ignore bs
       | Some (cp, n) \<Rightarrow> stand_in cp # utf8_ignore (drop (n - 1) bs)))"
  by pat_completeness auto
termination
  by (relation "measure length") auto

lemma hex_digit_val:
  assumes "0 \<le> n" "n < 16"
  shows "hex_val (hex_digit n) = Some n" "\<not> ascii_space (hex_digit n)"
  using assms by (auto simp: hex_val_def hex_digit_def ascii_space_def of_char_of)

lemma from_hex_to_hex: "from_hex (to_hex b) = Some b"
proof (induction b)
  case Nil
  then show ?case by (simp add: to_hex_def)
next
  case (Cons c b)
  have r: "0 \<le> code c div 16" "code c div 16 < 16" "0 \<le> code c mod 16" "code c mod 16 < 16"
    using code_bound [of c] by auto
  have "char_of (16 * (code c div 16) + code c mod 16) = c" by simp
  with Cons r show ?case by (simp add: to_hex_def hex_digit_val)
qed

lemma length_to_hex: "length (to_hex b) = 2 * length b"
  by (induction b) (simp_all add: to_hex_def)

section \<open>Keys\<close>

definition import_error :: exc where
  "import_error = py_err ImportError"

definition require_cryptography :: "crypto \<Rightarrow> exc + unit" where
  "require_cryptography K = guardR (k_available K) (ps_error DEPENDENCY_UNAVAILABLE
     ''cryptography package is required for Ed25519 signing''
     (Some ''Install cryptography via perceptshift-forge dependencies'') [] (Some import_error))"

definition public_key_from_bytes :: "crypto \<Rightarrow> string \<Rightarrow> exc + string" where
  "public_key_from_bytes K raw =
     bindR (require_cryptography K) (\<lambda>u.
     bindR (guardR (k_pub_ok K raw) (ps_error SIGNATURE_INVALID ''Invalid Ed25519 public key''
       None [] (Some (py_err ValueError)))) (\<lambda>u. Inr raw))"

definition public_key_from_hex :: "crypto \<Rightarrow> string \<Rightarrow> exc + string" where
  "public_key_from_hex K h =
     (case from_hex h of None \<Rightarrow> Inl (py_err ValueError) | Some raw \<Rightarrow> public_key_from_bytes K raw)"

definition pem_key :: "exc + string option \<Rightarrow> string \<Rightarrow> exc + string" where
  "pem_key r message = bindR r (\<lambda>k. case k of
     None \<Rightarrow> Inl (ps_err SIGNATURE_INVALID message) | Some key \<Rightarrow> Inr key)"

definition is_hex_key :: "string \<Rightarrow> bool" where
  "is_hex_key t \<longleftrightarrow> length t = 64 \<and> all_hex t"

definition private_key_of :: "crypto \<Rightarrow> string \<Rightarrow> exc + string" where
  "private_key_of K raw =
     (if sublist ''BEGIN'' raw
      then pem_key (k_private_pem K raw) ''PEM key is not an Ed25519 private key''
      else let t = py_strip (utf8_ignore raw) in
        if is_hex_key t
        then (case from_hex t of None \<Rightarrow> Inl (py_err ValueError) | Some k \<Rightarrow> Inr k)
        else if length raw = 32 then Inr raw
        else Inl (ps_err SIGNATURE_INVALID
          ''Ed25519 private key must be 32 raw bytes, 64 hex chars, or PEM''))"

definition load_ed25519_private_key :: "crypto \<Rightarrow> ppath \<Rightarrow> string io" where
  "load_ed25519_private_key K p =
     bindS (liftS (require_cryptography K)) (\<lambda>u.
     bindS (getS (\<lambda>w. is_file w p)) (\<lambda>there.
     bindS (guardS there (ps_err SIGNATURE_REQUIRED (''Signing key not found: '' @ path_str p))) (\<lambda>u.
     bindS (read_bytes p) (\<lambda>raw. liftS (private_key_of K raw)))))"

definition public_key_of :: "crypto \<Rightarrow> string \<Rightarrow> exc + string" where
  "public_key_of K raw =
     (if sublist ''BEGIN'' raw
      then pem_key (k_public_pem K raw) ''PEM key is not an Ed25519 public key''
      else let t = py_strip (utf8_ignore raw) in
        if is_hex_key t then public_key_from_hex K t
        else if length raw = 32
        then bindR (guardR (k_pub_ok K raw) (py_err ValueError)) (\<lambda>u. Inr raw)
        else Inl (ps_err SIGNATURE_INVALID
          ''Ed25519 public key must be 32 raw bytes, 64 hex chars, or PEM''))"

definition load_ed25519_public_key :: "crypto \<Rightarrow> ppath \<Rightarrow> string io" where
  "load_ed25519_public_key K p =
     bindS (liftS (require_cryptography K)) (\<lambda>u.
     bindS (read_bytes p) (\<lambda>raw. liftS (public_key_of K raw)))"

section \<open>Signature verification\<close>

definition sig_path :: "ppath \<Rightarrow> ppath" where
  "sig_path bundle_root = path_div bundle_root ''manifest.sig''"

definition digest_path :: "ppath \<Rightarrow> ppath" where
  "digest_path bundle_root = path_div bundle_root ''manifest.sha256''"

definition manifest_path :: "ppath \<Rightarrow> ppath" where
  "manifest_path bundle_root = path_div bundle_root ''manifest.json''"

text \<open>The metadata in \<open>manifest.sig\<close>, and the signature bytes they carry.\<close>

definition parse_signature :: "ext \<Rightarrow> string \<Rightarrow> exc + pydict" where
  "parse_signature X text = (case json_loads X (py_strip text) of
     Inl e \<Rightarrow> Inl (ps_error SIGNATURE_INVALID
       (''manifest.sig must be Ed25519 JSON metadata; '' @
        ''legacy blake2b-keyed-32 hex signatures are not accepted'') None [] (Some e))
   | Inr (PDict d) \<Rightarrow> Inr d
   | Inr _ \<Rightarrow> Inl (ps_err SIGNATURE_INVALID ''manifest.sig JSON must be an object''))"

definition signature_bytes :: "pydict \<Rightarrow> exc + string" where
  "signature_bytes meta = (let algorithm = py_lower (py_str (py_or (dget meta ''algorithm'') (PStr []))) in
     bindR (guardR (algorithm = ''ed25519'') (ps_error SIGNATURE_INVALID
       (''Unsupported signature algorithm: '' @ algorithm)
       (Some ''Re-sign the bundle with Ed25519'') [] None)) (\<lambda>u.
     bindR (if dget meta ''encoding'' = PNone then Inr True
       else py_in_strs (dget meta ''encoding'') [''hex'']) (\<lambda>known.
     bindR (guardR known (ps_err SIGNATURE_INVALID
       (''Unsupported signature encoding: '' @ py_str (dget meta ''encoding'')))) (\<lambda>u.
     (case dget meta ''signature'' of
        PStr h \<Rightarrow> if length h \<noteq> 128
          then Inl (ps_err SIGNATURE_INVALID ''Ed25519 signature must be 128 hex characters (64 bytes)'')
          else (case from_hex h of
            None \<Rightarrow> Inl (ps_error SIGNATURE_INVALID ''Signature is not valid hex'' None []
              (Some (py_err ValueError)))
          | Some b \<Rightarrow> Inr b)
      | _ \<Rightarrow> Inl (ps_err SIGNATURE_INVALID
          ''Ed25519 signature must be 128 hex characters (64 bytes)''))))))"

text \<open>The public key, and its hexadecimal form for the report: given, from a path, or embedded.\<close>

definition choose_public_key ::
    "crypto \<Rightarrow> pydict \<Rightarrow> ppath option \<Rightarrow> string option \<Rightarrow> (string \<times> string) io" where
  "choose_public_key K meta kp kb = (case kb of
     Some b \<Rightarrow>
       bindS (guardS (length b = 32)
         (ps_err SIGNATURE_INVALID ''Ed25519 public key must be 32 bytes'')) (\<lambda>u.
       bindS (liftS (public_key_from_bytes K b)) (\<lambda>k. retS (k, to_hex b)))
   | None \<Rightarrow> (case kp of
       Some p \<Rightarrow> bindS (load_ed25519_public_key K p) (\<lambda>k. retS (k, to_hex k))
     | None \<Rightarrow> (case dget meta ''public_key'' of
         PStr h \<Rightarrow> if length h \<noteq> 64
           then raiseS (ps_err SIGNATURE_INVALID
             ''public_key missing in manifest.sig; supply public key'')
           else bindS (liftS (public_key_from_hex K h)) (\<lambda>k. retS (k, h))
       | _ \<Rightarrow> raiseS (ps_err SIGNATURE_INVALID
           ''public_key missing in manifest.sig; supply public key''))))"

definition verify_bundle_signature ::
    "ext \<Rightarrow> crypto \<Rightarrow> ppath \<Rightarrow> ppath option \<Rightarrow> string option \<Rightarrow> pydict io" where
  "verify_bundle_signature X K bundle_root kp kb =
     bindS (getS (\<lambda>w. is_file w (sig_path bundle_root))) (\<lambda>there.
     bindS (guardS there (ps_err SIGNATURE_REQUIRED ''manifest.sig missing'')) (\<lambda>u.
     bindS (getS (\<lambda>w. is_file w (digest_path bundle_root))) (\<lambda>there.
     bindS (guardS there (ps_err FILE_INTEGRITY_FAILED ''manifest.sha256 missing'')) (\<lambda>u.
     bindS (read_text (sig_path bundle_root)) (\<lambda>text.
     bindS (liftS (parse_signature X text)) (\<lambda>meta.
     bindS (liftS (signature_bytes meta)) (\<lambda>signature.
     bindS (choose_public_key K meta kp kb) (\<lambda>(key, key_hex).
     bindS (read_bytes (digest_path bundle_root)) (\<lambda>payload.
     bindS (guardS (k_verify K key signature payload) (ps_error SIGNATURE_INVALID
       ''Ed25519 signature verification failed''
       (Some ''Ensure the correct public key and untampered manifest.sha256'') []
       (Some (py_err (OtherError ''InvalidSignature''))))) (\<lambda>u.
     retS [(''algorithm'', PStr ''ed25519''), (''key_id'', dget meta ''key_id''),
       (''payload_schema_version'', dget meta ''payload_schema_version''),
       (''public_key'', PStr key_hex), (''ok'', PBool True)]))))))))))"

section \<open>Bundle verification\<close>

text \<open>The first word of \<open>manifest.sha256\<close>; a blank file has none, which is the IndexError.\<close>

definition first_word :: "string \<Rightarrow> exc + string" where
  "first_word t = (case py_words (py_strip t) of [] \<Rightarrow> Inl (py_err IndexError) | x # xs \<Rightarrow> Inr x)"

text \<open>The path and digest of an inventory entry; an entry without both is skipped.\<close>

definition inventory_entry :: "pyval \<Rightarrow> (string \<times> string) option" where
  "inventory_entry v = (case v of
     PDict d \<Rightarrow> (case (py_or (dget d ''path'') (dget d ''relative_path''), dget d ''sha256'') of
       (PStr rel, PStr digest) \<Rightarrow> Some (rel, digest) | _ \<Rightarrow> None)
   | _ \<Rightarrow> None)"

definition unsafe_rel :: "string \<Rightarrow> bool" where
  "unsafe_rel rel \<longleftrightarrow> p_abs (path_of rel) \<or> prefix ''/'' rel \<or> ''..'' \<in> set (p_parts (path_of rel))"

definition check_entry ::
    "ext \<Rightarrow> ppath \<Rightarrow> pyval \<Rightarrow> (string \<times> string) list \<Rightarrow> (string \<times> string) list io" where
  "check_entry X bundle_root v checked = (case inventory_entry v of
     None \<Rightarrow> retS checked
   | Some (rel, digest) \<Rightarrow>
       bindS (guardS (\<not> unsafe_rel rel) (ps_err PATH_UNSAFE
         (''Inventory path must be relative without '..': '' @ rel))) (\<lambda>u.
       bindS (\<lambda>w. (resolve w (path_div bundle_root rel), w)) (\<lambda>target.
       bindS (\<lambda>w. (resolve w bundle_root, w)) (\<lambda>base.
       bindS (guardS (relative_to target base \<noteq> None)
         (ps_err PATH_UNSAFE (''Inventory path escapes bundle root: '' @ rel))) (\<lambda>u.
       bindS (getS (\<lambda>w. is_file w target)) (\<lambda>there.
       bindS (guardS there (ps_err BUNDLE_INVALID (''Missing inventoried file: '' @ rel))) (\<lambda>u.
       bindS (sha256_file X target) (\<lambda>got.
       bindS (guardS (got = digest) (ps_error FILE_INTEGRITY_FAILED (''Hash mismatch for '' @ rel)
         None [(''expected'', PStr digest), (''actual'', PStr got)] None)) (\<lambda>u.
       retS (checked @ [(rel, got)]))))))))))"

text \<open>Everything below a directory, relative to it; linked directories are not entered.\<close>

definition rglob :: "world \<Rightarrow> ppath \<Rightarrow> string list list" where
  "rglob w d = (case real w d of None \<Rightarrow> []
     | Some r \<Rightarrow> map (drop (length r)) (filter (strict_prefix r)
         (remdups (map fst (w_files w) @ map fst (w_links w) @ w_dirs w))))"

definition rel_path :: "string list \<Rightarrow> ppath" where
  "rel_path ps = \<lparr>p_abs = False, p_parts = ps\<rparr>"

definition bundle_documents :: "string list" where
  "bundle_documents = [''manifest.json'', ''manifest.sha256'', ''manifest.sig'', ''manifest.mac'']"

definition undeclared_model :: "world \<Rightarrow> ppath \<Rightarrow> string list \<Rightarrow> string list \<Rightarrow> bool" where
  "undeclared_model w bundle_root inventoried ps \<longleftrightarrow>
     is_file w (path_join bundle_root (rel_path ps)) \<and> path_str (rel_path ps) \<notin> set bundle_documents \<and>
     path_suffix (rel_path ps) = ''.onnx'' \<and> path_str (rel_path ps) \<notin> set inventoried"

definition check_undeclared :: "ppath \<Rightarrow> string list \<Rightarrow> unit io" where
  "check_undeclared bundle_root inventoried w =
     (case filter (undeclared_model w bundle_root inventoried) (rglob w bundle_root) of
        [] \<Rightarrow> (Inr (), w)
      | ps # _ \<Rightarrow> (Inl (ps_err FILE_INTEGRITY_FAILED
          (''Undeclared model artifact in bundle: '' @ path_str (rel_path ps))), w))"

definition check_signature ::
    "ext \<Rightarrow> crypto \<Rightarrow> ppath \<Rightarrow> string option \<Rightarrow> bool \<Rightarrow> pydict option io" where
  "check_signature X K bundle_root pk require =
     bindS (getS (\<lambda>w. is_file w (sig_path bundle_root))) (\<lambda>there.
     if there then bindS (verify_bundle_signature X K bundle_root None pk) (\<lambda>meta. retS (Some meta))
     else bindS (guardS (\<not> require) (ps_err SIGNATURE_REQUIRED
       ''Bundle signature required but manifest.sig is missing'')) (\<lambda>u. retS None))"

definition bundle_report :: "ppath \<Rightarrow> string \<Rightarrow> (string \<times> string) list \<Rightarrow> pydict option \<Rightarrow> pydict" where
  "bundle_report bundle_root actual checked meta =
     [(''bundle_root'', PStr (path_str bundle_root)), (''ok'', PBool True),
      (''manifest_sha256'', PStr actual),
      (''files_checked'', PList (map (\<lambda>(rel, got).
         PDict [(''path'', PStr rel), (''sha256'', PStr got)]) checked)),
      (''signature_present'', PBool (meta \<noteq> None)),
      (''signature_ok'', if meta = None then PNone else PBool True),
      (''signature_verified'', PBool (meta \<noteq> None)),
      (''signature_algorithm'', if meta = None then PNone else PStr ''ed25519''),
      (''signature'', opt_val PDict meta)]"

definition check_manifest :: "ext \<Rightarrow> ppath \<Rightarrow> (pydict \<times> string) io" where
  "check_manifest X bundle_root =
     bindS (getS (\<lambda>w. is_dir w bundle_root)) (\<lambda>there.
     bindS (guardS there (ps_err BUNDLE_INVALID
       (''Bundle root is not a directory: '' @ path_str bundle_root))) (\<lambda>u.
     bindS (getS (\<lambda>w. is_file w (manifest_path bundle_root))) (\<lambda>there.
     bindS (guardS there (ps_err BUNDLE_INVALID ''manifest.json missing'')) (\<lambda>u.
     bindS (getS (\<lambda>w. is_file w (digest_path bundle_root))) (\<lambda>there.
     bindS (guardS there (ps_err FILE_INTEGRITY_FAILED ''manifest.sha256 missing'')) (\<lambda>u.
     bindS (load_json_document X (manifest_path bundle_root)) (\<lambda>manifest.
     bindS (validate_document X manifest ''profile_bundle'') (\<lambda>u.
     bindS (read_text (digest_path bundle_root)) (\<lambda>t.
     bindS (liftS (first_word t)) (\<lambda>expected.
     bindS (sha256_file X (manifest_path bundle_root)) (\<lambda>actual.
     bindS (guardS (expected = actual) (ps_error FILE_INTEGRITY_FAILED
       ''manifest.sha256 does not match manifest.json'' None
       [(''expected'', PStr expected), (''actual'', PStr actual)] None)) (\<lambda>u.
     retS (the_dict manifest, actual)))))))))))))"

definition verify_bundle ::
    "ext \<Rightarrow> crypto \<Rightarrow> ppath \<Rightarrow> string option \<Rightarrow> bool \<Rightarrow> pydict io" where
  "verify_bundle X K bundle_root pk require =
     bindS (check_manifest X bundle_root) (\<lambda>(manifest, actual).
     bindS (liftS (py_iter (py_or (dget manifest ''files'') (PList [])))) (\<lambda>inventory.
     bindS (foldS (check_entry X bundle_root) inventory []) (\<lambda>checked.
     bindS (check_undeclared bundle_root (map (\<lambda>(rel, got). path_str (path_of rel)) checked)) (\<lambda>u.
     bindS (check_signature X K bundle_root pk require) (\<lambda>meta.
     bindS (envelope_fields X ''perceptshift.bundle_verify'') (\<lambda>report.
     retS (dupdate report (bundle_report bundle_root actual checked meta))))))))"

section \<open>Import, signature, MAC\<close>

text \<open>
  \<open>shutil.copytree\<close>: the entries are listed, the target directory is made (it must not exist), each
  entry is copied, links followed; an OSError of an entry is kept and raised at the end. The fuel is
  Python's recursion limit.
\<close>

definition recursion_limit :: nat where
  "recursion_limit = 1000"

definition copy_bytes :: "ppath \<Rightarrow> ppath \<Rightarrow> unit io" where
  "copy_bytes p q = bindS (read_bytes p) (\<lambda>b. write_bytes q b)"

fun copytree :: "nat \<Rightarrow> ppath \<Rightarrow> ppath \<Rightarrow> unit io" where
  "copytree 0 p q = raiseS (py_err (OtherError ''RecursionError''))"
| "copytree (Suc fuel) p q =
     bindS (getS (\<lambda>w. (is_dir w p, entry_names w p))) (\<lambda>(there, names).
     bindS (guardS there (py_err FileNotFoundError)) (\<lambda>u.
     bindS (mkdirs False q) (\<lambda>u.
     bindS (foldS (\<lambda>n failed.
       catchS (bindS (getS (\<lambda>w. is_dir w (path_join p (rel_path [n])))) (\<lambda>sub.
           bindS (if sub then copytree fuel (path_join p (rel_path [n])) (path_join q (rel_path [n]))
             else copy_bytes (path_join p (rel_path [n])) (path_join q (rel_path [n]))) (\<lambda>u.
           retS failed)))
         (\<lambda>e. if is_os_error e then retS True else raiseS e)) names False) (\<lambda>failed.
     guardS (\<not> failed) (py_err OSError)))))"

definition import_bundle :: "ext \<Rightarrow> crypto \<Rightarrow> ppath \<Rightarrow> ppath \<Rightarrow> pydict io" where
  "import_bundle X K bundle_root destination =
     bindS (verify_bundle X K bundle_root None False) (\<lambda>u.
     bindS (mkdirs True destination) (\<lambda>u.
     let target = path_div destination (path_name bundle_root) in
     bindS (getS (\<lambda>w. path_exists w target)) (\<lambda>taken.
     bindS (guardS (\<not> taken) (ps_err BUNDLE_INVALID
       (''Destination already exists: '' @ path_str target))) (\<lambda>u.
     bindS (copytree recursion_limit bundle_root target) (\<lambda>u.
     bindS (envelope_fields X ''perceptshift.bundle_import'') (\<lambda>report.
     retS (dupdate report [(''source'', PStr (path_str bundle_root)),
       (''destination'', PStr (path_str target)), (''ok'', PBool True)])))))))"

definition signature_document :: "string \<Rightarrow> string \<Rightarrow> string \<Rightarrow> bool \<Rightarrow> pydict" where
  "signature_document key_id signature public_hex include_public_key =
     [(''algorithm'', PStr ''ed25519''), (''key_id'', PStr key_id),
      (''payload_schema_version'', PStr ''1''), (''encoding'', PStr ''hex''),
      (''signature'', PStr (to_hex signature))]
     @ (if include_public_key then [(''public_key'', PStr public_hex)] else [])"

definition resolved_key_id :: "ext \<Rightarrow> string option \<Rightarrow> string \<Rightarrow> exc + string" where
  "resolved_key_id X key_id public_hex = (case key_id of
     Some i \<Rightarrow> if i \<noteq> [] then Inr i else (case from_hex public_hex of
       None \<Rightarrow> Inl (py_err ValueError) | Some b \<Rightarrow> Inr (take 16 (x_sha256 X b)))
   | None \<Rightarrow> (case from_hex public_hex of
       None \<Rightarrow> Inl (py_err ValueError) | Some b \<Rightarrow> Inr (take 16 (x_sha256 X b))))"

definition sign_bundle ::
    "ext \<Rightarrow> crypto \<Rightarrow> ppath \<Rightarrow> ppath \<Rightarrow> string option \<Rightarrow> bool \<Rightarrow> pydict io" where
  "sign_bundle X K bundle_root key_path key_id include_public_key =
     bindS (verify_bundle X K bundle_root None False) (\<lambda>u.
     bindS (load_ed25519_private_key K key_path) (\<lambda>private_key.
     bindS (read_bytes (digest_path bundle_root)) (\<lambda>payload.
     let signature = k_sign K private_key payload; public_hex = to_hex (k_public K private_key) in
     bindS (liftS (resolved_key_id X key_id public_hex)) (\<lambda>rid.
     bindS (write_atomic_json X (sig_path bundle_root)
       (PDict (signature_document rid signature public_hex include_public_key))) (\<lambda>u.
     bindS (envelope_fields X ''perceptshift.bundle_sign'') (\<lambda>report.
     retS (dupdate report [(''bundle_root'', PStr (path_str bundle_root)),
       (''signature_path'', PStr (path_str (sig_path bundle_root))), (''algorithm'', PStr ''ed25519''),
       (''key_id'', PStr rid), (''ok'', PBool True)])))))))"

text \<open>The keys of the MAC document are in sorted order already, so its text is the codec's.\<close>

definition mac_document :: "string \<Rightarrow> pydict" where
  "mac_document digest = [(''algorithm'', PStr ''blake2b-keyed-32''), (''encoding'', PStr ''hex''),
     (''mac'', PStr digest)]"

definition mac_path :: "ppath \<Rightarrow> ppath" where
  "mac_path bundle_root = path_div bundle_root ''manifest.mac''"

definition integrity_mac_blake2b :: "ext \<Rightarrow> crypto \<Rightarrow> ppath \<Rightarrow> ppath \<Rightarrow> pydict io" where
  "integrity_mac_blake2b X K bundle_root key_path =
     bindS (verify_bundle X K bundle_root None False) (\<lambda>u.
     bindS (getS (\<lambda>w. is_file w key_path)) (\<lambda>there.
     bindS (guardS there (ps_err SIGNATURE_REQUIRED (''MAC key not found: '' @ path_str key_path))) (\<lambda>u.
     bindS (read_bytes key_path) (\<lambda>key.
     bindS (read_bytes (digest_path bundle_root)) (\<lambda>payload.
     bindS (write_atomic_text (mac_path bundle_root)
       (x_dumps X (PDict (mac_document (k_blake2b K (take 64 key) payload))) @ [CHR 0x0A])) (\<lambda>u.
     bindS (envelope_fields X ''perceptshift.bundle_mac'') (\<lambda>report.
     retS (dupdate report [(''bundle_root'', PStr (path_str bundle_root)),
       (''mac_path'', PStr (path_str (mac_path bundle_root))), (''algorithm'', PStr ''blake2b-keyed-32''),
       (''ok'', PBool True)]))))))))"

section \<open>Verification reads only\<close>

lemma keeps_reads_public_key: "keeps reads_only (choose_public_key K meta kp kb)"
  unfolding choose_public_key_def load_ed25519_public_key_def by (intro reads_only_intros)

lemma keeps_reads_verify_signature: "keeps reads_only (verify_bundle_signature X K bundle_root kp kb)"
  unfolding verify_bundle_signature_def by (intro reads_only_intros keeps_reads_public_key)

lemma keeps_reads_check_manifest: "keeps reads_only (check_manifest X bundle_root)"
  unfolding check_manifest_def by (intro reads_only_intros)

lemma keeps_reads_check_entry: "keeps reads_only (check_entry X bundle_root v checked)"
  unfolding check_entry_def by (intro reads_only_intros)

lemma keeps_reads_check_undeclared: "keeps reads_only (check_undeclared bundle_root names)"
  by (rule keepsI) (auto simp: check_undeclared_def reads_only.R_refl split: list.splits)

lemma keeps_reads_check_signature: "keeps reads_only (check_signature X K bundle_root pk require)"
  unfolding check_signature_def by (intro reads_only_intros keeps_reads_verify_signature)

lemma keeps_reads_verify_bundle: "keeps reads_only (verify_bundle X K bundle_root pk require)"
  unfolding verify_bundle_def
  by (intro reads_only_intros keeps_reads_check_manifest keeps_reads_check_entry
    keeps_reads_check_undeclared keeps_reads_check_signature)

section \<open>What verification establishes\<close>

text \<open>A file below the bundle root whose content has the digest.\<close>

definition hashed_in :: "ext \<Rightarrow> world \<Rightarrow> ppath \<Rightarrow> string \<Rightarrow> string \<Rightarrow> bool" where
  "hashed_in X w bundle_root rel digest \<longleftrightarrow> (\<exists>base q b. real w bundle_root = Some base \<and>
     real w (path_div bundle_root rel) = Some q \<and> prefix base q \<and>
     map_of (w_files w) q = Some b \<and> sha256_bytes X b = digest)"

lemma hashed_in_reads: "reads_only w w' \<Longrightarrow> hashed_in X w' = hashed_in X w"
proof -
  assume r: "reads_only w w'"
  then have "real w' = real w" by (rule reads_only_same)
  moreover from r have "w_files w' = w_files w" by (simp add: reads_only_def)
  ultimately show "hashed_in X w' = hashed_in X w" by (simp add: hashed_in_def fun_eq_iff)
qed

lemma read_bytes_resolved:
  assumes "real w p = Some q" and "read_bytes (abs_path q) w = (Inr b, u)"
  shows "map_of (w_files w) q = Some b"
  using assms(2) real_idem [OF assms(1)] by (auto simp: read_bytes_def split: option.splits)

lemma check_entry_ok:
  assumes "check_entry X bundle_root v checked w = (Inr c, u)"
  shows "reads_only w u \<and> c = checked @ (case inventory_entry v of None \<Rightarrow> [] | Some e \<Rightarrow> [e])
    \<and> (\<forall>rel digest. inventory_entry v = Some (rel, digest) \<longrightarrow>
        hashed_in X w bundle_root rel digest \<and> ''..'' \<notin> set (p_parts (path_of rel)))"
proof -
  have r: "reads_only w u" using assms by (rule keepsD [OF keeps_reads_check_entry])
  show ?thesis
  proof (cases "inventory_entry v")
    case None
    with assms r show ?thesis by (simp add: check_entry_def)
  next
    case (Some e)
    obtain rel digest where e: "e = (rel, digest)" by fastforce
    from assms Some e obtain target base got where
      safe: "\<not> unsafe_rel rel" and t: "resolve w (path_div bundle_root rel) = Inr target"
      and b: "resolve w bundle_root = Inr base" and rel: "relative_to target base \<noteq> None"
      and h: "sha256_file X target w = (Inr got, u)" and g: "got = digest"
      and c: "c = checked @ [(rel, got)]"
      by (auto simp: check_entry_def comp_eqs)
    from t b obtain q r where q: "real w (path_div bundle_root rel) = Some q" "target = abs_path q"
        and rr: "real w bundle_root = Some r" "base = abs_path r"
      by (auto simp: resolve_Inr)
    from h obtain bs where bs: "read_bytes target w = (Inr bs, u)" "got = sha256_bytes X bs"
      by (auto simp: sha256_file_whole comp_eqs)
    have "map_of (w_files w) q = Some bs" using read_bytes_resolved [OF q(1)] bs(1) q(2) by blast
    moreover have "prefix r q" using rel q rr by (auto dest: relative_to_Some)
    ultimately have "hashed_in X w bundle_root rel digest"
      using q(1) rr(1) bs(2) g unfolding hashed_in_def by blast
    with r Some e c g safe show ?thesis by (auto simp: unsafe_rel_def)
  qed
qed

lemma check_entries_ok:
  assumes "foldS (check_entry X bundle_root) vs checked w = (Inr c, u)"
  shows "reads_only w u \<and> c = checked @ List.map_filter inventory_entry vs
    \<and> (\<forall>(rel, digest) \<in> set (List.map_filter inventory_entry vs).
        hashed_in X w bundle_root rel digest \<and> ''..'' \<notin> set (p_parts (path_of rel)))"
  using assms
proof (induction vs arbitrary: checked w)
  case Nil
  then show ?case by (simp add: reads_only.R_refl map_filter_simps)
next
  case (Cons v vs)
  from Cons.prems obtain c1 w1 where one: "check_entry X bundle_root v checked w = (Inr c1, w1)"
      and rest: "foldS (check_entry X bundle_root) vs c1 w1 = (Inr c, u)"
    by (auto simp: comp_eqs)
  note h = check_entry_ok [OF one] and ih = Cons.IH [OF rest]
  have eq: "hashed_in X w1 = hashed_in X w" using h hashed_in_reads by blast
  have "reads_only w u" using h ih reads_only.R_trans by blast
  with h ih eq show ?case
    by (cases "inventory_entry v") (auto simp: map_filter_simps)
qed

lemma name_suffix_suffix: "suffix (name_suffix n) n"
proof -
  let ?t = "takeWhile (\<lambda>c. c \<noteq> CHR ''.'') (rev n)"
  have "suffix (CHR ''.'' # rev ?t) n" if "length ?t < length n"
  proof -
    have ne: "dropWhile (\<lambda>c. c \<noteq> CHR ''.'') (rev n) \<noteq> []"
      using that by (metis length_append append.right_neutral length_rev nat_neq_iff takeWhile_dropWhile_id)
    then obtain d ds where d: "dropWhile (\<lambda>c. c \<noteq> CHR ''.'') (rev n) = d # ds" by (meson neq_Nil_conv)
    then have "d = CHR ''.''" by (metis (full_types) hd_dropWhile list.sel(1) ne)
    with d have "rev n = ?t @ CHR ''.'' # ds" using takeWhile_dropWhile_id [of "\<lambda>c. c \<noteq> CHR ''.''" "rev n"] by simp
    then have "n = rev ds @ CHR ''.'' # rev ?t"
      by (metis append.assoc append_Cons append_Nil rev.simps(2) rev_append rev_rev_ident)
    then show ?thesis by (metis suffixI)
  qed
  then show ?thesis by (auto simp: name_suffix_def Let_def)
qed

lemma suffix_join_with: "ps \<noteq> [] \<Longrightarrow> suffix (last ps) (join_with sep ps)"
proof (induction sep ps rule: join_with.induct)
  case (3 sep s t ss)
  then have "suffix (last (t # ss)) (join_with sep (t # ss))" by simp
  then show ?case by (auto simp: suffix_def)
qed simp_all

lemma suffix_rel_path: "suffix (path_suffix (rel_path ps)) (path_str (rel_path ps))"
proof (cases "ps = []")
  case True
  then show ?thesis by (simp add: path_suffix_def path_name_def rel_path_def name_suffix_def)
next
  case False
  then have "suffix (name_suffix (last ps)) (join_with ''/'' ps)"
    by (meson name_suffix_suffix suffix_join_with suffix_order.order_trans)
  with False show ?thesis by (simp add: path_suffix_def path_name_def rel_path_def path_str_def)
qed

lemma model_not_document:
  assumes "path_suffix (rel_path ps) = ''.onnx''"
  shows "path_str (rel_path ps) \<notin> set bundle_documents"
proof
  assume "path_str (rel_path ps) \<in> set bundle_documents"
  with suffix_rel_path [of ps] assms have "list_ex (suffix ''.onnx'') bundle_documents"
    by (metis Bex_set)
  moreover have "\<not> list_ex (suffix ''.onnx'') bundle_documents" by code_simp
  ultimately show False by simp
qed

lemma check_undeclared_ok:
  assumes "check_undeclared bundle_root names w = (Inr x, u)" and "ps \<in> set (rglob w bundle_root)"
    and "is_file w (path_join bundle_root (rel_path ps))" and "path_suffix (rel_path ps) = ''.onnx''"
  shows "path_str (rel_path ps) \<in> set names"
proof -
  have "\<not> undeclared_model w bundle_root names ps"
    using assms(1,2) by (auto simp: check_undeclared_def filter_empty_conv split: list.splits)
  with assms(3,4) model_not_document show ?thesis by (auto simp: undeclared_model_def)
qed

lemma check_manifest_ok:
  assumes "check_manifest X bundle_root w = (Inr (m, actual), u)"
  shows "fst (load_json_document X (manifest_path bundle_root) w) = Inr (PDict m)
    \<and> (\<exists>document payload t rest. fst (read_bytes (manifest_path bundle_root) w) = Inr document
      \<and> fst (read_bytes (digest_path bundle_root) w) = Inr payload \<and> utf8_decode payload = Some t
      \<and> py_words (py_strip t) = sha256_bytes X document # rest \<and> actual = sha256_bytes X document)"
proof -
  from assms obtain v w1 w2 w3 w4 t expected x where
    l: "load_json_document X (manifest_path bundle_root) w = (Inr v, w1)"
    and va: "validate_document X v ''profile_bundle'' w1 = (Inr x, w2)"
    and t: "read_text (digest_path bundle_root) w2 = (Inr t, w3)"
    and e: "first_word t = Inr expected"
    and s: "sha256_file X (manifest_path bundle_root) w3 = (Inr actual, w4)"
    and eq: "expected = actual" and m: "m = the_dict v"
    by (auto simp: check_manifest_def comp_eqs)
  have r1: "reads_only w w1" using l by (rule keepsD [OF keeps_reads_load_json])
  have r2: "reads_only w1 w2" using va by (rule keepsD [OF keeps_reads_validate])
  have r3: "reads_only w2 w3" using t by (rule keepsD [OF keeps_reads_read_text])
  have ra: "reads_only w w2" using r1 r2 by (rule reads_only.R_trans)
  have rb: "reads_only w w3" using ra r3 by (rule reads_only.R_trans)
  from l have "is_dict v" by (auto simp: load_json_document_def comp_eqs)
  then have v: "v = PDict m" using m by (cases v) simp_all
  from t obtain payload where p: "read_bytes (digest_path bundle_root) w2 = (Inr payload, w3)"
      "utf8_decode payload = Some t"
    by (auto simp: read_text_def comp_eqs split: option.splits)
  then have p': "fst (read_bytes (digest_path bundle_root) w) = Inr payload"
    using reads_only_same(8) [OF ra] by (metis fst_conv)
  from s obtain document where d: "read_bytes (manifest_path bundle_root) w3 = (Inr document, w4)"
      "actual = sha256_bytes X document"
    by (auto simp: sha256_file_whole comp_eqs)
  then have d': "fst (read_bytes (manifest_path bundle_root) w) = Inr document"
    using reads_only_same(8) [OF rb] by (metis fst_conv)
  from e eq d(2) obtain rest where "py_words (py_strip t) = sha256_bytes X document # rest"
    by (auto simp: first_word_def split: list.splits)
  with l v p(2) p' d(2) d' show ?thesis by (metis fst_conv)
qed

text \<open>The signature that a bundle carries: in the JSON object of its \<open>manifest.sig\<close>, an Ed25519
  signature as 128 hexadecimal characters.\<close>

definition carried_signature :: "ext \<Rightarrow> world \<Rightarrow> ppath \<Rightarrow> string \<Rightarrow> bool" where
  "carried_signature X w bundle_root signature \<longleftrightarrow> (\<exists>text meta h.
     fst (read_text (sig_path bundle_root) w) = Inr text \<and> x_loads X (py_strip text) = Some (PDict meta)
     \<and> py_lower (py_str (py_or (dget meta ''algorithm'') (PStr []))) = ''ed25519''
     \<and> dget meta ''signature'' = PStr h \<and> length h = 128 \<and> from_hex h = Some signature)"

lemma carried_signature_reads: "reads_only w w' \<Longrightarrow> carried_signature X w' b s \<longleftrightarrow> carried_signature X w b s"
  by (simp add: carried_signature_def reads_only_text)

lemma signature_bytes_ok:
  assumes "parse_signature X text = Inr meta" and "signature_bytes meta = Inr signature"
  shows "x_loads X (py_strip text) = Some (PDict meta)
    \<and> py_lower (py_str (py_or (dget meta ''algorithm'') (PStr []))) = ''ed25519''
    \<and> (\<exists>h. dget meta ''signature'' = PStr h \<and> length h = 128 \<and> from_hex h = Some signature)"
  using assms
  by (auto simp: parse_signature_def signature_bytes_def json_loads_def Let_def bindR_eq_Inr guardR_def
    split: option.splits pyval.splits if_splits)

lemma verify_signature_ok:
  assumes "verify_bundle_signature X K bundle_root kp (Some key) w = (Inr meta, u)"
  shows "\<exists>signature payload. carried_signature X w bundle_root signature \<and> length key = 32
    \<and> fst (read_bytes (digest_path bundle_root) w) = Inr payload \<and> k_verify K key signature payload"
proof -
  from assms obtain k h d w1 w2 w3 tx sg payload where
    t: "read_text (sig_path bundle_root) w = (Inr tx, w1)"
    and s: "parse_signature X tx = Inr d" "signature_bytes d = Inr sg"
    and c: "choose_public_key K d kp (Some key) w1 = (Inr (k, h), w2)"
    and p: "read_bytes (digest_path bundle_root) w2 = (Inr payload, w3)"
    and v: "k_verify K k sg payload"
    by (auto simp: verify_bundle_signature_def comp_eqs)
  from c have k: "k = key" "length key = 32"
    by (auto simp: choose_public_key_def comp_eqs public_key_from_bytes_def result_eqs)
  have "reads_only w w2"
    using keepsD [OF keeps_reads_read_text t] keepsD [OF keeps_reads_public_key c]
    by (rule reads_only.R_trans)
  then have "fst (read_bytes (digest_path bundle_root) w) = Inr payload"
    using p reads_only_same(8) by (metis fst_conv)
  moreover have "carried_signature X w bundle_root sg"
    using t signature_bytes_ok [OF s] unfolding carried_signature_def by auto
  ultimately show ?thesis using k v by blast
qed

lemma verify_bundle_steps:
  assumes "verify_bundle X K bundle_root pk require w = (Inr rep, w')"
  obtains m actual items checked meta w1 w2 w3 w4 where
    "check_manifest X bundle_root w = (Inr (m, actual), w1)"
    "py_iter (py_or (dget m ''files'') (PList [])) = Inr items"
    "foldS (check_entry X bundle_root) items [] w1 = (Inr checked, w2)"
    "check_undeclared bundle_root (map (\<lambda>(rel, got). path_str (path_of rel)) checked) w2 = (Inr (), w3)"
    "check_signature X K bundle_root pk require w3 = (Inr meta, w4)"
    "reads_only w w1" "reads_only w w2" "reads_only w w3"
proof -
  from assms obtain m actual items checked meta w1 w2 w3 w4 where s:
    "check_manifest X bundle_root w = (Inr (m, actual), w1)"
    "py_iter (py_or (dget m ''files'') (PList [])) = Inr items"
    "foldS (check_entry X bundle_root) items [] w1 = (Inr checked, w2)"
    "check_undeclared bundle_root (map (\<lambda>(rel, got). path_str (path_of rel)) checked) w2 = (Inr (), w3)"
    "check_signature X K bundle_root pk require w3 = (Inr meta, w4)"
    by (auto simp: verify_bundle_def comp_eqs)
  have r1: "reads_only w w1" using s(1) by (rule keepsD [OF keeps_reads_check_manifest])
  have r2: "reads_only w w2"
    using check_entries_ok [OF s(3)] by (blast intro: reads_only.R_trans [OF r1])
  have r3: "reads_only w w3"
    using keepsD [OF keeps_reads_check_undeclared s(4)] by (rule reads_only.R_trans [OF r2])
  show thesis by (rule that [OF s r1 r2 r3])
qed

section \<open>Properties\<close>

text \<open>The state in which a bundle was verified: manifest, inventory and models.\<close>

definition trusted_bundle :: "ext \<Rightarrow> world \<Rightarrow> ppath \<Rightarrow> bool" where
  "trusted_bundle X w bundle_root \<longleftrightarrow> (\<exists>m items document payload t rest.
     fst (load_json_document X (manifest_path bundle_root) w) = Inr (PDict m) \<and>
     fst (read_bytes (manifest_path bundle_root) w) = Inr document \<and>
     fst (read_bytes (digest_path bundle_root) w) = Inr payload \<and> utf8_decode payload = Some t \<and>
     py_words (py_strip t) = sha256_bytes X document # rest \<and>
     py_iter (py_or (dget m ''files'') (PList [])) = Inr items \<and>
     (\<forall>v\<in>set items. \<forall>rel digest. inventory_entry v = Some (rel, digest) \<longrightarrow>
        hashed_in X w bundle_root rel digest) \<and>
     (\<forall>ps\<in>set (rglob w bundle_root). is_file w (path_join bundle_root (rel_path ps)) \<longrightarrow>
        path_suffix (rel_path ps) = ''.onnx'' \<longrightarrow>
        (\<exists>v\<in>set items. \<exists>rel digest. inventory_entry v = Some (rel, digest) \<and>
           path_str (path_of rel) = path_str (rel_path ps) \<and> hashed_in X w bundle_root rel digest)))"

lemma map_filter_mem:
  "(\<exists>x\<in>set xs. f x = Some y) \<longleftrightarrow> y \<in> set (List.map_filter f xs)"
  by (induction xs) (auto simp: map_filter_simps split: option.splits)

text \<open>C3. Verification of a bundle changes no file, and when it succeeds \<open>manifest.sha256\<close> commits
  to the manifest, every inventoried file lies below the bundle root and has the digest recorded,
  and every model file found below the root is inventoried.\<close>

theorem verified_bundle_trusted:
  assumes run: "verify_bundle X K bundle_root pk require w = (Inr rep, w')"
  shows "reads_only w w' \<and> trusted_bundle X w bundle_root"
proof
  show "reads_only w w'" using run by (rule keepsD [OF keeps_reads_verify_bundle])
  obtain m actual items checked meta w1 w2 w3 w4 where s:
    "check_manifest X bundle_root w = (Inr (m, actual), w1)"
    "py_iter (py_or (dget m ''files'') (PList [])) = Inr items"
    "foldS (check_entry X bundle_root) items [] w1 = (Inr checked, w2)"
    "check_undeclared bundle_root (map (\<lambda>(rel, got). path_str (path_of rel)) checked) w2 = (Inr (), w3)"
    "check_signature X K bundle_root pk require w3 = (Inr meta, w4)"
    "reads_only w w1" "reads_only w w2" "reads_only w w3"
    by (rule verify_bundle_steps [OF run])
  obtain document payload t rest where d:
    "fst (load_json_document X (manifest_path bundle_root) w) = Inr (PDict m)"
    "fst (read_bytes (manifest_path bundle_root) w) = Inr document"
    "fst (read_bytes (digest_path bundle_root) w) = Inr payload" "utf8_decode payload = Some t"
    "py_words (py_strip t) = sha256_bytes X document # rest"
    using check_manifest_ok [OF s(1)] by blast
  have checked: "checked = List.map_filter inventory_entry items"
    and hashed: "\<forall>(rel, digest) \<in> set checked. hashed_in X w bundle_root rel digest"
    using check_entries_ok [OF s(3)] hashed_in_reads [OF s(6)] by auto
  have all: "\<forall>v\<in>set items. \<forall>rel digest. inventory_entry v = Some (rel, digest) \<longrightarrow>
      hashed_in X w bundle_root rel digest"
    using hashed checked map_filter_mem [of items inventory_entry] by fast
  have rglob: "rglob w2 bundle_root = rglob w bundle_root"
    using s(7) reads_only_same(2) [OF s(7)] by (simp add: rglob_def reads_only_def split: option.split)
  have models: "\<exists>v\<in>set items. \<exists>rel digest. inventory_entry v = Some (rel, digest) \<and>
      path_str (path_of rel) = path_str (rel_path ps) \<and> hashed_in X w bundle_root rel digest"
    if "ps \<in> set (rglob w bundle_root)" "is_file w (path_join bundle_root (rel_path ps))"
      "path_suffix (rel_path ps) = ''.onnx''" for ps
  proof -
    have "path_str (rel_path ps) \<in> set (map (\<lambda>(rel, got). path_str (path_of rel)) checked)"
      by (rule check_undeclared_ok [OF s(4) _ _ that(3)])
        (use that rglob reads_only_same(4) [OF s(7)] in simp_all)
    then obtain rel digest where e: "(rel, digest) \<in> set checked"
      "path_str (path_of rel) = path_str (rel_path ps)" by auto
    moreover have "\<exists>v\<in>set items. inventory_entry v = Some (rel, digest)"
      using e(1) checked map_filter_mem by metis
    ultimately show ?thesis using hashed by fast
  qed
  show "trusted_bundle X w bundle_root"
    unfolding trusted_bundle_def using d s(2) all models by blast
qed

text \<open>C5. When verification succeeds against a key that the caller supplied and requires a
  signature, the signature that the bundle carries in its \<open>manifest.sig\<close> verifies under that key over
  the exact bytes of \<open>manifest.sha256\<close>, whose first word is the digest of the manifest.\<close>

theorem signed_bundle_chain:
  assumes run: "verify_bundle X K bundle_root (Some key) True w = (Inr rep, w')"
  shows "\<exists>signature payload document t rest. carried_signature X w bundle_root signature
    \<and> k_verify K key signature payload \<and> length key = 32
    \<and> fst (read_bytes (digest_path bundle_root) w) = Inr payload \<and> utf8_decode payload = Some t
    \<and> py_words (py_strip t) = sha256_bytes X document # rest
    \<and> fst (read_bytes (manifest_path bundle_root) w) = Inr document"
proof -
  obtain m actual items checked meta w1 w2 w3 w4 where s:
    "check_manifest X bundle_root w = (Inr (m, actual), w1)"
    "py_iter (py_or (dget m ''files'') (PList [])) = Inr items"
    "foldS (check_entry X bundle_root) items [] w1 = (Inr checked, w2)"
    "check_undeclared bundle_root (map (\<lambda>(rel, got). path_str (path_of rel)) checked) w2 = (Inr (), w3)"
    "check_signature X K bundle_root (Some key) True w3 = (Inr meta, w4)"
    "reads_only w w1" "reads_only w w2" "reads_only w w3"
    by (rule verify_bundle_steps [OF run])
  from s(5) obtain md w5 where "verify_bundle_signature X K bundle_root None (Some key) w3 = (Inr md, w5)"
    by (auto simp: check_signature_def comp_eqs split: if_splits)
  then obtain sg payload where v: "carried_signature X w3 bundle_root sg" "length key = 32" "k_verify K key sg payload"
      "fst (read_bytes (digest_path bundle_root) w3) = Inr payload"
    using verify_signature_ok by blast
  then have p: "fst (read_bytes (digest_path bundle_root) w) = Inr payload" "carried_signature X w bundle_root sg"
    using reads_only_same(8) [OF s(8)] carried_signature_reads [OF s(8)] by simp_all
  obtain document payload' t rest where d:
    "fst (read_bytes (manifest_path bundle_root) w) = Inr document"
    "fst (read_bytes (digest_path bundle_root) w) = Inr payload'" "utf8_decode payload' = Some t"
    "py_words (py_strip t) = sha256_bytes X document # rest"
    using check_manifest_ok [OF s(1)] by blast
  from d(2) p have "payload' = payload" by simp
  with v(2,3) p d show ?thesis by blast
qed

section \<open>Signing\<close>

text \<open>What is documented of the libraries: Ed25519 signatures verify, their sizes, and the JSON text
  of a dictionary of strings reads back as that dictionary, whatever the order of its keys.\<close>

definition ed25519_laws :: "crypto \<Rightarrow> bool" where
  "ed25519_laws K \<longleftrightarrow> (\<forall>k m. k_verify K (k_public K k) (k_sign K k m) m \<and> length (k_sign K k m) = 64
     \<and> length (k_public K k) = 32 \<and> k_pub_ok K (k_public K k))"

definition json_laws :: "ext \<Rightarrow> bool" where
  "json_laws X \<longleftrightarrow> (\<forall>d. wf_dict d \<and> list_all (is_str \<circ> snd) d \<longrightarrow>
     (\<exists>d'. x_loads X (py_strip (x_dumps X (PDict d) @ [CHR 0x0A])) = Some (PDict d') \<and> map_of d' = map_of d))"

lemma plain_bundle_names: "plain_name ''manifest.sig''" "plain_name ''manifest.sig.tmp''"
    "plain_name ''manifest.sha256''" "plain_name ''manifest.json''"
  by (code_simp)+

lemma signature_document_ok:
  "wf_dict (signature_document i s h incl)" "list_all (is_str \<circ> snd) (signature_document i s h incl)"
  by (simp_all add: signature_document_def)

lemma sig_path_proper: "proper_file (sig_path bundle_root)"
  by (simp add: proper_file_def sig_path_def path_join_def path_name_def path_of_def)

lemma sig_places:
  "place w (sig_path b) = place w b @ [''manifest.sig'']"
  "place w (tmp_path (sig_path b)) = place w b @ [''manifest.sig.tmp'']"
  "place w (digest_path b) = place w b @ [''manifest.sha256'']"
proof -
  show "place w (sig_path b) = place w b @ [''manifest.sig'']"
    unfolding sig_path_def by (rule place_div [OF plain_bundle_names(1)])
  show "place w (digest_path b) = place w b @ [''manifest.sha256'']"
    unfolding digest_path_def by (rule place_div [OF plain_bundle_names(3)])
  have "tmp_path (sig_path b) = path_div b ''manifest.sig.tmp''"
    by (simp add: sig_path_def tmp_path_def path_name_def path_join_def path_of_def)
  then show "place w (tmp_path (sig_path b)) = place w b @ [''manifest.sig.tmp'']"
    using place_div [OF plain_bundle_names(2)] by simp
qed

lemma write_signature_effect:
  assumes "plain w" and "write_atomic_json X (sig_path b) (PDict d) w = (Inr x, w')"
  shows "same_setting w w'" "file_at w' (place w (sig_path b)) = Some (utf8_encode (x_dumps X (PDict d) @ [CHR 0x0A]))"
    "file_at w' (place w (digest_path b)) = file_at w (place w (digest_path b))"
proof -
  from assms(2) have run: "write_atomic_text (sig_path b) (x_dumps X (PDict d) @ [CHR 0x0A]) w = (Inr (), w')"
    by (auto simp: write_atomic_json_def canonical_json_dumps_def comp_eqs result_eqs)
  note e = write_atomic_text_effect [OF assms(1) sig_path_proper run]
  show "same_setting w w'" using e by blast
  show "file_at w' (place w (sig_path b)) = Some (utf8_encode (x_dumps X (PDict d) @ [CHR 0x0A]))"
    using e by blast
  have "place w (digest_path b) \<noteq> place w (sig_path b)"
    and "place w (digest_path b) \<noteq> place w (tmp_path (sig_path b))"
    by (simp_all add: sig_places)
  with e show "file_at w' (place w (digest_path b)) = file_at w (place w (digest_path b))" by blast
qed

lemma signature_bytes_document:
  assumes "map_of d = map_of (signature_document i s h incl)" and "length s = 64"
  shows "signature_bytes d = Inr s"
proof -
  have "dget d ''algorithm'' = PStr ''ed25519''" "dget d ''encoding'' = PStr ''hex''"
    "dget d ''signature'' = PStr (to_hex s)"
    using assms(1) by (simp_all add: dget_def signature_document_def)
  moreover have "py_lower ''ed25519'' = ''ed25519''" by code_simp
  ultimately show ?thesis
    using assms(2) by (simp add: signature_bytes_def Let_def py_or_def length_to_hex from_hex_to_hex)
qed

lemma sign_bundle_steps:
  assumes "sign_bundle X K bundle_root key_path key_id incl w = (Inr rep, w')"
  obtains w1 w2 w3 w4 priv payload i where
    "reads_only w w3" "reads_only w w1" "load_ed25519_private_key K key_path w1 = (Inr priv, w2)"
    "read_bytes (digest_path bundle_root) w2 = (Inr payload, w3)"
    "write_atomic_json X (sig_path bundle_root) (PDict (signature_document i (k_sign K priv payload)
       (to_hex (k_public K priv)) incl)) w3 = (Inr (), w4)"
    "reads_only w4 w'" "k_available K"
proof -
  from assms obtain v w1 w2 w3 w4 priv payload i f where s:
    "verify_bundle X K bundle_root None False w = (Inr v, w1)"
    "load_ed25519_private_key K key_path w1 = (Inr priv, w2)"
    "read_bytes (digest_path bundle_root) w2 = (Inr payload, w3)"
    "write_atomic_json X (sig_path bundle_root) (PDict (signature_document i (k_sign K priv payload)
       (to_hex (k_public K priv)) incl)) w3 = (Inr (), w4)"
    "envelope_fields X ''perceptshift.bundle_sign'' w4 = (Inr f, w')"
    by (auto simp: sign_bundle_def comp_eqs Let_def)
  have k: "keeps reads_only (load_ed25519_private_key K key_path)"
    unfolding load_ed25519_private_key_def by (intro reads_only_intros)
  have r1: "reads_only w w1" using s(1) by (rule keepsD [OF keeps_reads_verify_bundle])
  have r2: "reads_only w w2" using keepsD [OF k s(2)] by (rule reads_only.R_trans [OF r1])
  have r3: "reads_only w w3"
    using keepsD [OF keeps_reads_read_bytes s(3)] by (rule reads_only.R_trans [OF r2])
  have r4: "reads_only w4 w'" using s(5) by (rule keepsD [OF keeps_reads_envelope])
  have a: "k_available K"
    using s(2) by (auto simp: load_ed25519_private_key_def require_cryptography_def comp_eqs result_eqs)
  show thesis by (rule that [OF r3 r1 s(2-4) r4 a])
qed

text \<open>C16. A bundle signed with a private key verifies: under the matching public key, and, when the
  key was included in the metadata, with no key supplied; the report names that public key.\<close>

theorem signed_bundle_verifies:
  assumes laws: "ed25519_laws K" "json_laws X" and pl: "plain w"
    and run: "sign_bundle X K bundle_root key_path key_id incl w = (Inr rep, w')"
  shows "\<exists>priv w1. reads_only w w1 \<and> fst (load_ed25519_private_key K key_path w1) = Inr priv
    \<and> (\<forall>given. given = Some (k_public K priv) \<or> given = None \<and> incl \<longrightarrow>
        (\<exists>meta. fst (verify_bundle_signature X K bundle_root None given w') = Inr meta
          \<and> dget meta ''public_key'' = PStr (to_hex (k_public K priv)) \<and> dget meta ''ok'' = PBool True))"
proof -
  obtain w1 w2 w3 w4 priv payload i where s:
    "reads_only w w3" "reads_only w w1" "load_ed25519_private_key K key_path w1 = (Inr priv, w2)"
    "read_bytes (digest_path bundle_root) w2 = (Inr payload, w3)"
    "write_atomic_json X (sig_path bundle_root) (PDict (signature_document i (k_sign K priv payload)
       (to_hex (k_public K priv)) incl)) w3 = (Inr (), w4)"
    "reads_only w4 w'" "k_available K"
    by (rule sign_bundle_steps [OF run])
  let ?pub = "k_public K priv" and ?sg = "k_sign K priv payload"
  let ?doc = "signature_document i ?sg (to_hex ?pub) incl"
  have pl3: "plain w3" using pl s(1) by (simp add: plain_def reads_only_def)
  note eff = write_signature_effect [OF pl3 s(5)]
  have pl': "plain w'" using eff(1) pl3 s(6) by (simp add: plain_def same_setting_def reads_only_def)
  have plc: "place w' p = place w3 p" for p
    using eff(1) s(6) by (simp add: place_def full_parts_def same_setting_def reads_only_def)
  have files: "w_files w' = w_files w4" using s(6) by (simp add: reads_only_def)
  let ?text = "x_dumps X (PDict ?doc) @ [CHR 0x0A]"
  have sig: "read_bytes (sig_path bundle_root) w' = (Inr (utf8_encode ?text), w')"
    using eff(2) files plc by (simp add: read_bytes_def real_plain [OF pl'])
  have "read_bytes (digest_path bundle_root) w3 = (Inr payload, w3)"
    using s(4) read_bytes_pure [of "digest_path bundle_root" w2] by simp
  then have dig: "read_bytes (digest_path bundle_root) w' = (Inr payload, w')"
    using eff(3) files plc
    by (auto simp: read_bytes_def real_plain [OF pl'] real_plain [OF pl3] split: option.splits)
  have there: "is_file w' (sig_path bundle_root)" "is_file w' (digest_path bundle_root)"
    using sig dig unfolding is_file_read_bytes by blast+
  obtain d where d: "x_loads X (py_strip ?text) = Some (PDict d)" "map_of d = map_of ?doc"
    using laws(2) signature_document_ok unfolding json_laws_def by blast
  have L: "k_verify K ?pub ?sg payload" "length ?sg = 64" "length ?pub = 32" "k_pub_ok K ?pub"
    using laws(1) by (auto simp: ed25519_laws_def)
  have key: "public_key_from_bytes K ?pub = Inr ?pub"
    using L s(7) by (simp add: public_key_from_bytes_def require_cryptography_def)
  have choose: "choose_public_key K d None given w' = (Inr (?pub, to_hex ?pub), w')"
    if "given = Some ?pub \<or> given = None \<and> incl" for given
    using that
  proof
    assume "given = Some ?pub"
    with L key show ?thesis by (simp add: choose_public_key_def)
  next
    assume g: "given = None \<and> incl"
    then have "dget d ''public_key'' = PStr (to_hex ?pub)"
      using d(2) by (simp add: dget_def signature_document_def)
    with g L key show ?thesis
      by (simp add: choose_public_key_def length_to_hex public_key_from_hex_def from_hex_to_hex)
  qed
  have tx: "read_text (sig_path bundle_root) w' = (Inr ?text, w')"
    using sig by (simp add: read_text_def bindS_def utf8_decode_encode)
  have parse: "parse_signature X ?text = Inr d"
    using d(1) by (simp add: parse_signature_def json_loads_def)
  have "\<exists>meta. fst (verify_bundle_signature X K bundle_root None given w') = Inr meta
      \<and> dget meta ''public_key'' = PStr (to_hex ?pub) \<and> dget meta ''ok'' = PBool True"
    if g: "given = Some ?pub \<or> given = None \<and> incl" for given
    unfolding verify_bundle_signature_def
    by (simp add: there tx parse signature_bytes_document [OF d(2) L(2)] choose [OF g] dig L(1)
      bindS_def [of "read_text p" for p] bindS_def [of "read_bytes p" for p]
      bindS_def [of "choose_public_key K d None given"])
  moreover have "fst (load_ed25519_private_key K key_path w1) = Inr priv" using s(3) by simp
  ultimately show ?thesis using s(2) by blast
qed

text \<open>C23. With no key supplied, a 64-character key in \<open>manifest.sig\<close> that is not hexadecimal ends
  the verification with a bare ValueError, not with a coded error.\<close>

theorem embedded_key_not_hex:
  assumes "is_file w (sig_path bundle_root)" and "is_file w (digest_path bundle_root)"
    and "fst (read_text (sig_path bundle_root) w) = Inr tx" and "parse_signature X tx = Inr d"
    and "signature_bytes d = Inr sg" and "dget d ''public_key'' = PStr h" and "length h = 64"
    and "from_hex h = None"
  shows "fst (verify_bundle_signature X K bundle_root None None w) = Inl (PyErr ValueError [])"
proof -
  obtain u where "read_text (sig_path bundle_root) w = (Inr tx, u)"
    using assms(3) by (metis prod.collapse)
  with assms show ?thesis
    by (simp add: verify_bundle_signature_def bindS_def [of "read_text p" for p] choose_public_key_def
      public_key_from_hex_def)
qed

section \<open>A sample bundle\<close>

text \<open>A codec for dictionaries of strings, which satisfies the law of JSON text on them.\<close>

definition flat_item :: "string \<times> pyval \<Rightarrow> string" where
  "flat_item kv = to_hex (fst kv) @ ''x'' @ to_hex (the_str (snd kv))"

definition flat_dumps :: "pydict \<Rightarrow> string" where
  "flat_dumps d = concat (map (\<lambda>kv. flat_item kv @ ''y'') d)"

definition flat_parse :: "string \<Rightarrow> (string \<times> pyval) option" where
  "flat_parse s = (case split_on CHR ''x'' s of
     [a, b] \<Rightarrow> (case (from_hex a, from_hex b) of (Some k, Some v) \<Rightarrow> Some (k, PStr v) | _ \<Rightarrow> None)
   | _ \<Rightarrow> None)"

definition flat_loads :: "string \<Rightarrow> pydict" where
  "flat_loads s = List.map_filter flat_parse (split_on CHR ''y'' s)"

definition sample_manifest :: pydict where
  "sample_manifest = [(''files'', PList [PDict [(''path'', PStr ''a.onnx''), (''sha256'', PStr ''o'')]])]"

definition bundle_ext :: ext where
  "bundle_ext = sample_ext\<lparr>
     x_dumps := (\<lambda>v. flat_dumps (the_dict v)),
     x_loads := (\<lambda>s. Some (PDict (if s = ''m'' then sample_manifest else flat_loads s)))\<rparr>"

definition sample_crypto :: crypto where
  "sample_crypto = \<lparr>k_available = True, k_sign = (\<lambda>k m. replicate 64 CHR ''s''),
     k_public = (\<lambda>k. replicate 32 CHR ''p''), k_verify = (\<lambda>k s m. s = replicate 64 CHR ''s''),
     k_pub_ok = (\<lambda>k. length k = 32), k_private_pem = (\<lambda>r. Inr None), k_public_pem = (\<lambda>r. Inr None),
     k_blake2b = (\<lambda>k m. ''d'')\<rparr>"

definition sample_signature :: pydict where
  "sample_signature = signature_document ''i'' (replicate 64 CHR ''s'')
     (to_hex (replicate 32 CHR ''p'')) True"

definition bundle_world :: "string list \<Rightarrow> world" where
  "bundle_world sig = \<lparr>w_files = [([''b'', ''manifest.json''], ''m''), ([''b'', ''manifest.sha256''], ''m''),
       ([''b'', ''a.onnx''], ''o''), ([''k''], replicate 32 CHR ''k'')]
       @ map (\<lambda>s. ([''b'', ''manifest.sig''], s)) sig,
     w_dirs = [[''b'']], w_links = [], w_cwd = [], w_home = [], w_environ = [], w_ticks = 0,
     w_version = Some ''1'', w_commit = Some ''c'', w_registry = Some [],
     w_schemas = [(''profile_bundle'', PNone)]\<rparr>"

lemma hex_chars: "c \<in> set (to_hex b) \<Longrightarrow> hex_val c \<noteq> None"
proof -
  have "0 \<le> code d div 16 \<and> code d div 16 < 16" for d using code_bound [of d] by auto
  then have "hex_val (hex_digit (code d div 16)) \<noteq> None" "hex_val (hex_digit (code d mod 16)) \<noteq> None" for d
    by (simp_all add: hex_digit_val)
  then show "c \<in> set (to_hex b) \<Longrightarrow> hex_val c \<noteq> None" by (auto simp: to_hex_def)
qed

lemma hex_no_mark: "CHR ''x'' \<notin> set (to_hex b)" "CHR ''y'' \<notin> set (to_hex b)"
proof -
  have "hex_val CHR ''x'' = None" "hex_val CHR ''y'' = None" by (simp_all add: hex_val_def)
  then show "CHR ''x'' \<notin> set (to_hex b)" "CHR ''y'' \<notin> set (to_hex b)"
    using hex_chars by metis+
qed

lemma flat_chars: "c \<in> set (flat_dumps d) \<Longrightarrow> \<not> is_space c \<and> c \<noteq> CHR ''m''"
proof -
  assume "c \<in> set (flat_dumps d)"
  then have "hex_val c \<noteq> None \<or> c = CHR ''x'' \<or> c = CHR ''y''"
    by (auto simp: flat_dumps_def flat_item_def split: if_splits dest: hex_chars)
  then show ?thesis by (auto simp: hex_val_def is_space_def split: if_splits)
qed

lemma py_strip_line: "(\<And>c. c \<in> set s \<Longrightarrow> \<not> is_space c) \<Longrightarrow> py_strip (s @ [CHR 0x0A]) = s"
proof -
  assume n: "\<And>c. c \<in> set s \<Longrightarrow> \<not> is_space c"
  have nl: "is_space CHR 0x0A" by (simp add: is_space_def)
  have id: "dropWhile is_space t = t" if "set t \<subseteq> set s" for t
    using that n by (cases t) auto
  show ?thesis
  proof (cases s)
    case Nil
    then show ?thesis by (simp add: py_strip_def nl)
  next
    case (Cons c cs)
    then have "dropWhile is_space (s @ [CHR 0x0A]) = s @ [CHR 0x0A]" using n by simp
    then show ?thesis using id [of "rev s"] by (simp add: py_strip_def nl)
  qed
qed

lemma split_on_none: "c \<notin> set s \<Longrightarrow> split_on c s = [s]"
  by (induction s) auto

lemma split_on_append: "c \<notin> set s \<Longrightarrow> split_on c (s @ c # t) = s # split_on c t"
  by (induction s) auto

lemma flat_round_trip:
  "list_all (is_str \<circ> snd) d \<Longrightarrow> flat_loads (flat_dumps d) = d"
proof (induction d)
  case Nil
  then show ?case by (simp add: flat_dumps_def flat_loads_def map_filter_simps flat_parse_def)
next
  case (Cons kv d)
  then obtain k v where kv: "kv = (k, PStr v)" by (cases kv; cases "snd kv") auto
  have "flat_parse (flat_item kv) = Some kv"
    using hex_no_mark split_on_append [of "CHR ''x''" "to_hex k" "to_hex v"]
    by (simp add: flat_parse_def flat_item_def kv split_on_none from_hex_to_hex)
  moreover have "split_on CHR ''y'' (flat_dumps (kv # d)) = flat_item kv # split_on CHR ''y'' (flat_dumps d)"
    using split_on_append [of "CHR ''y''" "flat_item kv" "flat_dumps d"] hex_no_mark
    by (simp add: flat_dumps_def flat_item_def)
  ultimately show ?case using Cons by (simp add: flat_loads_def map_filter_simps)
qed

lemma bundle_json_laws: "json_laws bundle_ext"
  unfolding json_laws_def
proof (intro allI impI)
  fix d assume d: "wf_dict d \<and> list_all (is_str \<circ> snd) d"
  have "flat_dumps d \<noteq> ''m''" using flat_chars [of "CHR ''m''" d] by auto
  then have "x_loads bundle_ext (py_strip (x_dumps bundle_ext (PDict d) @ [CHR 0x0A])) = Some (PDict d)"
    using flat_chars [of _ d] flat_round_trip d by (simp add: bundle_ext_def py_strip_line)
  then show "\<exists>d'. x_loads bundle_ext (py_strip (x_dumps bundle_ext (PDict d) @ [CHR 0x0A]))
      = Some (PDict d') \<and> map_of d' = map_of d" by blast
qed

lemma sample_ed25519: "ed25519_laws sample_crypto"
  by (simp add: ed25519_laws_def sample_crypto_def)

lemma bundle_ext_simps:
  "x_sha256 bundle_ext = id" "x_dumps bundle_ext = (\<lambda>v. flat_dumps (the_dict v))"
  "x_loads bundle_ext = (\<lambda>s. Some (PDict (if s = ''m'' then sample_manifest else flat_loads s)))"
  "x_iter_errors bundle_ext = (\<lambda>r s d. [])" "x_now bundle_ext = (\<lambda>n. ''2025-01-01T00:00:00Z'')"
  by (simp_all add: bundle_ext_def sample_ext_def)

lemma sample_manifest_run:
  "check_manifest bundle_ext (abs_path [''b'']) (bundle_world sig)
     = (Inr (sample_manifest, ''m''), bundle_world sig)"
proof -
  have w: "first_word ''m'' = Inr ''m''" by code_simp
  show ?thesis
    by (simp add: check_manifest_def manifest_path_def digest_path_def load_json_document_def
      bundle_world_def bundle_ext_simps world_defs docs_defs w cong: run_congs)
qed

lemma sample_inventory_run:
  "foldS (check_entry bundle_ext (abs_path [''b''])) [PDict [(''path'', PStr ''a.onnx''), (''sha256'', PStr ''o'')]] []
     (bundle_world sig) = (Inr [(''a.onnx'', ''o'')], bundle_world sig)"
  by (simp add: check_entry_def inventory_entry_def py_or_def unsafe_rel_def relative_to_def
    bundle_world_def bundle_ext_simps world_defs cong: run_congs)

lemma sample_undeclared_run:
  "check_undeclared (abs_path [''b'']) [''a.onnx''] (bundle_world sig) = (Inr (), bundle_world sig)"
proof -
  have u: "\<not> undeclared_model (bundle_world sig) (abs_path [''b'']) [''a.onnx''] ps"
    if "ps \<in> set (rglob (bundle_world sig) (abs_path [''b'']))" for ps
  proof -
    from that have "ps = [''manifest.json''] \<or> ps = [''manifest.sha256''] \<or> ps = [''a.onnx''] \<or> ps = [''manifest.sig'']"
      by (auto simp: rglob_def bundle_world_def real_def full_parts_def strict_prefix_def split: if_splits)
    then show ?thesis
      by (elim disjE) (simp_all add: undeclared_model_def rel_path_def path_str_def bundle_documents_def)
  qed
  then have "filter (undeclared_model (bundle_world sig) (abs_path [''b'']) [''a.onnx''])
      (rglob (bundle_world sig) (abs_path [''b''])) = []"
    by (simp add: filter_empty_conv)
  then show ?thesis by (simp add: check_undeclared_def)
qed

lemma sample_verify_run:
  assumes "check_signature bundle_ext sample_crypto (abs_path [''b'']) pk require (bundle_world sig)
     = (Inr meta, bundle_world sig)"
  shows "\<exists>rep w'. verify_bundle bundle_ext sample_crypto (abs_path [''b'']) pk require (bundle_world sig)
     = (Inr rep, w') \<and> w' = (bundle_world sig)\<lparr>w_ticks := Suc 0\<rparr>"
proof -
  have f: "dget sample_manifest ''files''
      = PList [PDict [(''path'', PStr ''a.onnx''), (''sha256'', PStr ''o'')]]"
    by (simp add: sample_manifest_def)
  have p: "path_str (path_of ''a.onnx'') = ''a.onnx''" by code_simp
  obtain env where e: "envelope_fields bundle_ext ''perceptshift.bundle_verify'' (bundle_world sig)
      = (Inr env, (bundle_world sig)\<lparr>w_ticks := Suc 0\<rparr>)"
    by (simp add: bundle_world_def docs_defs bundle_ext_simps bindS_def comp_defs)
  show ?thesis
    by (simp add: verify_bundle_def bindS_def [of "check_manifest X b" for X b] sample_manifest_run
      f py_or_def bindS_def [of "foldS (check_entry X b) i c" for X b i c] sample_inventory_run
      bindS_def [of "check_undeclared b n" for b n] p sample_undeclared_run assms e
      bindS_def [of "check_signature X K b k r" for X K b k r]
      bindS_def [of "envelope_fields X t" for X t] del: foldS.simps)
qed

text \<open>The sample bundle with a signature document.\<close>

definition signed_world :: "pydict \<Rightarrow> world" where
  "signed_world d = bundle_world [utf8_encode (flat_dumps d @ [CHR 0x0A])]"

lemma signed_world_files:
  "is_file (signed_world d) (sig_path (abs_path [''b'']))"
  "is_file (signed_world d) (digest_path (abs_path [''b'']))"
  "read_text (sig_path (abs_path [''b''])) (signed_world d) = (Inr (flat_dumps d @ [CHR 0x0A]), signed_world d)"
  "read_bytes (digest_path (abs_path [''b''])) (signed_world d) = (Inr ''m'', signed_world d)"
proof -
  have b: "read_bytes (sig_path (abs_path [''b''])) (signed_world d)
      = (Inr (utf8_encode (flat_dumps d @ [CHR 0x0A])), signed_world d)"
    by (simp add: sig_path_def signed_world_def bundle_world_def read_bytes_def real_def full_parts_def
      path_join_def path_of_def)
  then show "read_text (sig_path (abs_path [''b''])) (signed_world d)
      = (Inr (flat_dumps d @ [CHR 0x0A]), signed_world d)"
    by (simp add: read_text_def bindS_def utf8_decode_encode)
  show d: "read_bytes (digest_path (abs_path [''b''])) (signed_world d) = (Inr ''m'', signed_world d)"
    by (simp add: digest_path_def signed_world_def bundle_world_def read_bytes_def real_def full_parts_def
      path_join_def path_of_def)
  show "is_file (signed_world d) (sig_path (abs_path [''b'']))"
    "is_file (signed_world d) (digest_path (abs_path [''b'']))"
    using b d unfolding is_file_read_bytes by blast+
qed

lemma sample_parse_signature:
  assumes "list_all (is_str \<circ> snd) d"
  shows "parse_signature bundle_ext (flat_dumps d @ [CHR 0x0A]) = Inr d"
proof -
  have "flat_dumps d \<noteq> ''m''" using flat_chars [of "CHR ''m''" d] by auto
  then show ?thesis
    using flat_chars [of _ d] flat_round_trip [OF assms]
    by (simp add: parse_signature_def json_loads_def bundle_ext_simps py_strip_line)
qed

lemma sample_signature_flat: "list_all (is_str \<circ> snd) (signature_document i s h incl)"
  by (simp add: signature_document_def)

lemma sample_check_signature:
  "check_signature bundle_ext sample_crypto (abs_path [''b'']) None False (bundle_world [])
     = (Inr None, bundle_world [])"
  "\<exists>meta. check_signature bundle_ext sample_crypto (abs_path [''b'']) (Some (replicate 32 CHR ''p'')) True
     (signed_world sample_signature) = (Inr meta, signed_world sample_signature)"
proof -
  have "\<not> is_file (bundle_world []) (sig_path (abs_path [''b'']))"
    by (simp add: is_file_def sig_path_def bundle_world_def real_def full_parts_def path_join_def path_of_def)
  then show "check_signature bundle_ext sample_crypto (abs_path [''b'']) None False (bundle_world [])
     = (Inr None, bundle_world [])"
    by (simp add: check_signature_def)
  have parse: "parse_signature bundle_ext (flat_dumps sample_signature @ [CHR 0x0A]) = Inr sample_signature"
    and sg: "signature_bytes sample_signature = Inr (replicate 64 CHR ''s'')"
    unfolding sample_signature_def
    by (rule sample_parse_signature [OF sample_signature_flat], rule signature_bytes_document [OF refl]) simp
  have c: "choose_public_key sample_crypto d None (Some (replicate 32 CHR ''p'')) w
      = (Inr (replicate 32 CHR ''p'', to_hex (replicate 32 CHR ''p'')), w)" for d w
    by (simp add: choose_public_key_def public_key_from_bytes_def require_cryptography_def sample_crypto_def)
  have v: "k_verify sample_crypto k (replicate 64 CHR ''s'') m" for k m by (simp add: sample_crypto_def)
  show "\<exists>meta. check_signature bundle_ext sample_crypto (abs_path [''b'']) (Some (replicate 32 CHR ''p'')) True
     (signed_world sample_signature) = (Inr meta, signed_world sample_signature)"
    by (simp add: check_signature_def verify_bundle_signature_def signed_world_files parse sg c v
      bindS_def [of "bindS m f" for m f] bindS_def [of "read_text p" for p]
      bindS_def [of "read_bytes p" for p] bindS_def [of "choose_public_key K d kp kb" for K d kp kb])
qed

theorem verified_bundle_trusted_witness:
  "trusted_bundle bundle_ext (bundle_world []) (abs_path [''b''])"
proof -
  obtain rep w' where "verify_bundle bundle_ext sample_crypto (abs_path [''b'']) None False (bundle_world [])
      = (Inr rep, w')"
    using sample_verify_run [OF sample_check_signature(1)] by blast
  from verified_bundle_trusted [OF this] show ?thesis ..
qed

theorem signed_bundle_chain_witness:
  "\<exists>signature payload document t rest. carried_signature bundle_ext (signed_world sample_signature) (abs_path [''b'']) signature
    \<and> k_verify sample_crypto (replicate 32 CHR ''p'') signature payload
    \<and> length (replicate 32 CHR ''p'') = 32
    \<and> fst (read_bytes (digest_path (abs_path [''b''])) (signed_world sample_signature)) = Inr payload
    \<and> utf8_decode payload = Some t \<and> py_words (py_strip t) = sha256_bytes bundle_ext document # rest
    \<and> fst (read_bytes (manifest_path (abs_path [''b''])) (signed_world sample_signature)) = Inr document"
proof -
  obtain meta where "check_signature bundle_ext sample_crypto (abs_path [''b''])
      (Some (replicate 32 CHR ''p'')) True (signed_world sample_signature)
      = (Inr meta, signed_world sample_signature)"
    using sample_check_signature(2) by blast
  then obtain rep w' where "verify_bundle bundle_ext sample_crypto (abs_path [''b''])
      (Some (replicate 32 CHR ''p'')) True (signed_world sample_signature) = (Inr rep, w')"
    using sample_verify_run unfolding signed_world_def by blast
  from signed_bundle_chain [OF this] show ?thesis .
qed

lemma sample_key_run:
  "load_ed25519_private_key sample_crypto (abs_path [''k'']) ((bundle_world [])\<lparr>w_ticks := Suc 0\<rparr>)
     = (Inr (replicate 32 CHR ''k''), (bundle_world [])\<lparr>w_ticks := Suc 0\<rparr>)"
proof -
  have k: "private_key_of sample_crypto (replicate 32 CHR ''k'') = Inr (replicate 32 CHR ''k'')"
    by code_simp
  show ?thesis
    by (simp add: load_ed25519_private_key_def require_cryptography_def world_defs bundle_world_def k
      cong: run_congs) (simp add: sample_crypto_def)
qed

lemma sample_sign_run:
  "\<exists>rep w'. sign_bundle bundle_ext sample_crypto (abs_path [''b'']) (abs_path [''k'']) (Some ''i'') True
     (bundle_world []) = (Inr rep, w')"
proof -
  obtain rep where v: "verify_bundle bundle_ext sample_crypto (abs_path [''b'']) None False (bundle_world [])
      = (Inr rep, (bundle_world [])\<lparr>w_ticks := Suc 0\<rparr>)"
    using sample_verify_run [OF sample_check_signature(1)] by blast
  have r: "read_bytes (digest_path (abs_path [''b''])) ((bundle_world [])\<lparr>w_ticks := Suc 0\<rparr>)
      = (Inr ''m'', (bundle_world [])\<lparr>w_ticks := Suc 0\<rparr>)"
    by (simp add: digest_path_def bundle_world_def world_defs)
  have i: "resolved_key_id bundle_ext (Some ''i'') h = Inr ''i''" for h
    by (simp add: resolved_key_id_def)
  have fin: "json_finite (PDict (signature_document a b c e))" for a b c e
    by (simp add: signature_document_def)
  have "\<exists>w'. write_atomic_text (sig_path (abs_path [''b''])) t ((bundle_world [])\<lparr>w_ticks := Suc 0\<rparr>) = (Inr (), w')
      \<and> w_version w' = Some ''1'' \<and> w_commit w' = Some ''c''" for t
    by (simp add: sig_path_def bundle_world_def world_defs cong: run_congs
      del: utf8_encode_def)
  then obtain w' where t: "write_atomic_json bundle_ext (sig_path (abs_path [''b'']))
      (PDict (signature_document ''i'' (k_sign sample_crypto (replicate 32 CHR ''k'') ''m'')
         (to_hex (k_public sample_crypto (replicate 32 CHR ''k''))) True)) ((bundle_world [])\<lparr>w_ticks := Suc 0\<rparr>)
      = (Inr (), w')" and c: "w_version w' = Some ''1''" "w_commit w' = Some ''c''"
    unfolding write_atomic_json_def canonical_json_dumps_def using fin by fastforce
  show ?thesis
    unfolding sign_bundle_def
    by (simp add: bindS_def [of "verify_bundle X K b p r" for X K b p r] v
      bindS_def [of "load_ed25519_private_key K b" for K b] sample_key_run
      bindS_def [of "read_bytes p" for p] r i Let_def t
      bindS_def [of "write_atomic_json X b p" for X b p]) (simp add: docs_defs bindS_def comp_defs c)
qed

theorem signed_bundle_verifies_witness:
  "\<exists>rep w' priv w1. sign_bundle bundle_ext sample_crypto (abs_path [''b'']) (abs_path [''k'']) (Some ''i'')
       True (bundle_world []) = (Inr rep, w')
    \<and> fst (load_ed25519_private_key sample_crypto (abs_path [''k'']) w1) = Inr priv
    \<and> (\<exists>meta. fst (verify_bundle_signature bundle_ext sample_crypto (abs_path [''b'']) None None w')
         = Inr meta \<and> dget meta ''ok'' = PBool True)"
proof -
  obtain rep w' where run: "sign_bundle bundle_ext sample_crypto (abs_path [''b'']) (abs_path [''k''])
      (Some ''i'') True (bundle_world []) = (Inr rep, w')"
    using sample_sign_run by blast
  have "plain (bundle_world [])" by (simp add: plain_def bundle_world_def)
  from signed_bundle_verifies [OF sample_ed25519 bundle_json_laws this run] run
  show ?thesis by blast
qed

theorem embedded_key_not_hex_witness:
  "fst (verify_bundle_signature bundle_ext sample_crypto (abs_path [''b'']) None None
     (signed_world (signature_document ''i'' (replicate 64 CHR ''s'') (replicate 64 CHR ''z'') True)))
     = Inl (PyErr ValueError [])"
proof (rule embedded_key_not_hex [where tx = "flat_dumps (signature_document ''i'' (replicate 64 CHR ''s'')
      (replicate 64 CHR ''z'') True) @ [CHR 0x0A]"
    and d = "signature_document ''i'' (replicate 64 CHR ''s'') (replicate 64 CHR ''z'') True"
    and sg = "replicate 64 CHR ''s''" and h = "replicate 64 CHR ''z''"])
  let ?d = "signature_document ''i'' (replicate 64 CHR ''s'') (replicate 64 CHR ''z'') True"
  show "is_file (signed_world ?d) (sig_path (abs_path [''b'']))"
    "is_file (signed_world ?d) (digest_path (abs_path [''b'']))"
    "fst (read_text (sig_path (abs_path [''b''])) (signed_world ?d)) = Inr (flat_dumps ?d @ [CHR 0x0A])"
    by (simp_all only: signed_world_files fst_conv)
  show "parse_signature bundle_ext (flat_dumps ?d @ [CHR 0x0A]) = Inr ?d"
    by (rule sample_parse_signature [OF sample_signature_flat])
  show "signature_bytes ?d = Inr (replicate 64 CHR ''s'')"
    by (rule signature_bytes_document [OF refl]) simp
  show "dget ?d ''public_key'' = PStr (replicate 64 CHR ''z'')" by (simp add: signature_document_def)
  show "length (replicate 64 CHR ''z'') = 64" by simp
  show "from_hex (replicate 64 CHR ''z'') = None" by code_simp
qed

end
