(* ===== verification/Telemetry.thy ===== *)
theory Telemetry
  imports World
begin

text \<open>
  \<open>perceptshift_api/telemetry.py\<close>, the bounded event cache and its fan-out to WebSocket clients, and
  the endpoints of \<open>routers/telemetry.py\<close>. An event is one mutable object that the cache and the
  client queues share: they hold its sequence number, and the hub's store maps sequence numbers to
  events. The \<open>asyncio\<close> lock makes each operation atomic.
\<close>

section \<open>Queues of asyncio and collections\<close>

text \<open>\<open>asyncio.Queue(maxsize)\<close>: \<open>None\<close> is QueueFull or QueueEmpty; a size of zero or less is no bound.\<close>

definition put_nowait :: "int \<Rightarrow> 'a \<Rightarrow> 'a list \<Rightarrow> 'a list option" where
  "put_nowait m x q = (if 0 < m \<and> m \<le> int (length q) then None else Some (q @ [x]))"

definition get_nowait :: "'a list \<Rightarrow> ('a \<times> 'a list) option" where
  "get_nowait q = (case q of [] \<Rightarrow> None | x # xs \<Rightarrow> Some (x, xs))"

text \<open>\<open>deque(maxlen=m).append\<close>.\<close>

definition deque_append :: "int \<Rightarrow> 'a \<Rightarrow> 'a list \<Rightarrow> 'a list" where
  "deque_append m x q = drop (length q + 1 - nat m) (q @ [x])"

text \<open>The slice \<open>items[-n:]\<close>: everything when \<open>n\<close> is zero.\<close>

definition slice_last :: "int \<Rightarrow> 'a list \<Rightarrow> 'a list" where
  "slice_last n xs = (if n \<le> 0 then drop (nat (- n)) xs else drop (length xs - nat n) xs)"

text \<open>
  The interface the hub relies on: a first-in first-out queue with a bound. Making room in a full
  queue by dropping its oldest element always lets the new one in.
\<close>

locale bounded_fifo =
  fixes put :: "int \<Rightarrow> 'a \<Rightarrow> 'q \<Rightarrow> 'q option"
    and pop :: "'q \<Rightarrow> ('a \<times> 'q) option"
    and items :: "'q \<Rightarrow> 'a list"
  assumes put_full: "put m x q = None \<longleftrightarrow> 0 < m \<and> m \<le> int (length (items q))"
    and put_items: "put m x q = Some q' \<Longrightarrow> items q' = items q @ [x]"
    and pop_items: "pop q = Some (x, q') \<Longrightarrow> items q = x # items q'"
    and pop_empty: "pop q = None \<longleftrightarrow> items q = []"
begin

lemma room_after_pop:
  assumes "put m x q = None" and "int (length (items q)) \<le> m"
  shows "\<exists>y q1 q2. pop q = Some (y, q1) \<and> put m x q1 = Some q2 \<and> items q2 = tl (items q) @ [x]"
proof -
  from assms have m: "0 < m" "m = int (length (items q))" by (auto simp: put_full)
  then have "items q \<noteq> []" by auto
  then obtain y q1 where y: "pop q = Some (y, q1)" using pop_empty by fastforce
  then have i: "items q = y # items q1" by (rule pop_items)
  then obtain q2 where q2: "put m x q1 = Some q2" using m put_full [of m x q1] by fastforce
  with i y put_items show ?thesis by fastforce
qed

lemma put_bound: "put m x q = Some q' \<Longrightarrow> 0 < m \<Longrightarrow> int (length (items q')) \<le> m"
  using put_full [of m x q] put_items [of m x q q'] by fastforce

end

interpretation fifo: bounded_fifo put_nowait get_nowait "\<lambda>q. q"
  by unfold_locales (auto simp: put_nowait_def get_nowait_def split: list.splits if_splits)

section \<open>State\<close>

record event =
  e_type :: string
  e_payload :: pydict
  e_sequence :: int
  e_time :: string
  e_trace :: "string option"
  e_dropped :: int

definition event_dict :: "event \<Rightarrow> pydict" where
  "event_dict e = [(''schema_version'', PStr ''1.0''),
     (''document_type'', PStr ''perceptshift.telemetry_event''),
     (''event_type'', PStr (e_type e)), (''sequence_number'', PInt (e_sequence e)),
     (''server_timestamp'', PStr (e_time e)), (''trace_id'', opt_str (e_trace e)),
     (''payload'', PDict (e_payload e)), (''dropped_event_count'', PInt (e_dropped e))]"

record subscription =
  s_queue :: "int list"
  s_dropped :: int

record hub =
  h_cache_size :: int
  h_queue_size :: int
  h_max_clients :: int
  h_sequence :: int
  h_dropped :: int
  h_cache :: "int list"
  h_clients :: "(string \<times> subscription) list"
  h_store :: "int \<Rightarrow> event"

definition no_event :: event where
  "no_event = \<lparr>e_type = [], e_payload = [], e_sequence = 0, e_time = [], e_trace = None, e_dropped = 0\<rparr>"

text \<open>A negative cache size is refused by \<open>deque\<close>.\<close>

definition hub_init :: "int \<Rightarrow> int \<Rightarrow> int \<Rightarrow> exc + hub" where
  "hub_init cache_size queue_size max_clients =
     bindR (guardR (0 \<le> cache_size) (py_err ValueError)) (\<lambda>u.
     Inr \<lparr>h_cache_size = cache_size, h_queue_size = queue_size, h_max_clients = max_clients,
       h_sequence = 0, h_dropped = 0, h_cache = [], h_clients = [], h_store = (\<lambda>_. no_event)\<rparr>)"

section \<open>Operations\<close>

definition recent :: "int \<Rightarrow> hub \<Rightarrow> pydict list" where
  "recent limit h = map (\<lambda>n. event_dict (h_store h n)) (slice_last limit (h_cache h))"

datatype delivery = Delivered | Displaced | Rejected

definition offer :: "int \<Rightarrow> 'a \<Rightarrow> 'a list \<Rightarrow> 'a list \<times> delivery" where
  "offer m x q = (case put_nowait m x q of Some q' \<Rightarrow> (q', Delivered)
     | None \<Rightarrow> let q1 = (case get_nowait q of None \<Rightarrow> q | Some (y, q1) \<Rightarrow> q1) in
         (case put_nowait m x q1 of Some q' \<Rightarrow> (q', Displaced) | None \<Rightarrow> (q1, Rejected)))"

text \<open>
  The loop over the clients: the clients afterwards, those to remove, the total of dropped events
  and the count written into the event, which every displacement sets.
\<close>

fun offer_clients :: "int \<Rightarrow> int \<Rightarrow> (string \<times> subscription) list \<Rightarrow> int \<Rightarrow> int \<Rightarrow>
    (string \<times> subscription) list \<times> string list \<times> int \<times> int" where
  "offer_clients m n [] dropped count = ([], [], dropped, count)"
| "offer_clients m n ((cid, sub) # cs) dropped count =
     (case offer m n (s_queue sub) of (q, d) \<Rightarrow>
        let sub' = sub\<lparr>s_queue := q, s_dropped := s_dropped sub + (if d = Displaced then 1 else 0)\<rparr> in
        (case offer_clients m n cs (if d = Displaced then dropped + 1 else dropped)
            (if d = Displaced then dropped + 1 else count) of
          (cs', stale, dropped', count') \<Rightarrow>
            ((cid, sub') # cs', if d = Rejected then cid # stale else stale, dropped', count')))"

definition publish :: "string \<Rightarrow> string \<Rightarrow> pydict \<Rightarrow> string option \<Rightarrow> hub \<Rightarrow> int \<times> hub" where
  "publish now event_type payload trace_id h = (let n = h_sequence h + 1;
     e = \<lparr>e_type = event_type, e_payload = payload, e_sequence = n, e_time = now, e_trace = trace_id,
          e_dropped = h_dropped h\<rparr> in
     (case offer_clients (h_queue_size h) n (h_clients h) (h_dropped h) (h_dropped h) of
       (clients, stale, dropped, count) \<Rightarrow>
         (n, h\<lparr>h_sequence := n, h_dropped := dropped,
            h_cache := deque_append (h_cache_size h) n (h_cache h),
            h_clients := filter (\<lambda>c. fst c \<notin> set stale) clients,
            h_store := (h_store h)(n := e\<lparr>e_dropped := count\<rparr>)\<rparr>)))"

text \<open>The client id is what \<open>uuid4\<close> returned.\<close>

definition subscribe :: "string \<Rightarrow> hub \<Rightarrow> exc + hub" where
  "subscribe cid h =
     bindR (guardR (int (length (h_clients h)) < h_max_clients h)
       (PyErr RuntimeError ''websocket_client_limit'')) (\<lambda>u.
     Inr (h\<lparr>h_clients := AList.update cid \<lparr>s_queue = [], s_dropped = 0\<rparr> (h_clients h)\<rparr>))"

definition unsubscribe :: "string \<Rightarrow> hub \<Rightarrow> hub" where
  "unsubscribe cid h = h\<lparr>h_clients := filter (\<lambda>c. fst c \<noteq> cid) (h_clients h)\<rparr>"

definition emit_connection_status :: "string \<Rightarrow> string \<Rightarrow> pydict \<Rightarrow> hub \<Rightarrow> hub" where
  "emit_connection_status now status detail h =
     snd (publish now ''connection_status'' (dupdate [(''status'', PStr status)] detail) None h)"

section \<open>The endpoints\<close>

definition clamp_limit :: "int \<Rightarrow> int" where
  "clamp_limit limit = max 1 (min limit 500)"

definition telemetry_recent :: "hub \<Rightarrow> int \<Rightarrow> pydict" where
  "telemetry_recent h limit = [(''events'', PList (map PDict (recent (clamp_limit limit) h))),
     (''dropped_event_count'', PInt (h_dropped h))]"

text \<open>A row of the switch table, and the pydantic model of a switch event as a parameter.\<close>

record switch_row =
  r_created_at :: string
  r_from :: "string option"
  r_to :: "string option"
  r_reason :: "string option"
  r_sequence :: int
  r_evidence :: "string option"
  r_manual :: bool

definition row_evidence :: "ext \<Rightarrow> switch_row \<Rightarrow> pyval" where
  "row_evidence X r = (case r_evidence r of None \<Rightarrow> PDict []
     | Some s \<Rightarrow> if s = [] then PDict [] else (case x_loads X s of None \<Rightarrow> PDict [] | Some v \<Rightarrow> v))"

definition row_switch :: "ext \<Rightarrow> switch_row \<Rightarrow> pydict" where
  "row_switch X r = [(''timestamp'', PStr (r_created_at r)), (''from_profile'', opt_str (r_from r)),
     (''to_profile'', opt_str (r_to r)), (''reason'', opt_str (r_reason r)),
     (''sequence'', PInt (r_sequence r)), (''evidence'', row_evidence X r),
     (''manual'', PBool (r_manual r))]"

definition live_switch :: "pydict \<Rightarrow> exc + pydict" where
  "live_switch item =
     bindR (as_dict (py_or (dget item ''payload'') (PDict []))) (\<lambda>payload.
     bindR (ditem item ''server_timestamp'') (\<lambda>timestamp.
     bindR (bindR (ditem item ''sequence_number'') py_int) (\<lambda>sequence.
     Inr [(''timestamp'', timestamp), (''from_profile'', dget payload ''from_profile''),
       (''to_profile'', dget payload ''to_profile''), (''reason'', dget payload ''reason''),
       (''sequence'', PInt sequence), (''evidence'', py_or (dget payload ''evidence'') (PDict [])),
       (''manual'', PBool (truthy (dget_or payload ''manual'' (PBool False))))])))"

definition telemetry_switches ::
    "ext \<Rightarrow> (pydict \<Rightarrow> exc + pydict) \<Rightarrow> (int \<Rightarrow> switch_row list) \<Rightarrow> hub \<Rightarrow> int \<Rightarrow> exc + pydict list" where
  "telemetry_switches X switch_event rows_of h limit =
     (let rows = rows_of (clamp_limit limit) in
      if rows \<noteq> [] then mapR (\<lambda>r. switch_event (row_switch X r)) (rev rows)
      else mapR (\<lambda>item. bindR (live_switch item) switch_event)
        (filter (\<lambda>item. dget item ''event_type'' = PStr ''switch_event'') (recent (clamp_limit limit) h)))"

record metrics =
  m_samples :: int
  m_p50 :: "pyfloat option"
  m_p99 :: "pyfloat option"
  m_misses :: int
  m_dropped :: int
  m_unavailable :: "(string \<times> string \<times> string) list"

fun metric_sample :: "pydict \<Rightarrow> pyfloat list \<times> int \<Rightarrow> exc + (pyfloat list \<times> int)" where
  "metric_sample item (durations, misses) =
     bindR (as_dict (py_or (dget item ''payload'') (PDict []))) (\<lambda>payload.
     bindR (case dget payload ''total_ms'' of
         PNone \<Rightarrow> Inr durations | PStr s \<Rightarrow> Inr durations | PList l \<Rightarrow> Inr durations
       | PDict d \<Rightarrow> Inr durations
       | v \<Rightarrow> bindR (py_float v) (\<lambda>f. Inr (durations @ [f]))) (\<lambda>durations'.
     Inr (durations', if truthy (dget payload ''deadline_miss'') then misses + 1 else misses)))"

definition fl_099 :: pyfloat where
  "fl_099 = fl_round (99 / 100)"

text \<open>\<open>int(len(durations) * 0.99)\<close>.\<close>

definition p99_index :: "nat \<Rightarrow> exc + int" where
  "p99_index n = py_int (PFloat (fl_mul (Fin (of_nat n)) fl_099))"

definition nth_float :: "pyfloat list \<Rightarrow> int \<Rightarrow> exc + pyfloat" where
  "nth_float xs i = (if 0 \<le> i \<and> i < int (length xs) then Inr (xs ! nat i)
     else if - int (length xs) \<le> i \<and> i < 0 then Inr (xs ! nat (int (length xs) + i))
     else Inl (py_err IndexError))"

definition metrics_of :: "pyfloat list \<Rightarrow> int \<Rightarrow> int \<Rightarrow> exc + metrics" where
  "metrics_of durations misses dropped = (let ds = fl_sort durations in
     bindR (if ds = [] then Inr None
       else bindR (nth_float ds (int (length ds div 2))) (\<lambda>x. Inr (Some x))) (\<lambda>p50.
     bindR (if ds = [] then Inr None
       else bindR (p99_index (length ds)) (\<lambda>i. bindR (nth_float ds i) (\<lambda>x. Inr (Some x)))) (\<lambda>p99.
     Inr \<lparr>m_samples = int (length ds), m_p50 = p50, m_p99 = p99, m_misses = misses, m_dropped = dropped,
       m_unavailable = []\<rparr>)))"

definition telemetry_metrics :: "hub \<Rightarrow> bool \<Rightarrow> string \<Rightarrow> string \<Rightarrow> exc + metrics" where
  "telemetry_metrics h online reason_code message =
     (let events = filter (\<lambda>e. dget e ''event_type'' = PStr ''inference_trace_summary'') (recent 500 h) in
      if events = [] then Inr \<lparr>m_samples = 0, m_p50 = None, m_p99 = None, m_misses = 0,
        m_dropped = h_dropped h,
        m_unavailable = (''metrics'', ''TELEMETRY_EMPTY'', ''No inference telemetry has been received'')
          # (if online then [] else [(''runtime'', reason_code, message)])\<rparr>
      else bindR (foldR metric_sample events ([], 0)) (\<lambda>(durations, misses).
        metrics_of durations misses (h_dropped h)))"

text \<open>
  The WebSocket: opening subscribes, announces the client and greets it; each turn of the loop waits
  for an event of the client's queue (\<open>None\<close> while there is none); leaving unsubscribes.
\<close>

definition stream_open :: "string \<Rightarrow> string \<Rightarrow> hub \<Rightarrow> (string + pydict) \<times> hub" where
  "stream_open now cid h = (case subscribe cid h of
     Inl e \<Rightarrow> (Inl ''client limit reached'', h)
   | Inr h1 \<Rightarrow> let h2 = emit_connection_status now ''connected'' [(''client_id'', PStr cid)] h1;
       last_event = recent 1 h2 in
       (Inr [(''schema_version'', PStr ''1.0''),
          (''document_type'', PStr ''perceptshift.telemetry_event''),
          (''event_type'', PStr ''connection_status''), (''sequence_number'', PInt 0),
          (''server_timestamp'', if last_event = [] then PStr now
             else dget (last last_event) ''server_timestamp''),
          (''trace_id'', PNone),
          (''payload'', PDict [(''status'', PStr ''subscribed''), (''client_id'', PStr cid),
             (''queue_size'', PInt (h_queue_size h2))]),
          (''dropped_event_count'', PInt (h_dropped h2))], h2))"

definition stream_next :: "string \<Rightarrow> hub \<Rightarrow> (pydict \<times> hub) option" where
  "stream_next cid h = (case map_of (h_clients h) cid of None \<Rightarrow> None
     | Some sub \<Rightarrow> (case get_nowait (s_queue sub) of None \<Rightarrow> None
       | Some (n, q) \<Rightarrow>
           Some (dset ''dropped_event_count'' (PInt (h_dropped h + s_dropped sub)) (event_dict (h_store h n)),
             h\<lparr>h_clients := AList.update cid (sub\<lparr>s_queue := q\<rparr>) (h_clients h)\<rparr>)))"

definition stream_close :: "string \<Rightarrow> hub \<Rightarrow> hub" where
  "stream_close cid h = unsubscribe cid h"

section \<open>Invariants\<close>

text \<open>One event offered to one queue: the queue becomes the newest window of its stream.\<close>

definition window :: "int \<Rightarrow> 'a list \<Rightarrow> 'a list" where
  "window m xs = (if 0 < m then drop (length xs - nat m) xs else xs)"

lemma window_bound: "0 < m \<Longrightarrow> int (length (window m xs)) \<le> m"
  by (simp add: window_def)

lemma window_id: "0 < m \<longrightarrow> int (length xs) \<le> m \<Longrightarrow> window m xs = xs"
  by (auto simp: window_def)

lemma window_snoc: "window m (window m xs @ [x]) = window m (xs @ [x])"
proof (cases "0 < m \<and> nat m \<le> length xs")
  case True
  then show ?thesis by (simp add: window_def Suc_diff_le)
next
  case False
  then show ?thesis by (auto simp: window_def)
qed

lemma set_window: "set (window m xs) \<subseteq> set xs"
  by (auto simp: window_def dest: in_set_dropD)

lemma sorted_window: "sorted_wrt (<) (xs :: int list) \<Longrightarrow> sorted_wrt (<) (window m xs)"
  by (auto simp: window_def sorted_wrt_drop)

lemma offer_window:
  assumes "0 < m \<longrightarrow> int (length q) \<le> m"
  shows "offer m x q = (window m (q @ [x]), if 0 < m \<and> int (length q) = m then Displaced else Delivered)"
proof (cases "put_nowait m x q")
  case None
  then have m: "0 < m" "int (length q) = m" using assms fifo.put_full [of m x q] by auto
  obtain y q1 q2 where r: "get_nowait q = Some (y, q1)" "put_nowait m x q1 = Some q2" "q2 = tl q @ [x]"
    using fifo.room_after_pop [OF None] m by auto
  moreover have "window m (q @ [x]) = tl q @ [x]"
  proof (cases q)
    case (Cons a list)
    then have "nat m = Suc (length list)" using m by simp
    with Cons m show ?thesis by (simp add: window_def)
  qed (use m in simp)
  ultimately show ?thesis using None m by (simp add: offer_def)
next
  case (Some q')
  then have "\<not> (0 < m \<and> m \<le> int (length q))" using fifo.put_full [of m x q] by auto
  moreover have "q' = q @ [x]" using fifo.put_items [OF Some] by simp
  ultimately show ?thesis using Some by (auto simp: offer_def window_def)
qed

definition in_bounds :: "int \<Rightarrow> (string \<times> subscription) list \<Rightarrow> bool" where
  "in_bounds m cs \<longleftrightarrow> (\<forall>(cid, sub)\<in>set cs. 0 < m \<longrightarrow> int (length (s_queue sub)) \<le> m)"

definition displaced :: "int \<Rightarrow> (string \<times> subscription) list \<Rightarrow> int" where
  "displaced m cs = int (length (filter (\<lambda>(cid, sub). 0 < m \<and> int (length (s_queue sub)) = m) cs))"

definition push_client :: "int \<Rightarrow> int \<Rightarrow> subscription \<Rightarrow> subscription" where
  "push_client m n sub = sub\<lparr>s_queue := window m (s_queue sub @ [n]),
     s_dropped := s_dropped sub + (if 0 < m \<and> int (length (s_queue sub)) = m then 1 else 0)\<rparr>"

lemma offer_clients_eq:
  "in_bounds m cs \<Longrightarrow> offer_clients m n cs dropped count = (map (\<lambda>(cid, sub). (cid, push_client m n sub)) cs, [],
     dropped + displaced m cs, if displaced m cs = 0 then count else dropped + displaced m cs)"
proof (induction cs arbitrary: dropped count)
  case Nil
  then show ?case by (simp add: displaced_def)
next
  case (Cons c cs)
  obtain cid sub where c: "c = (cid, sub)" by fastforce
  have w: "0 < m \<longrightarrow> int (length (s_queue sub)) \<le> m" and ws: "in_bounds m cs"
    using Cons.prems c by (auto simp: in_bounds_def)
  have d: "displaced m ((cid, sub) # cs) = (if 0 < m \<and> int (length (s_queue sub)) = m then 1 else 0) + displaced m cs"
    by (simp add: displaced_def)
  have nn: "0 \<le> displaced m cs" by (simp add: displaced_def)
  show ?case
    using nn by (simp add: c d offer_window [OF w] Cons.IH [OF ws] Let_def push_client_def)
qed

lemma publish_eq:
  assumes "in_bounds (h_queue_size h) (h_clients h)"
  shows "publish now t payload trace h = (h_sequence h + 1, h\<lparr>h_sequence := h_sequence h + 1,
    h_dropped := h_dropped h + displaced (h_queue_size h) (h_clients h),
    h_cache := deque_append (h_cache_size h) (h_sequence h + 1) (h_cache h),
    h_clients := map (\<lambda>(cid, sub). (cid, push_client (h_queue_size h) (h_sequence h + 1) sub)) (h_clients h),
    h_store := (h_store h)(h_sequence h + 1 := \<lparr>e_type = t, e_payload = payload,
      e_sequence = h_sequence h + 1, e_time = now, e_trace = trace,
      e_dropped = h_dropped h + displaced (h_queue_size h) (h_clients h)\<rparr>)\<rparr>)"
  using assms by (simp add: publish_def offer_clients_eq Let_def)

lemma deque_append_props:
  "sorted_wrt (<) (q @ [x]) \<Longrightarrow> sorted_wrt (<) (deque_append m (x :: int) q)"
  "set (deque_append m x q) \<subseteq> set (q @ [x])" "0 \<le> m \<Longrightarrow> int (length (deque_append m x q)) \<le> m"
  unfolding deque_append_def by (rule sorted_wrt_drop, assumption) (auto dest: in_set_dropD)

text \<open>What happens to a hub: the endpoints and the bridge publish, clients come, read and go.\<close>

inductive hub_step :: "hub \<Rightarrow> hub \<Rightarrow> bool" where
  Publish: "hub_step h (snd (publish now t payload trace h))"
| Subscribe: "subscribe cid h = Inr h' \<Longrightarrow> hub_step h h'"
| Unsubscribe: "hub_step h (unsubscribe cid h)"
| Read: "stream_next cid h = Some (p, h') \<Longrightarrow> hub_step h h'"

inductive hub_reaches :: "hub \<Rightarrow> hub \<Rightarrow> bool" where
  Start: "hub_reaches h h"
| Step: "hub_reaches h h' \<Longrightarrow> hub_step h' h'' \<Longrightarrow> hub_reaches h h''"

text \<open>References that the hub holds: increasing, published, and resolved by the store.\<close>

definition refs_ok :: "hub \<Rightarrow> int list \<Rightarrow> bool" where
  "refs_ok h q \<longleftrightarrow> sorted_wrt (<) q \<and> (\<forall>n\<in>set q. 0 < n \<and> n \<le> h_sequence h \<and> e_sequence (h_store h n) = n)"

definition hub_ok :: "hub \<Rightarrow> bool" where
  "hub_ok h \<longleftrightarrow> 0 \<le> h_sequence h \<and> 0 \<le> h_cache_size h \<and>
     int (length (h_cache h)) \<le> h_cache_size h \<and> refs_ok h (h_cache h) \<and>
     in_bounds (h_queue_size h) (h_clients h) \<and> distinct (map fst (h_clients h)) \<and>
     (\<forall>(cid, sub)\<in>set (h_clients h). refs_ok h (s_queue sub) \<and> 0 \<le> s_dropped sub) \<and>
     int (length (h_clients h)) \<le> max 0 (h_max_clients h) \<and>
     sum_list (map (s_dropped \<circ> snd) (h_clients h)) \<le> h_dropped h"

lemma refs_ok_push:
  assumes "refs_ok h q" and "0 \<le> h_sequence h" and "\<And>n. n \<le> h_sequence h \<Longrightarrow> h_store h' n = h_store h n"
    and "h_sequence h' = h_sequence h + 1" and "e_sequence (h_store h' (h_sequence h + 1)) = h_sequence h + 1"
  shows "refs_ok h' (q @ [h_sequence h + 1])" "refs_ok h' q"
  using assms by (fastforce simp: refs_ok_def sorted_wrt_append)+

lemma refs_ok_subset:
  "refs_ok h q \<Longrightarrow> sorted_wrt (<) q' \<Longrightarrow> set q' \<subseteq> set q \<Longrightarrow> refs_ok h q'"
  by (auto simp: refs_ok_def)

lemma sum_dropped_push:
  "sum_list (map (s_dropped \<circ> snd) (map (\<lambda>(cid, sub). (cid, push_client m n sub)) cs))
     = sum_list (map (s_dropped \<circ> snd) cs) + displaced m cs"
  by (induction cs) (auto simp: displaced_def push_client_def)

lemma publish_ok:
  assumes ok: "hub_ok h"
  shows "hub_ok (snd (publish now t payload trace h))"
proof -
  let ?h = "snd (publish now t payload trace h)"
  have w: "in_bounds (h_queue_size h) (h_clients h)" using ok by (simp add: hub_ok_def)
  note eq = publish_eq [OF w, of now t payload trace]
  have st: "h_store ?h n = h_store h n" if "n \<le> h_sequence h" for n using that by (simp add: eq)
  have sq: "h_sequence ?h = h_sequence h + 1" "e_sequence (h_store ?h (h_sequence h + 1)) = h_sequence h + 1"
    by (simp_all add: eq)
  have nn: "0 \<le> h_sequence h" using ok by (simp add: hub_ok_def)
  have push: "refs_ok ?h (q @ [h_sequence h + 1])" if "refs_ok h q" for q
    using refs_ok_push(1) [OF that nn st sq] .
  have cache: "refs_ok ?h (h_cache ?h)"
  proof (rule refs_ok_subset)
    show "refs_ok ?h (h_cache h @ [h_sequence h + 1])" using push ok by (simp add: hub_ok_def)
    then show "sorted_wrt (<) (h_cache ?h)"
      using deque_append_props(1) by (simp add: eq refs_ok_def)
    show "set (h_cache ?h) \<subseteq> set (h_cache h @ [h_sequence h + 1])"
      using deque_append_props(2) [of "h_cache_size h" "h_sequence h + 1" "h_cache h"] by (simp add: eq)
  qed
  have clients: "refs_ok ?h (s_queue sub') \<and> 0 \<le> s_dropped sub'" if "(cid, sub') \<in> set (h_clients ?h)" for cid sub'
  proof -
    from that obtain sub where sub: "(cid, sub) \<in> set (h_clients h)"
        "sub' = push_client (h_queue_size h) (h_sequence h + 1) sub"
      by (auto simp: eq)
    then have r: "refs_ok h (s_queue sub)" "0 \<le> s_dropped sub" using ok by (auto simp: hub_ok_def)
    have "refs_ok ?h (window (h_queue_size h) (s_queue sub @ [h_sequence h + 1]))"
      by (rule refs_ok_subset [OF push [OF r(1)] sorted_window set_window])
        (use push [OF r(1)] in \<open>simp add: refs_ok_def\<close>)
    with r sub show ?thesis by (simp add: push_client_def)
  qed
  have in_bounds: "in_bounds (h_queue_size h) (h_clients ?h)"
    using window_bound by (fastforce simp: in_bounds_def eq push_client_def)
  have dist: "map fst (h_clients ?h) = map fst (h_clients h)" by (simp add: eq comp_def case_prod_unfold)
  then have "length (h_clients ?h) = length (h_clients h)" by (metis length_map)
  moreover have "sum_list (map (s_dropped \<circ> snd) (h_clients ?h)) \<le> h_dropped ?h"
    using ok sum_dropped_push [of "h_queue_size h" "h_sequence h + 1" "h_clients h"]
    by (simp add: eq hub_ok_def)
  moreover have "int (length (h_cache ?h)) \<le> h_cache_size ?h"
    using ok deque_append_props(3) [of "h_cache_size h" "h_sequence h + 1" "h_cache h"]
    by (simp add: eq hub_ok_def)
  moreover have "h_cache_size ?h = h_cache_size h" "h_queue_size ?h = h_queue_size h"
      "h_max_clients ?h = h_max_clients h"
    by (simp_all add: eq)
  moreover have "distinct (map fst (h_clients ?h))" using dist ok by (simp add: hub_ok_def)
  ultimately show ?thesis
    using ok cache clients in_bounds sq(1) nn unfolding hub_ok_def by fastforce
qed

lemma update_sum:
  assumes "\<forall>c\<in>set cs. 0 \<le> f (snd c)"
  shows "sum_list (map (f \<circ> snd) (AList.update k v cs)) \<le> sum_list (map (f \<circ> snd) cs) + (f v :: int)"
  using assms by (induction cs) auto

lemma update_sum_same:
  assumes "map_of cs k = Some v0" and "f v = (f v0 :: int)"
  shows "sum_list (map (f \<circ> snd) (AList.update k v cs)) = sum_list (map (f \<circ> snd) cs)"
  using assms by (induction cs) auto

lemma update_length_present: "map_of cs k = Some v0 \<Longrightarrow> length (AList.update k v cs) = length cs"
  by (induction cs) auto

lemma update_length: "length (AList.update k v cs) \<le> Suc (length cs)"
  by (induction cs) auto

lemma set_update_subset: "set (AList.update k v cs) \<subseteq> insert (k, v) (set cs)"
  by (induction cs) auto

lemma subscribe_ok:
  assumes "hub_ok h" and "subscribe cid h = Inr h'"
  shows "hub_ok h'"
proof -
  let ?s = "\<lparr>s_queue = [], s_dropped = 0\<rparr>" and ?cs = "h_clients h"
  have room: "int (length ?cs) < h_max_clients h" and h': "h' = h\<lparr>h_clients := AList.update cid ?s ?cs\<rparr>"
    using assms(2) by (auto simp: subscribe_def result_eqs)
  have sub: "\<And>c. c \<in> set (AList.update cid ?s ?cs) \<Longrightarrow> c = (cid, ?s) \<or> c \<in> set ?cs"
    using set_update_subset [of cid ?s ?cs] by blast
  have "in_bounds (h_queue_size h) (AList.update cid ?s ?cs)"
    using sub assms(1) by (fastforce simp: hub_ok_def in_bounds_def)
  moreover have "\<forall>(c, s)\<in>set (AList.update cid ?s ?cs). refs_ok h' (s_queue s) \<and> 0 \<le> s_dropped s"
    using sub assms(1) by (fastforce simp: hub_ok_def refs_ok_def h')
  moreover have "int (length (AList.update cid ?s ?cs)) \<le> max 0 (h_max_clients h)"
    using room update_length [of cid ?s ?cs] by linarith
  moreover have "\<forall>c\<in>set ?cs. 0 \<le> s_dropped (snd c)" using assms(1) by (auto simp: hub_ok_def)
  then have "sum_list (map (s_dropped \<circ> snd) (AList.update cid ?s ?cs)) \<le> sum_list (map (s_dropped \<circ> snd) ?cs)"
    using update_sum [of ?cs s_dropped cid ?s] by simp
  ultimately show ?thesis
    using assms(1) distinct_update [of ?cs cid ?s] by (simp add: hub_ok_def h' refs_ok_def)
qed

lemma unsubscribe_ok:
  assumes "hub_ok h"
  shows "hub_ok (unsubscribe cid h)"
proof -
  let ?cs = "h_clients h" and ?f = "filter (\<lambda>c. fst c \<noteq> cid) (h_clients h)"
  have "sum_list (map (s_dropped \<circ> snd) (filter P ?cs)) \<le> sum_list (map (s_dropped \<circ> snd) ?cs)" for P
  proof -
    have "\<forall>c\<in>set cs. 0 \<le> s_dropped (snd c) \<Longrightarrow>
      sum_list (map (s_dropped \<circ> snd) (filter P cs)) \<le> sum_list (map (s_dropped \<circ> snd) cs)"
      for cs :: "(string \<times> subscription) list" by (induction cs) auto
    moreover have "\<forall>c\<in>set ?cs. 0 \<le> s_dropped (snd c)" using assms by (auto simp: hub_ok_def)
    ultimately show ?thesis by blast
  qed
  then have "sum_list (map (s_dropped \<circ> snd) ?f) \<le> h_dropped h"
    using assms order_trans by (fastforce simp: hub_ok_def)
  moreover have "int (length ?f) \<le> max 0 (h_max_clients h)"
  proof -
    have "length ?f \<le> length ?cs" by (rule length_filter_le)
    moreover have "int (length ?cs) \<le> max 0 (h_max_clients h)" using assms by (simp add: hub_ok_def)
    ultimately show ?thesis by linarith
  qed
  moreover have "distinct (map fst ?f)" using assms distinct_map_filter by (auto simp: hub_ok_def)
  moreover have "in_bounds (h_queue_size h) ?f" using assms by (auto simp: hub_ok_def in_bounds_def)
  moreover have "\<forall>(c, s)\<in>set ?f. refs_ok (unsubscribe cid h) (s_queue s) \<and> 0 \<le> s_dropped s"
    using assms by (auto simp: hub_ok_def refs_ok_def unsubscribe_def)
  ultimately show ?thesis using assms by (simp add: hub_ok_def unsubscribe_def refs_ok_def)
qed

lemma stream_next_ok:
  assumes "hub_ok h" and "stream_next cid h = Some (p, h')"
  shows "hub_ok h'"
proof -
  let ?cs = "h_clients h"
  from assms(2) obtain sub n q where sub: "map_of ?cs cid = Some sub" "s_queue sub = n # q"
      and h': "h' = h\<lparr>h_clients := AList.update cid (sub\<lparr>s_queue := q\<rparr>) ?cs\<rparr>"
    by (auto simp: stream_next_def get_nowait_def split: option.splits list.splits)
  have mem: "(cid, sub) \<in> set ?cs" using sub(1) by (rule map_of_SomeD)
  have old: "refs_ok h (s_queue sub)" "0 \<le> s_dropped sub" "0 < h_queue_size h \<longrightarrow> int (length (s_queue sub)) \<le> h_queue_size h"
    using mem assms(1) by (auto simp: hub_ok_def in_bounds_def)
  have new: "\<And>c. c \<in> set (AList.update cid (sub\<lparr>s_queue := q\<rparr>) ?cs) \<Longrightarrow>
      c = (cid, sub\<lparr>s_queue := q\<rparr>) \<or> c \<in> set ?cs"
    using set_update_subset [of cid "sub\<lparr>s_queue := q\<rparr>" ?cs] by blast
  have "in_bounds (h_queue_size h) (AList.update cid (sub\<lparr>s_queue := q\<rparr>) ?cs)"
    using new old sub(2) assms(1) by (fastforce simp: hub_ok_def in_bounds_def)
  moreover have "\<forall>(c, s)\<in>set (AList.update cid (sub\<lparr>s_queue := q\<rparr>) ?cs). refs_ok h' (s_queue s) \<and> 0 \<le> s_dropped s"
    using new old sub(2) assms(1) by (fastforce simp: hub_ok_def refs_ok_def h')
  moreover have "length (AList.update cid (sub\<lparr>s_queue := q\<rparr>) ?cs) = length ?cs"
    using sub(1) by (rule update_length_present)
  moreover have "sum_list (map (s_dropped \<circ> snd) (AList.update cid (sub\<lparr>s_queue := q\<rparr>) ?cs))
      = sum_list (map (s_dropped \<circ> snd) ?cs)"
    using sub(1) by (rule update_sum_same) simp
  ultimately show ?thesis
    using assms(1) distinct_update [of ?cs cid "sub\<lparr>s_queue := q\<rparr>"]
    by (simp add: hub_ok_def h' refs_ok_def)
qed

lemma hub_step_ok: "hub_step h h' \<Longrightarrow> hub_ok h \<Longrightarrow> hub_ok h'"
  by (erule hub_step.cases) (blast intro: publish_ok subscribe_ok unsubscribe_ok stream_next_ok)+

lemma hub_init_ok: "hub_init cs qs mc = Inr h \<Longrightarrow> hub_ok h"
  by (auto simp: hub_init_def hub_ok_def result_eqs refs_ok_def in_bounds_def)

lemma hub_reaches_ok: "hub_reaches h h' \<Longrightarrow> hub_ok h \<Longrightarrow> hub_ok h'"
  by (induction rule: hub_reaches.induct) (auto intro: hub_step_ok)

lemma hub_step_sizes: "hub_step h h' \<Longrightarrow> h_cache_size h' = h_cache_size h \<and> h_queue_size h' = h_queue_size h
    \<and> h_max_clients h' = h_max_clients h"
  by (induction rule: hub_step.induct)
    (auto simp: publish_def subscribe_def unsubscribe_def stream_next_def Let_def result_eqs
      split: prod.splits option.splits)

lemma hub_reaches_sizes: "hub_reaches h h' \<Longrightarrow> h_cache_size h' = h_cache_size h \<and>
    h_queue_size h' = h_queue_size h \<and> h_max_clients h' = h_max_clients h"
  by (induction rule: hub_reaches.induct) (auto dest: hub_step_sizes)

section \<open>Properties\<close>

text \<open>C12. Whatever sequence of publications, subscriptions, reads and departures a hub goes through,
  its cache, each client's queue and the number of clients stay within the configured sizes, what
  they hold are published events in increasing order, and the total of dropped events covers those
  of the connected clients.\<close>

theorem hub_bounded:
  assumes "hub_init cs qs mc = Inr h" and "hub_reaches h h'"
  shows "int (length (h_cache h')) \<le> cs \<and> int (length (h_clients h')) \<le> max 0 mc
    \<and> sorted_wrt (<) (h_cache h') \<and> sum_list (map (s_dropped \<circ> snd) (h_clients h')) \<le> h_dropped h'
    \<and> (\<forall>(cid, sub)\<in>set (h_clients h'). (0 < qs \<longrightarrow> int (length (s_queue sub)) \<le> qs) \<and>
        sorted_wrt (<) (s_queue sub) \<and> (\<forall>n\<in>set (s_queue sub). n \<le> h_sequence h' \<and> e_sequence (h_store h' n) = n))"
proof -
  have ok: "hub_ok h'" using assms hub_init_ok hub_reaches_ok by blast
  have sizes: "h_cache_size h' = cs" "h_queue_size h' = qs" "h_max_clients h' = mc"
    using hub_reaches_sizes [OF assms(2)] assms(1) by (auto simp: hub_init_def result_eqs)
  show ?thesis using ok unfolding hub_ok_def sizes refs_ok_def in_bounds_def by fastforce
qed

definition publish_all :: "(string \<times> string \<times> pydict \<times> string option) list \<Rightarrow> hub \<Rightarrow> hub" where
  "publish_all es h = fold (\<lambda>(now, t, payload, trace) h. snd (publish now t payload trace h)) es h"

lemma push_window:
  assumes "0 < m \<longrightarrow> int (length q) \<le> m"
  shows "s_queue (push_client m n (s\<lparr>s_queue := q\<rparr>)) = window m (q @ [n])"
  by (simp add: push_client_def)

text \<open>C13. A client that does not read sees the newest window of the stream: after any series of
  publications its queue holds the last \<open>queue_size\<close> of what it held and what was published, and
  its counter has grown by exactly the number of events that no longer fit.\<close>

theorem queue_is_window:
  assumes "hub_ok h" and "(cid, sub) \<in> set (h_clients h)" and "h_queue_size h = m"
  shows "\<exists>sub'. (cid, sub') \<in> set (h_clients (publish_all es h))
    \<and> s_queue sub' = window m (s_queue sub @ [h_sequence h + 1..h_sequence h + int (length es)])
    \<and> s_dropped sub' = s_dropped sub
        + (if 0 < m then max 0 (int (length (s_queue sub)) + int (length es) - m) else 0)
    \<and> length (h_clients (publish_all es h)) = length (h_clients h)"
  using assms
proof (induction es arbitrary: h sub)
  case Nil
  then have "0 < m \<longrightarrow> int (length (s_queue sub)) \<le> m" by (auto simp: hub_ok_def in_bounds_def)
  with Nil show ?case by (auto simp: publish_all_def window_id)
next
  case (Cons e es)
  obtain now t payload trace where e: "e = (now, t, payload, trace)" by (cases e)
  let ?h = "snd (publish now t payload trace h)" and ?n = "h_sequence h + 1"
  have w: "in_bounds (h_queue_size h) (h_clients h)" using Cons.prems by (simp add: hub_ok_def)
  have b: "0 < m \<longrightarrow> int (length (s_queue sub)) \<le> m"
    using w Cons.prems by (auto simp: in_bounds_def)
  note eq = publish_eq [OF w, of now t payload trace]
  have mem: "(cid, push_client m ?n sub) \<in> set (h_clients ?h)"
    using Cons.prems by (force simp: eq)
  obtain sub' where s: "(cid, sub') \<in> set (h_clients (publish_all es ?h))"
    "s_queue sub' = window m (s_queue (push_client m ?n sub) @ [h_sequence ?h + 1..h_sequence ?h + int (length es)])"
    "s_dropped sub' = s_dropped (push_client m ?n sub)
        + (if 0 < m then max 0 (int (length (s_queue (push_client m ?n sub))) + int (length es) - m) else 0)"
    "length (h_clients (publish_all es ?h)) = length (h_clients ?h)"
    using Cons.IH [OF publish_ok [OF Cons.prems(1)] mem] Cons.prems(3) by (auto simp: eq)
  have "[h_sequence h + 1..h_sequence h + int (length (e # es))]
      = ?n # [h_sequence ?h + 1..h_sequence ?h + int (length es)]"
    by (subst upto_rec1) (simp_all add: eq algebra_simps)
  moreover have "window m (window m (q @ [n]) @ xs) = window m (q @ n # xs)" for q :: "int list" and n xs
  proof (induction xs rule: rev_induct)
    case Nil
    show ?case using window_bound [of m "q @ [n]"] by (cases "0 < m") (auto simp: window_id window_def)
  next
    case (snoc x xs)
    then show ?case
      using window_snoc [of m "window m (q @ [n]) @ xs" x] window_snoc [of m "q @ n # xs" x] by simp
  qed
  moreover have "length (window m (s_queue sub @ [?n]))
      = (if 0 < m \<and> int (length (s_queue sub)) = m then length (s_queue sub) else Suc (length (s_queue sub)))"
    using b by (auto simp: window_def)
  ultimately have "s_queue sub' = window m (s_queue sub @ [h_sequence h + 1..h_sequence h + int (length (e # es))])"
    and "s_dropped sub' = s_dropped sub
        + (if 0 < m then max 0 (int (length (s_queue sub)) + int (length (e # es)) - m) else 0)"
    using s(2,3) b by (auto simp: push_client_def)
  moreover have "length (h_clients ?h) = length (h_clients h)" by (simp add: eq)
  ultimately show ?case using s(1,4) by (auto simp: publish_all_def e)
qed

section \<open>The percentiles of the metrics\<close>

lemma fl_099_near: "\<exists>d. fl_099 = Fin d \<and> 98 / 100 \<le> d \<and> d \<le> 995 / 1000"
proof -
  have lo: "pow2 (-1022) \<le> (99 / 100 :: rat)"
    using pow2_mono [of "-1022" "-1"] by (simp add: pow2_def)
  have hi: "(99 / 100 :: rat) \<le> pow2 1023" using pow2_mono [of 0 1023] by (simp add: pow2_def)
  from fl_round_finite [OF lo hi] obtain r :: rat where r: "fl_099 = Fin r" "\<bar>r - 99 / 100\<bar> \<le> 99 / 100 / 2 ^ 53"
    by (auto simp: fl_099_def)
  have "(99 / 100 / 2 ^ 53 :: rat) \<le> 1 / 1000" by simp
  with r(2) have "98 / 100 \<le> r \<and> r \<le> 995 / 1000" by linarith
  with r(1) show ?thesis by blast
qed

lemma p99_index_bounds:
  assumes "0 < n" and "n \<le> 500"
  shows "\<exists>i. p99_index n = Inr i \<and> int (n div 2) \<le> i \<and> i < int n"
proof -
  obtain d where d: "fl_099 = Fin d" "98 / 100 \<le> d" "d \<le> 995 / 1000" using fl_099_near by blast
  let ?q = "of_nat n * d"
  have n: "1 \<le> (of_nat n :: rat)" "(of_nat n :: rat) \<le> 500" using assms by (simp, simp add: of_nat_le_iff [of n 500, where 'a = rat, simplified])
  have q: "98 / 100 * of_nat n \<le> ?q" "?q \<le> 995 / 1000 * of_nat n"
    using d(2,3) n by (simp_all add: mult.commute mult_left_mono)
  have lo: "pow2 (-1022) \<le> ?q"
  proof -
    have "pow2 (-1022) \<le> (1 / 2 :: rat)" using pow2_mono [of "-1022" "-1"] by (simp add: pow2_def)
    with q(1) n show ?thesis by linarith
  qed
  have hi: "?q \<le> pow2 1023"
  proof -
    have "(512 :: rat) \<le> pow2 1023" using pow2_mono [of 9 1023] by (simp add: pow2_def)
    with q(2) n show ?thesis by linarith
  qed
  obtain r where r: "fl_round ?q = Fin r" "\<bar>r - ?q\<bar> \<le> ?q / 2 ^ 53" using fl_round_finite [OF lo hi] by blast
  have "0 \<le> ?q" using lo pow2_pos [of "-1022"] by linarith
  then have "?q / 2 ^ 53 \<le> ?q / 1000" by (intro divide_left_mono) auto
  with r(2) have r2: "?q - ?q / 1000 \<le> r" "r \<le> ?q + ?q / 1000" by linarith+
  have up: "r < of_nat n" using r2(2) q(2) n by linarith
  have down: "of_nat n / 2 \<le> r" using r2(1) q(1) n by linarith
  then have pos: "0 \<le> r" using n by linarith
  have "p99_index n = Inr \<lfloor>r\<rfloor>"
    using r(1) pos by (simp add: p99_index_def d(1) trunc_rat_def)
  moreover have "\<lfloor>r\<rfloor> < int n" using up by (simp add: floor_less_iff)
  moreover have "of_int (int (n div 2)) \<le> (of_nat n / 2 :: rat)"
  proof -
    have "2 * (n div 2) \<le> n" by simp
    then have "of_nat (2 * (n div 2)) \<le> (of_nat n :: rat)" by (simp only: of_nat_le_iff)
    then show ?thesis by simp
  qed
  then have "int (n div 2) \<le> \<lfloor>r\<rfloor>" using down by (simp only: le_floor_iff)
  ultimately show ?thesis by blast
qed

text \<open>C30. The percentiles of the telemetry endpoint never index outside the samples, are samples
  themselves, and the median does not exceed the 99th percentile. The endpoint reads at most 500
  events.\<close>

theorem metrics_percentiles:
  assumes "durations \<noteq> []" and "length durations \<le> 500" and "NaN \<notin> set durations"
  shows "\<exists>m p q. metrics_of durations misses dropped = Inr m \<and> m_p50 m = Some p \<and> m_p99 m = Some q
    \<and> p \<in> set durations \<and> q \<in> set durations \<and> fl_le p q \<and> m_samples m = int (length durations)"
proof -
  let ?ds = "fl_sort durations" and ?n = "length durations"
  have n: "0 < ?n" using assms(1) by simp
  obtain i where i: "p99_index ?n = Inr i" "int (?n div 2) \<le> i" "i < int ?n"
    using p99_index_bounds [OF n assms(2)] by blast
  have ne: "?ds \<noteq> []" using n by (metis length_fl_sort length_greater_0_conv)
  have half: "?n div 2 < ?n" using n by simp
  have p: "nth_float ?ds (int (?n div 2)) = Inr (?ds ! (?n div 2))"
    using half by (simp add: nth_float_def)
  have q: "nth_float ?ds i = Inr (?ds ! nat i)" using i by (simp add: nth_float_def)
  have mem: "?ds ! (?n div 2) \<in> set durations" "?ds ! nat i \<in> set durations"
    using nth_mem [of "?n div 2" ?ds] nth_mem [of "nat i" ?ds] half i by simp_all
  have "fl_le (?ds ! (?n div 2)) (?ds ! nat i)"
  proof (cases "?n div 2 = nat i")
    case True
    then show ?thesis using mem assms(3) by (auto intro!: fl_le_refl)
  next
    case False
    then have "?n div 2 < nat i" "nat i < length ?ds" using i by simp_all
    then show ?thesis using sorted_fl_sort [OF assms(3)] by (simp add: sorted_wrt_iff_nth_less)
  qed
  with mem ne i(1) p q show ?thesis by (simp add: metrics_of_def Let_def)
qed

theorem metrics_percentiles_witness:
  "\<exists>m p q. metrics_of [Fin 5, Fin 3] 1 0 = Inr m \<and> m_p50 m = Some p \<and> m_p99 m = Some q
    \<and> p \<in> set [Fin 5, Fin 3] \<and> q \<in> set [Fin 5, Fin 3] \<and> fl_le p q \<and> m_samples m = int (length [Fin 5, Fin 3])"
  by (rule metrics_percentiles) simp_all

section \<open>A sample run\<close>

definition sample_hub :: hub where
  "sample_hub = \<lparr>h_cache_size = 2, h_queue_size = 1, h_max_clients = 1, h_sequence = 0, h_dropped = 0,
     h_cache = [], h_clients = [], h_store = (\<lambda>_. no_event)\<rparr>"

definition sample_client :: hub where
  "sample_client = sample_hub\<lparr>h_clients := [(''c'', \<lparr>s_queue = [], s_dropped = 0\<rparr>)]\<rparr>"

definition sample_drop :: hub where
  "sample_drop = publish_all [(''t'', ''a'', [], None), (''t'', ''b'', [], None)] sample_client"

lemma sample_client_ok: "hub_ok sample_client"
  by (simp add: hub_ok_def sample_client_def sample_hub_def refs_ok_def in_bounds_def)

lemma sample_client_reached: "hub_reaches sample_hub sample_client"
proof (rule hub_reaches.Step [OF hub_reaches.Start hub_step.Subscribe])
  show "subscribe ''c'' sample_hub = Inr sample_client"
    by (simp add: subscribe_def sample_hub_def sample_client_def guardR_def)
qed

lemma sample_drop_reached: "hub_reaches sample_hub sample_drop"
proof -
  have "hub_reaches sample_hub (snd (publish ''t'' ''a'' [] None sample_client))"
    by (rule hub_reaches.Step [OF sample_client_reached hub_step.Publish])
  then have "hub_reaches sample_hub (snd (publish ''t'' ''b'' [] None (snd (publish ''t'' ''a'' [] None sample_client))))"
    by (rule hub_reaches.Step [OF _ hub_step.Publish])
  then show ?thesis by (simp only: sample_drop_def publish_all_def fold.simps comp_def id_def prod.case)
qed

theorem hub_bounded_witness:
  "int (length (h_cache sample_drop)) \<le> 2 \<and> int (length (h_clients sample_drop)) \<le> max 0 1
    \<and> (\<exists>sub. (''c'', sub) \<in> set (h_clients sample_drop) \<and> int (length (s_queue sub)) \<le> 1)"
proof -
  have init: "hub_init 2 1 1 = Inr sample_hub" by (simp add: hub_init_def sample_hub_def)
  have "\<exists>sub. (''c'', sub) \<in> set (h_clients sample_drop)"
    by (simp add: sample_drop_def publish_all_def publish_def sample_client_def sample_hub_def offer_def
      put_nowait_def get_nowait_def Let_def deque_append_def)
  then obtain sub where sub: "(''c'', sub) \<in> set (h_clients sample_drop)" by blast
  note bound = hub_bounded [OF init sample_drop_reached]
  have "int (length (s_queue sub)) \<le> 1" using bound sub by fastforce
  with bound sub show ?thesis by blast
qed

theorem queue_is_window_witness:
  "\<exists>sub'. (''c'', sub') \<in> set (h_clients sample_drop) \<and> s_queue sub' = [2] \<and> s_dropped sub' = 1"
proof -
  have "(''c'', \<lparr>s_queue = [], s_dropped = 0\<rparr>) \<in> set (h_clients sample_client)"
    by (simp add: sample_client_def)
  from queue_is_window [OF sample_client_ok this refl, of "[(''t'', ''a'', [], None), (''t'', ''b'', [], None)]"]
  obtain sub' where s: "(''c'', sub') \<in> set (h_clients sample_drop)"
    "s_queue sub' = window 1 ([] @ [0 + 1..0 + int 2])" "s_dropped sub' = 0 + (if 0 < (1::int) then max 0 (0 + int 2 - 1) else 0)"
    by (auto simp: sample_drop_def sample_client_def sample_hub_def)
  have "[0 + 1..0 + int 2] = [1, 2]" by code_simp
  with s show ?thesis by (auto simp: window_def)
qed

text \<open>The count sent to a client adds the client's own dropped events to a total that contains
  them already: after one displaced event the client is told of two.\<close>

theorem stream_counts_drops_twice:
  "h_dropped sample_drop = 1 \<and>
   (\<exists>p h'. stream_next ''c'' sample_drop = Some (p, h') \<and> dget p ''dropped_event_count'' = PInt 2)"
  by (simp add: sample_drop_def publish_all_def publish_def sample_client_def sample_hub_def offer_def
    put_nowait_def get_nowait_def Let_def stream_next_def deque_append_def)

end
