(* ===== verification/Bridge.thy ===== *)
theory Bridge
  imports Telemetry
begin

text \<open>
  \<open>perceptshift_api/ros_bridge.py\<close>: the state the bridge mirrors from ROS messages, its life cycle,
  the reads the API serves from it, and the mutations that call runtime services. Each section under
  the bridge's lock is one function on the state; the callbacks that the executor thread runs while a
  request waits for its service are an explicit list. ROS itself (messages, service readiness,
  futures, the clock) enters as arguments.
\<close>

section \<open>State\<close>

record policy =
  po_deadline :: "pyfloat option"
  po_pinned :: "string option"
  po_auto_switch :: bool
  po_recovery :: bool
  po_source :: string

definition default_policy :: policy where
  "default_policy = \<lparr>po_deadline = None, po_pinned = None, po_auto_switch = True, po_recovery = True,
     po_source = ''default''\<rparr>"

record profile_summary =
  pr_id :: string
  pr_label :: "string option"
  pr_hash_prefix :: "string option"
  pr_state :: string
  pr_eligible :: bool
  pr_rejections :: "string list"
  pr_quality :: "pyfloat option"
  pr_certified_p99 :: "pyfloat option"
  pr_online_p99 :: "pyfloat option"
  pr_online_bound :: "pyfloat option"
  pr_peak_rss :: "int option"
  pr_provider :: "string option"
  pr_active :: bool
  pr_pinned :: bool

text \<open>Instants are microseconds.\<close>

record bridge_state =
  s_available :: bool
  s_reason_code :: string
  s_message :: string
  s_connected :: bool
  s_active :: "string option"
  s_pinned :: "string option"
  s_control_hold :: bool
  s_deadline :: "pyfloat option"
  s_health :: string
  s_reason_codes :: "string list"
  s_profiles :: "(string \<times> profile_summary) list"
  s_policy :: policy
  s_health_at :: "int option"
  s_profile_at :: "int option"
  s_switch_at :: "int option"
  s_trace_at :: "int option"
  s_hold_at :: "int option"
  s_status_at :: "int option"
  s_memory :: "int option"
  s_temperature :: "pyfloat option"
  s_throttling :: "bool option"
  s_mode :: string

definition default_state :: bridge_state where
  "default_state = \<lparr>s_available = False, s_reason_code = ''ROS_UNAVAILABLE'',
     s_message = ''ROS bridge is not connected'', s_connected = False, s_active = None,
     s_pinned = None, s_control_hold = False, s_deadline = None, s_health = ''unavailable'',
     s_reason_codes = [''ROS_UNAVAILABLE''], s_profiles = [], s_policy = default_policy,
     s_health_at = None, s_profile_at = None, s_switch_at = None, s_trace_at = None, s_hold_at = None,
     s_status_at = None, s_memory = None, s_temperature = None, s_throttling = None,
     s_mode = ''artifact_store''\<rparr>"

text \<open>
  \<open>b_outbox\<close> lists the calls made to the registered publisher, \<open>b_sent\<close> the requests sent to services,
  \<open>b_running\<close> says that the executor thread is alive.
\<close>

record bridge =
  b_enable_ros :: bool
  b_timeout :: pyfloat
  b_stale_after :: pyfloat
  b_runtime_node :: string
  b_pin_seconds :: int
  b_state :: bridge_state
  b_callback :: bool
  b_client_ready :: bool
  b_clients :: "(string \<times> string) list"
  b_subs :: "(string \<times> string) list"
  b_graph_seen :: bool
  b_services :: "string list"
  b_stop :: bool
  b_running :: bool
  b_outbox :: "(string \<times> pydict \<times> string option) list"
  b_sent :: "(string \<times> pydict) list"

definition default_runtime_node :: string where
  "default_runtime_node = ''perceptshift_runtime''"

definition bridge_init :: "bool \<Rightarrow> pyfloat \<Rightarrow> pyfloat \<Rightarrow> string \<Rightarrow> int \<Rightarrow> bridge" where
  "bridge_init enable_ros timeout stale_after runtime_node pin_seconds =
     (let n = strip_chars ''/'' (py_strip runtime_node) in
      \<lparr>b_enable_ros = enable_ros, b_timeout = timeout, b_stale_after = stale_after,
       b_runtime_node = (if n \<noteq> [] then n else default_runtime_node), b_pin_seconds = pin_seconds,
       b_state = default_state, b_callback = False, b_client_ready = False, b_clients = [], b_subs = [],
       b_graph_seen = False, b_services = [], b_stop = False, b_running = False, b_outbox = [],
       b_sent = []\<rparr>)"

definition health_state_name :: "int \<Rightarrow> string" where
  "health_state_name n = (case map_of [(0, ''unknown''), (1, ''healthy''), (2, ''degraded''),
     (3, ''fail_closed''), (4, ''recovering''), (5, ''error'')] n of None \<Rightarrow> ''unknown'' | Some s \<Rightarrow> s)"

definition lifecycle_state_name :: "int \<Rightarrow> string" where
  "lifecycle_state_name n = (case map_of [(0, ''unloaded''), (1, ''loaded''), (2, ''warmed''),
     (3, ''active''), (4, ''ineligible''), (5, ''failed'')] n of None \<Rightarrow> ''unknown'' | Some s \<Rightarrow> s)"

definition switch_reason_name :: "int \<Rightarrow> string" where
  "switch_reason_name n = (case map_of [(0, ''startup''), (1, ''deadline''), (2, ''quality''),
     (3, ''resource''), (4, ''confidence''), (5, ''manual_pin''), (6, ''recovery''), (7, ''fail_closed''),
     (8, ''policy'')] n of None \<Rightarrow> ''unknown'' | Some s \<Rightarrow> s)"

abbreviation upd_state :: "(bridge_state \<Rightarrow> bridge_state) \<Rightarrow> bridge \<Rightarrow> bridge" where
  "upd_state f b \<equiv> b\<lparr>b_state := f (b_state b)\<rparr>"

section \<open>Life cycle\<close>

text \<open>What the imports of \<open>rclpy\<close> and of the message packages find.\<close>

datatype ros_env = No_rclpy | No_msgs | Ros_ready

definition store_only :: "string \<Rightarrow> string \<Rightarrow> bridge_state" where
  "store_only reason message = default_state\<lparr>s_available := False, s_reason_code := reason,
     s_message := message, s_mode := ''artifact_store'', s_health := ''artifact_store'',
     s_reason_codes := [reason]\<rparr>"

definition start :: "ros_env \<Rightarrow> bridge \<Rightarrow> bridge" where
  "start env b =
     (if \<not> b_enable_ros b then b\<lparr>b_state := store_only ''ROS_DISABLED''
        ''ROS bridge disabled; running in artifact-store-only mode''\<rparr>
      else (case env of
        No_rclpy \<Rightarrow> b\<lparr>b_state := store_only ''RCLPY_MISSING''
          ''rclpy is not installed; artifact-store-only mode is active''\<rparr>
      | No_msgs \<Rightarrow> b\<lparr>b_state := store_only ''PERCEPTSHIFT_MSGS_MISSING''
          ''perceptshift_msgs is not importable; artifact-store-only mode is active''\<rparr>
      | Ros_ready \<Rightarrow> b\<lparr>b_services := [''status'', ''policy'', ''pin'', ''clear_pin'', ''recovery''],
          b_state := default_state\<lparr>s_available := True, s_reason_code := ''ROS_GRAPH_ABSENT'',
            s_message := ''Waiting for ROS graph'', s_connected := False, s_mode := ''ros'',
            s_health := ''degraded'', s_reason_codes := [''ROS_GRAPH_ABSENT'']\<rparr>,
          b_stop := False, b_running := True\<rparr>))"

definition topic :: "bridge \<Rightarrow> string \<Rightarrow> string" where
  "topic b sfx = ''/'' @ b_runtime_node b @ ''/'' @ sfx"

definition service :: "bridge \<Rightarrow> string \<Rightarrow> string" where
  "service b sfx = ''/'' @ b_runtime_node b @ ''/'' @ sfx"

text \<open>The subscriptions and the service clients the executor creates before it spins.\<close>

definition subscriptions :: "bridge \<Rightarrow> (string \<times> string) list" where
  "subscriptions b = [(''health'', topic b ''health''), (''profiles'', topic b ''profiles''),
     (''switches'', topic b ''switches''), (''traces'', topic b ''traces''),
     (''hold'', topic b ''control_hold_request'')]"

definition service_clients :: "bridge \<Rightarrow> (string \<times> string) list" where
  "service_clients b = [(''status'', service b ''get_runtime_status''),
     (''policy'', service b ''update_runtime_policy''), (''pin'', service b ''pin_profile''),
     (''clear_pin'', service b ''clear_profile_pin''), (''recovery'', service b ''request_recovery'')]"

definition open_executor :: "bridge \<Rightarrow> bridge" where
  "open_executor b = b\<lparr>b_subs := subscriptions b, b_clients := service_clients b\<rparr>"

definition executor_failed :: "bridge \<Rightarrow> bridge" where
  "executor_failed b = (upd_state (\<lambda>s. s\<lparr>s_connected := False, s_reason_code := ''ROS_BRIDGE_ERROR'',
     s_message := ''ROS bridge executor failed'', s_reason_codes := [''ROS_BRIDGE_ERROR'']\<rparr>) b)
     \<lparr>b_client_ready := False\<rparr>"

text \<open>Teardown ends the executor thread.\<close>

definition teardown_ros :: "bridge \<Rightarrow> bridge" where
  "teardown_ros b = b\<lparr>b_clients := [], b_subs := [], b_client_ready := False, b_running := False\<rparr>"

text \<open>\<open>stop\<close>; \<open>joined\<close> says whether the thread ended within the five seconds it is given.\<close>

definition stop_bridge :: "bool \<Rightarrow> bridge \<Rightarrow> bridge" where
  "stop_bridge joined b0 = (let b = b0\<lparr>b_stop := True\<rparr>;
     b1 = (if b_running b \<and> joined then teardown_ros b else b) in
     if s_mode (b_state b1) = ''ros''
     then (upd_state (\<lambda>s. s\<lparr>s_connected := False, s_reason_code := ''ROS_SHUTDOWN'',
       s_message := ''ROS bridge shut down''\<rparr>) b1)\<lparr>b_client_ready := False\<rparr>
     else b1)"

definition publish_event :: "string \<Rightarrow> pydict \<Rightarrow> string option \<Rightarrow> bridge \<Rightarrow> bridge" where
  "publish_event event_type payload trace_id b =
     (if b_callback b then b\<lparr>b_outbox := b_outbox b @ [(event_type, payload, trace_id)]\<rparr> else b)"

definition set_loop_publish :: "bool \<Rightarrow> bridge \<Rightarrow> bridge" where
  "set_loop_publish registered b = b\<lparr>b_callback := registered\<rparr>"

text \<open>\<open>ready\<close> lists the services that are ready. The mutation clients are looked at too, but the
  branch on them is empty.\<close>

definition mutation_ready :: "string list \<Rightarrow> bridge \<Rightarrow> bool" where
  "mutation_ready ready b \<longleftrightarrow> list_all (\<lambda>(n, s). n \<noteq> ''status'' \<longrightarrow> n \<in> set ready) (b_clients b)"

definition refresh_graph_state :: "string list \<Rightarrow> bridge \<Rightarrow> bridge" where
  "refresh_graph_state ready_services b0 =
     (let ready = (map_of (b_clients b0) ''status'' \<noteq> None \<and> ''status'' \<in> set ready_services);
          b = b0\<lparr>b_client_ready := ready\<rparr> in
      if ready then
        (let b1 = b\<lparr>b_graph_seen := True\<rparr>;
             b2 = (if \<not> s_connected (b_state b1) then publish_event ''connection_status''
               [(''status'', PStr ''ros_connected''), (''runtime_node'', PStr (b_runtime_node b1))] None b1
               else b1);
             b3 = upd_state (\<lambda>s. s\<lparr>s_connected := True, s_available := True, s_mode := ''ros'',
               s_reason_code := ''OK'', s_message := ''Connected to ROS runtime graph''\<rparr>) b2 in
         if s_health (b_state b3) \<in> set [''unavailable'', ''artifact_store'', ''degraded''] \<and>
            ''ROS_GRAPH_ABSENT'' \<in> set (s_reason_codes (b_state b3)) \<and> s_health_at (b_state b3) = None
         then upd_state (\<lambda>s. s\<lparr>s_health := ''degraded'', s_reason_codes := [''ROS_AWAITING_HEALTH'']\<rparr>) b3
         else b3)
      else upd_state (\<lambda>s. s\<lparr>s_connected := False, s_reason_code := ''ROS_GRAPH_ABSENT'',
        s_message := (if b_graph_seen b then ''ROS runtime services disappeared''
          else ''ROS graph not detected''),
        s_reason_codes := [''ROS_GRAPH_ABSENT'']\<rparr>) b)"

section \<open>Messages\<close>

text \<open>The fields of the ROS messages that the callbacks read.\<close>

record health_msg =
  hm_state :: int
  hm_reason :: string
  hm_trace :: string
  hm_active :: string
  hm_stale :: bool
  hm_hold :: bool
  hm_memory :: int
  hm_temperature :: pyfloat
  hm_temperature_valid :: bool
  hm_throttling :: bool
  hm_throttling_valid :: bool

record profile_msg =
  pm_id :: string
  pm_label :: string
  pm_lifecycle :: int
  pm_active :: bool
  pm_eligible :: bool
  pm_rejections :: "string list"
  pm_metric :: string
  pm_quality :: pyfloat
  pm_bound :: pyfloat
  pm_p99 :: pyfloat
  pm_rss :: int
  pm_provider :: string
  pm_pin :: bool

record switch_msg =
  sm_trace :: string
  sm_from :: string
  sm_to :: string
  sm_reason :: int
  sm_detail :: string
  sm_sequence :: int
  sm_evidence :: string
  sm_manual :: bool

record trace_msg =
  tm_trace :: string
  tm_sequence :: int
  tm_profile :: string
  tm_total_ns :: int
  tm_missed :: bool
  tm_dropped :: bool
  tm_drop_reason :: string
  tm_provider :: string

record hold_msg =
  km_active :: bool
  km_reason :: string
  km_trace :: string
  km_summary :: string

text \<open>\<open>str(x) or None\<close>, and \<open>x or y\<close> on optional strings.\<close>

definition str_or_none :: "string \<Rightarrow> string option" where
  "str_or_none s = (if s = [] then None else Some s)"

definition or_keep :: "string \<Rightarrow> string option \<Rightarrow> string option" where
  "or_keep s old = (if s = [] then old else Some s)"

definition float_or_none :: "pyfloat \<Rightarrow> pyfloat option" where
  "float_or_none f = (if f = Fin 0 then None else Some f)"

definition on_health :: "int \<Rightarrow> health_msg \<Rightarrow> bridge \<Rightarrow> bridge" where
  "on_health now m b =
     (let state_name = health_state_name (hm_state m);
          reason = (if hm_reason m \<noteq> [] then hm_reason m else state_name) in
      publish_event ''runtime_health''
        [(''state'', PStr state_name), (''reason_code'', PStr reason),
         (''active_profile_id'', PStr (hm_active m)), (''control_hold'', PBool (hm_hold m)),
         (''source_stale'', PBool (hm_stale m))]
        (Some (if hm_trace m = [] then ''None'' else hm_trace m))
        (upd_state (\<lambda>s. s\<lparr>s_health_at := Some now, s_health := state_name,
           s_reason_codes := (if reason \<noteq> [] then [reason] else [state_name]),
           s_active := or_keep (hm_active m) (s_active s), s_control_hold := hm_hold m,
           s_memory := (if hm_memory m = 0 then None else Some (hm_memory m)),
           s_temperature := (if hm_temperature_valid m then Some (hm_temperature m) else None),
           s_throttling := (if hm_throttling_valid m then Some (hm_throttling m) else None),
           s_connected := True, s_mode := ''ros'', s_reason_code := ''OK'',
           s_message := ''Receiving runtime health''\<rparr>) b))"

definition profile_of :: "profile_msg \<Rightarrow> profile_summary" where
  "profile_of m = \<lparr>pr_id = pm_id m, pr_label = str_or_none (pm_label m), pr_hash_prefix = None,
     pr_state = lifecycle_state_name (pm_lifecycle m), pr_eligible = pm_eligible m,
     pr_rejections = pm_rejections m,
     pr_quality = (if pm_metric m \<noteq> [] then Some (pm_quality m) else None),
     pr_certified_p99 = None, pr_online_p99 = float_or_none (pm_p99 m),
     pr_online_bound = float_or_none (pm_bound m),
     pr_peak_rss = (if pm_rss m = 0 then None else Some (pm_rss m)),
     pr_provider = str_or_none (pm_provider m), pr_active = pm_active m, pr_pinned = pm_pin m\<rparr>"

definition set_pin :: "string option \<Rightarrow> bridge_state \<Rightarrow> bridge_state" where
  "set_pin p s = s\<lparr>s_pinned := p, s_policy := (s_policy s)\<lparr>po_pinned := p\<rparr>\<rparr>"

definition on_profile :: "int \<Rightarrow> profile_msg \<Rightarrow> bridge \<Rightarrow> bridge" where
  "on_profile now m b = (let summary = profile_of m; pid = pm_id m in
     publish_event ''profile_state''
       [(''profile_id'', PStr pid), (''state'', PStr (pr_state summary)),
        (''active'', PBool (pr_active summary)), (''eligible'', PBool (pr_eligible summary)),
        (''pinned'', PBool (pr_pinned summary))] None
       (upd_state (\<lambda>s0. let
          s1 = s0\<lparr>s_profiles := AList.update pid summary (s_profiles s0), s_profile_at := Some now\<rparr>;
          s2 = (if pr_active summary then s1\<lparr>s_active := Some pid\<rparr> else s1) in
          if pr_pinned summary then set_pin (Some pid) s2
          else if s_pinned s2 = Some pid \<and> \<not> pr_pinned summary then set_pin None s2 else s2) b))"

definition on_switch :: "int \<Rightarrow> switch_msg \<Rightarrow> bridge \<Rightarrow> bridge" where
  "on_switch now m b =
     publish_event ''switch_event''
       [(''from_profile'', opt_str (str_or_none (sm_from m))),
        (''to_profile'', opt_str (str_or_none (sm_to m))),
        (''reason'', PStr (switch_reason_name (sm_reason m))), (''reason_detail'', PStr (sm_detail m)),
        (''evidence'', PDict [(''summary'', PStr (sm_evidence m))]), (''manual'', PBool (sm_manual m)),
        (''sequence'', PInt (sm_sequence m))] (str_or_none (sm_trace m))
       (upd_state (\<lambda>s. s\<lparr>s_switch_at := Some now, s_active := or_keep (sm_to m) (s_active s)\<rparr>) b)"

definition total_ms :: "trace_msg \<Rightarrow> pyval" where
  "total_ms m = (if tm_total_ns m = 0 then PNone
     else PFloat (fl_div (fl_round (of_int (tm_total_ns m))) (Fin 1000000)))"

definition on_trace :: "int \<Rightarrow> trace_msg \<Rightarrow> bridge \<Rightarrow> bridge" where
  "on_trace now m b =
     publish_event ''inference_trace_summary''
       [(''profile_id'', PStr (tm_profile m)), (''sequence_id'', PInt (tm_sequence m)),
        (''total_ms'', total_ms m), (''deadline_miss'', PBool (tm_missed m)),
        (''frame_dropped'', PBool (tm_dropped m)),
        (''drop_reason'', opt_str (str_or_none (tm_drop_reason m))),
        (''execution_provider_summary'', opt_str (str_or_none (tm_provider m)))]
       (str_or_none (tm_trace m))
       (upd_state (\<lambda>s. s\<lparr>s_trace_at := Some now\<rparr>) b)"

definition on_control_hold :: "int \<Rightarrow> hold_msg \<Rightarrow> bridge \<Rightarrow> bridge" where
  "on_control_hold now m b =
     publish_event ''control_hold''
       [(''request_active'', PBool (km_active m)), (''reason_code'', PStr (km_reason m)),
        (''summary'', PStr (km_summary m))] (str_or_none (km_trace m))
       (upd_state (\<lambda>s0. let s = s0\<lparr>s_hold_at := Some now, s_control_hold := km_active m\<rparr> in
          if km_reason m \<noteq> [] \<and> km_reason m \<notin> set (s_reason_codes s)
          then s\<lparr>s_reason_codes := s_reason_codes s @ [km_reason m]\<rparr> else s) b)"

text \<open>What the executor thread may run between two lock sections of a request.\<close>

datatype callback =
    Health int health_msg
  | Profile int profile_msg
  | Switch int switch_msg
  | Trace int trace_msg
  | Hold int hold_msg
  | Refresh "string list"

fun run_callback :: "callback \<Rightarrow> bridge \<Rightarrow> bridge" where
  "run_callback (Health now m) b = on_health now m b"
| "run_callback (Profile now m) b = on_profile now m b"
| "run_callback (Switch now m) b = on_switch now m b"
| "run_callback (Trace now m) b = on_trace now m b"
| "run_callback (Hold now m) b = on_control_hold now m b"
| "run_callback (Refresh ready) b = refresh_graph_state ready b"

section \<open>Reads\<close>

text \<open>\<open>_freshness_label\<close>: \<open>total_seconds\<close> is the correctly rounded quotient.\<close>

definition freshness_label :: "int \<Rightarrow> bridge \<Rightarrow> int option \<Rightarrow> string option" where
  "freshness_label now b stamp = map_option (\<lambda>t.
     if fl_le (fl_round (of_int (now - t) / 1000000)) (b_stale_after b) then ''fresh'' else ''stale'') stamp"

type_synonym unavailable = "(string \<times> string \<times> string) list"

record runtime_status =
  rs_connected :: bool
  rs_mode :: string
  rs_active :: "string option"
  rs_control_hold :: bool
  rs_deadline :: "pyfloat option"
  rs_freshness :: "string option"
  rs_unavailable :: unavailable

definition status_of :: "int \<Rightarrow> bridge \<Rightarrow> runtime_status" where
  "status_of now b = (let s = b_state b;
     freshness = freshness_label now b (case s_health_at s of None \<Rightarrow> s_status_at s | Some t \<Rightarrow> Some t) in
     \<lparr>rs_connected = s_connected s,
      rs_mode = (if s_mode s = ''ros'' \<and> s_available s then ''ros'' else ''artifact_store''),
      rs_active = s_active s, rs_control_hold = s_control_hold s,
      rs_deadline = (case s_deadline s of None \<Rightarrow> po_deadline (s_policy s) | Some d \<Rightarrow> Some d),
      rs_freshness = (if \<not> s_connected s then None else freshness),
      rs_unavailable = (if s_connected s then [] else [(''runtime'', s_reason_code s, s_message s)])\<rparr>)"

record runtime_health =
  rh_state :: string
  rh_reason_codes :: "string list"
  rh_memory :: "int option"
  rh_temperature :: "pyfloat option"
  rh_throttling :: "bool option"
  rh_control_hold :: bool
  rh_updated_at :: "int option"
  rh_unavailable :: unavailable

definition health_of :: "int \<Rightarrow> bridge \<Rightarrow> runtime_health" where
  "health_of now b = (let s = b_state b in
     \<lparr>rh_state = s_health s, rh_reason_codes = s_reason_codes s, rh_memory = s_memory s,
      rh_temperature = s_temperature s, rh_throttling = s_throttling s,
      rh_control_hold = s_control_hold s, rh_updated_at = s_health_at s,
      rh_unavailable = (if \<not> s_connected s then [(''health'', s_reason_code s, s_message s)]
        else if freshness_label now b (s_health_at s) = Some ''stale''
        then [(''health'', ''ROS_STALE'', ''Last health sample exceeded freshness window'')] else [])\<rparr>)"

definition runtime_policy :: "bridge \<Rightarrow> policy" where
  "runtime_policy b = s_policy (b_state b)"

definition marked :: "bridge_state \<Rightarrow> profile_summary \<Rightarrow> profile_summary" where
  "marked s p = p\<lparr>pr_active := (Some (pr_id p) = s_active s), pr_pinned := (Some (pr_id p) = s_pinned s)\<rparr>"

definition list_profiles :: "bridge \<Rightarrow> profile_summary list" where
  "list_profiles b = map (\<lambda>(k, p). marked (b_state b) p) (s_profiles (b_state b))"

definition get_profile :: "bridge \<Rightarrow> string \<Rightarrow> profile_summary option" where
  "get_profile b pid = map_option (\<lambda>p. p\<lparr>pr_active := (Some pid = s_active (b_state b)),
     pr_pinned := (Some pid = s_pinned (b_state b))\<rparr>) (map_of (s_profiles (b_state b)) pid)"

section \<open>Waiting for a service\<close>

text \<open>
  What the polling loop observes, by turn: whether the future is done, whether the bridge is
  stopping, and the monotonic clock; reading 0 of the clock sets the deadline.
\<close>

record waiter =
  f_done :: "nat \<Rightarrow> bool"
  f_stopped :: "nat \<Rightarrow> bool"
  f_clock :: "nat \<Rightarrow> pyfloat"

datatype wait_end = Finished nat | Shut_down nat | Timed_out nat

partial_function (option) wait_loop :: "waiter \<Rightarrow> pyfloat \<Rightarrow> nat \<Rightarrow> wait_end option" where
  "wait_loop f deadline i =
     (if f_done f i then Some (Finished i)
      else if f_stopped f i then Some (Shut_down i)
      else if fl_le deadline (f_clock f (Suc i)) then Some (Timed_out i)
      else wait_loop f deadline (Suc i))"

definition wait_future :: "pyfloat \<Rightarrow> waiter \<Rightarrow> wait_end option" where
  "wait_future timeout f = wait_loop f (fl_add (f_clock f 0) timeout) 0"

section \<open>Mutations\<close>

text \<open>
  A service reply, and the environment of one call: the services ready when the client is looked
  up, the observations of the wait, the callbacks that run meanwhile, the reply to a request, and
  the correlation id a new \<open>ApiError\<close> draws.
\<close>

record reply =
  y_accepted :: bool
  y_error_code :: string
  y_error_message :: string
  y_health_reason :: string

record call_env =
  c_ready :: "string list"
  c_wait :: waiter
  c_meanwhile :: "callback list"
  c_reply :: "string \<Rightarrow> pydict \<Rightarrow> exc + reply"
  c_uuid :: string

definition require_connected :: "call_env \<Rightarrow> bridge \<Rightarrow> exc + unit" where
  "require_connected E b = (let s = b_state b in
     guardR (s_connected s) (ApiErr ''ROS_UNAVAILABLE''
       (if s_message s \<noteq> [] then s_message s else ''ROS runtime is not connected'') 503 True
       [(''reason_code'', PStr (s_reason_code s))]
       (Some ''Start the perceptshift_runtime node and ensure the API ROS bridge is enabled'')
       (c_uuid E)))"

definition require_client :: "call_env \<Rightarrow> string \<Rightarrow> bridge \<Rightarrow> exc + unit" where
  "require_client E name b =
     bindR (require_connected E b) (\<lambda>u.
     guardR (map_of (b_clients b) name \<noteq> None \<and> name \<in> set (c_ready E))
       (ApiErr ''ROS_SERVICE_UNAVAILABLE''
         (''ROS service client '' @ [CHR 0x27] @ name @ [CHR 0x27] @ '' is not ready'') 503 True
         [(''service'', PStr name)]
         (Some (''Ensure mutation services are enabled on the runtime '' @
           ''(enable_mutation_services:=true) and the graph is discoverable'')) (c_uuid E)))"

definition quoted :: "string \<Rightarrow> string" where
  "quoted s = [CHR 0x27] @ s @ [CHR 0x27]"

text \<open>The outcome of the wait, as \<open>_wait_future\<close> turns it into a reply or an error.\<close>

definition wait_outcome :: "call_env \<Rightarrow> bridge \<Rightarrow> string \<Rightarrow> pydict \<Rightarrow> wait_end \<Rightarrow> exc + reply" where
  "wait_outcome E b name request e = (case e of
     Shut_down i \<Rightarrow> Inl (ApiErr ''ROS_SHUTDOWN''
       (''ROS bridge shutting down while waiting for '' @ quoted name) 503 True
       [(''service'', PStr name)] None (c_uuid E))
   | Timed_out i \<Rightarrow> Inl (ApiErr ''ROS_TIMEOUT''
       (''Timed out waiting for ROS service '' @ quoted name) 504 True
       [(''service'', PStr name), (''timeout_s'', PFloat (b_timeout b))]
       (Some ''Retry; if persistent, inspect runtime node load and DDS discovery'') (c_uuid E))
   | Finished i \<Rightarrow> (case c_reply E name request of
       Inl err \<Rightarrow> Inl (ApiErr ''ROS_SERVICE_FAILED''
         (''ROS service '' @ quoted name @ '' failed: '' @ exc_str err) 503 True
         [(''service'', PStr name)] None (c_uuid E))
     | Inr r \<Rightarrow> Inr r))"

text \<open>A call: the request goes out, callbacks run, the wait ends; \<open>None\<close> when it never does.\<close>

definition call_service :: "call_env \<Rightarrow> string \<Rightarrow> pydict \<Rightarrow> bridge \<Rightarrow> ((exc + reply) \<times> bridge) option" where
  "call_service E name request b = (case require_client E name b of
     Inl e \<Rightarrow> Some (Inl e, b)
   | Inr u \<Rightarrow> let b1 = fold run_callback (c_meanwhile E) (b\<lparr>b_sent := b_sent b @ [(name, request)]\<rparr>) in
       map_option (\<lambda>e. (wait_outcome E b name request e, b1)) (wait_future (b_timeout b) (c_wait E)))"

definition require_srv_type :: "call_env \<Rightarrow> string \<Rightarrow> bridge \<Rightarrow> exc + unit" where
  "require_srv_type E name b = guardR (name \<in> set (b_services b)) (ApiErr ''ROS_UNAVAILABLE''
     ''ROS service types are not loaded; bridge is not in ROS mode'' 503 False
     [(''service'', PStr name)]
     (Some ''Enable ROS and ensure perceptshift_msgs is on PYTHONPATH'') (c_uuid E))"

definition rejected :: "call_env \<Rightarrow> reply \<Rightarrow> string \<Rightarrow> string \<Rightarrow> pydict \<Rightarrow> exc" where
  "rejected E r fallback srv extra = ApiErr ''ROS_SERVICE_REJECTED''
     (if y_error_message r \<noteq> [] then y_error_message r else fallback) 409 False
     ([(''error_code'', PStr (y_error_code r)), (''service'', PStr srv)] @ extra) None (c_uuid E)"

text \<open>
  The steps the four mutations share: the service type must be loaded, the call must return, the
  reply must be an acceptance; only then is the local state committed.
\<close>

definition with_acceptance ::
    "call_env \<Rightarrow> string \<Rightarrow> pydict \<Rightarrow> (reply \<Rightarrow> exc) \<Rightarrow> (reply \<Rightarrow> bridge \<Rightarrow> 'a \<times> bridge) \<Rightarrow>
     bridge \<Rightarrow> ((exc + 'a) \<times> bridge) option" where
  "with_acceptance E name request reject commit b = (case require_srv_type E name b of
     Inl e \<Rightarrow> Some (Inl e, b)
   | Inr u \<Rightarrow> map_option (\<lambda>(r, b1). case r of Inl e \<Rightarrow> (Inl e, b1)
       | Inr y \<Rightarrow> if y_accepted y then (case commit y b1 of (x, b2) \<Rightarrow> (Inr x, b2))
           else (Inl (reject y), b1)) (call_service E name request b))"

text \<open>The fields of a policy patch; null and absent fields are both dropped.\<close>

record policy_patch =
  pt_deadline :: "pyfloat option"
  pt_auto_switch :: "bool option"
  pt_recovery :: "bool option"

definition patch_empty :: "policy_patch \<Rightarrow> bool" where
  "patch_empty p \<longleftrightarrow> pt_deadline p = None \<and> pt_auto_switch p = None \<and> pt_recovery p = None"

definition policy_request :: "policy_patch \<Rightarrow> pydict" where
  "policy_request p = (case pt_deadline p of None \<Rightarrow> []
     | Some d \<Rightarrow> [(''deadline_ms'', PFloat d), (''apply_deadline'', PBool True)])"

definition patched_policy :: "policy_patch \<Rightarrow> policy \<Rightarrow> policy" where
  "patched_policy p q = q\<lparr>po_deadline := (case pt_deadline p of None \<Rightarrow> po_deadline q | Some d \<Rightarrow> Some d),
     po_auto_switch := (case pt_auto_switch p of None \<Rightarrow> po_auto_switch q | Some a \<Rightarrow> a),
     po_recovery := (case pt_recovery p of None \<Rightarrow> po_recovery q | Some a \<Rightarrow> a),
     po_source := ''operator''\<rparr>"

definition commit_policy :: "policy_patch \<Rightarrow> reply \<Rightarrow> bridge \<Rightarrow> policy \<times> bridge" where
  "commit_policy p y b = (let b' = upd_state (\<lambda>s. s\<lparr>
      s_deadline := (case pt_deadline p of None \<Rightarrow> s_deadline s | Some d \<Rightarrow> Some d),
      s_policy := patched_policy p (s_policy s)\<rparr>) b in (s_policy (b_state b'), b'))"

definition set_policy :: "call_env \<Rightarrow> policy_patch \<Rightarrow> bridge \<Rightarrow> ((exc + policy) \<times> bridge) option" where
  "set_policy E p b = (if patch_empty p then Some (Inr (runtime_policy b), b)
     else with_acceptance E ''policy'' (policy_request p)
       (\<lambda>y. rejected E y ''UpdateRuntimePolicy rejected'' ''update_runtime_policy'' [])
       (commit_policy p) b)"

definition pin_profile :: "call_env \<Rightarrow> string \<Rightarrow> bridge \<Rightarrow> ((exc + unit) \<times> bridge) option" where
  "pin_profile E pid b = with_acceptance E ''pin''
     [(''profile_id'', PStr pid), (''duration_seconds'', PInt (b_pin_seconds b)),
      (''reason'', PStr ''operator_api'')]
     (\<lambda>y. rejected E y ''PinProfile rejected'' ''pin_profile'' [(''profile_id'', PStr pid)])
     (\<lambda>y b1. ((), upd_state (set_pin (Some pid)) b1)) b"

definition clear_pin :: "call_env \<Rightarrow> bridge \<Rightarrow> ((exc + unit) \<times> bridge) option" where
  "clear_pin E b = with_acceptance E ''clear_pin'' [(''reason'', PStr ''operator_api'')]
     (\<lambda>y. rejected E y ''ClearProfilePin rejected'' ''clear_profile_pin'' [])
     (\<lambda>y b1. ((), upd_state (set_pin None) b1)) b"

definition recovery_commit :: "string \<Rightarrow> reply \<Rightarrow> bridge \<Rightarrow> pydict \<times> bridge" where
  "recovery_commit action y b =
     ([(''action'', PStr action), (''status'', PStr ''accepted''),
       (''resulting_health_reason'', PStr (y_health_reason y))],
      upd_state (\<lambda>s0. let s = (if action = ''clear_control_hold'' then s0\<lparr>s_control_hold := False\<rparr> else s0) in
        if y_health_reason y \<noteq> []
        then s\<lparr>s_reason_codes := [y_health_reason y], s_health := ''recovering''\<rparr> else s) b)"

definition recovery :: "call_env \<Rightarrow> string \<Rightarrow> bridge \<Rightarrow> ((exc + pydict) \<times> bridge) option" where
  "recovery E action b =
     (if action = ''clear_control_hold'' \<or> action = ''reload_profiles'' then
        with_acceptance E ''recovery''
          [(''reason'', PStr action), (''reload_bundle'', PBool (action = ''reload_profiles''))]
          (\<lambda>y. rejected E y ''RequestRecovery rejected'' ''request_recovery''
             [(''resulting_health_reason'', PStr (y_health_reason y))])
          (recovery_commit action) b
      else Some (Inl (ApiErr ''VALIDATION_ERROR''
        (''Unsupported recovery action '' @ quoted action) 422 False [] None (c_uuid E)), b))"

text \<open>The test hooks, and the gate in front of them: the environment variable or a loaded pytest.\<close>

definition allow_test_hooks :: "world \<Rightarrow> bool \<Rightarrow> bool" where
  "allow_test_hooks w pytest_loaded \<longleftrightarrow>
     getenv w ''PERCEPTSHIFT_API_ALLOW_TEST_HOOKS'' = Some ''1'' \<or> pytest_loaded"

definition seed_profile :: "bool \<Rightarrow> profile_summary \<Rightarrow> bridge \<Rightarrow> (exc + unit) \<times> bridge" where
  "seed_profile allowed p b = (if \<not> allowed then (Inl (PyErr RuntimeError ''seed_profile is test-only''), b)
     else (Inr (), upd_state (\<lambda>s. s\<lparr>s_profiles := AList.update (pr_id p) p (s_profiles s)\<rparr>) b))"

definition mark_connected_for_tests :: "bool \<Rightarrow> int \<Rightarrow> bridge \<Rightarrow> (exc + unit) \<times> bridge" where
  "mark_connected_for_tests allowed now b = (if \<not> allowed
     then (Inl (PyErr RuntimeError (''mark_connected_for_tests is test-only; '' @
       ''set PERCEPTSHIFT_API_ALLOW_TEST_HOOKS=1'')), b)
     else (Inr (), (upd_state (\<lambda>s. s\<lparr>s_connected := True, s_available := True, s_mode := ''ros'',
       s_health := ''healthy'', s_reason_codes := [], s_reason_code := ''OK'', s_message := ''Connected'',
       s_health_at := Some now\<rparr>) b)\<lparr>b_client_ready := False\<rparr>))"

section \<open>The bridge as a state machine\<close>

datatype mutation = Set_policy policy_patch | Pin string | Clear_pin | Recover string

abbreviation ignore_value :: "((exc + 'a) \<times> bridge) option \<Rightarrow> ((exc + unit) \<times> bridge) option" where
  "ignore_value r \<equiv> map_option (\<lambda>(x, b). (case x of Inl e \<Rightarrow> Inl e | Inr v \<Rightarrow> Inr (), b)) r"

fun mutate :: "call_env \<Rightarrow> mutation \<Rightarrow> bridge \<Rightarrow> ((exc + unit) \<times> bridge) option" where
  "mutate E (Set_policy p) b = ignore_value (set_policy E p b)"
| "mutate E (Pin pid) b = pin_profile E pid b"
| "mutate E Clear_pin b = clear_pin E b"
| "mutate E (Recover action) b = ignore_value (recovery E action b)"

inductive bridge_step :: "bridge \<Rightarrow> bridge \<Rightarrow> bool" where
  Start: "\<not> b_running b \<Longrightarrow> bridge_step b (start env b)"
| Open: "b_running b \<Longrightarrow> bridge_step b (open_executor b)"
| Run: "b_running b \<Longrightarrow> bridge_step b (run_callback c b)"
| Fail: "b_running b \<Longrightarrow> bridge_step b (teardown_ros (executor_failed b))"
| Finish: "b_running b \<Longrightarrow> b_stop b \<Longrightarrow> bridge_step b (teardown_ros b)"
| Stop: "bridge_step b (stop_bridge joined b)"
| Publisher: "bridge_step b (set_loop_publish registered b)"
| Mutate: "mutate E op b = Some (r, b') \<Longrightarrow> b_running b \<or> c_meanwhile E = [] \<Longrightarrow> bridge_step b b'"

inductive bridge_reaches :: "bridge \<Rightarrow> bridge \<Rightarrow> bool" where
  Init: "bridge_reaches b b"
| Step: "bridge_reaches b b' \<Longrightarrow> bridge_step b' b'' \<Longrightarrow> bridge_reaches b b''"

definition state_ok :: "bridge_state \<Rightarrow> bool" where
  "state_ok s \<longleftrightarrow> s_pinned s = po_pinned (s_policy s) \<and>
     (s_connected s \<longrightarrow> s_available s \<and> s_reason_code s = ''OK'') \<and>
     (s_available s \<longrightarrow> s_mode s = ''ros'') \<and>
     distinct (map fst (s_profiles s)) \<and> (\<forall>(k, p)\<in>set (s_profiles s). pr_id p = k) \<and>
     distinct (s_reason_codes s)"

definition bridge_ok :: "bridge \<Rightarrow> bool" where
  "bridge_ok b \<longleftrightarrow> state_ok (b_state b) \<and> (b_running b \<longrightarrow> s_available (b_state b))"

lemma publish_event_fields [simp]:
  "b_state (publish_event t p tr b) = b_state b" "b_running (publish_event t p tr b) = b_running b"
  "b_sent (publish_event t p tr b) = b_sent b"
  by (simp_all add: publish_event_def)

lemma profiles_update_ok:
  assumes "distinct (map fst ps)" and "\<forall>(k, p)\<in>set ps. pr_id p = k" and "pr_id p0 = k0"
  shows "distinct (map fst (AList.update k0 p0 ps))" "\<forall>(k, p)\<in>set (AList.update k0 p0 ps). pr_id p = k"
proof -
  show "distinct (map fst (AList.update k0 p0 ps))" using assms(1) by (rule distinct_update)
  show "\<forall>(k, p)\<in>set (AList.update k0 p0 ps). pr_id p = k"
    using set_update_subset [of k0 p0 ps] assms(2,3) by fast
qed

lemma default_state_ok: "state_ok (store_only r m)" "state_ok default_state"
  by (simp_all add: state_ok_def store_only_def default_state_def default_policy_def)

lemma start_ok: "\<not> b_running b \<Longrightarrow> bridge_ok b \<Longrightarrow> bridge_ok (start env b)"
  by (simp add: start_def bridge_ok_def default_state_ok split: ros_env.splits)
    (simp add: state_ok_def default_state_def default_policy_def)

lemma refresh_ok: "bridge_ok b \<Longrightarrow> bridge_ok (refresh_graph_state ready b)"
  by (auto simp: refresh_graph_state_def bridge_ok_def state_ok_def Let_def)

lemma refresh_running [simp]: "b_running (refresh_graph_state ready b) = b_running b"
  by (simp add: refresh_graph_state_def Let_def)

lemma run_callback_running [simp]: "b_running (run_callback c b) = b_running b"
  by (cases c) (simp_all add: on_health_def on_profile_def on_switch_def on_trace_def on_control_hold_def Let_def)

lemma run_callback_sent [simp]: "b_sent (run_callback c b) = b_sent b"
  by (cases c) (simp_all add: on_health_def on_profile_def on_switch_def on_trace_def on_control_hold_def
    refresh_graph_state_def Let_def)

lemma on_health_ok: "bridge_ok b \<Longrightarrow> s_available (b_state b) \<Longrightarrow> bridge_ok (on_health now m b)"
  by (auto simp: on_health_def bridge_ok_def state_ok_def Let_def)

lemma on_profile_ok:
  assumes "bridge_ok b"
  shows "bridge_ok (on_profile now m b)"
proof -
  have pid: "pr_id (profile_of m) = pm_id m" by (simp add: profile_of_def)
  have d: "distinct (map fst (s_profiles (b_state b)))"
    and k: "\<forall>(k, p)\<in>set (s_profiles (b_state b)). pr_id p = k"
    using assms by (simp_all add: bridge_ok_def state_ok_def)
  from assms profiles_update_ok [OF d k pid] show ?thesis
    by (simp add: on_profile_def bridge_ok_def state_ok_def Let_def set_pin_def)
qed

lemma run_callback_ok: "bridge_ok b \<Longrightarrow> b_running b \<Longrightarrow> bridge_ok (run_callback c b)"
proof (cases c)
  case (Health now m)
  assume "bridge_ok b" "b_running b"
  with Health show ?thesis using on_health_ok by (simp add: bridge_ok_def)
next
  case (Switch now m)
  then show "bridge_ok b \<Longrightarrow> ?thesis" by (simp add: on_switch_def bridge_ok_def state_ok_def)
next
  case (Trace now m)
  then show "bridge_ok b \<Longrightarrow> ?thesis" by (simp add: on_trace_def bridge_ok_def state_ok_def)
next
  case (Hold now m)
  then show "bridge_ok b \<Longrightarrow> ?thesis"
    by (simp add: on_control_hold_def bridge_ok_def state_ok_def Let_def)
qed (simp_all add: on_profile_ok refresh_ok)

lemma run_callbacks_ok: "bridge_ok b \<Longrightarrow> b_running b \<Longrightarrow> bridge_ok (fold run_callback cs b)"
  by (induction cs arbitrary: b) (simp_all add: run_callback_ok)

lemma fold_run_callback_fields: "b_running (fold run_callback cs b) = b_running b"
    "b_sent (fold run_callback cs b) = b_sent b"
  by (induction cs arbitrary: b) simp_all

text \<open>The shared part of the mutations, by outcome.\<close>

lemma with_acceptance_cases:
  assumes "with_acceptance E name request reject commit b = Some (r, b')"
  shows "(\<exists>e. r = Inl e \<and> (b' = b \<or> b' = fold run_callback (c_meanwhile E) (b\<lparr>b_sent := b_sent b @ [(name, request)]\<rparr>)))
    \<or> (\<exists>y v. c_reply E name request = Inr y \<and> y_accepted y \<and> r = Inr v
        \<and> commit y (fold run_callback (c_meanwhile E) (b\<lparr>b_sent := b_sent b @ [(name, request)]\<rparr>)) = (v, b'))"
proof (cases "require_srv_type E name b")
  case (Inl e)
  with assms show ?thesis by (auto simp: with_acceptance_def)
next
  case (Inr u)
  with assms obtain r1 b1 where call: "call_service E name request b = Some (r1, b1)"
      and r: "(r, b') = (case r1 of Inl e \<Rightarrow> (Inl e, b1)
        | Inr y \<Rightarrow> if y_accepted y then (case commit y b1 of (x, b2) \<Rightarrow> (Inr x, b2)) else (Inl (reject y), b1))"
    by (auto simp: with_acceptance_def)
  show ?thesis
  proof (cases r1)
    case (Inl e)
    with call r show ?thesis by (auto simp: call_service_def Let_def split: sum.splits)
  next
    case (Inr y)
    from call Inr obtain e where b1: "b1 = fold run_callback (c_meanwhile E)
        (b\<lparr>b_sent := b_sent b @ [(name, request)]\<rparr>)" and e: "wait_outcome E b name request e = Inr y"
      by (auto simp: call_service_def Let_def split: sum.splits)
    from e have y: "c_reply E name request = Inr y"
      by (cases e) (auto simp: wait_outcome_def split: sum.splits)
    show ?thesis
    proof (cases "y_accepted y")
      case True
      with r Inr b1 y show ?thesis by (auto split: prod.splits)
    next
      case False
      with r Inr b1 show ?thesis by auto
    qed
  qed
qed

lemma commit_ok:
  "bridge_ok b \<Longrightarrow> bridge_ok (upd_state (set_pin p) b)"
  "bridge_ok b \<Longrightarrow> bridge_ok (snd (commit_policy q y b))"
  "bridge_ok b \<Longrightarrow> bridge_ok (snd (recovery_commit action y b))"
  by (simp_all add: bridge_ok_def state_ok_def set_pin_def commit_policy_def patched_policy_def
    recovery_commit_def Let_def)

text \<open>The mutations as one: the service, the request and the commit of each.\<close>

fun mutation_service :: "mutation \<Rightarrow> string" where
  "mutation_service (Set_policy p) = ''policy''"
| "mutation_service (Pin pid) = ''pin''"
| "mutation_service Clear_pin = ''clear_pin''"
| "mutation_service (Recover a) = ''recovery''"

fun mutation_request :: "bridge \<Rightarrow> mutation \<Rightarrow> pydict" where
  "mutation_request b (Set_policy p) = policy_request p"
| "mutation_request b (Pin pid) = [(''profile_id'', PStr pid), (''duration_seconds'', PInt (b_pin_seconds b)),
     (''reason'', PStr ''operator_api'')]"
| "mutation_request b Clear_pin = [(''reason'', PStr ''operator_api'')]"
| "mutation_request b (Recover a) = [(''reason'', PStr a), (''reload_bundle'', PBool (a = ''reload_profiles''))]"

fun mutation_commit :: "mutation \<Rightarrow> reply \<Rightarrow> bridge \<Rightarrow> bridge" where
  "mutation_commit (Set_policy p) y b = snd (commit_policy p y b)"
| "mutation_commit (Pin pid) y b = upd_state (set_pin (Some pid)) b"
| "mutation_commit Clear_pin y b = upd_state (set_pin None) b"
| "mutation_commit (Recover a) y b = snd (recovery_commit a y b)"

definition after_callbacks :: "call_env \<Rightarrow> mutation \<Rightarrow> bridge \<Rightarrow> bridge" where
  "after_callbacks E op b = fold run_callback (c_meanwhile E)
     (b\<lparr>b_sent := b_sent b @ [(mutation_service op, mutation_request b op)]\<rparr>)"

lemma mutate_cases:
  assumes "mutate E op b = Some (r, b')"
  shows "(case r of
      Inl e \<Rightarrow> b' = b \<or> b' = after_callbacks E op b
    | Inr u \<Rightarrow> (\<exists>p. op = Set_policy p \<and> patch_empty p \<and> b' = b) \<or>
        (\<exists>y. c_reply E (mutation_service op) (mutation_request b op) = Inr y \<and> y_accepted y \<and>
           b' = mutation_commit op y (after_callbacks E op b)))"
proof (cases op)
  case (Set_policy p)
  show ?thesis
  proof (cases "patch_empty p")
    case True
    with assms Set_policy show ?thesis by (auto simp: set_policy_def)
  next
    case False
    with assms Set_policy obtain r0 where
      w: "with_acceptance E ''policy'' (policy_request p)
        (\<lambda>y. rejected E y ''UpdateRuntimePolicy rejected'' ''update_runtime_policy'' [])
        (commit_policy p) b = Some (r0, b')" and r: "r = (case r0 of Inl e \<Rightarrow> Inl e | Inr v \<Rightarrow> Inr ())"
      by (auto simp: set_policy_def)
    from with_acceptance_cases [OF w] r Set_policy show ?thesis
      by (elim disjE exE conjE) (simp_all add: after_callbacks_def)
  qed
next
  case (Pin pid)
  with assms have w: "with_acceptance E ''pin''
     [(''profile_id'', PStr pid), (''duration_seconds'', PInt (b_pin_seconds b)),
      (''reason'', PStr ''operator_api'')]
     (\<lambda>y. rejected E y ''PinProfile rejected'' ''pin_profile'' [(''profile_id'', PStr pid)])
     (\<lambda>y b1. ((), upd_state (set_pin (Some pid)) b1)) b = Some (r, b')"
    by (simp add: pin_profile_def)
  from with_acceptance_cases [OF w] Pin show ?thesis by (elim disjE exE conjE) (simp_all add: after_callbacks_def)
next
  case Clear_pin
  with assms have w: "with_acceptance E ''clear_pin'' [(''reason'', PStr ''operator_api'')]
     (\<lambda>y. rejected E y ''ClearProfilePin rejected'' ''clear_profile_pin'' [])
     (\<lambda>y b1. ((), upd_state (set_pin None) b1)) b = Some (r, b')"
    by (simp add: clear_pin_def)
  from with_acceptance_cases [OF w] Clear_pin show ?thesis
    by (elim disjE exE conjE) (simp_all add: after_callbacks_def)
next
  case (Recover a)
  show ?thesis
  proof (cases "a = ''clear_control_hold'' \<or> a = ''reload_profiles''")
    case False
    with assms Recover show ?thesis by (auto simp: recovery_def)
  next
    case True
    with assms Recover obtain r0 where
      w: "with_acceptance E ''recovery''
          [(''reason'', PStr a), (''reload_bundle'', PBool (a = ''reload_profiles''))]
          (\<lambda>y. rejected E y ''RequestRecovery rejected'' ''request_recovery''
             [(''resulting_health_reason'', PStr (y_health_reason y))])
          (recovery_commit a) b = Some (r0, b')" and r: "r = (case r0 of Inl e \<Rightarrow> Inl e | Inr v \<Rightarrow> Inr ())"
      by (auto simp: recovery_def)
    from with_acceptance_cases [OF w] r Recover show ?thesis
      by (elim disjE exE conjE) (simp_all add: after_callbacks_def)
  qed
qed

text \<open>When a mutation calls the runtime, when its request goes out, and when the reply is an acceptance
  that arrives before the wait ends otherwise.\<close>

definition mutation_calls :: "mutation \<Rightarrow> bool" where
  "mutation_calls op \<longleftrightarrow> (case op of Set_policy p \<Rightarrow> \<not> patch_empty p
     | Recover a \<Rightarrow> a = ''clear_control_hold'' \<or> a = ''reload_profiles'' | _ \<Rightarrow> True)"

definition request_sent :: "call_env \<Rightarrow> string \<Rightarrow> bridge \<Rightarrow> bool" where
  "request_sent E name b \<longleftrightarrow> require_srv_type E name b = Inr () \<and> require_client E name b = Inr ()"

definition reply_accepts :: "call_env \<Rightarrow> string \<Rightarrow> pydict \<Rightarrow> bridge \<Rightarrow> reply \<Rightarrow> bool" where
  "reply_accepts E name request b y \<longleftrightarrow> request_sent E name b
     \<and> (\<exists>i. wait_future (b_timeout b) (c_wait E) = Some (Finished i)) \<and> c_reply E name request = Inr y \<and> y_accepted y"

lemma with_acceptance_exact:
  assumes "with_acceptance E name request reject commit b = Some (r, b')"
    and "a = fold run_callback (c_meanwhile E) (b\<lparr>b_sent := b_sent b @ [(name, request)]\<rparr>)"
  shows "reply_accepts E name request b y \<Longrightarrow> r = Inr (fst (commit y a)) \<and> b' = snd (commit y a)"
    and "\<nexists>y. reply_accepts E name request b y \<Longrightarrow> isl r \<and> b' = (if request_sent E name b then a else b)"
proof -
  show "r = Inr (fst (commit y a)) \<and> b' = snd (commit y a)" if "reply_accepts E name request b y"
    using that assms by (auto simp: reply_accepts_def request_sent_def with_acceptance_def call_service_def
      wait_outcome_def split: prod.splits)
  assume no: "\<nexists>y. reply_accepts E name request b y"
  show "isl r \<and> b' = (if request_sent E name b then a else b)"
  proof (cases "request_sent E name b")
    case False
    with assms(1) show ?thesis
      by (auto simp: request_sent_def with_acceptance_def call_service_def split: sum.splits)
  next
    case True
    with assms obtain e where w: "wait_future (b_timeout b) (c_wait E) = Some e"
      and r: "(r, b') = (case wait_outcome E b name request e of Inl x \<Rightarrow> (Inl x, a)
        | Inr y \<Rightarrow> if y_accepted y then (case commit y a of (x, b2) \<Rightarrow> (Inr x, b2)) else (Inl (reject y), a))"
      by (auto simp: request_sent_def with_acceptance_def call_service_def)
    have "\<not> y_accepted y" if "wait_outcome E b name request e = Inr y" for y
      using that no True w unfolding reply_accepts_def
      by (cases e) (auto simp: wait_outcome_def split: sum.splits)
    with r True show ?thesis by (auto split: sum.splits)
  qed
qed

text \<open>C6. A mutation commits to the mirrored state exactly when the runtime accepted it. When the request
  went out and an accepting reply arrived before the wait ended by shutdown or deadline, the mutation
  succeeds and its commit is applied to the state the callbacks left; in every other case nothing is
  committed: the state is the one the callbacks left if the request went out, untouched if not, and the
  mutation fails, unless it is the patch with no field, which is answered without a call.\<close>

theorem mutation_needs_acceptance:
  assumes "mutate E op b = Some (r, b')"
  shows "if mutation_calls op then
      (\<forall>y. reply_accepts E (mutation_service op) (mutation_request b op) b y \<longrightarrow>
         r = Inr () \<and> b' = mutation_commit op y (after_callbacks E op b))
      \<and> ((\<nexists>y. reply_accepts E (mutation_service op) (mutation_request b op) b y) \<longrightarrow>
         isl r \<and> b' = (if request_sent E (mutation_service op) b then after_callbacks E op b else b))
    else b' = b \<and> (isl r \<longleftrightarrow> (\<exists>a. op = Recover a))"
proof (cases "mutation_calls op")
  case False
  with assms show ?thesis by (cases op) (auto simp: mutation_calls_def set_policy_def recovery_def)
next
  case True
  have exact: "(\<forall>y. reply_accepts E name request b y \<longrightarrow> \<not> isl r' \<and> b' = snd (commit y a))
      \<and> ((\<nexists>y. reply_accepts E name request b y) \<longrightarrow> isl r' \<and> b' = (if request_sent E name b then a else b))"
    if "with_acceptance E name request reject commit b = Some (r', b')"
      "a = fold run_callback (c_meanwhile E) (b\<lparr>b_sent := b_sent b @ [(name, request)]\<rparr>)"
    for name request reject a and r' :: "exc + 'v" and commit :: "reply \<Rightarrow> bridge \<Rightarrow> 'v \<times> bridge"
    using with_acceptance_exact [OF that] by (metis sum.disc(2))
  have forget: "r = Inr () \<longleftrightarrow> \<not> isl r0" "isl r \<longleftrightarrow> isl r0"
    if "r = (case r0 of Inl e \<Rightarrow> Inl e | Inr v \<Rightarrow> Inr ())" for r0 :: "exc + 'v"
    using that by (cases r0; simp)+
  have unit: "r = Inr () \<longleftrightarrow> \<not> isl r" by (cases r) simp_all
  show ?thesis
  proof (cases op)
    case (Set_policy p)
    with True assms obtain r0 where w: "with_acceptance E ''policy'' (policy_request p)
        (\<lambda>y. rejected E y ''UpdateRuntimePolicy rejected'' ''update_runtime_policy'' [])
        (commit_policy p) b = Some (r0, b')" and r: "r = (case r0 of Inl e \<Rightarrow> Inl e | Inr v \<Rightarrow> Inr ())"
      by (auto simp: mutation_calls_def set_policy_def)
    from exact [OF w refl] True show ?thesis
      unfolding forget [OF r] by (simp add: Set_policy after_callbacks_def)
  next
    case (Recover a)
    with True assms obtain r0 where w: "with_acceptance E ''recovery''
          [(''reason'', PStr a), (''reload_bundle'', PBool (a = ''reload_profiles''))]
          (\<lambda>y. rejected E y ''RequestRecovery rejected'' ''request_recovery''
             [(''resulting_health_reason'', PStr (y_health_reason y))])
          (recovery_commit a) b = Some (r0, b')" and r: "r = (case r0 of Inl e \<Rightarrow> Inl e | Inr v \<Rightarrow> Inr ())"
      by (auto simp: mutation_calls_def recovery_def)
    from exact [OF w refl] True show ?thesis
      unfolding forget [OF r] by (simp add: Recover after_callbacks_def)
  next
    case (Pin pid)
    from exact [OF assms [unfolded Pin mutate.simps pin_profile_def] refl] True show ?thesis
      unfolding unit by (simp add: Pin after_callbacks_def)
  next
    case Clear_pin
    from exact [OF assms [unfolded Clear_pin mutate.simps clear_pin_def] refl] True show ?thesis
      unfolding unit by (simp add: Clear_pin after_callbacks_def)
  qed
qed

section \<open>Reachable states\<close>

lemma executor_ok:
  "bridge_ok b \<Longrightarrow> bridge_ok (open_executor b)"
  "bridge_ok b \<Longrightarrow> bridge_ok (teardown_ros b)"
  "bridge_ok b \<Longrightarrow> bridge_ok (executor_failed b)"
  "bridge_ok b \<Longrightarrow> bridge_ok (stop_bridge joined b)"
  "bridge_ok b \<Longrightarrow> bridge_ok (set_loop_publish registered b)"
  by (auto simp: bridge_ok_def state_ok_def open_executor_def teardown_ros_def executor_failed_def
    stop_bridge_def set_loop_publish_def Let_def)

lemma mutate_ok:
  assumes ok: "bridge_ok b" and run: "mutate E op b = Some (r, b')"
    and th: "b_running b \<or> c_meanwhile E = []"
  shows "bridge_ok b'"
proof -
  have sent: "bridge_ok (b\<lparr>b_sent := x\<rparr>)" for x using ok by (simp add: bridge_ok_def)
  have after: "bridge_ok (after_callbacks E op b)"
    using th run_callbacks_ok [OF sent] sent unfolding after_callbacks_def by fastforce
  have commit: "bridge_ok (mutation_commit op y (after_callbacks E op b))" for y
    using commit_ok after by (cases op) simp_all
  show ?thesis using mutate_cases [OF run] ok after commit by (cases r) auto
qed

lemma bridge_step_ok: "bridge_step b b' \<Longrightarrow> bridge_ok b \<Longrightarrow> bridge_ok b'"
proof (induction rule: bridge_step.induct)
  case (Start b env)
  then show ?case using start_ok by blast
next
  case (Run b c)
  then show ?case using run_callback_ok by blast
next
  case (Mutate E op b r b')
  then show ?case using mutate_ok by blast
qed (simp_all add: executor_ok)

lemma bridge_reaches_ok: "bridge_reaches b b' \<Longrightarrow> bridge_ok b \<Longrightarrow> bridge_ok b'"
  by (induction rule: bridge_reaches.induct) (auto intro: bridge_step_ok)

lemma bridge_init_ok: "bridge_ok (bridge_init e t st n p)"
  by (simp add: bridge_ok_def bridge_init_def default_state_ok Let_def)

lemma at_most_one:
  assumes "distinct (map fst ps)" and "\<forall>(k, p)\<in>set ps. pr_id p = k"
  shows "length (filter (\<lambda>(k, p). Some (pr_id p) = x) ps) \<le> 1"
  using assms
proof (induction ps)
  case (Cons kp ps)
  obtain k p where kp: "kp = (k, p)" by fastforce
  show ?case
  proof (cases "Some (pr_id p) = x")
    case False
    with Cons kp show ?thesis by simp
  next
    case True
    have "pr_id q \<noteq> pr_id p" if "(l, q) \<in> set ps" for l q
    proof -
      have "l \<in> fst ` set ps" using that by force
      then have "l \<noteq> k" using Cons.prems(1) kp by auto
      moreover have "pr_id q = l" "pr_id p = k" using Cons.prems(2) kp that by auto
      ultimately show ?thesis by simp
    qed
    then have "filter (\<lambda>(k, p). Some (pr_id p) = x) ps = []"
      using True by (auto simp: filter_empty_conv)
    with kp True show ?thesis by simp
  qed
qed simp

text \<open>C11. In every state the bridge can reach, whatever messages, failures, shutdowns and mutations
  came before: the pin shown in the state and in the policy agree, a connected bridge reports the
  mode \<open>ros\<close> with reason \<open>OK\<close> and nothing unavailable, a disconnected one reports why, and the
  profile listing has at most one active and one pinned profile.\<close>

theorem bridge_consistent:
  assumes "bridge_reaches (bridge_init e t st n p) b"
  shows "s_pinned (b_state b) = po_pinned (runtime_policy b)
    \<and> (if s_connected (b_state b) then rs_mode (status_of now b) = ''ros'' \<and> s_reason_code (b_state b) = ''OK''
          \<and> rs_unavailable (status_of now b) = []
       else rs_freshness (status_of now b) = None \<and> rs_unavailable (status_of now b)
          = [(''runtime'', s_reason_code (b_state b), s_message (b_state b))])
    \<and> length (filter pr_active (list_profiles b)) \<le> 1 \<and> length (filter pr_pinned (list_profiles b)) \<le> 1"
proof -
  have ok: "state_ok (b_state b)"
    using bridge_reaches_ok [OF assms bridge_init_ok] by (simp add: bridge_ok_def)
  have one: "length (filter (\<lambda>(k, q). Some (pr_id q) = x) (s_profiles (b_state b))) \<le> 1" for x
    by (rule at_most_one) (use ok in \<open>simp_all add: state_ok_def\<close>)
  have "length (filter pr_active (list_profiles b)) \<le> 1" "length (filter pr_pinned (list_profiles b)) \<le> 1"
    using one [of "s_active (b_state b)"] one [of "s_pinned (b_state b)"]
    by (simp_all add: list_profiles_def filter_map comp_def marked_def case_prod_unfold)
  with ok show ?thesis by (simp add: state_ok_def runtime_policy_def status_of_def Let_def)
qed

section \<open>The wait ends\<close>

declare wait_loop.simps [code]

lemma wait_loop_ends:
  assumes "fl_le deadline (f_clock f (Suc n))" and "i \<le> n"
  shows "\<exists>e. wait_loop f deadline i = Some e \<and> (case e of
      Finished j \<Rightarrow> i \<le> j \<and> j \<le> n \<and> f_done f j
    | Shut_down j \<Rightarrow> i \<le> j \<and> j \<le> n \<and> f_stopped f j \<and> \<not> f_done f j
    | Timed_out j \<Rightarrow> i \<le> j \<and> j \<le> n \<and> fl_le deadline (f_clock f (Suc j)) \<and> \<not> f_done f j)"
  using assms(2)
proof (induction "n - i" arbitrary: i)
  case 0
  then have "i = n" by simp
  with assms(1) show ?case by (subst wait_loop.simps) auto
next
  case (Suc k)
  then have "i < n" by simp
  then obtain e where e: "wait_loop f deadline (Suc i) = Some e" "(case e of
      Finished j \<Rightarrow> Suc i \<le> j \<and> j \<le> n \<and> f_done f j
    | Shut_down j \<Rightarrow> Suc i \<le> j \<and> j \<le> n \<and> f_stopped f j \<and> \<not> f_done f j
    | Timed_out j \<Rightarrow> Suc i \<le> j \<and> j \<le> n \<and> fl_le deadline (f_clock f (Suc j)) \<and> \<not> f_done f j)"
  proof -
    have "k = n - Suc i" "Suc i \<le> n" using Suc.hyps(2) by simp_all
    from Suc.hyps(1) [OF this] that show thesis by blast
  qed
  show ?case
    using e \<open>i < n\<close> by (subst wait_loop.simps) (auto split: wait_end.splits)
qed

text \<open>C20. The wait for a service returns as soon as the clock has reached the deadline at the latest:
  if the \<open>n\<close>-th reading does, the loop ends within \<open>n\<close> turns, with a reply only when the future was
  done, and with a time-out only when the deadline had passed and it was not.\<close>

theorem service_wait_ends:
  assumes "fl_le (fl_add (f_clock f 0) timeout) (f_clock f (Suc n))"
  shows "\<exists>e. wait_future timeout f = Some e \<and> (case e of
      Finished j \<Rightarrow> j \<le> n \<and> f_done f j
    | Shut_down j \<Rightarrow> j \<le> n \<and> f_stopped f j \<and> \<not> f_done f j
    | Timed_out j \<Rightarrow> j \<le> n \<and> fl_le (fl_add (f_clock f 0) timeout) (f_clock f (Suc j)) \<and> \<not> f_done f j)"
  using wait_loop_ends [OF assms, of 0] by (simp add: wait_future_def cong: wait_end.case_cong)

text \<open>C31. A patch without a deadline asks the runtime for nothing: the request sent has no field, yet
  once it is accepted the local policy shows the new switches as set by the operator.\<close>

theorem policy_switches_not_sent:
  assumes "set_policy E p b = Some (Inr q, b')" and "pt_deadline p = None" and "pt_auto_switch p = Some a"
  shows "b_sent b' = b_sent b @ [(''policy'', [])] \<and> po_auto_switch (runtime_policy b') = a
    \<and> po_source (runtime_policy b') = ''operator''"
proof -
  have "\<not> patch_empty p" using assms(3) by (simp add: patch_empty_def)
  then have w: "with_acceptance E ''policy'' (policy_request p)
      (\<lambda>y. rejected E y ''UpdateRuntimePolicy rejected'' ''update_runtime_policy'' [])
      (commit_policy p) b = Some (Inr q, b')"
    using assms(1) by (simp add: set_policy_def)
  have req: "policy_request p = []" using assms(2) by (simp add: policy_request_def)
  from with_acceptance_cases [OF w] req obtain y where
    "commit_policy p y (fold run_callback (c_meanwhile E) (b\<lparr>b_sent := b_sent b @ [(''policy'', [])]\<rparr>)) = (q, b')"
    by auto
  then have b': "b' = snd (commit_policy p y (fold run_callback (c_meanwhile E)
      (b\<lparr>b_sent := b_sent b @ [(''policy'', [])]\<rparr>)))"
    by simp
  show ?thesis
    unfolding b' using assms(2,3)
    by (simp add: commit_policy_def patched_policy_def fold_run_callback_fields runtime_policy_def Let_def)
qed

section \<open>A sample run\<close>

definition sample_waiter :: waiter where
  "sample_waiter = \<lparr>f_done = (\<lambda>i. 1 \<le> i), f_stopped = (\<lambda>i. False), f_clock = (\<lambda>i. Fin 0)\<rparr>"

definition sample_call :: call_env where
  "sample_call = \<lparr>c_ready = [''pin'', ''policy''], c_wait = sample_waiter, c_meanwhile = [],
     c_reply = (\<lambda>n r. Inr \<lparr>y_accepted = True, y_error_code = [], y_error_message = [], y_health_reason = []\<rparr>),
     c_uuid = ''u''\<rparr>"

definition sample_health :: health_msg where
  "sample_health = \<lparr>hm_state = 1, hm_reason = [], hm_trace = [], hm_active = ''p'', hm_stale = False,
     hm_hold = False, hm_memory = 0, hm_temperature = Fin 0, hm_temperature_valid = False,
     hm_throttling = False, hm_throttling_valid = False\<rparr>"

definition sample_init :: bridge where
  "sample_init = bridge_init True (Fin 2) (Fin 5) ''n'' 900"

definition sample_bridge :: bridge where
  "sample_bridge = on_health 7 sample_health (open_executor (start Ros_ready sample_init))"

lemma sample_bridge_fields:
  "s_connected (b_state sample_bridge)" "b_services sample_bridge = [''status'', ''policy'', ''pin'', ''clear_pin'', ''recovery'']"
  "b_timeout sample_bridge = Fin 2" "map fst (b_clients sample_bridge) = [''status'', ''policy'', ''pin'', ''clear_pin'', ''recovery'']"
  "b_running sample_bridge" "b_sent sample_bridge = []"
  by (simp_all add: sample_bridge_def sample_init_def on_health_def publish_event_def open_executor_def start_def
    bridge_init_def service_clients_def Let_def)

lemma sample_client: "name = ''pin'' \<or> name = ''policy'' \<Longrightarrow> require_client sample_call name sample_bridge = Inr ()"
proof -
  have "map_of (b_clients sample_bridge) ''pin'' \<noteq> None" "map_of (b_clients sample_bridge) ''policy'' \<noteq> None"
    by (simp_all add: sample_bridge_def sample_init_def on_health_def publish_event_def open_executor_def
      start_def bridge_init_def service_clients_def Let_def)
  moreover have "''pin'' \<in> set (c_ready sample_call)" "''policy'' \<in> set (c_ready sample_call)"
    by (simp_all add: sample_call_def)
  ultimately show "name = ''pin'' \<or> name = ''policy'' \<Longrightarrow> ?thesis"
    by (elim disjE) (simp_all add: require_client_def require_connected_def sample_bridge_fields(1))
qed

lemma sample_wait_done: "wait_future (Fin 2) sample_waiter = Some (Finished 1)"
proof -
  have "fl_add (Fin 0) (Fin 2) = Fin 2" by code_simp
  then show ?thesis
    unfolding wait_future_def by (subst wait_loop.simps, subst wait_loop.simps) (simp add: sample_waiter_def)
qed

lemma sample_call_run:
  assumes "name = ''pin'' \<or> name = ''policy''"
  shows "call_service sample_call name request sample_bridge
    = Some (Inr \<lparr>y_accepted = True, y_error_code = [], y_error_message = [], y_health_reason = []\<rparr>,
        sample_bridge\<lparr>b_sent := [(name, request)]\<rparr>)"
proof -
  have "c_wait sample_call = sample_waiter" "c_meanwhile sample_call = []" by (simp_all add: sample_call_def)
  then show ?thesis
    using sample_client [OF assms]
    by (simp add: call_service_def sample_bridge_fields sample_wait_done wait_outcome_def)
      (simp add: sample_call_def)
qed

lemma sample_pin_run:
  "\<exists>b'. mutate sample_call (Pin ''q'') sample_bridge = Some (Inr (), b')
     \<and> s_pinned (b_state b') = Some ''q''"
  by (simp add: pin_profile_def with_acceptance_def require_srv_type_def sample_bridge_fields
    sample_call_run set_pin_def)

theorem mutation_needs_acceptance_witness:
  "\<exists>b' y. mutate sample_call (Pin ''q'') sample_bridge = Some (Inr (), b') \<and> s_pinned (b_state b') = Some ''q''
    \<and> reply_accepts sample_call ''pin'' (mutation_request sample_bridge (Pin ''q'')) sample_bridge y
    \<and> b' = mutation_commit (Pin ''q'') y (after_callbacks sample_call (Pin ''q'') sample_bridge)"
proof -
  obtain b' where run: "mutate sample_call (Pin ''q'') sample_bridge = Some (Inr (), b')"
      and p: "s_pinned (b_state b') = Some ''q''"
    using sample_pin_run by blast
  have "mutation_calls (Pin ''q'')" by (simp add: mutation_calls_def)
  with mutation_needs_acceptance [OF run] run p show ?thesis by fastforce
qed

theorem bridge_consistent_witness:
  "\<exists>b'. bridge_reaches sample_init b' \<and> s_pinned (b_state b') = Some ''q''
    \<and> s_pinned (b_state b') = po_pinned (runtime_policy b')"
proof -
  obtain b' where run: "mutate sample_call (Pin ''q'') sample_bridge = Some (Inr (), b')"
      and p: "s_pinned (b_state b') = Some ''q''"
    using sample_pin_run by blast
  have n: "\<not> b_running sample_init" by (simp add: sample_init_def bridge_init_def Let_def)
  have r1: "b_running (start Ros_ready sample_init)"
    by (simp add: start_def sample_init_def bridge_init_def Let_def)
  then have r2: "b_running (open_executor (start Ros_ready sample_init))" by (simp add: open_executor_def)
  have "bridge_reaches sample_init (start Ros_ready sample_init)"
    by (rule bridge_reaches.Step [OF bridge_reaches.Init bridge_step.Start [OF n]])
  then have "bridge_reaches sample_init (open_executor (start Ros_ready sample_init))"
    by (rule bridge_reaches.Step [OF _ bridge_step.Open [OF r1]])
  then have "bridge_reaches sample_init (run_callback (Health 7 sample_health) (open_executor (start Ros_ready sample_init)))"
    by (rule bridge_reaches.Step [OF _ bridge_step.Run [OF r2]])
  then have "bridge_reaches sample_init sample_bridge" by (simp add: sample_bridge_def)
  then have "bridge_reaches sample_init b'"
    by (rule bridge_reaches.Step [OF _ bridge_step.Mutate [OF run]]) (simp add: sample_bridge_fields)
  with bridge_consistent [of True "Fin 2" "Fin 5" "''n''" 900 b' 0] p show ?thesis
    unfolding sample_init_def by blast
qed

theorem service_wait_ends_witness:
  "\<exists>e. wait_future (Fin 0) sample_waiter = Some e \<and> (case e of
      Finished j \<Rightarrow> j \<le> 0 \<and> f_done sample_waiter j
    | Shut_down j \<Rightarrow> j \<le> 0 \<and> f_stopped sample_waiter j \<and> \<not> f_done sample_waiter j
    | Timed_out j \<Rightarrow> j \<le> 0 \<and> fl_le (fl_add (f_clock sample_waiter 0) (Fin 0)) (f_clock sample_waiter (Suc j))
        \<and> \<not> f_done sample_waiter j)"
  by (rule service_wait_ends) (simp add: sample_waiter_def)

theorem policy_switches_not_sent_witness:
  "\<exists>b'. b_sent b' = [(''policy'', [])] \<and> \<not> po_auto_switch (runtime_policy b')
    \<and> po_source (runtime_policy b') = ''operator''"
proof -
  let ?p = "\<lparr>pt_deadline = None, pt_auto_switch = Some False, pt_recovery = None\<rparr>"
  obtain q b' where run: "set_policy sample_call ?p sample_bridge = Some (Inr q, b')"
    by (simp add: set_policy_def patch_empty_def with_acceptance_def require_srv_type_def
      sample_bridge_fields sample_call_run commit_policy_def Let_def)
  from policy_switches_not_sent [OF run, of False] show ?thesis
    by (auto simp: sample_bridge_fields)
qed

end
