(* ===== verification/Datasets.thy ===== *)
theory Datasets
  imports Doc_Store
begin

text \<open>
  \<open>perceptshift_forge/datasets\<close>: the validators of the four kinds of dataset manifest, which resolve
  every item under the manifest's root and record its digest, the check that two splits are
  isolated, and the summary document. The stream built from the manifests is in \<open>Stream_Build\<close>.
\<close>

section \<open>The result of a validation\<close>

record validation =
  dv_manifest :: pydict
  dv_hash :: string
  dv_contents :: "string list"
  dv_items :: int
  dv_missing :: int
  dv_duplicates :: int
  dv_classes :: "(string \<times> int) list"
  dv_warnings :: "pydict list"
  dv_errors :: "pydict list"

definition validation_ok :: "validation \<Rightarrow> bool" where
  "validation_ok v \<longleftrightarrow> length (dv_errors v) = 0"

definition load_and_validate_manifest :: "ext \<Rightarrow> ppath \<Rightarrow> pyval io" where
  "load_and_validate_manifest X p =
     bindS (load_json_document X p) (\<lambda>d. validate_document X d ''dataset_manifest'')"

definition split_overlap :: "validation \<Rightarrow> validation \<Rightarrow> string list" where
  "split_overlap cal ev =
     sort_by id (remdups (filter (\<lambda>h. h \<in> set (dv_contents ev)) (dv_contents cal)))"

definition assert_split_isolation :: "validation \<Rightarrow> validation \<Rightarrow> bool \<Rightarrow> exc + unit" where
  "assert_split_isolation cal ev prohibit_duplicates =
     bindR (guardR (dv_hash cal \<noteq> dv_hash ev)
       (ps_error DATASET_LEAKAGE ''Calibration and evaluation manifests are identical''
         (Some ''Use distinct calibration and evaluation manifests'') [] None)) (\<lambda>u.
     if \<not> prohibit_duplicates then Inr ()
     else let overlap = split_overlap cal ev in
       guardR (overlap = []) (ps_error DATASET_LEAKAGE ''Cross-split duplicate content detected''
         (Some ''Remove overlapping samples or disable prohibit_cross_split_duplicates'')
         [(''overlap_count'', PInt (int (length overlap))),
          (''reason_code'', reason_val DATASET_CROSS_SPLIT_LEAKAGE),
          (''sample_hashes'', PList (map PStr (take 16 overlap)))] None))"

definition hash_file_under_root ::
    "ext \<Rightarrow> ppath \<Rightarrow> string \<Rightarrow> bool \<Rightarrow> (ppath \<times> string) io" where
  "hash_file_under_root X base relative allow_symlinks =
     bindS (\<lambda>w. (resolve_under_root w base relative allow_symlinks ''item.path'', w)) (\<lambda>resolved.
     bindS (getS (\<lambda>w. is_file w resolved)) (\<lambda>there.
     bindS (guardS there (ps_error DATASET_INVALID
       (''Dataset item missing or unreadable: '' @ relative) None
       [(''reason_code'', reason_val DATASET_MISSING_FILE)] None)) (\<lambda>u.
     bindS (sha256_file X resolved) (\<lambda>h. retS (resolved, h)))))"

definition counts_dict :: "(string \<times> int) list \<Rightarrow> pydict" where
  "counts_dict cs = map (\<lambda>(k, n). (k, PInt n)) cs"

definition summarize_result :: "ext \<Rightarrow> validation \<Rightarrow> pydict io" where
  "summarize_result X r = bindS (envelope_fields X ''perceptshift.dataset_summary'') (\<lambda>payload.
     retS (dupdate payload
       [(''manifest_hash'', PStr (dv_hash r)), (''item_count'', PInt (dv_items r)),
        (''missing_count'', PInt (dv_missing r)), (''duplicate_count'', PInt (dv_duplicates r)),
        (''class_counts'', PDict (counts_dict (dv_classes r))),
        (''content_hash_count'', PInt (int (length (dv_contents r)))),
        (''ok'', PBool (validation_ok r)), (''warnings'', PList (map PDict (dv_warnings r))),
        (''errors'', PList (map PDict (dv_errors r)))]))"

definition content_hash_list_digest :: "ext \<Rightarrow> string list \<Rightarrow> exc + string" where
  "content_hash_list_digest X hashes = sha256_canonical X (PList (map PStr (sort_by id hashes)))"

section \<open>The tally the item loops keep\<close>

record tally =
  ta_ids :: "string list"
  ta_seen :: "(string \<times> string) list"
  ta_hashes :: "string list"
  ta_errors :: "pydict list"
  ta_warnings :: "pydict list"
  ta_missing :: int
  ta_classes :: "(string \<times> int) list"

definition tally_init :: tally where
  "tally_init = \<lparr>ta_ids = [], ta_seen = [], ta_hashes = [], ta_errors = [], ta_warnings = [],
     ta_missing = 0, ta_classes = []\<rparr>"

definition report :: "string \<Rightarrow> string \<Rightarrow> pydict" where
  "report reason message = [(''reason_code'', PStr reason), (''message'', PStr message)]"

definition add_error :: "pydict \<Rightarrow> tally \<Rightarrow> tally" where
  "add_error e t = t\<lparr>ta_errors := ta_errors t @ [e]\<rparr>"

definition item_failed :: "exc \<Rightarrow> tally \<Rightarrow> tally" where
  "item_failed e t = add_error (report
       (py_str (dget_or (ps_details e) ''reason_code'' (reason_val DATASET_MISSING_FILE))) (ps_message e))
     (t\<lparr>ta_missing := ta_missing t + 1\<rparr>)"

definition add_hash :: "string \<Rightarrow> tally \<Rightarrow> tally" where
  "add_hash h t = t\<lparr>ta_hashes := ta_hashes t @ [h]\<rparr>"

text \<open>A digest seen before is a warning; a new one is remembered with its path.\<close>

definition note_digest :: "string \<Rightarrow> string \<Rightarrow> tally \<Rightarrow> tally" where
  "note_digest h rel t = (case map_of (ta_seen t) h of
     Some other \<Rightarrow> t\<lparr>ta_warnings := ta_warnings t @ [report (reason_str DATASET_DUPLICATE)
       (''Duplicate content hash for '' @ rel @ '' and '' @ other)]\<rparr>
   | None \<Rightarrow> t\<lparr>ta_seen := (h, rel) # ta_seen t\<rparr>)"

definition counter_add :: "string \<Rightarrow> (string \<times> int) list \<Rightarrow> (string \<times> int) list" where
  "counter_add k cs = AList.update k ((case map_of cs k of None \<Rightarrow> 0 | Some n \<Rightarrow> n) + 1) cs"

definition count_class :: "string \<Rightarrow> tally \<Rightarrow> tally" where
  "count_class k t = t\<lparr>ta_classes := counter_add k (ta_classes t)\<rparr>"

definition try_hash :: "ext \<Rightarrow> ppath \<Rightarrow> string \<Rightarrow> bool \<Rightarrow> (exc + string) io" where
  "try_hash X base rel allow =
     catchS (bindS (hash_file_under_root X base rel allow) (\<lambda>(p, h). retS (Inr h)))
       (\<lambda>e. if is_ps e then retS (Inl e) else raiseS e)"

definition finish_validation :: "ext \<Rightarrow> pydict \<Rightarrow> pyval list \<Rightarrow> tally \<Rightarrow> exc + validation" where
  "finish_validation X manifest items t = bindR (sha256_canonical X (PDict manifest)) (\<lambda>h.
     Inr \<lparr>dv_manifest = manifest, dv_hash = h, dv_contents = sort_by id (ta_hashes t),
       dv_items = int (length items), dv_missing = ta_missing t,
       dv_duplicates = int (length (ta_hashes t)) - int (length (remdups (ta_hashes t))),
       dv_classes = sort_by fst (ta_classes t), dv_warnings = ta_warnings t,
       dv_errors = ta_errors t\<rparr>)"

text \<open>The items: a non-empty list, or the given error.\<close>

definition nonempty_items :: "pydict \<Rightarrow> string \<Rightarrow> exc + pyval list" where
  "nonempty_items m message = (case dget m ''items'' of
     PList xs \<Rightarrow> if xs \<noteq> [] then Inr xs else Inl (ps_err DATASET_INVALID message)
   | _ \<Rightarrow> Inl (ps_err DATASET_INVALID message))"

definition manifest_base :: "pydict \<Rightarrow> exc + ppath" where
  "manifest_base m = bindR (ditem m ''root'') path_arg"

definition wrong_type :: "string \<Rightarrow> pydict \<Rightarrow> exc" where
  "wrong_type message m = ps_error DATASET_INVALID message None
     [(''dataset_type'', dget m ''dataset_type'')] None"

definition invalid_item :: "int \<Rightarrow> string \<Rightarrow> tally \<Rightarrow> tally" where
  "invalid_item index problem t =
     add_error (report ''dataset.invalid_item'' (''Item '' @ show_int index @ problem)) t"

section \<open>Raw tensors\<close>

definition REQUIRED_TOP :: "string list" where
  "REQUIRED_TOP = [''schema_version'', ''document_type'', ''dataset_type'', ''dataset_name'',
     ''root'', ''license_reference'', ''split_name'', ''preprocess_contract'']"

definition assert_envelope :: "pydict \<Rightarrow> exc + unit" where
  "assert_envelope m =
     bindR (foldR (\<lambda>key u. guardR (dhas m key) (ps_err DATASET_INVALID
       (''raw_tensor manifest missing required field: '' @ key))) REQUIRED_TOP ()) (\<lambda>u.
     bindR (guardR (dget m ''schema_version'' = PStr ''1.0'')
       (ps_err DATASET_INVALID ''raw_tensor schema_version must be 1.0'')) (\<lambda>u.
     guardR (dget m ''document_type'' = PStr ''perceptshift.dataset_manifest'')
       (ps_err DATASET_INVALID ''document_type must be perceptshift.dataset_manifest'')))"

definition tensor_rel :: "pydict \<Rightarrow> string" where
  "tensor_rel d = py_str (py_or (py_or (dget d ''path'') (dget d ''tensor_path'')) (PStr []))"

definition tensor_id :: "pydict \<Rightarrow> string" where
  "tensor_id d = py_str (py_or (py_or (dget d ''item_id'') (dget d ''sample_id'')) (PStr (tensor_rel d)))"

definition expected_output :: "ext \<Rightarrow> ppath \<Rightarrow> bool \<Rightarrow> pydict \<Rightarrow> tally \<Rightarrow> tally io" where
  "expected_output X base allow d t = (case dget d ''expected_output_path'' of
     PStr e \<Rightarrow> if e \<noteq> [] then bindS (try_hash X base e allow) (\<lambda>r. case r of
         Inl x \<Rightarrow> retS (item_failed x t)
       | Inr h \<Rightarrow> retS (add_hash (''expected:'' @ h) t)) else retS t
   | _ \<Rightarrow> retS t)"

definition raw_item :: "ext \<Rightarrow> ppath \<Rightarrow> bool \<Rightarrow> nat \<times> pyval \<Rightarrow> tally \<Rightarrow> tally io" where
  "raw_item X base allow item t = (case item of (index, v) \<Rightarrow>
     if \<not> is_dict v then retS (invalid_item (int index) '' is not an object'' t)
     else let d = the_dict v; rel = tensor_rel d; sid = tensor_id d in
     if rel = [] then retS (invalid_item (int index) '' missing path/tensor_path'' t)
     else if sid \<in> set (ta_ids t)
     then retS (add_error (report (reason_str DATASET_DUPLICATE) (''Duplicate sample_id: '' @ sid)) t)
     else let t1 = t\<lparr>ta_ids := sid # ta_ids t\<rparr> in
     bindS (try_hash X base rel allow) (\<lambda>r. case r of
       Inl e \<Rightarrow> retS (item_failed e t1)
     | Inr h \<Rightarrow> let t2 = add_hash h (note_digest h rel t1) in
         expected_output X base allow d
           (if dhas d ''label'' then count_class (py_str (dget d ''label'')) t2 else t2)))"

definition validate_raw_tensor_manifest :: "ext \<Rightarrow> ppath \<Rightarrow> bool \<Rightarrow> validation io" where
  "validate_raw_tensor_manifest X p allow_symlinks =
     bindS (load_json_document X p) (\<lambda>doc. let m = the_dict doc in
     bindS (guardS (dget m ''dataset_type'' = PStr ''raw_tensor'')
       (wrong_type ''Expected dataset_type raw_tensor'' m)) (\<lambda>u.
     bindS (liftS (assert_envelope m)) (\<lambda>u.
     bindS (liftS (nonempty_items m ''raw_tensor manifest requires a non-empty items array'')) (\<lambda>items.
     bindS (liftS (manifest_base m)) (\<lambda>base.
     bindS (foldS (raw_item X base allow_symlinks) (enumerate 0 items) tally_init) (\<lambda>t.
     liftS (finish_validation X m items t)))))))"

section \<open>Image classification\<close>

definition class_item :: "ext \<Rightarrow> ppath \<Rightarrow> bool \<Rightarrow> nat \<times> pyval \<Rightarrow> tally \<Rightarrow> tally io" where
  "class_item X base allow item t = (case item of (index, v) \<Rightarrow>
     if \<not> is_dict v then retS (invalid_item (int index) '' is not an object'' t)
     else let d = the_dict v; rel = py_str (dget_or d ''path'' (PStr [])) in
     bindS (try_hash X base rel allow) (\<lambda>r. case r of
       Inl e \<Rightarrow> retS (item_failed e t)
     | Inr h \<Rightarrow> retS (count_class (py_str (dget d ''class_id'')) (add_hash h (note_digest h rel t)))))"

definition validate_image_classification_manifest :: "ext \<Rightarrow> ppath \<Rightarrow> bool \<Rightarrow> validation io" where
  "validate_image_classification_manifest X p allow_symlinks =
     bindS (load_and_validate_manifest X p) (\<lambda>doc. let m = the_dict doc in
     bindS (guardS (dget m ''dataset_type'' = PStr ''image_classification_manifest'')
       (wrong_type ''Expected dataset_type image_classification_manifest'' m)) (\<lambda>u.
     bindS (liftS (nonempty_items m ''Classification manifest requires a non-empty items array'')) (\<lambda>items.
     bindS (liftS (manifest_base m)) (\<lambda>base.
     bindS (foldS (class_item X base allow_symlinks) (enumerate 0 items) tally_init) (\<lambda>t.
     liftS (finish_validation X m items t))))))"

section \<open>COCO and YOLO\<close>

text \<open>\<open>set(v or [])\<close>, and membership in it; lists and dictionaries are unhashable.\<close>

definition hashable :: "pyval \<Rightarrow> bool" where
  "hashable v \<longleftrightarrow> \<not> is_list v \<and> \<not> is_dict v"

definition allowlist_of :: "pydict \<Rightarrow> exc + pyval list" where
  "allowlist_of m = bindR (py_iter (py_or (dget m ''category_allowlist'') (PList []))) (\<lambda>vs.
     bindR (guardR (list_all hashable vs) (py_err TypeError)) (\<lambda>u. Inr vs))"

definition skip_category :: "pyval list \<Rightarrow> pyval \<Rightarrow> exc + bool" where
  "skip_category allowlist cat = (if allowlist = [] then Inr False
     else bindR (guardR (hashable cat) (py_err TypeError)) (\<lambda>u.
       Inr (\<not> list_ex (\<lambda>v. py_eq v cat) allowlist)))"

definition count_annotation ::
    "pyval list \<Rightarrow> pydict \<Rightarrow> pyval \<Rightarrow> (string \<times> int) list \<Rightarrow> exc + (string \<times> int) list" where
  "count_annotation allowlist m ann cs = (if \<not> is_dict ann then Inr cs
     else let a = the_dict ann; cat = dget a ''category_id'' in
     bindR (skip_category allowlist cat) (\<lambda>skip.
     if skip then Inr cs
     else if dget m ''crowd_treatment'' = PStr ''exclude'' \<and> truthy (dget a ''iscrowd'') then Inr cs
     else Inr (counter_add (py_str cat) cs)))"

definition class_counts :: "pyval list \<Rightarrow> pydict \<Rightarrow> pyval \<Rightarrow> exc + (string \<times> int) list" where
  "class_counts allowlist m anns = (case anns of
     PList xs \<Rightarrow> foldR (count_annotation allowlist m) xs [] | _ \<Rightarrow> Inr [])"

definition coco_image :: "ext \<Rightarrow> ppath \<Rightarrow> bool \<Rightarrow> pyval \<Rightarrow> tally \<Rightarrow> tally io" where
  "coco_image X base allow im t = (if \<not> is_dict im then retS t
     else (case dget (the_dict im) ''file_name'' of
       PStr rel \<Rightarrow> bindS (try_hash X base rel allow) (\<lambda>r. case r of
           Inl e \<Rightarrow> retS (item_failed e t) | Inr h \<Rightarrow> retS (add_hash h t))
     | _ \<Rightarrow> retS (add_error (report (reason_str DATASET_MISSING_FILE) ''COCO image entry missing file_name'')
         (t\<lparr>ta_missing := ta_missing t + 1\<rparr>))))"

text \<open>The alias type is read without the schema, which does not know it yet.\<close>

definition coco_manifest :: "ext \<Rightarrow> ppath \<Rightarrow> pydict io" where
  "coco_manifest X p =
     bindS (load_json_document X p) (\<lambda>peek.
     bindS (if dget (the_dict peek) ''dataset_type'' = PStr ''yolo_v8_detection'' then retS peek
       else load_and_validate_manifest X p) (\<lambda>doc. let m = the_dict doc in
     bindS (liftS (py_in_strs (dget m ''dataset_type'') [''coco_detection'', ''yolo_v8_detection''])) (\<lambda>known.
     bindS (guardS known (wrong_type ''Expected dataset_type coco_detection or yolo_v8_detection'' m)) (\<lambda>u.
     retS m))))"

definition annotation_file :: "pydict \<Rightarrow> ppath \<Rightarrow> bool \<Rightarrow> ppath io" where
  "annotation_file m base allow =
     bindS (case dget m ''annotation_path'' of
         PStr s \<Rightarrow> if s \<noteq> [] then retS s
           else raiseS (ps_err DATASET_INVALID ''COCO manifest requires annotation_path'')
       | _ \<Rightarrow> raiseS (ps_err DATASET_INVALID ''COCO manifest requires annotation_path'')) (\<lambda>rel.
     bindS (\<lambda>w. (resolve_under_root w base rel allow ''annotation_path'', w)) (\<lambda>q.
     bindS (getS (\<lambda>w. is_file w q)) (\<lambda>there.
     bindS (guardS there (ps_error DATASET_INVALID (''COCO annotation file missing: '' @ rel) None
       [(''reason_code'', reason_val DATASET_MISSING_FILE)] None)) (\<lambda>u. retS q))))"

definition read_annotations :: "ext \<Rightarrow> ppath \<Rightarrow> pyval io" where
  "read_annotations X q = catchS (read_json X q) (\<lambda>e.
     if is_os_error e \<or> is_json_error e
     then raiseS (ps_error DATASET_INVALID ''Failed to parse COCO annotation JSON'' None [] (Some e))
     else raiseS e)"

definition image_list :: "pydict \<Rightarrow> exc + pyval list" where
  "image_list annotations = (case dget annotations ''images'' of PList xs \<Rightarrow> Inr xs
     | _ \<Rightarrow> Inl (ps_err DATASET_INVALID ''COCO annotations missing images array''))"

definition validate_coco_manifest :: "ext \<Rightarrow> ppath \<Rightarrow> bool \<Rightarrow> validation io" where
  "validate_coco_manifest X p allow_symlinks =
     bindS (coco_manifest X p) (\<lambda>m.
     bindS (liftS (manifest_base m)) (\<lambda>base.
     bindS (annotation_file m base allow_symlinks) (\<lambda>q.
     bindS (read_annotations X q) (\<lambda>v.
     bindS (liftS (as_dict v)) (\<lambda>annotations.
     bindS (liftS (image_list annotations)) (\<lambda>images.
     bindS (liftS (allowlist_of m)) (\<lambda>allowlist.
     bindS (liftS (class_counts allowlist m (dget annotations ''annotations''))) (\<lambda>cs.
     bindS (foldS (coco_image X base allow_symlinks) images (tally_init\<lparr>ta_classes := cs\<rparr>)) (\<lambda>t.
     bindS (sha256_file X q) (\<lambda>h.
     liftS (finish_validation X m images (add_hash (''annotation:'' @ h) t))))))))))))"

definition validate_yolo_v8_manifest :: "ext \<Rightarrow> ppath \<Rightarrow> bool \<Rightarrow> validation io" where
  "validate_yolo_v8_manifest X p allow_symlinks = validate_coco_manifest X p allow_symlinks"

section \<open>Dispatch\<close>

definition validate_dataset_manifest :: "ext \<Rightarrow> ppath \<Rightarrow> bool \<Rightarrow> validation io" where
  "validate_dataset_manifest X p allow_symlinks =
     bindS (load_json_document X p) (\<lambda>doc. let kind = dget (the_dict doc) ''dataset_type'' in
     if kind = PStr ''image_classification_manifest''
     then validate_image_classification_manifest X p allow_symlinks
     else if kind = PStr ''coco_detection'' then validate_coco_manifest X p allow_symlinks
     else if kind = PStr ''yolo_v8_detection'' then validate_yolo_v8_manifest X p allow_symlinks
     else if kind = PStr ''raw_tensor'' then validate_raw_tensor_manifest X p allow_symlinks
     else raiseS (ps_err DATASET_INVALID (''Unsupported dataset_type: '' @ py_str kind)))"

section \<open>What a validation established\<close>

text \<open>The digest an item gets, or none when it does not lead to a file under the root.\<close>

definition file_digest :: "ext \<Rightarrow> world \<Rightarrow> ppath \<Rightarrow> bool \<Rightarrow> string \<Rightarrow> string option" where
  "file_digest X w base allow rel =
     (case resolve_under_root w base rel allow ''item.path'' of Inl e \<Rightarrow> None
      | Inr q \<Rightarrow> (case fst (read_bytes q w) of Inl e \<Rightarrow> None | Inr b \<Rightarrow> Some (sha256_bytes X b)))"

lemma sha256_file_run: "sha256_file X p w = (r, w') \<longleftrightarrow>
    w' = w \<and> r = (case fst (read_bytes p w) of Inl e \<Rightarrow> Inl e | Inr b \<Rightarrow> Inr (sha256_bytes X b))"
  using read_bytes_pure [of p w]
  by (cases "read_bytes p w") (auto simp: sha256_file_whole bindS_def split: sum.splits)

lemma hash_file_run:
  "hash_file_under_root X base rel allow w = (r, w') \<Longrightarrow> w' = w \<and>
     (\<forall>q h. r = Inr (q, h) \<longrightarrow> file_digest X w base allow rel = Some h)"
  by (cases "resolve_under_root w base rel allow ''item.path''")
    (auto simp: hash_file_under_root_def bindS_def getS_def guardS_def guardR_def file_digest_def sha256_file_run
      split: prod.splits sum.splits if_splits)

lemma try_hash_run:
  assumes "try_hash X base rel allow w = (r, w')"
  shows "w' = w \<and> (\<forall>h. r = Inr (Inr h) \<longrightarrow> file_digest X w base allow rel = Some h)"
proof -
  obtain q v where h: "hash_file_under_root X base rel allow w = (q, v)" by fastforce
  from hash_file_run [OF this] assms h show ?thesis
    by (auto simp: try_hash_def catchS_def bindS_def split: sum.splits prod.splits if_splits)
qed

definition recorded :: "ext \<Rightarrow> world \<Rightarrow> ppath \<Rightarrow> bool \<Rightarrow> string list \<Rightarrow> pyval \<Rightarrow> bool" where
  "recorded X w base allow hs v \<longleftrightarrow> is_dict v \<and>
     (case file_digest X w base allow (tensor_rel (the_dict v)) of None \<Rightarrow> False | Some h \<Rightarrow> h \<in> set hs)"

lemma recorded_mono: "recorded X w base allow hs v \<Longrightarrow> set hs \<subseteq> set hs' \<Longrightarrow> recorded X w base allow hs' v"
  by (auto simp: recorded_def split: option.splits)

lemma tally_simps:
  "ta_errors (add_error e t) = ta_errors t @ [e]" "ta_errors (item_failed x t) \<noteq> []"
  "ta_hashes (add_hash h t) = ta_hashes t @ [h]" "ta_errors (add_hash h t) = ta_errors t"
  "ta_ids (add_hash h t) = ta_ids t" "ta_missing (add_hash h t) = ta_missing t"
  "ta_errors (note_digest h rel t) = ta_errors t" "ta_hashes (note_digest h rel t) = ta_hashes t"
  "ta_ids (note_digest h rel t) = ta_ids t" "ta_missing (note_digest h rel t) = ta_missing t"
  "ta_errors (count_class k t) = ta_errors t" "ta_hashes (count_class k t) = ta_hashes t"
  "ta_ids (count_class k t) = ta_ids t" "ta_missing (count_class k t) = ta_missing t"
  "ta_errors (invalid_item i p t) \<noteq> []"
  by (simp_all add: add_error_def item_failed_def add_hash_def note_digest_def count_class_def invalid_item_def
      split: option.split)

lemma expected_output_run:
  assumes "expected_output X base allow d t w = (Inr t', w')" and "ta_errors t' = []"
  shows "w' = w \<and> ta_errors t = [] \<and> set (ta_hashes t) \<subseteq> set (ta_hashes t') \<and> ta_ids t' = ta_ids t
    \<and> ta_missing t' = ta_missing t"
proof (cases "\<exists>e. dget d ''expected_output_path'' = PStr e \<and> e \<noteq> []")
  case True
  then obtain e where e: "dget d ''expected_output_path'' = PStr e" "e \<noteq> []" by blast
  obtain r v where h: "try_hash X base e allow w = (r, v)" by fastforce
  from assms e h try_hash_run [OF h] show ?thesis
    by (auto simp: expected_output_def bindS_def tally_simps split: sum.splits)
next
  case False
  with assms show ?thesis by (auto simp: expected_output_def split: pyval.splits if_splits)
qed

lemma expected_output_pure: "snd (expected_output X base allow d t w) = w"
proof (cases "dget d ''expected_output_path''")
  case (PStr e)
  obtain r v where "try_hash X base e allow w = (r, v)" by fastforce
  with PStr try_hash_run [OF this] show ?thesis by (simp add: expected_output_def bindS_def split: sum.splits)
qed (simp_all add: expected_output_def)

lemma raw_item_run:
  assumes run: "raw_item X base allow (i, v) t w = (Inr t', w')"
  shows "w' = w \<and> (ta_errors t' = [] \<longrightarrow> ta_errors t = [] \<and> set (ta_hashes t) \<subseteq> set (ta_hashes t')
    \<and> ta_missing t' = ta_missing t \<and> recorded X w base allow (ta_hashes t') v
    \<and> tensor_id (the_dict v) \<notin> set (ta_ids t) \<and> ta_ids t' = tensor_id (the_dict v) # ta_ids t)"
proof -
  let ?d = "the_dict v"
  consider "\<not> is_dict v" | "is_dict v" "tensor_rel ?d = []"
    | "is_dict v" "tensor_rel ?d \<noteq> []" "tensor_id ?d \<in> set (ta_ids t)"
    | "is_dict v" "tensor_rel ?d \<noteq> []" "tensor_id ?d \<notin> set (ta_ids t)" by blast
  then show ?thesis
  proof cases
    case 4
    let ?t1 = "t\<lparr>ta_ids := tensor_id ?d # ta_ids t\<rparr>"
    obtain r u where h: "try_hash X base (tensor_rel ?d) allow w = (r, u)" by fastforce
    note hr = try_hash_run [OF h]
    show ?thesis
    proof (cases "\<exists>h. r = Inr (Inr h)")
      case True
      then obtain h' where r: "r = Inr (Inr h')" by blast
      let ?t2 = "add_hash h' (note_digest h' (tensor_rel ?d) ?t1)"
      let ?t3 = "if dhas ?d ''label'' then count_class (py_str (dget ?d ''label'')) ?t2 else ?t2"
      have ex: "expected_output X base allow ?d ?t3 w = (Inr t', w')"
        using run 4 h r hr by (simp add: raw_item_def bindS_def Let_def)
      have w: "w' = w" using expected_output_pure [of X base allow ?d ?t3 w] ex by simp
      have t3: "ta_errors ?t3 = ta_errors t" "ta_hashes ?t3 = ta_hashes t @ [h']" "ta_missing ?t3 = ta_missing t"
          "ta_ids ?t3 = tensor_id ?d # ta_ids t"
        by (simp_all add: tally_simps)
      have fd: "file_digest X w base allow (tensor_rel ?d) = Some h'" using hr r by blast
      show ?thesis
        using w expected_output_run [OF ex] 4 fd unfolding t3 recorded_def by auto
    next
      case False
      then show ?thesis
        using run 4 h hr by (auto simp: raw_item_def bindS_def Let_def tally_simps split: sum.splits)
    qed
  qed (use run in \<open>auto simp: raw_item_def Let_def tally_simps add_error_def\<close>)
qed

lemma raw_items_run:
  "foldS (raw_item X base allow) items t w = (Inr t', w') \<Longrightarrow> w' = w \<and> (ta_errors t' = [] \<longrightarrow>
     ta_errors t = [] \<and> set (ta_hashes t) \<subseteq> set (ta_hashes t') \<and> ta_missing t' = ta_missing t
     \<and> list_all (recorded X w base allow (ta_hashes t')) (map snd items)
     \<and> (distinct (ta_ids t) \<longrightarrow> distinct (rev (map (tensor_id \<circ> the_dict \<circ> snd) items) @ ta_ids t)))"
proof (induction items arbitrary: t w)
  case (Cons it items)
  obtain i v where it: "it = (i, v)" by fastforce
  from Cons.prems it obtain t1 w1 where one: "raw_item X base allow (i, v) t w = (Inr t1, w1)"
      and rest: "foldS (raw_item X base allow) items t1 w1 = (Inr t', w')"
    by (auto simp: bindS_eq_Inr)
  note o = raw_item_run [OF one]
  note r = Cons.IH [OF rest]
  show ?case
  proof (intro conjI impI)
    show "w' = w" using o r by simp
    assume ok: "ta_errors t' = []"
    have r': "ta_errors t1 = []" "set (ta_hashes t1) \<subseteq> set (ta_hashes t')" "ta_missing t' = ta_missing t1"
        "list_all (recorded X w base allow (ta_hashes t')) (map snd items)"
        "distinct (ta_ids t1) \<longrightarrow> distinct (rev (map (tensor_id \<circ> the_dict \<circ> snd) items) @ ta_ids t1)"
      using r ok o by blast+
    have o': "ta_errors t = []" "set (ta_hashes t) \<subseteq> set (ta_hashes t1)" "ta_missing t1 = ta_missing t"
        "recorded X w base allow (ta_hashes t1) v" "tensor_id (the_dict v) \<notin> set (ta_ids t)"
        "ta_ids t1 = tensor_id (the_dict v) # ta_ids t"
      using o r'(1) by blast+
    show "ta_errors t = []" "set (ta_hashes t) \<subseteq> set (ta_hashes t')" "ta_missing t' = ta_missing t"
      using o' r' by auto
    show "list_all (recorded X w base allow (ta_hashes t')) (map snd (it # items))"
      using r'(4) recorded_mono [OF o'(4) r'(2)] it by simp
    assume "distinct (ta_ids t)"
    then show "distinct (rev (map (tensor_id \<circ> the_dict \<circ> snd) (it # items)) @ ta_ids t)"
      using r'(5) o'(5,6) it by simp
  qed
qed simp

lemma load_json_document_Inr:
  "load_json_document X p w = (Inr v, w') \<Longrightarrow> w' = w \<and> is_dict v"
  using read_bytes_pure [of p w]
  by (cases "read_bytes p w")
    (auto simp: load_json_document_def read_json_def read_text_def bindS_def catchS_def guardS_def guardR_def
      split: sum.splits prod.splits option.splits if_splits)

lemma finish_fields:
  assumes "finish_validation X m items t = Inr r"
  shows "dv_items r = int (length items)" "dv_missing r = ta_missing t" "dv_errors r = ta_errors t"
    "set (dv_contents r) = set (ta_hashes t)" "dv_manifest r = m"
  using assms by (auto simp: finish_validation_def bindR_eq_Inr)

lemma raw_tensor_steps:
  assumes run: "validate_raw_tensor_manifest X p allow w = (Inr r, w')"
  shows "w' = w \<and> (\<exists>items base t. dget (dv_manifest r) ''items'' = PList items
    \<and> manifest_base (dv_manifest r) = Inr base
    \<and> foldS (raw_item X base allow) (enumerate 0 items) tally_init w = (Inr t, w)
    \<and> finish_validation X (dv_manifest r) items t = Inr r)"
proof -
  from run obtain doc w1 items base t w2 where l: "load_json_document X p w = (Inr doc, w1)"
      and i: "nonempty_items (the_dict doc) ''raw_tensor manifest requires a non-empty items array'' = Inr items"
      and b: "manifest_base (the_dict doc) = Inr base"
      and f: "foldS (raw_item X base allow) (enumerate 0 items) tally_init w1 = (Inr t, w2)"
      and e: "finish_validation X (the_dict doc) items t = Inr r" and w': "w' = w2"
    unfolding validate_raw_tensor_manifest_def Let_def
    by (elim bindS_eq_Inr [THEN iffD1, elim_format] exE conjE) (simp add: comp_eqs liftS_def)
  have "dv_manifest r = the_dict doc" by (rule finish_fields(5) [OF e])
  moreover have "dget (the_dict doc) ''items'' = PList items"
    using i by (auto simp: nonempty_items_def split: pyval.splits if_splits)
  ultimately show ?thesis
    using load_json_document_Inr [OF l] raw_items_run [OF f] b f e w' by auto
qed

lemma raw_tensor_recorded:
  assumes run: "validate_raw_tensor_manifest X p allow w = (Inr r, w')" and ok: "validation_ok r"
  shows "w' = w \<and> dv_missing r = 0 \<and> (\<exists>items base. dget (dv_manifest r) ''items'' = PList items
    \<and> manifest_base (dv_manifest r) = Inr base \<and> dv_items r = int (length items)
    \<and> list_all (recorded X w base allow (dv_contents r)) items
    \<and> distinct (map (tensor_id \<circ> the_dict) items))"
proof -
  from raw_tensor_steps [OF run] obtain items base t where w: "w' = w"
      and m: "dget (dv_manifest r) ''items'' = PList items" "manifest_base (dv_manifest r) = Inr base"
      and f: "foldS (raw_item X base allow) (enumerate 0 items) tally_init w = (Inr t, w)"
      and e: "finish_validation X (dv_manifest r) items t = Inr r" by blast
  have r: "dv_items r = int (length items)" "dv_missing r = ta_missing t" "dv_errors r = ta_errors t"
      "set (dv_contents r) = set (ta_hashes t)"
    by (rule finish_fields [OF e])+
  have i: "ta_missing tally_init = 0" "ta_ids tally_init = []" by (simp_all add: tally_init_def)
  have "ta_errors t = []" using ok r(3) by (simp add: validation_ok_def)
  with raw_items_run [OF f] have l: "ta_missing t = 0"
      "list_all (recorded X w base allow (ta_hashes t)) (map snd (enumerate 0 items))"
      "distinct (rev (map (tensor_id \<circ> the_dict \<circ> snd) (enumerate 0 items)))"
    unfolding i by auto
  have "distinct (map (tensor_id \<circ> the_dict) (map snd (enumerate 0 items)))"
    using l(3) by (simp only: distinct_rev list.map_comp comp_assoc)
  moreover have "list_all (recorded X w base allow (dv_contents r)) items"
    using l(2) recorded_mono r(4) by (simp add: list_all_iff) (metis order_refl)
  ultimately show ?thesis using w m r(1,2) l(1) by auto
qed

text \<open>C36. A raw-tensor manifest validated without error has, for every item, a file under the root
  whose digest is among the recorded content hashes; the sample ids are distinct, nothing is
  missing, and the validation changed nothing.\<close>

theorem raw_tensor_validated:
  assumes run: "validate_raw_tensor_manifest X p allow w = (Inr r, w')" and ok: "validation_ok r"
  shows "w' = w \<and> dv_missing r = 0 \<and> (\<exists>items base. dget (dv_manifest r) ''items'' = PList items
    \<and> manifest_base (dv_manifest r) = Inr base \<and> dv_items r = int (length items)
    \<and> list_all (recorded X w base allow (dv_contents r)) items
    \<and> distinct (map (tensor_id \<circ> the_dict) items))"
  by (rule raw_tensor_recorded [OF assms])

lemma split_isolation_disjoint:
  "assert_split_isolation cal ev True = Inr () \<longleftrightarrow>
     dv_hash cal \<noteq> dv_hash ev \<and> set (dv_contents cal) \<inter> set (dv_contents ev) = {}"
proof -
  have "split_overlap cal ev = [] \<longleftrightarrow> set (split_overlap cal ev) = {}" by simp
  also have "\<dots> \<longleftrightarrow> set (dv_contents cal) \<inter> set (dv_contents ev) = {}"
    by (auto simp: split_overlap_def)
  finally show ?thesis by (simp add: assert_split_isolation_def Let_def result_eqs)
qed

text \<open>
  The loops over the items have one invariant: without an error, every file an item names has its
  digest among the hashes. \<open>names\<close> are the files an item names.
\<close>

definition hashed :: "ext \<Rightarrow> world \<Rightarrow> ppath \<Rightarrow> bool \<Rightarrow> string list \<Rightarrow> string \<Rightarrow> bool" where
  "hashed X w base allow hs rel \<longleftrightarrow> (\<exists>h\<in>set hs. file_digest X w base allow rel = Some h)"

lemma hashedD:
  assumes "hashed X w base allow hs rel"
  obtains f s where "resolve_under_root w base rel allow ''item.path'' = Inr f" and "fst (read_bytes f w) = Inr s"
    and "sha256_bytes X s \<in> set hs"
proof -
  from assms obtain h where h: "h \<in> set hs" "file_digest X w base allow rel = Some h" by (auto simp: hashed_def)
  then obtain f where f: "resolve_under_root w base rel allow ''item.path'' = Inr f"
    by (auto simp: file_digest_def split: sum.splits)
  with h obtain s where "fst (read_bytes f w) = Inr s" "sha256_bytes X s = h"
    by (cases "fst (read_bytes f w)") (auto simp: file_digest_def)
  with f h that show thesis by blast
qed

lemma loop_hashed:
  assumes step: "\<And>it t t' u'. f it t w = (Inr t', u') \<Longrightarrow> u' = w \<and> (ta_errors t' = [] \<longrightarrow> ta_errors t = []
      \<and> set (ta_hashes t) \<subseteq> set (ta_hashes t') \<and> list_all (hashed X w base allow (ta_hashes t')) (names it))"
  shows "foldS f items t w = (Inr t', w') \<Longrightarrow> w' = w \<and> (ta_errors t' = [] \<longrightarrow> ta_errors t = []
      \<and> set (ta_hashes t) \<subseteq> set (ta_hashes t') \<and> list_all (hashed X w base allow (ta_hashes t')) (concat (map names items)))"
proof (induction items arbitrary: t)
  case (Cons it items)
  from Cons.prems obtain t1 w1 where one: "f it t w = (Inr t1, w1)" and rest: "foldS f items t1 w1 = (Inr t', w')"
    by (auto simp: bindS_eq_Inr)
  have "w1 = w" using step [OF one] by simp
  with step [OF one] Cons.IH [of t1] rest show ?case by (auto simp: list_all_iff hashed_def subset_iff)
qed simp

lemma class_item_hashed:
  assumes "class_item X base allow it t w = (Inr t', w')"
  shows "w' = w \<and> (ta_errors t' = [] \<longrightarrow> ta_errors t = [] \<and> set (ta_hashes t) \<subseteq> set (ta_hashes t')
    \<and> list_all (hashed X w base allow (ta_hashes t')) [py_str (dget_or (the_dict (snd it)) ''path'' (PStr []))])"
proof -
  obtain i v where it: "it = (i, v)" by fastforce
  obtain r u where h: "try_hash X base (py_str (dget_or (the_dict v) ''path'' (PStr []))) allow w = (r, u)" by fastforce
  from assms it h try_hash_run [OF h] show ?thesis
    by (auto simp: class_item_def Let_def bindS_def hashed_def tally_simps split: if_splits sum.splits)
qed

definition coco_names :: "pyval \<Rightarrow> string list" where
  "coco_names im = (if is_dict im then (case dget (the_dict im) ''file_name'' of PStr rel \<Rightarrow> [rel] | _ \<Rightarrow> []) else [])"

lemma coco_image_hashed:
  assumes "coco_image X base allow im t w = (Inr t', w')"
  shows "w' = w \<and> (ta_errors t' = [] \<longrightarrow> ta_errors t = [] \<and> set (ta_hashes t) \<subseteq> set (ta_hashes t')
    \<and> list_all (hashed X w base allow (ta_hashes t')) (coco_names im))"
proof (cases "is_dict im \<and> (\<exists>rel. dget (the_dict im) ''file_name'' = PStr rel)")
  case True
  then obtain rel where d: "is_dict im" "dget (the_dict im) ''file_name'' = PStr rel" by blast
  obtain r u where h: "try_hash X base rel allow w = (r, u)" by fastforce
  from assms d h try_hash_run [OF h] show ?thesis
    by (auto simp: coco_image_def bindS_def hashed_def tally_simps coco_names_def split: sum.splits)
next
  case False
  with assms show ?thesis
    by (auto simp: coco_image_def coco_names_def tally_simps add_error_def split: pyval.splits if_splits)
qed

lemma raw_item_hashed:
  assumes "raw_item X base allow it t w = (Inr t', w')"
  shows "w' = w \<and> (ta_errors t' = [] \<longrightarrow> ta_errors t = [] \<and> set (ta_hashes t) \<subseteq> set (ta_hashes t')
    \<and> list_all (hashed X w base allow (ta_hashes t')) [tensor_rel (the_dict (snd it))])"
proof -
  have "raw_item X base allow (fst it, snd it) t w = (Inr t', w')" using assms by simp
  from raw_item_run [OF this] show ?thesis by (auto simp: recorded_def hashed_def split: option.splits)
qed

text \<open>The files of a split: those its items name, or the images of its annotation file.\<close>

definition split_names :: "ext \<Rightarrow> world \<Rightarrow> bool \<Rightarrow> pydict \<Rightarrow> string list \<Rightarrow> bool" where
  "split_names X w allow m names \<longleftrightarrow>
     (if dget m ''dataset_type'' = PStr ''raw_tensor''
      then \<exists>items. dget m ''items'' = PList items \<and> names = map (tensor_rel \<circ> the_dict) items
      else if dget m ''dataset_type'' = PStr ''image_classification_manifest''
      then \<exists>items. dget m ''items'' = PList items
        \<and> names = map (\<lambda>v. py_str (dget_or (the_dict v) ''path'' (PStr []))) items
      else \<exists>base rel q text annotations images. manifest_base m = Inr base \<and> dget m ''annotation_path'' = PStr rel
        \<and> resolve_under_root w base rel allow ''annotation_path'' = Inr q \<and> fst (read_text q w) = Inr text
        \<and> x_loads X text = Some (PDict annotations) \<and> dget annotations ''images'' = PList images
        \<and> names = concat (map coco_names images))"

definition split_recorded :: "ext \<Rightarrow> world \<Rightarrow> bool \<Rightarrow> validation \<Rightarrow> bool" where
  "split_recorded X w allow r \<longleftrightarrow> (\<exists>base names. manifest_base (dv_manifest r) = Inr base
     \<and> split_names X w allow (dv_manifest r) names \<and> list_all (hashed X w base allow (dv_contents r)) names)"

lemma split_recorded_reads:
  assumes "reads_only w u"
  shows "split_recorded X u allow r \<longleftrightarrow> split_recorded X w allow r"
proof -
  have "hashed X u base allow hs = hashed X w base allow hs" for base hs
    by (rule ext) (simp add: hashed_def file_digest_def reads_only_same(8,10) [OF assms] split: sum.split)
  moreover have "split_names X u allow m = split_names X w allow m" for m
    by (rule ext) (simp add: split_names_def reads_only_text [OF assms] reads_only_same(10) [OF assms])
  ultimately show ?thesis by (simp add: split_recorded_def)
qed

lemma finish_recorded:
  assumes "finish_validation X m items t = Inr r" and "list_all (hashed X w base allow (ta_hashes t)) names"
    and "split_names X w allow m names" and "manifest_base m = Inr base"
  shows "split_recorded X w allow r"
  using assms(2-4) finish_fields(4,5) [OF assms(1)]
  by (auto simp: split_recorded_def hashed_def list_all_iff)

lemma map_enumerate_snd: "map (\<lambda>it. g (snd it)) (enumerate n xs) = map g xs"
  by (induction xs arbitrary: n) simp_all

lemma raw_recorded:
  assumes "validate_raw_tensor_manifest X p allow w = (Inr r, w')" and "validation_ok r"
  shows "reads_only w w' \<and> split_recorded X w allow r"
proof -
  from raw_tensor_steps [OF assms(1)] obtain items base t where w: "w' = w"
      and m: "dget (dv_manifest r) ''items'' = PList items" "manifest_base (dv_manifest r) = Inr base"
      and f: "foldS (raw_item X base allow) (enumerate 0 items) tally_init w = (Inr t, w)"
      and e: "finish_validation X (dv_manifest r) items t = Inr r" by blast
  have k: "dget (dv_manifest r) ''dataset_type'' = PStr ''raw_tensor''"
    using assms(1) finish_fields(5) unfolding validate_raw_tensor_manifest_def Let_def comp_eqs liftS_def
    by (elim exE conjE) (auto simp: guardS_Inr)
  have ok: "ta_errors t = []" using assms(2) finish_fields(3) [OF e] by (simp add: validation_ok_def)
  have n: "concat (map (\<lambda>it. [tensor_rel (the_dict (snd it))]) (enumerate 0 items)) = map (tensor_rel \<circ> the_dict) items"
    using map_enumerate_snd [of "tensor_rel \<circ> the_dict" 0 items] by simp
  from loop_hashed [where f = "raw_item X base allow" and names = "\<lambda>it. [tensor_rel (the_dict (snd it))]"
      and X = X and base = base and allow = allow, OF raw_item_hashed f] ok
  have "list_all (hashed X w base allow (ta_hashes t)) (map (tensor_rel \<circ> the_dict) items)" unfolding n by blast
  from finish_recorded [OF e this _ m(2)] m(1) k w show ?thesis by (simp add: split_names_def reads_only.R_refl)
qed

lemma class_recorded:
  assumes "validate_image_classification_manifest X p allow w = (Inr r, w')" and "validation_ok r"
  shows "reads_only w w' \<and> split_recorded X w allow r"
proof -
  from assms(1) obtain doc w1 items base t w2 where l: "load_and_validate_manifest X p w = (Inr doc, w1)"
      and k: "dget (the_dict doc) ''dataset_type'' = PStr ''image_classification_manifest''"
      and i: "nonempty_items (the_dict doc) ''Classification manifest requires a non-empty items array'' = Inr items"
      and b: "manifest_base (the_dict doc) = Inr base"
      and f: "foldS (class_item X base allow) (enumerate 0 items) tally_init w1 = (Inr t, w2)"
      and e: "finish_validation X (the_dict doc) items t = Inr r" and w': "w' = w2"
    unfolding validate_image_classification_manifest_def Let_def comp_eqs liftS_def
    by (elim exE conjE) (auto simp: guardS_Inr)
  have "keeps reads_only (load_and_validate_manifest X p)"
    unfolding load_and_validate_manifest_def by (intro reads_only_intros)
  from keepsD [OF this l] have ro: "reads_only w w1" .
  have m: "dget (the_dict doc) ''items'' = PList items"
    using i by (auto simp: nonempty_items_def split: pyval.splits if_splits)
  have ok: "ta_errors t = []" using assms(2) finish_fields(3) [OF e] by (simp add: validation_ok_def)
  let ?n = "\<lambda>v. py_str (dget_or (the_dict v) ''path'' (PStr []))"
  have n: "concat (map (\<lambda>it. [?n (snd it)]) (enumerate 0 items)) = map ?n items"
    using map_enumerate_snd [of ?n 0 items] by simp
  note h = loop_hashed [where f = "class_item X base allow" and names = "\<lambda>it. [?n (snd it)]"
      and X = X and base = base and allow = allow, OF class_item_hashed f]
  from h ok have "list_all (hashed X w1 base allow (ta_hashes t)) (map ?n items)" unfolding n by blast
  from finish_recorded [OF e this _ b] m k have "split_recorded X w1 allow r" by (simp add: split_names_def)
  with split_recorded_reads [OF ro] ro h w' show ?thesis by simp
qed

lemma annotation_file_steps:
  assumes "annotation_file m base allow w = (Inr q, w')"
  obtains rel where "dget m ''annotation_path'' = PStr rel"
    and "resolve_under_root w base rel allow ''annotation_path'' = Inr q" and "w' = w"
proof (cases "dget m ''annotation_path''")
  case (PStr rel)
  with assms that [OF PStr] show thesis
    by (cases "resolve_under_root w base rel allow ''annotation_path''")
      (auto simp: annotation_file_def bindS_def getS_def guardS_def guardR_def split: if_splits)
qed (use assms in \<open>simp_all add: annotation_file_def bindS_def\<close>)

lemma coco_recorded:
  assumes "validate_coco_manifest X p allow w = (Inr r, w')" and "validation_ok r"
  shows "reads_only w w' \<and> split_recorded X w allow r"
proof -
  from assms(1) obtain m w1 base q w2 v w3 annotations images cs t w4 h where
      l: "coco_manifest X p w = (Inr m, w1)" and b: "manifest_base m = Inr base"
      and q: "annotation_file m base allow w1 = (Inr q, w2)" and v: "read_annotations X q w2 = (Inr v, w3)"
      and a: "as_dict v = Inr annotations" and im: "image_list annotations = Inr images"
      and f: "foldS (coco_image X base allow) images (tally_init\<lparr>ta_classes := cs\<rparr>) w3 = (Inr t, w4)"
      and h: "sha256_file X q w4 = (Inr h, w')"
      and e: "finish_validation X m images (add_hash (''annotation:'' @ h) t) = Inr r"
    unfolding validate_coco_manifest_def comp_eqs liftS_def by (elim exE conjE) auto
  have "keeps reads_only (coco_manifest X p)"
    unfolding coco_manifest_def load_and_validate_manifest_def by (intro reads_only_intros)
  from keepsD [OF this l] have ro: "reads_only w w1" .
  have k: "dget m ''dataset_type'' \<noteq> PStr ''raw_tensor''" "dget m ''dataset_type'' \<noteq> PStr ''image_classification_manifest''"
    using l unfolding coco_manifest_def Let_def comp_eqs liftS_def
    by (elim exE conjE, auto simp: guardS_Inr retS_def py_in_strs_Inr_True)+
  from q obtain rel where rel: "dget m ''annotation_path'' = PStr rel"
      "resolve_under_root w1 base rel allow ''annotation_path'' = Inr q" and w2: "w2 = w1"
    by (rule annotation_file_steps)
  from v obtain tx where tx: "fst (read_text q w2) = Inr tx" "x_loads X tx = Some v" and w3: "w3 = w2"
    using read_bytes_pure [of q w2]
    by (cases "read_bytes q w2") (auto simp: read_annotations_def read_json_def read_text_def json_loads_def catchS_def
      bindS_def liftS_def split: sum.splits option.splits prod.splits if_splits)
  from a have v': "v = PDict annotations" by (cases v) simp_all
  from im have i: "dget annotations ''images'' = PList images" by (auto simp: image_list_def split: pyval.splits)
  have sn: "split_names X w1 allow m (concat (map coco_names images))"
    using k b rel tx i v' w2 by (simp add: split_names_def)
  have ok: "ta_errors t = []" using assms(2) finish_fields(3) [OF e] by (simp add: validation_ok_def tally_simps)
  note lh = loop_hashed [where f = "coco_image X base allow" and names = coco_names
      and X = X and base = base and allow = allow, OF coco_image_hashed f]
  from lh ok have "list_all (hashed X w3 base allow (ta_hashes (add_hash (''annotation:'' @ h) t))) (concat (map coco_names images))"
    by (auto simp: list_all_iff hashed_def tally_simps)
  then have "list_all (hashed X w1 base allow (ta_hashes (add_hash (''annotation:'' @ h) t))) (concat (map coco_names images))"
    using w2 w3 by simp
  from finish_recorded [OF e this sn b] have "split_recorded X w1 allow r" .
  moreover have "w' = w1" using lh h w2 w3 by (simp add: sha256_file_run)
  ultimately show ?thesis using split_recorded_reads [OF ro] ro by simp
qed

lemma dataset_recorded:
  assumes "validate_dataset_manifest X p allow w = (Inr r, w')" and "validation_ok r"
  shows "reads_only w w' \<and> split_recorded X w allow r"
proof -
  from assms(1) obtain doc w1 where l: "load_json_document X p w = (Inr doc, w1)"
    and v: "validate_image_classification_manifest X p allow w1 = (Inr r, w') \<or> validate_coco_manifest X p allow w1 = (Inr r, w')
      \<or> validate_raw_tensor_manifest X p allow w1 = (Inr r, w')"
    unfolding validate_dataset_manifest_def Let_def comp_eqs
    by (elim exE conjE) (auto simp: validate_yolo_v8_manifest_def raiseS_def split: if_splits)
  have "w1 = w" using load_json_document_Inr [OF l] by simp
  with v class_recorded [OF _ assms(2)] coco_recorded [OF _ assms(2)] raw_recorded [OF _ assms(2)] show ?thesis by blast
qed


section \<open>A sample run\<close>

definition split_manifest :: "string \<Rightarrow> pydict" where
  "split_manifest n = [(''schema_version'', PStr ''1.0''), (''document_type'', PStr ''perceptshift.dataset_manifest''),
     (''dataset_type'', PStr ''raw_tensor''), (''dataset_name'', PStr n), (''root'', PStr ''/d''),
     (''license_reference'', PStr ''l''), (''split_name'', PStr n), (''preprocess_contract'', PDict []),
     (''items'', PList [PDict [(''path'', PStr n)]])]"

definition split_ext :: ext where
  "split_ext = sample_ext\<lparr>x_loads := (\<lambda>s. Some (PDict (split_manifest s))),
     x_dumps := (\<lambda>v. py_str (dget (the_dict v) ''dataset_name''))\<rparr>"

definition split_world :: world where
  "split_world = \<lparr>w_files = [([''c''], ''a''), ([''e''], ''b''), ([''d'', ''a''], ''x''), ([''d'', ''b''], ''y'')],
     w_dirs = [[''d'']], w_links = [], w_cwd = [], w_home = [], w_environ = [],
     w_ticks = 0, w_version = None, w_commit = None, w_registry = None, w_schemas = []\<rparr>"

lemma split_runs:
  "\<exists>c. validate_raw_tensor_manifest split_ext (abs_path [''c'']) False split_world = (Inr c, split_world)
     \<and> validation_ok c \<and> dv_manifest c = split_manifest ''a'' \<and> dv_contents c = [''x''] \<and> dv_hash c = ''a''"
  "\<exists>c. validate_raw_tensor_manifest split_ext (abs_path [''e'']) False split_world = (Inr c, split_world)
     \<and> validation_ok c \<and> dv_manifest c = split_manifest ''b'' \<and> dv_contents c = [''y''] \<and> dv_hash c = ''b''"
proof -
  have run: "\<exists>c. validate_raw_tensor_manifest split_ext p False split_world = (Inr c, split_world) \<and> P c"
    if "case fst (validate_raw_tensor_manifest split_ext p False split_world) of Inl e \<Rightarrow> False | Inr c \<Rightarrow> P c" for p P
    using that raw_tensor_steps [of split_ext p False split_world]
    by (cases "validate_raw_tensor_manifest split_ext p False split_world") (auto split: sum.splits)
  show "\<exists>c. validate_raw_tensor_manifest split_ext (abs_path [''c'']) False split_world = (Inr c, split_world)
     \<and> validation_ok c \<and> dv_manifest c = split_manifest ''a'' \<and> dv_contents c = [''x''] \<and> dv_hash c = ''a''"
    by (rule run) code_simp
  show "\<exists>c. validate_raw_tensor_manifest split_ext (abs_path [''e'']) False split_world = (Inr c, split_world)
     \<and> validation_ok c \<and> dv_manifest c = split_manifest ''b'' \<and> dv_contents c = [''y''] \<and> dv_hash c = ''b''"
    by (rule run) code_simp
qed

theorem raw_tensor_validated_witness:
  "\<exists>c. validate_raw_tensor_manifest split_ext (abs_path [''c'']) False split_world = (Inr c, split_world)
     \<and> dv_missing c = 0 \<and> recorded split_ext split_world (abs_path [''d'']) False (dv_contents c)
         (PDict [(''path'', PStr ''a'')])"
proof -
  obtain c where run: "validate_raw_tensor_manifest split_ext (abs_path [''c'']) False split_world = (Inr c, split_world)"
      and ok: "validation_ok c" and m: "dv_manifest c = split_manifest ''a''"
    using split_runs(1) by blast
  have b: "manifest_base (split_manifest ''a'') = Inr (abs_path [''d''])"
      "dget (split_manifest ''a'') ''items'' = PList [PDict [(''path'', PStr ''a'')]]" by code_simp+
  from raw_tensor_validated [OF run ok] run b show ?thesis unfolding m by (auto simp: list_all_iff)
qed

lemma split_dispatch:
  "validate_dataset_manifest split_ext (abs_path [''c'']) False split_world
     = validate_raw_tensor_manifest split_ext (abs_path [''c'']) False split_world"
  "validate_dataset_manifest split_ext (abs_path [''e'']) False split_world
     = validate_raw_tensor_manifest split_ext (abs_path [''e'']) False split_world"
proof -
  have l: "load_json_document split_ext (abs_path [''c'']) split_world = (Inr (PDict (split_manifest ''a'')), split_world)"
    "load_json_document split_ext (abs_path [''e'']) split_world = (Inr (PDict (split_manifest ''b'')), split_world)"
    by code_simp+
  have k: "dget (split_manifest n) ''dataset_type'' = PStr ''raw_tensor''" for n
    by (simp add: split_manifest_def dget_def)
  show "validate_dataset_manifest split_ext (abs_path [''c'']) False split_world
     = validate_raw_tensor_manifest split_ext (abs_path [''c'']) False split_world"
    "validate_dataset_manifest split_ext (abs_path [''e'']) False split_world
     = validate_raw_tensor_manifest split_ext (abs_path [''e'']) False split_world"
    by (simp_all add: validate_dataset_manifest_def bindS_def [of "load_json_document X p" for X p] l k Let_def)
qed


end
