(* ===== verification/Evaluation.thy ===== *)
theory Evaluation
  imports Doc_Store
begin

text \<open>
  \<open>perceptshift_forge/statistics\<close> and \<open>perceptshift_forge/evaluation\<close>: the summary of latency
  samples, numeric output equivalence, classification accuracy, and COCO average precision. The
  element-wise arithmetic of numpy is written out on floats; its reductions, its random generator and
  \<open>pycocotools\<close> are parameters.
\<close>

section \<open>numpy\<close>

text \<open>
  \<open>n_std\<close> is the standard deviation with one degree of freedom, \<open>n_integers seed i n\<close> the \<open>i\<close>-th draw
  of \<open>n\<close> indices from a generator with that seed.
\<close>

record numpy =
  n_mean :: "pyfloat list \<Rightarrow> pyfloat"
  n_std :: "pyfloat list \<Rightarrow> pyfloat"
  n_median :: "pyfloat list \<Rightarrow> pyfloat"
  n_percentile :: "pyfloat list \<Rightarrow> pyfloat \<Rightarrow> pyfloat"
  n_quantile :: "pyfloat list \<Rightarrow> pyfloat \<Rightarrow> pyfloat"
  n_norm :: "pyfloat list \<Rightarrow> pyfloat"
  n_dot :: "pyfloat list \<Rightarrow> pyfloat list \<Rightarrow> pyfloat"
  n_integers :: "int \<Rightarrow> nat \<Rightarrow> nat \<Rightarrow> nat list"

text \<open>\<open>np.maximum\<close> and \<open>np.max\<close> keep NaN; numpy's division by zero gives an infinity or NaN.\<close>

definition np_maximum :: "pyfloat \<Rightarrow> pyfloat \<Rightarrow> pyfloat" where
  "np_maximum a b = (if a = NaN \<or> b = NaN then NaN else fl_max a b)"

definition np_max :: "pyfloat list \<Rightarrow> pyfloat" where
  "np_max xs = foldr np_maximum (butlast xs) (last xs)"

definition np_div :: "pyfloat \<Rightarrow> pyfloat \<Rightarrow> pyfloat" where
  "np_div a b = (if b = Fin 0 then (case a of Fin q \<Rightarrow> if q = 0 then NaN else if 0 < q then PosInf else NegInf
     | _ \<Rightarrow> a) else fl_div a b)"

definition is_finite :: "pyfloat \<Rightarrow> bool" where
  "is_finite f = (case f of Fin q \<Rightarrow> True | _ \<Rightarrow> False)"

text \<open>A quotient of two Python integers.\<close>

definition int_div :: "int \<Rightarrow> int \<Rightarrow> pyfloat" where
  "int_div a b = fl_round (of_int a / of_int b)"

definition fl_tiny :: pyfloat where
  "fl_tiny = fl_round (1 / 10 ^ 12)"

section \<open>statistics\<close>

record summary_stats =
  ss_count :: int
  ss_minimum :: pyfloat
  ss_maximum :: pyfloat
  ss_mean :: pyfloat
  ss_std :: pyfloat
  ss_p50 :: pyfloat
  ss_p90 :: pyfloat
  ss_p95 :: pyfloat
  ss_p99 :: pyfloat
  ss_mad :: pyfloat
  ss_cov :: "pyfloat option"
  ss_bootstrap :: "(string \<times> pydict) list option"

definition stats_dict :: "summary_stats \<Rightarrow> pydict" where
  "stats_dict s = [(''count'', PInt (ss_count s)), (''minimum'', PFloat (ss_minimum s)),
     (''maximum'', PFloat (ss_maximum s)), (''mean'', PFloat (ss_mean s)), (''std'', PFloat (ss_std s)),
     (''p50'', PFloat (ss_p50 s)), (''p90'', PFloat (ss_p90 s)), (''p95'', PFloat (ss_p95 s)),
     (''p99'', PFloat (ss_p99 s)), (''mad'', PFloat (ss_mad s)),
     (''coefficient_of_variation'', opt_val PFloat (ss_cov s)),
     (''bootstrap_ci'', opt_val (\<lambda>b. PDict (map (\<lambda>(k, d). (k, PDict d)) b)) (ss_bootstrap s))]"

definition median_absolute_deviation :: "numpy \<Rightarrow> pyfloat list \<Rightarrow> pyfloat" where
  "median_absolute_deviation N values = (let m = n_median N values in
     n_median N (map (\<lambda>v. fl_abs (fl_sub v m)) values))"

definition resample_statistic :: "numpy \<Rightarrow> string \<Rightarrow> pyfloat list \<Rightarrow> exc + pyfloat" where
  "resample_statistic N statistic sample =
     (if statistic = ''mean'' then Inr (n_mean N sample)
      else if statistic = ''p99'' then Inr (n_percentile N (fl_sort sample) (Fin 99))
      else if statistic = ''p50'' then Inr (n_percentile N (fl_sort sample) (Fin 50))
      else Inl (ps_err CONFIG_INVALID (''Unsupported bootstrap statistic: '' @ statistic)))"

definition bootstrap_confidence_interval ::
    "numpy \<Rightarrow> pyfloat list \<Rightarrow> string \<Rightarrow> int \<Rightarrow> pyfloat \<Rightarrow> int \<Rightarrow> exc + pydict" where
  "bootstrap_confidence_interval N values statistic resamples confidence_level seed =
     bindR (guardR (1 \<le> resamples) (ps_err CONFIG_INVALID ''bootstrap resamples must be >= 1'')) (\<lambda>u.
     bindR (mapR (\<lambda>i. resample_statistic N statistic
         (map (\<lambda>j. values ! j) (n_integers N seed i (length values)))) [0..<nat resamples]) (\<lambda>stats.
     let alpha = fl_sub (Fin 1) confidence_level; half = fl_div alpha (Fin 2) in
     Inr [(''statistic'', PFloat (n_mean N stats)), (''lower'', PFloat (n_quantile N stats half)),
       (''upper'', PFloat (n_quantile N stats (fl_sub (Fin 1) half))),
       (''confidence_level'', PFloat confidence_level),
       (''resamples'', PFloat (fl_round (of_int resamples)))]))"

definition summarize_latencies ::
    "numpy \<Rightarrow> pyfloat list \<Rightarrow> int \<Rightarrow> pyfloat \<Rightarrow> int \<Rightarrow> string list \<Rightarrow> exc + summary_stats" where
  "summarize_latencies N values resamples confidence_level seed statistics =
     bindR (guardR (values \<noteq> []) (ps_err INTERNAL_INVARIANT_FAILED ''Cannot summarize empty sample set'')) (\<lambda>u.
     bindR (guardR (list_all is_finite values)
       (ps_err INTERNAL_INVARIANT_FAILED ''Latency samples must be finite'')) (\<lambda>u.
     let sorted_values = fl_sort values; m = n_mean N values;
         std = (if 1 < length values then n_std N values else Fin 0);
         cov = (if \<not> fl_eq m (Fin 0) then Some (fl_div std m) else None) in
     bindR (if 0 < resamples
       then bindR (mapR (\<lambda>(idx, name). bindR (bootstrap_confidence_interval N values name resamples
           confidence_level (seed + int idx)) (\<lambda>d. Inr (name, d))) (enumerate 0 statistics)) (\<lambda>ci. Inr (Some ci))
       else Inr None) (\<lambda>bootstrap.
     Inr \<lparr>ss_count = int (length values), ss_minimum = hd sorted_values, ss_maximum = last sorted_values,
       ss_mean = m, ss_std = std, ss_p50 = n_percentile N sorted_values (Fin 50),
       ss_p90 = n_percentile N sorted_values (Fin 90), ss_p95 = n_percentile N sorted_values (Fin 95),
       ss_p99 = n_percentile N sorted_values (Fin 99), ss_mad = median_absolute_deviation N values,
       ss_cov = cov, ss_bootstrap = bootstrap\<rparr>)))"

section \<open>Evaluation results and their attestation\<close>

record evaluation_result =
  er_metric :: string
  er_direction :: string
  er_value :: pyfloat
  er_samples :: int
  er_breakdown :: pydict
  er_attestation :: pydict
  er_unavailable :: "string option"

text \<open>The envelope, the evaluator's version and the configuration hash, in the order they are made.\<close>

definition attest ::
    "ext \<Rightarrow> string \<Rightarrow> string \<Rightarrow> pydict \<Rightarrow> string \<Rightarrow> pydict \<Rightarrow> pydict io" where
  "attest X dataset_hash adapter_name adapter_config metric entries =
     bindS (envelope_fields X ''perceptshift.quality_attestation'') (\<lambda>envelope.
     bindS (get_version X) (\<lambda>version.
     bindS (liftS (sha256_canonical X (PDict adapter_config))) (\<lambda>config_hash.
     retS (dupdate envelope ([(''dataset_hash'', PStr dataset_hash),
       (''evaluator_version'', PStr version), (''adapter_name'', PStr adapter_name),
       (''adapter_config_hash'', PStr config_hash), (''metric_name'', PStr metric),
       (''metric_direction'', PStr ''higher_is_better'')] @ entries)))))"

text \<open>Whether the quality contract holds of a value, and the fields that record it.\<close>

definition quality_passed :: "pyfloat \<Rightarrow> pyfloat option \<Rightarrow> pyfloat option \<Rightarrow> pyfloat \<Rightarrow> bool" where
  "quality_passed value baseline degradation minimum \<longleftrightarrow> fl_le minimum value \<and>
     (case (baseline, degradation) of (Some b, Some d) \<Rightarrow> \<not> fl_lt d (fl_sub b value) | _ \<Rightarrow> True)"

definition relative_delta :: "pyfloat \<Rightarrow> pyfloat option \<Rightarrow> pyval" where
  "relative_delta value baseline = (case baseline of None \<Rightarrow> PNone
     | Some b \<Rightarrow> if fl_eq b (Fin 0) then PNone else PFloat (fl_div (fl_sub value b) (fl_abs b)))"

definition quality_fields ::
    "pyfloat \<Rightarrow> pyfloat option \<Rightarrow> pyfloat option \<Rightarrow> pyfloat \<Rightarrow> int \<Rightarrow> pydict \<Rightarrow> pydict" where
  "quality_fields value baseline degradation minimum samples breakdown =
     [(''baseline_value'', PFloat (case baseline of None \<Rightarrow> value | Some b \<Rightarrow> b)),
      (''candidate_value'', PFloat value),
      (''absolute_delta'', PFloat (case baseline of None \<Rightarrow> Fin 0 | Some b \<Rightarrow> fl_sub value b)),
      (''relative_delta'', relative_delta value baseline),
      (''sample_count'', PInt samples), (''class_breakdown'', PDict breakdown),
      (''pass'', PBool (quality_passed value baseline degradation minimum)),
      (''threshold_contract'', PDict [(''minimum_absolute_value'', PFloat minimum),
         (''maximum_degradation_from_baseline'', opt_val PFloat degradation)])]"

section \<open>Classification accuracy\<close>

definition matches :: "int list \<Rightarrow> int list \<Rightarrow> int" where
  "matches predictions labels = int (length (filter (\<lambda>(p, y). p = y) (zip predictions labels)))"

text \<open>The entry of one label: the positions that carry it, and how many were predicted.\<close>

definition label_indices :: "int list \<Rightarrow> int \<Rightarrow> nat list" where
  "label_indices labels label = filter (\<lambda>i. labels ! i = label) [0..<length labels]"

definition label_hits :: "int list \<Rightarrow> int list \<Rightarrow> int \<Rightarrow> int" where
  "label_hits predictions labels label =
     int (length (filter (\<lambda>i. predictions ! i = labels ! i) (label_indices labels label)))"

definition label_entry :: "int list \<Rightarrow> int list \<Rightarrow> int \<Rightarrow> pyval" where
  "label_entry predictions labels label = (let n = int (length (label_indices labels label));
     hits = label_hits predictions labels label in
     PDict [(''count'', PInt n), (''correct'', PInt hits),
       (''accuracy'', PFloat (if n \<noteq> 0 then int_div hits n else Fin 0))])"

definition class_breakdown :: "int list \<Rightarrow> int list \<Rightarrow> pydict" where
  "class_breakdown predictions labels =
     map (\<lambda>l. (show_int l, label_entry predictions labels l)) (sorted_list_of_set (set labels))"

definition classification_accuracy ::
    "ext \<Rightarrow> int list \<Rightarrow> int list \<Rightarrow> string \<Rightarrow> string \<Rightarrow> pydict \<Rightarrow> pyfloat option \<Rightarrow> pyfloat option \<Rightarrow>
     pyfloat \<Rightarrow> evaluation_result io" where
  "classification_accuracy X predictions labels dataset_hash adapter_name adapter_config
      baseline degradation minimum =
     bindS (guardS (length predictions = length labels)
       (ps_err INTERNAL_INVARIANT_FAILED ''predictions and labels length mismatch'')) (\<lambda>u.
     bindS (guardS (labels \<noteq> []) (ps_err DATASET_INVALID ''Cannot evaluate empty label set'')) (\<lambda>u.
     let value = int_div (matches predictions labels) (int (length labels));
         breakdown = class_breakdown predictions labels in
     bindS (attest X dataset_hash adapter_name adapter_config ''classification_accuracy''
       (quality_fields value baseline degradation minimum (int (length labels)) breakdown)) (\<lambda>a.
     retS \<lparr>er_metric = ''classification_accuracy'', er_direction = ''higher_is_better'',
       er_value = value, er_samples = int (length labels), er_breakdown = breakdown,
       er_attestation = a, er_unavailable = None\<rparr>)))"

section \<open>Output equivalence\<close>

record tensor =
  t_shape :: "int list"
  t_data :: "pyfloat list"

record tolerances =
  tl_abs :: pyfloat
  tl_rel :: pyfloat
  tl_mean :: "pyfloat option"
  tl_cosine :: "pyfloat option"

definition default_tolerances :: tolerances where
  "default_tolerances = \<lparr>tl_abs = fl_round (1 / 10 ^ 5), tl_rel = fl_round (1 / 10 ^ 5), tl_mean = None,
     tl_cosine = None\<rparr>"

definition abs_diffs :: "tensor \<Rightarrow> tensor \<Rightarrow> pyfloat list" where
  "abs_diffs r c = map2 (\<lambda>x y. fl_abs (fl_sub x y)) (t_data r) (t_data c)"

definition rel_diffs :: "tensor \<Rightarrow> tensor \<Rightarrow> pyfloat list" where
  "rel_diffs r c = map2 (\<lambda>d x. np_div d (np_maximum (fl_abs x) fl_tiny)) (abs_diffs r c) (t_data r)"

definition cosine :: "numpy \<Rightarrow> tensor \<Rightarrow> tensor \<Rightarrow> pyfloat \<Rightarrow> pyfloat" where
  "cosine N r c abs_err = (let norm_r = n_norm N (t_data r); norm_c = n_norm N (t_data c) in
     if fl_lt (Fin 0) norm_r \<and> fl_lt (Fin 0) norm_c
     then np_div (n_dot N (t_data r) (t_data c)) (fl_mul norm_r norm_c)
     else if fl_eq abs_err (Fin 0) then Fin 1 else Fin 0)"

record comparison =
  cm_abs :: pyfloat
  cm_rel :: pyfloat
  cm_means :: "pyfloat list"
  cm_cosines :: "pyfloat list"

definition no_comparison :: comparison where
  "no_comparison = \<lparr>cm_abs = Fin 0, cm_rel = Fin 0, cm_means = [], cm_cosines = []\<rparr>"

text \<open>A shape tuple as Python prints it.\<close>

definition show_shape :: "int list \<Rightarrow> string" where
  "show_shape ds = ''('' @ join_with '', '' (map show_int ds) @ (if length ds = 1 then '','' else []) @ '')''"

definition compare_outputs ::
    "numpy \<Rightarrow> (tensor \<times> tensor) \<Rightarrow> comparison \<Rightarrow> exc + comparison" where
  "compare_outputs N rc m = (case rc of (r, c) \<Rightarrow>
     bindR (guardR (t_shape r = t_shape c) (ps_err EQUIVALENCE_GATE_FAILED
       (''Output shape mismatch: '' @ show_shape (t_shape r) @ '' vs '' @ show_shape (t_shape c)))) (\<lambda>u.
     let diff = abs_diffs r c;
         abs_err = (if diff \<noteq> [] then np_max diff else Fin 0);
         rel_err = (if diff \<noteq> [] then np_max (rel_diffs r c) else Fin 0) in
     Inr \<lparr>cm_abs = fl_max (cm_abs m) abs_err, cm_rel = fl_max (cm_rel m) rel_err,
       cm_means = cm_means m @ [if diff \<noteq> [] then n_mean N diff else Fin 0],
       cm_cosines = cm_cosines m @ [cosine N r c abs_err]\<rparr>))"

text \<open>Python's \<open>min\<close> of a list: the first element no later one is below.\<close>

fun py_min :: "pyfloat \<Rightarrow> pyfloat list \<Rightarrow> pyfloat" where
  "py_min m [] = m"
| "py_min m (x # xs) = py_min (if fl_lt x m then x else m) xs"

definition mean_error :: "numpy \<Rightarrow> comparison \<Rightarrow> pyfloat" where
  "mean_error N m = (if cm_means m \<noteq> [] then n_mean N (cm_means m) else Fin 0)"

definition min_cosine :: "comparison \<Rightarrow> pyfloat" where
  "min_cosine m = (case cm_cosines m of [] \<Rightarrow> Fin 1 | x # xs \<Rightarrow> py_min x xs)"

definition equivalence_passed :: "numpy \<Rightarrow> tolerances \<Rightarrow> comparison \<Rightarrow> bool" where
  "equivalence_passed N tol m \<longleftrightarrow> fl_le (cm_abs m) (tl_abs tol) \<and> fl_le (cm_rel m) (tl_rel tol) \<and>
     (case tl_mean tol of None \<Rightarrow> True | Some t \<Rightarrow> \<not> fl_lt t (mean_error N m)) \<and>
     (case tl_cosine tol of None \<Rightarrow> True | Some t \<Rightarrow> \<not> fl_lt (min_cosine m) t)"

definition equivalence_score :: "tolerances \<Rightarrow> comparison \<Rightarrow> bool \<Rightarrow> pyfloat" where
  "equivalence_score tol m passed = (if passed then Fin 1
     else fl_max (Fin 0) (fl_sub (Fin 1) (fl_div (cm_abs m) (fl_max (tl_abs tol) fl_tiny))))"

definition equivalence_breakdown :: "numpy \<Rightarrow> comparison \<Rightarrow> pydict" where
  "equivalence_breakdown N m = [(''max_abs_error'', PFloat (cm_abs m)),
     (''max_rel_error'', PFloat (cm_rel m)), (''mean_abs_error'', PFloat (mean_error N m)),
     (''min_cosine_similarity'', PFloat (min_cosine m))]"

definition equivalence_fields :: "numpy \<Rightarrow> tolerances \<Rightarrow> comparison \<Rightarrow> int \<Rightarrow> pydict" where
  "equivalence_fields N tol m samples = (let passed = equivalence_passed N tol m;
     score = equivalence_score tol m passed in
     [(''baseline_value'', PFloat (Fin 1)), (''candidate_value'', PFloat score),
      (''absolute_delta'', PFloat (fl_sub score (Fin 1))), (''relative_delta'', PFloat (fl_sub score (Fin 1))),
      (''sample_count'', PInt samples), (''class_breakdown'', PDict (equivalence_breakdown N m)),
      (''pass'', PBool passed),
      (''threshold_contract'', PDict [(''max_abs_error'', PFloat (tl_abs tol)),
         (''max_rel_error'', PFloat (tl_rel tol)), (''max_mean_abs_error'', opt_val PFloat (tl_mean tol)),
         (''min_cosine_similarity'', opt_val PFloat (tl_cosine tol))])])"

definition numeric_equivalence ::
    "ext \<Rightarrow> numpy \<Rightarrow> tensor list \<Rightarrow> tensor list \<Rightarrow> string \<Rightarrow> string \<Rightarrow> pydict \<Rightarrow> tolerances option \<Rightarrow>
     evaluation_result io" where
  "numeric_equivalence X N refs cands dataset_hash adapter_name adapter_config tols =
     bindS (guardS (length refs = length cands)
       (ps_err EQUIVALENCE_GATE_FAILED ''Reference/candidate output count mismatch'')) (\<lambda>u.
     bindS (guardS (refs \<noteq> []) (ps_err DATASET_INVALID
       ''Cannot evaluate equivalence on empty output set'')) (\<lambda>u.
     let tol = (case tols of None \<Rightarrow> default_tolerances | Some t \<Rightarrow> t) in
     bindS (liftS (foldR (compare_outputs N) (zip refs cands) no_comparison)) (\<lambda>m.
     bindS (attest X dataset_hash adapter_name adapter_config ''numeric_equivalence''
       (equivalence_fields N tol m (int (length refs)))) (\<lambda>a.
     retS \<lparr>er_metric = ''numeric_equivalence'', er_direction = ''higher_is_better'',
       er_value = equivalence_score tol m (equivalence_passed N tol m),
       er_samples = int (length refs), er_breakdown = equivalence_breakdown N m,
       er_attestation = a, er_unavailable = None\<rparr>))))"

section \<open>Detections for COCO evaluation\<close>

text \<open>The image ids by id and by file name, full and without its suffix.\<close>

definition coco_ids :: "pyval \<Rightarrow> exc + (string \<times> int) list" where
  "coco_ids images = bindR (py_iter (py_or images (PList []))) (\<lambda>imgs.
     foldR (\<lambda>img ids. case img of
         PDict d \<Rightarrow> bindR (bindR (ditem d ''id'') py_int) (\<lambda>i.
           let ids1 = AList.update (show_int i) i ids in
           Inr (if dhas d ''file_name'' then let f = py_str (dget d ''file_name'') in
             AList.update (path_stem (path_of f)) i (AList.update f i ids1) else ids1))
       | _ \<Rightarrow> Inr ids) imgs [])"

definition get_float :: "pydict \<Rightarrow> string \<Rightarrow> pyval \<Rightarrow> exc + pyfloat" where
  "get_float d k x = py_float (dget_or d k x)"

definition coco_record :: "int \<Rightarrow> int \<Rightarrow> pyfloat list \<Rightarrow> pyfloat \<Rightarrow> pydict" where
  "coco_record image_id category_id bbox score =
     [(''image_id'', PInt image_id), (''category_id'', PInt category_id),
      (''bbox'', PList (map PFloat bbox)), (''score'', PFloat score)]"

definition coco_shaped :: "pydict \<Rightarrow> bool" where
  "coco_shaped d \<longleftrightarrow> dhas d ''image_id'' \<and> dhas d ''bbox'' \<and> is_list (dget d ''bbox'')"

definition keep_coco :: "pydict \<Rightarrow> exc + pydict" where
  "keep_coco d =
     bindR (py_int (dget d ''image_id'')) (\<lambda>i.
     bindR (py_int (dget_or d ''category_id'' (dget_or d ''class_id'' (PInt 0)))) (\<lambda>c.
     bindR (mapR py_float (take 4 (the_list (dget d ''bbox'')))) (\<lambda>b.
     bindR (py_float (dget_or d ''score'' (dget_or d ''confidence'' (PFloat (Fin 0))))) (\<lambda>s.
     Inr (coco_record i c b s)))))"

definition native_bbox :: "pyval \<Rightarrow> exc + pyfloat list option" where
  "native_bbox bbox = (case bbox of
     PDict b \<Rightarrow>
       bindR (get_float b ''x'' (PFloat (Fin 0))) (\<lambda>x. bindR (get_float b ''y'' (PFloat (Fin 0))) (\<lambda>y.
       bindR (get_float b ''w'' (PFloat (Fin 0))) (\<lambda>w. bindR (get_float b ''h'' (PFloat (Fin 0))) (\<lambda>h.
       Inr (Some [x, y, w, h])))))
   | PList l \<Rightarrow> if 4 \<le> length l then bindR (mapR py_float (take 4 l)) (\<lambda>b. Inr (Some b)) else Inr None
   | _ \<Rightarrow> Inr None)"

definition sample_image :: "(string \<times> int) list \<Rightarrow> pydict \<Rightarrow> exc + int option" where
  "sample_image ids d = (let sample_id = py_str (py_or (py_or (dget d ''sample_id'') (dget d ''image_id'')) (PStr [])) in
     case map_of ids sample_id of Some i \<Rightarrow> Inr (Some i)
     | None \<Rightarrow> if py_isdigit sample_id then bindR (py_int (PStr sample_id)) (\<lambda>i. Inr (Some i)) else Inr None)"

definition convert_native :: "(string \<times> int) list \<Rightarrow> pydict \<Rightarrow> exc + pydict option" where
  "convert_native ids d =
     bindR (sample_image ids d) (\<lambda>image. case image of None \<Rightarrow> Inr None
     | Some i \<Rightarrow> bindR (native_bbox (dget d ''bbox'')) (\<lambda>bbox. case bbox of None \<Rightarrow> Inr None
       | Some b \<Rightarrow>
           bindR (py_int (dget_or d ''class_id'' (dget_or d ''category_id'' (PInt 0)))) (\<lambda>c.
           bindR (py_float (dget_or d ''confidence'' (dget_or d ''score'' (PFloat (Fin 0))))) (\<lambda>s.
           Inr (Some (coco_record i c b s))))))"

definition normalize_detection ::
    "(string \<times> int) list \<Rightarrow> pyval \<Rightarrow> pydict list \<Rightarrow> exc + pydict list" where
  "normalize_detection ids det results = (case det of
     PDict d \<Rightarrow> if coco_shaped d then bindR (keep_coco d) (\<lambda>r. Inr (results @ [r]))
       else bindR (convert_native ids d) (\<lambda>r. case r of None \<Rightarrow> Inr results | Some r \<Rightarrow> Inr (results @ [r]))
   | _ \<Rightarrow> Inr results)"

definition normalize_detections_for_coco :: "pyval \<Rightarrow> pyval list \<Rightarrow> exc + pydict list" where
  "normalize_detections_for_coco images detections =
     bindR (coco_ids images) (\<lambda>ids. foldR (normalize_detection ids) detections [])"

text \<open>
  \<open>pycocotools\<close>: whether it is installed, the \<open>images\<close> of the loaded ground truth, and the average
  precision and image count of an evaluation of records. The temporary file the records pass
  through is removed again and leaves no trace.
\<close>

record coco_tools =
  k_installed :: bool
  k_images :: "string \<Rightarrow> exc + pyval"
  k_evaluate :: "string \<Rightarrow> pydict list \<Rightarrow> exc + pyfloat \<times> int"

definition coco_unavailable ::
    "ext \<Rightarrow> string \<Rightarrow> string \<Rightarrow> pydict \<Rightarrow> pyfloat option \<Rightarrow> pyfloat \<Rightarrow> evaluation_result io" where
  "coco_unavailable X dataset_hash adapter_name adapter_config degradation minimum =
     bindS (attest X dataset_hash adapter_name adapter_config ''coco_map_50_95''
       [(''baseline_value'', PFloat (Fin 0)), (''candidate_value'', PFloat (Fin 0)), (''sample_count'', PInt 0),
        (''pass'', PBool False),
        (''threshold_contract'', PDict [(''minimum_absolute_value'', PFloat minimum),
           (''maximum_degradation_from_baseline'', opt_val PFloat degradation)]),
        (''unavailable'', PDict [(''reason_code'', reason_val UNAVAILABLE_COCO_TOOLS),
           (''message'', PStr ''pycocotools is not installed'')])]) (\<lambda>a.
     raiseS (ps_error DEPENDENCY_UNAVAILABLE ''pycocotools is required for COCO mAP evaluation''
       (Some ''Install optional dependency group: perceptshift-forge[coco]'')
       [(''reason_code'', reason_val UNAVAILABLE_COCO_TOOLS)] (Some (py_err ImportError))))"

definition coco_map_50_95 ::
    "ext \<Rightarrow> coco_tools \<Rightarrow> ppath \<Rightarrow> pyval list \<Rightarrow> string \<Rightarrow> string \<Rightarrow> pydict \<Rightarrow> pyfloat option \<Rightarrow>
     pyfloat option \<Rightarrow> pyfloat \<Rightarrow> evaluation_result io" where
  "coco_map_50_95 X T gt detections dataset_hash adapter_name adapter_config baseline degradation minimum =
     (if \<not> k_installed T then coco_unavailable X dataset_hash adapter_name adapter_config degradation minimum
      else
       bindS (getS (\<lambda>w. is_file w gt)) (\<lambda>there.
       bindS (guardS there (ps_err DATASET_INVALID
         (''COCO ground-truth file missing: '' @ path_str gt))) (\<lambda>u.
       bindS (guardS (detections \<noteq> []) (ps_err DATASET_INVALID
         ''No detections provided for COCO evaluation'')) (\<lambda>u.
       bindS (read_bytes gt) (\<lambda>content.
       bindS (liftS (k_images T content)) (\<lambda>images.
       bindS (liftS (normalize_detections_for_coco images detections)) (\<lambda>results.
       bindS (guardS (results \<noteq> []) (ps_err DATASET_INVALID
         ''No COCO-compatible detections after normalization'')) (\<lambda>u.
       bindS (liftS (k_evaluate T content results)) (\<lambda>(value, samples).
       bindS (attest X dataset_hash adapter_name adapter_config ''coco_map_50_95''
         (quality_fields value baseline degradation minimum samples [])) (\<lambda>a.
       retS \<lparr>er_metric = ''coco_map_50_95'', er_direction = ''higher_is_better'', er_value = value,
         er_samples = samples, er_breakdown = [], er_attestation = a, er_unavailable = None\<rparr>))))))))))"

text \<open>\<open>np.argmax\<close>: the first NaN, or else the first maximum; an empty array is a ValueError.\<close>

fun argmax_from :: "pyfloat \<Rightarrow> int \<Rightarrow> int \<Rightarrow> pyfloat list \<Rightarrow> int" where
  "argmax_from m best i [] = best"
| "argmax_from m best i (x # xs) = (if m = NaN then best
     else if x = NaN \<or> fl_lt m x then argmax_from x i (i + 1) xs else argmax_from m best (i + 1) xs)"

definition softmax_argmax :: "tensor \<Rightarrow> exc + int" where
  "softmax_argmax logits =
     bindR (guardR (length (t_shape logits) = 1)
       (ps_err INFERENCE_FAILED ''Expected 1-D logits for classification argmax'')) (\<lambda>u.
     case t_data logits of [] \<Rightarrow> Inl (py_err ValueError) | x # xs \<Rightarrow> Inr (argmax_from x 0 1 xs))"

section \<open>Lemmas\<close>

lemma dget_dupdate: "distinct (map fst es) \<Longrightarrow> map_of es k = Some v \<Longrightarrow> dget (dupdate d es) k = v"
  by (simp add: dget_def map_of_dupdate)

lemma attest_entry:
  assumes "attest X h a c metric es w = (Inr d, w')" and "distinct (map fst es)"
    and "map_of es k = Some v"
    and "k \<notin> {''dataset_hash'', ''evaluator_version'', ''adapter_name'', ''adapter_config_hash'', ''metric_name'', ''metric_direction''}"
    and "\<forall>k'\<in>{''dataset_hash'', ''evaluator_version'', ''adapter_name'', ''adapter_config_hash'', ''metric_name'', ''metric_direction''}. map_of es k' = None"
  shows "dget d k = v"
proof -
  from assms(1) obtain env version ch where d: "d = dupdate env ([(''dataset_hash'', PStr h),
       (''evaluator_version'', PStr version), (''adapter_name'', PStr a),
       (''adapter_config_hash'', PStr ch), (''metric_name'', PStr metric),
       (''metric_direction'', PStr ''higher_is_better'')] @ es)" (is "_ = dupdate env (?hd @ es)")
    by (auto simp: attest_def comp_eqs)
  have "fst ` set es \<inter> {''dataset_hash'', ''evaluator_version'', ''adapter_name'', ''adapter_config_hash'', ''metric_name'', ''metric_direction''} = {}"
    using assms(5) by (auto simp: map_of_eq_None_iff)
  then have dist: "distinct (map fst (?hd @ es))" using assms(2) by auto
  have "map_of (?hd @ es) k = Some v" using assms(3,4) by simp
  then show ?thesis unfolding d by (rule dget_dupdate [OF dist])
qed

lemma fl_max_ge: "a \<noteq> NaN \<Longrightarrow> b \<noteq> NaN \<Longrightarrow> fl_le a (fl_max a b) \<and> fl_le b (fl_max a b) \<and> fl_max a b \<noteq> NaN"
  by (cases a; cases b) (auto simp: fl_max_def)

lemma fl_max_NaN: "fl_max a NaN = a"
  by (simp add: fl_max_def)

lemma np_maximum_NaN: "np_maximum a b = NaN \<longleftrightarrow> a = NaN \<or> b = NaN"
  by (auto simp: np_maximum_def fl_max_def)

lemma foldr_maximum_NaN: "foldr np_maximum xs y = NaN \<longleftrightarrow> NaN \<in> set xs \<or> y = NaN"
  by (induction xs) (auto simp: np_maximum_NaN)

lemma np_max_NaN: "xs \<noteq> [] \<Longrightarrow> np_max xs = NaN \<longleftrightarrow> NaN \<in> set xs"
  by (cases xs rule: rev_cases) (auto simp: np_max_def foldr_maximum_NaN)

lemma foldr_maximum_ge:
  "NaN \<notin> set xs \<Longrightarrow> y \<noteq> NaN \<Longrightarrow> x \<in> set xs \<or> x = y \<Longrightarrow> fl_le x (foldr np_maximum xs y)"
proof (induction xs)
  case Nil
  then show ?case by (simp add: fl_le_refl)
next
  case (Cons z zs)
  let ?m = "foldr np_maximum zs y"
  have m: "?m \<noteq> NaN" using Cons.prems by (simp add: foldr_maximum_NaN)
  have z: "z \<noteq> NaN" using Cons.prems(1) by auto
  have eq: "foldr np_maximum (z # zs) y = fl_max z ?m" using m z by (simp add: np_maximum_def)
  show ?case
  proof (cases "x = z")
    case True
    then show ?thesis using fl_max_ge [OF z m] eq by simp
  next
    case False
    then have "fl_le x ?m" using Cons by auto
    then show ?thesis unfolding eq using fl_max_ge [OF z m] by (blast intro: fl_le_trans)
  qed
qed

lemma np_max_ge: "NaN \<notin> set xs \<Longrightarrow> x \<in> set xs \<Longrightarrow> fl_le x (np_max xs)"
  unfolding np_max_def by (rule foldr_maximum_ge) (cases xs rule: rev_cases; auto)+

text \<open>The running maxima dominate the differences of every pair compared so far.\<close>

definition nan_free :: "tensor \<times> tensor \<Rightarrow> bool" where
  "nan_free rc \<longleftrightarrow> NaN \<notin> set (abs_diffs (fst rc) (snd rc)) \<and> NaN \<notin> set (rel_diffs (fst rc) (snd rc))"

definition dominated :: "comparison \<Rightarrow> tensor \<times> tensor \<Rightarrow> bool" where
  "dominated m rc \<longleftrightarrow> t_shape (fst rc) = t_shape (snd rc) \<and>
     (\<forall>d\<in>set (abs_diffs (fst rc) (snd rc)). fl_le d (cm_abs m)) \<and>
     (\<forall>d\<in>set (rel_diffs (fst rc) (snd rc)). fl_le d (cm_rel m))"

lemma compare_outputs_dominates:
  assumes "compare_outputs N rc m = Inr m'" and "cm_abs m \<noteq> NaN" and "cm_rel m \<noteq> NaN" and "nan_free rc"
  shows "cm_abs m' \<noteq> NaN \<and> cm_rel m' \<noteq> NaN \<and> fl_le (cm_abs m) (cm_abs m') \<and> fl_le (cm_rel m) (cm_rel m')
    \<and> dominated m' rc"
proof -
  obtain r c where rc: "rc = (r, c)" by fastforce
  let ?d = "abs_diffs r c" and ?q = "rel_diffs r c"
  define ea where "ea = (if ?d \<noteq> [] then np_max ?d else Fin 0)"
  define eq where "eq = (if ?d \<noteq> [] then np_max ?q else Fin 0)"
  from assms(1) rc have shape: "t_shape r = t_shape c" and m': "cm_abs m' = fl_max (cm_abs m) ea"
      "cm_rel m' = fl_max (cm_rel m) eq"
    by (auto simp: compare_outputs_def result_eqs Let_def ea_def eq_def)
  have q_ne: "?q \<noteq> []" if "?d \<noteq> []" using that by (cases "t_data r") (auto simp: rel_diffs_def abs_diffs_def)
  have q_nil: "?q = []" if "?d = []" using that by (simp add: rel_diffs_def)
  have nn: "ea \<noteq> NaN" "eq \<noteq> NaN"
    using assms(4) rc q_ne by (auto simp: ea_def eq_def np_max_NaN nan_free_def)
  note ga = fl_max_ge [OF assms(2) nn(1)] and gr = fl_max_ge [OF assms(3) nn(2)]
  have "\<forall>x\<in>set ?d. fl_le x ea" "\<forall>x\<in>set ?q. fl_le x eq"
    using np_max_ge assms(4) rc q_nil by (fastforce simp: ea_def eq_def nan_free_def)+
  then have "dominated m' rc"
    using ga gr shape rc m' by (auto simp: dominated_def intro: fl_le_trans)
  with ga gr m' show ?thesis by simp
qed

lemma compare_all_dominates:
  assumes "foldR (compare_outputs N) ps m = Inr m'" and "cm_abs m \<noteq> NaN" and "cm_rel m \<noteq> NaN"
    and "\<forall>rc\<in>set ps. nan_free rc"
  shows "fl_le (cm_abs m) (cm_abs m') \<and> fl_le (cm_rel m) (cm_rel m') \<and> (\<forall>rc\<in>set ps. dominated m' rc)"
  using assms
proof (induction ps arbitrary: m)
  case Nil
  then show ?case by (simp add: fl_le_refl)
next
  case (Cons rc ps)
  from Cons.prems(1) obtain m1 where one: "compare_outputs N rc m = Inr m1"
      and rest: "foldR (compare_outputs N) ps m1 = Inr m'"
    by (auto simp: bindR_eq_Inr)
  have one': "cm_abs m1 \<noteq> NaN \<and> cm_rel m1 \<noteq> NaN \<and> fl_le (cm_abs m) (cm_abs m1) \<and> fl_le (cm_rel m) (cm_rel m1)
      \<and> dominated m1 rc"
    by (rule compare_outputs_dominates [OF one]) (use Cons.prems in auto)
  have ih: "fl_le (cm_abs m1) (cm_abs m') \<and> fl_le (cm_rel m1) (cm_rel m') \<and> (\<forall>rc\<in>set ps. dominated m' rc)"
    using Cons.IH [OF rest] one' Cons.prems(4) by simp
  have "dominated m' rc" using one' ih by (auto simp: dominated_def intro: fl_le_trans)
  with ih one' show ?case by (auto intro: fl_le_trans)
qed

lemma numeric_equivalence_steps:
  assumes "numeric_equivalence X N refs cands h a cfg tols w = (Inr res, w')"
  obtains m where "length refs = length cands" "refs \<noteq> []"
    "foldR (compare_outputs N) (zip refs cands) no_comparison = Inr m"
    "er_value res = equivalence_score (case tols of None \<Rightarrow> default_tolerances | Some t \<Rightarrow> t) m
       (equivalence_passed N (case tols of None \<Rightarrow> default_tolerances | Some t \<Rightarrow> t) m)"
    "dget (er_attestation res) ''pass''
       = PBool (equivalence_passed N (case tols of None \<Rightarrow> default_tolerances | Some t \<Rightarrow> t) m)"
proof -
  let ?tol = "case tols of None \<Rightarrow> default_tolerances | Some t \<Rightarrow> t"
  from assms obtain m d w1 w2 where l: "length refs = length cands" "refs \<noteq> []"
    and m: "foldR (compare_outputs N) (zip refs cands) no_comparison = Inr m"
    and a: "attest X h a cfg ''numeric_equivalence'' (equivalence_fields N ?tol m (int (length refs))) w1 = (Inr d, w2)"
    and res: "er_value res = equivalence_score ?tol m (equivalence_passed N ?tol m)" "er_attestation res = d"
    by (auto simp: numeric_equivalence_def comp_eqs Let_def)
  have "dget d ''pass'' = PBool (equivalence_passed N ?tol m)"
    by (rule attest_entry [OF a]) (simp_all add: equivalence_fields_def Let_def)
  with l m res show thesis using that by blast
qed

section \<open>Properties\<close>

text \<open>C32. When no compared difference is NaN, a passing equivalence attestation means that the shapes
  agree and that every element's absolute and relative error is within its tolerance.\<close>

theorem equivalence_sound:
  assumes run: "numeric_equivalence X N refs cands h a cfg (Some tol) w = (Inr res, w')"
    and free: "\<forall>rc\<in>set (zip refs cands). nan_free rc"
    and pass: "dget (er_attestation res) ''pass'' = PBool True"
  shows "\<forall>(r, c)\<in>set (zip refs cands). t_shape r = t_shape c \<and>
    (\<forall>d\<in>set (abs_diffs r c). fl_le d (tl_abs tol)) \<and> (\<forall>d\<in>set (rel_diffs r c). fl_le d (tl_rel tol))"
proof -
  obtain m where m: "foldR (compare_outputs N) (zip refs cands) no_comparison = Inr m"
    "dget (er_attestation res) ''pass'' = PBool (equivalence_passed N tol m)"
    using numeric_equivalence_steps [OF run] by auto
  have "\<forall>rc\<in>set (zip refs cands). dominated m rc"
    using compare_all_dominates [OF m(1) _ _ free] by (simp add: no_comparison_def)
  moreover have "fl_le (cm_abs m) (tl_abs tol)" "fl_le (cm_rel m) (tl_rel tol)"
    using pass m(2) by (simp_all add: equivalence_passed_def)
  ultimately show ?thesis by (fastforce simp: dominated_def intro: fl_le_trans)
qed

text \<open>C33. An output with NaN passes: Python's \<open>max\<close> keeps the running value when the new one is NaN, so
  with the default tolerances a candidate whose outputs are NaN gets a passing attestation and the
  score 1.\<close>

theorem nan_outputs_pass:
  assumes run: "numeric_equivalence X N [r] [c] h a cfg None w = (Inr res, w')"
    and nan: "NaN \<in> set (abs_diffs r c)"
  shows "dget (er_attestation res) ''pass'' = PBool True \<and> er_value res = Fin 1"
proof -
  obtain m where m: "foldR (compare_outputs N) [(r, c)] no_comparison = Inr m"
    "er_value res = equivalence_score default_tolerances m (equivalence_passed N default_tolerances m)"
    "dget (er_attestation res) ''pass'' = PBool (equivalence_passed N default_tolerances m)"
    using numeric_equivalence_steps [OF run] by auto
  have ne: "abs_diffs r c \<noteq> []" using nan by auto
  obtain i where i: "i < length (abs_diffs r c)" "abs_diffs r c ! i = NaN" using nan by (metis in_set_conv_nth)
  have len: "length (abs_diffs r c) \<le> length (t_data r)" by (simp add: abs_diffs_def)
  have "rel_diffs r c ! i = np_div NaN (np_maximum (fl_abs (t_data r ! i)) fl_tiny)"
    using i len by (simp add: rel_diffs_def)
  also have "\<dots> = NaN" by (simp add: np_div_def)
  finally have "NaN \<in> set (rel_diffs r c)"
    using i len by (metis length_map length_zip min.absorb1 nth_mem rel_diffs_def)
  moreover have "rel_diffs r c \<noteq> []" using calculation by auto
  ultimately have "np_max (abs_diffs r c) = NaN" "np_max (rel_diffs r c) = NaN"
    using nan ne by (simp_all add: np_max_NaN)
  then have z: "cm_abs m = Fin 0" "cm_rel m = Fin 0"
    using m(1) ne by (auto simp: compare_outputs_def result_eqs Let_def no_comparison_def fl_max_NaN)
  have "fl_le (Fin 0) (fl_round (1 / 10 ^ 5))"
    using fl_round_nonneg [of "1 / 10 ^ 5"]
    by (cases "fl_round (1 / 10 ^ 5)") (auto simp: fl_round_def Let_def split: if_splits)
  then have "equivalence_passed N default_tolerances m"
    using z by (simp add: equivalence_passed_def default_tolerances_def)
  with m(2,3) show ?thesis by (simp add: equivalence_score_def)
qed

lemma sum_list_label_filter:
  "(\<Sum>l\<in>set ys. int (length (filter (\<lambda>i. ys ! i = l \<and> P i) [0..<length ys])))
     = int (length (filter P [0..<length ys]))"
proof -
  have "(\<Sum>l\<in>set ys. card {i. i < length ys \<and> ys ! i = l \<and> P i})
      = card (\<Union>l\<in>set ys. {i. i < length ys \<and> ys ! i = l \<and> P i})"
    by (rule card_UN_disjoint [symmetric]) auto
  also have "(\<Union>l\<in>set ys. {i. i < length ys \<and> ys ! i = l \<and> P i}) = {i. i < length ys \<and> P i}"
    by auto
  finally have "(\<Sum>l\<in>set ys. card {i. i < length ys \<and> ys ! i = l \<and> P i}) = card {i. i < length ys \<and> P i}" .
  moreover have "length (filter Q [0..<length ys]) = card {i. i < length ys \<and> Q i}" for Q
    by (simp add: length_filter_conv_card cong: conj_cong)
  ultimately show ?thesis by (simp flip: of_nat_sum)
qed

lemma matches_indices:
  "length ps = length ys \<Longrightarrow> matches ps ys = int (length (filter (\<lambda>i. ps ! i = ys ! i) [0..<length ys]))"
proof -
  assume len: "length ps = length ys"
  have "filter (\<lambda>(p, y). p = y) (zip ps ys)
      = map (\<lambda>i. (ps ! i, ys ! i)) (filter (\<lambda>i. ps ! i = ys ! i) [0..<length ys])"
  proof -
    have "zip ps ys = map (\<lambda>i. (ps ! i, ys ! i)) [0..<length ys]"
      using len by (intro nth_equalityI) auto
    then show ?thesis by (simp add: filter_map comp_def)
  qed
  then show ?thesis by (simp add: matches_def)
qed

lemma length_filter_upt: "length (filter P [0..<n]) = card {i. i < n \<and> P i}"
proof -
  have "{i. i < n \<and> P ([0..<n] ! i)} = {i. i < n \<and> P i}" by auto
  then show ?thesis using length_filter_conv_card [of P "[0..<n]"] by simp
qed

text \<open>A number in an entry of a breakdown.\<close>

definition entry_int :: "string \<Rightarrow> string \<times> pyval \<Rightarrow> int" where
  "entry_int k kv = (case snd kv of PDict d \<Rightarrow> (case dget d k of PInt n \<Rightarrow> n | _ \<Rightarrow> 0) | _ \<Rightarrow> 0)"

lemma class_breakdown_entries:
  "map fst (class_breakdown ps ys) = map show_int (sorted_list_of_set (set ys))"
  "map (entry_int ''count'') (class_breakdown ps ys)
     = map (\<lambda>l. int (card {i. i < length ys \<and> ys ! i = l})) (sorted_list_of_set (set ys))"
  "map (entry_int ''correct'') (class_breakdown ps ys)
     = map (\<lambda>l. int (card {i. i < length ys \<and> ys ! i = l \<and> ps ! i = l})) (sorted_list_of_set (set ys))"
proof -
  have "{i. i < length ys \<and> ps ! i = ys ! i \<and> ys ! i = l} = {i. i < length ys \<and> ys ! i = l \<and> ps ! i = l}" for l by auto
  then show "map fst (class_breakdown ps ys) = map show_int (sorted_list_of_set (set ys))"
    "map (entry_int ''count'') (class_breakdown ps ys)
     = map (\<lambda>l. int (card {i. i < length ys \<and> ys ! i = l})) (sorted_list_of_set (set ys))"
    "map (entry_int ''correct'') (class_breakdown ps ys)
     = map (\<lambda>l. int (card {i. i < length ys \<and> ys ! i = l \<and> ps ! i = l})) (sorted_list_of_set (set ys))"
    by (simp_all add: class_breakdown_def entry_int_def label_entry_def Let_def dget_def label_indices_def label_hits_def
      length_filter_upt conj_comms)
qed

text \<open>C34. A classification result reports what the predictions are. Its value is the share of the
  positions predicted as labelled; its breakdown has one entry per label that occurs, in order, with the
  number of positions of that label and the number of those predicted; the counts of the entries add up
  to the samples and the correct ones to the numerator of the value. The attestation carries that value
  and breakdown and passes exactly when the value is at least the minimum and, where a baseline and a
  largest degradation are given, is not further below the baseline than that.\<close>

theorem accuracy_breakdown:
  assumes run: "classification_accuracy X ps ys h a cfg base deg minimum w = (Inr r, w')"
  shows "length ps = length ys \<and> er_samples r = int (length ys)
    \<and> er_value r = int_div (int (card {i. i < length ys \<and> ps ! i = ys ! i})) (int (length ys))
    \<and> map fst (er_breakdown r) = map show_int (sorted_list_of_set (set ys))
    \<and> map (entry_int ''count'') (er_breakdown r)
        = map (\<lambda>l. int (card {i. i < length ys \<and> ys ! i = l})) (sorted_list_of_set (set ys))
    \<and> map (entry_int ''correct'') (er_breakdown r)
        = map (\<lambda>l. int (card {i. i < length ys \<and> ys ! i = l \<and> ps ! i = l})) (sorted_list_of_set (set ys))
    \<and> sum_list (map (entry_int ''count'') (er_breakdown r)) = er_samples r
    \<and> sum_list (map (entry_int ''correct'') (er_breakdown r)) = int (card {i. i < length ys \<and> ps ! i = ys ! i})
    \<and> dget (er_attestation r) ''candidate_value'' = PFloat (er_value r)
    \<and> dget (er_attestation r) ''class_breakdown'' = PDict (er_breakdown r)
    \<and> dget (er_attestation r) ''pass'' = PBool (fl_le minimum (er_value r)
        \<and> (\<forall>b d. base = Some b \<longrightarrow> deg = Some d \<longrightarrow> \<not> fl_lt d (fl_sub b (er_value r))))"
proof -
  let ?v = "int_div (matches ps ys) (int (length ys))"
  let ?ls = "sorted_list_of_set (set ys)"
  from run obtain d w1 w2 where len: "length ps = length ys"
    and a: "attest X h a cfg ''classification_accuracy''
       (quality_fields ?v base deg minimum (int (length ys)) (class_breakdown ps ys)) w1 = (Inr d, w2)"
    and r: "er_value r = ?v" "er_samples r = int (length ys)" "er_breakdown r = class_breakdown ps ys"
      "er_attestation r = d"
    by (auto simp: classification_accuracy_def comp_eqs Let_def)
  have att: "dget d ''pass'' = PBool (quality_passed ?v base deg minimum)" "dget d ''candidate_value'' = PFloat ?v"
      "dget d ''class_breakdown'' = PDict (class_breakdown ps ys)"
    by (rule attest_entry [OF a]; simp add: quality_fields_def)+
  have m: "matches ps ys = int (card {i. i < length ys \<and> ps ! i = ys ! i})"
    by (simp add: matches_indices [OF len] length_filter_upt)
  have sums: "sum_list (map f ?ls) = (\<Sum>l\<in>set ys. f l)" for f :: "int \<Rightarrow> int"
    by (simp add: sum_list_distinct_conv_sum_set)
  have "(\<Sum>l\<in>set ys. int (card {i. i < length ys \<and> ys ! i = l})) = int (length ys)"
    using sum_list_label_filter [where P = "\<lambda>i. True" and ys = ys] by (simp add: length_filter_upt)
  then have counts: "sum_list (map (entry_int ''count'') (class_breakdown ps ys)) = int (length ys)"
    by (simp only: class_breakdown_entries sums)
  have "{i. i < length ys \<and> ys ! i = l \<and> ps ! i = l} = {i. i < length ys \<and> ys ! i = l \<and> ps ! i = ys ! i}" for l by auto
  then have "(\<Sum>l\<in>set ys. int (card {i. i < length ys \<and> ys ! i = l \<and> ps ! i = l})) = matches ps ys"
    using sum_list_label_filter [where P = "\<lambda>i. ps ! i = ys ! i" and ys = ys]
    by (simp add: length_filter_upt m)
  then have hits: "sum_list (map (entry_int ''correct'') (class_breakdown ps ys)) = matches ps ys"
    by (simp only: class_breakdown_entries sums)
  have pass: "quality_passed ?v base deg minimum \<longleftrightarrow> fl_le minimum ?v
      \<and> (\<forall>b d. base = Some b \<longrightarrow> deg = Some d \<longrightarrow> \<not> fl_lt d (fl_sub b ?v))"
    by (auto simp: quality_passed_def split: option.splits)
  show ?thesis unfolding r att pass counts hits m [symmetric] using len class_breakdown_entries by simp
qed

text \<open>A latency summary exists only of finite, non-empty samples; its minimum and maximum are
  samples that bound all of them, and the count is theirs.\<close>

theorem latency_summary_bounds:
  assumes run: "summarize_latencies N values resamples level seed names = Inr s"
  shows "values \<noteq> [] \<and> list_all is_finite values \<and> ss_count s = int (length values)
    \<and> ss_minimum s \<in> set values \<and> ss_maximum s \<in> set values
    \<and> (\<forall>v\<in>set values. fl_le (ss_minimum s) v \<and> fl_le v (ss_maximum s))
    \<and> (ss_bootstrap s = None \<longleftrightarrow> resamples \<le> 0)"
proof -
  from run have ne: "values \<noteq> []" and fin: "list_all is_finite values"
    and s: "ss_minimum s = hd (fl_sort values)" "ss_maximum s = last (fl_sort values)"
      "ss_count s = int (length values)"
    by (auto simp: summarize_latencies_def result_eqs Let_def)
  have bs: "ss_bootstrap s = None \<longleftrightarrow> resamples \<le> 0"
    using run by (auto simp: summarize_latencies_def result_eqs Let_def split: if_splits)
  have nan: "NaN \<notin> set values" using fin by (auto simp: list_all_iff is_finite_def)
  have ne': "fl_sort values \<noteq> []" using ne by (metis length_fl_sort length_0_conv)
  have "hd (fl_sort values) \<in> set values" "last (fl_sort values) \<in> set values"
    using hd_in_set [OF ne'] last_in_set [OF ne'] by simp_all
  moreover have "fl_le (hd (fl_sort values)) v \<and> fl_le v (last (fl_sort values))" if "v \<in> set values" for v
  proof -
    have "v \<in> set (fl_sort values)" using that by simp
    then obtain i where i: "i < length (fl_sort values)" "fl_sort values ! i = v" by (metis in_set_conv_nth)
    have v: "v \<noteq> NaN" using that nan by auto
    have srt: "sorted_wrt fl_le (fl_sort values)" by (rule sorted_fl_sort [OF nan])
    have le: "fl_le (fl_sort values ! j) (fl_sort values ! k)" if "j \<le> k" "k < length (fl_sort values)" for j k
    proof (cases "j = k")
      case True
      have "fl_sort values ! k \<in> set values" using nth_mem [OF that(2)] by simp
      with True show ?thesis using nan by (auto intro!: fl_le_refl)
    next
      case False
      with that srt show ?thesis by (simp add: sorted_wrt_iff_nth_less)
    qed
    show ?thesis
      using le [of 0 i] le [of i "length (fl_sort values) - 1"] i ne'
      by (simp add: hd_conv_nth last_conv_nth)
  qed
  ultimately show ?thesis using ne fin s bs by simp
qed

definition coco_typed :: "pydict \<Rightarrow> bool" where
  "coco_typed r \<longleftrightarrow> (\<exists>i c b s. r = coco_record i c b s \<and> length b \<le> 4)"

lemma keep_coco_typed: "keep_coco d = Inr r \<Longrightarrow> coco_typed r"
  by (auto simp: keep_coco_def bindR_eq_Inr coco_typed_def dest!: mapR_length) fastforce

lemma native_bbox_length: "native_bbox v = Inr (Some b) \<Longrightarrow> length b = 4"
  by (cases v) (auto simp: native_bbox_def bindR_eq_Inr split: if_splits dest!: mapR_length)

lemma convert_native_typed: "convert_native ids d = Inr (Some r) \<Longrightarrow> coco_typed r"
  by (auto simp: convert_native_def bindR_eq_Inr coco_typed_def split: option.splits dest!: native_bbox_length)
    fastforce

lemma normalize_detection_typed:
  assumes "normalize_detection ids det rs = Inr rs'" and "list_all coco_typed rs"
  shows "list_all coco_typed rs' \<and> length rs' \<le> Suc (length rs)"
  using assms by (cases det) (auto simp: normalize_detection_def bindR_eq_Inr keep_coco_typed
    convert_native_typed split: if_splits option.splits)

text \<open>C35. Every record handed to the COCO evaluator has an integer image and category, a box of at
  most four floats and a float score, and there are at most as many records as detections.\<close>

theorem coco_records_typed:
  assumes run: "normalize_detections_for_coco images detections = Inr rs"
  shows "list_all coco_typed rs \<and> length rs \<le> length detections"
proof -
  from run obtain ids where "foldR (normalize_detection ids) detections [] = Inr rs"
    by (auto simp: normalize_detections_for_coco_def bindR_eq_Inr)
  moreover have "foldR (normalize_detection ids) ds acc = Inr rs \<Longrightarrow> list_all coco_typed acc \<Longrightarrow>
      list_all coco_typed rs \<and> length rs \<le> length ds + length acc" for ds acc
  proof (induction ds arbitrary: acc)
    case (Cons d ds)
    then obtain acc' where one: "normalize_detection ids d acc = Inr acc'"
        and rest: "foldR (normalize_detection ids) ds acc' = Inr rs"
      by (auto simp: bindR_eq_Inr)
    have "list_all coco_typed acc'" "length acc' \<le> Suc (length acc)"
      using normalize_detection_typed [OF one Cons.prems(2)] by simp_all
    with Cons.IH [OF rest] show ?case by simp
  qed simp
  ultimately show ?thesis by fastforce
qed

lemma argmax_from_max:
  assumes "m \<noteq> NaN" and "NaN \<notin> set xs" and "0 \<le> i" and "0 \<le> best" and "best < i"
  shows "argmax_from m best i xs = best \<and> (\<forall>x\<in>set xs. \<not> fl_lt m x) \<or>
    (\<exists>j. argmax_from m best i xs = i + int j \<and> j < length xs \<and> fl_lt m (xs ! j) \<and>
       (\<forall>x\<in>set xs. \<not> fl_lt (xs ! j) x))"
  using assms
proof (induction xs arbitrary: m best i)
  case Nil
  then show ?case by simp
next
  case (Cons x xs)
  have x: "x \<noteq> NaN" "NaN \<notin> set xs" using Cons.prems by auto
  show ?case
  proof (cases "fl_lt m x")
    case False
    have "argmax_from m best i (x # xs) = argmax_from m best (i + 1) xs" using False Cons.prems(1) x by simp
    moreover have "argmax_from m best (i + 1) xs = best \<and> (\<forall>x\<in>set xs. \<not> fl_lt m x) \<or>
      (\<exists>j. argmax_from m best (i + 1) xs = i + 1 + int j \<and> j < length xs \<and> fl_lt m (xs ! j) \<and>
        (\<forall>x\<in>set xs. \<not> fl_lt (xs ! j) x))"
      by (rule Cons.IH) (use Cons.prems x in auto)
    ultimately show ?thesis
    proof (elim disjE exE conjE)
      fix j
      assume eq: "argmax_from m best i (x # xs) = argmax_from m best (i + 1) xs"
        and j: "argmax_from m best (i + 1) xs = i + 1 + int j" "j < length xs" "fl_lt m (xs ! j)"
          "\<forall>x\<in>set xs. \<not> fl_lt (xs ! j) x"
      have "\<not> fl_lt (xs ! j) x" using j(3) False by (meson fl_lt_trans)
      then have "(\<exists>j'. argmax_from m best i (x # xs) = i + int j' \<and> j' < length (x # xs) \<and>
          fl_lt m ((x # xs) ! j') \<and> (\<forall>y\<in>set (x # xs). \<not> fl_lt ((x # xs) ! j') y))"
        using j eq by (intro exI [of _ "Suc j"]) auto
      then show ?thesis by blast
    qed (use False in auto)
  next
    case True
    have "argmax_from m best i (x # xs) = argmax_from x i (i + 1) xs" using True Cons.prems(1) by simp
    moreover have "argmax_from x i (i + 1) xs = i \<and> (\<forall>y\<in>set xs. \<not> fl_lt x y) \<or>
      (\<exists>j. argmax_from x i (i + 1) xs = i + 1 + int j \<and> j < length xs \<and> fl_lt x (xs ! j) \<and>
        (\<forall>y\<in>set xs. \<not> fl_lt (xs ! j) y))"
      by (rule Cons.IH) (use Cons.prems x in auto)
    ultimately show ?thesis
    proof (elim disjE exE conjE)
      assume eq: "argmax_from m best i (x # xs) = argmax_from x i (i + 1) xs"
        and j: "argmax_from x i (i + 1) xs = i" "\<forall>y\<in>set xs. \<not> fl_lt x y"
      have "\<exists>j'. argmax_from m best i (x # xs) = i + int j' \<and> j' < length (x # xs) \<and>
          fl_lt m ((x # xs) ! j') \<and> (\<forall>y\<in>set (x # xs). \<not> fl_lt ((x # xs) ! j') y)"
        using j eq True by (intro exI [of _ 0]) auto
      then show ?thesis by blast
    next
      fix j
      assume eq: "argmax_from m best i (x # xs) = argmax_from x i (i + 1) xs"
        and j: "argmax_from x i (i + 1) xs = i + 1 + int j" "j < length xs" "fl_lt x (xs ! j)"
          "\<forall>y\<in>set xs. \<not> fl_lt (xs ! j) y"
      have "fl_lt m (xs ! j)" using True j(3) by (rule fl_lt_trans)
      moreover have "\<not> fl_lt (xs ! j) x" using j(3) by (rule fl_lt_asym)
      ultimately have "\<exists>j'. argmax_from m best i (x # xs) = i + int j' \<and> j' < length (x # xs) \<and>
          fl_lt m ((x # xs) ! j') \<and> (\<forall>y\<in>set (x # xs). \<not> fl_lt ((x # xs) ! j') y)"
        using j eq by (intro exI [of _ "Suc j"]) auto
      then show ?thesis by blast
    qed
  qed
qed

text \<open>On logits without NaN the class chosen is an index into them, and no logit is above its.\<close>

theorem argmax_is_maximum:
  assumes run: "softmax_argmax t = Inr k" and nan: "NaN \<notin> set (t_data t)"
  shows "0 \<le> k \<and> k < int (length (t_data t)) \<and> (\<forall>x\<in>set (t_data t). fl_le x (t_data t ! nat k))"
proof -
  from run obtain x xs where d: "t_data t = x # xs" and k: "k = argmax_from x 0 1 xs"
    by (auto simp: softmax_argmax_def result_eqs split: list.splits)
  have x: "x \<noteq> NaN" "NaN \<notin> set xs" using nan d by auto
  have "k = 0 \<and> (\<forall>y\<in>set xs. \<not> fl_lt x y) \<or> (\<exists>j. k = 1 + int j \<and> j < length xs \<and> fl_lt x (xs ! j) \<and>
      (\<forall>y\<in>set xs. \<not> fl_lt (xs ! j) y))"
    using argmax_from_max [OF x, of 1 0] k by simp
  then show ?thesis
  proof (elim disjE exE conjE)
    assume "k = 0" "\<forall>y\<in>set xs. \<not> fl_lt x y"
    with x d show ?thesis by (auto simp: fl_le_refl) (metis fl_not_lt)
  next
    fix j
    assume j: "k = 1 + int j" "j < length xs" "fl_lt x (xs ! j)" "\<forall>y\<in>set xs. \<not> fl_lt (xs ! j) y"
    have nj: "xs ! j \<noteq> NaN" using j(2) x(2) by (metis nth_mem)
    have "fl_le y (xs ! j)" if "y \<in> set xs" for y
      using j(4) that x(2) nj fl_not_lt [of "xs ! j" y] by metis
    moreover have "fl_le x (xs ! j)" using j(3) by (rule fl_lt_imp_le)
    moreover have "t_data t ! nat k = xs ! j" using j(1) d by (simp add: nat_add_distrib)
    ultimately show ?thesis using j(1,2) d by simp
  qed
qed

section \<open>A sample run\<close>

definition sample_numpy :: numpy where
  "sample_numpy = \<lparr>n_mean = (\<lambda>xs. Fin 0), n_std = (\<lambda>xs. Fin 0), n_median = (\<lambda>xs. Fin 0),
     n_percentile = (\<lambda>xs q. Fin 0), n_quantile = (\<lambda>xs q. Fin 0), n_norm = (\<lambda>xs. Fin 0),
     n_dot = (\<lambda>xs ys. Fin 0), n_integers = (\<lambda>s i n. [])\<rparr>"

definition sample_tensor :: tensor where
  "sample_tensor = \<lparr>t_shape = [1], t_data = [Fin 1]\<rparr>"

definition nan_tensor :: tensor where
  "nan_tensor = \<lparr>t_shape = [1], t_data = [NaN]\<rparr>"

definition unit_tolerances :: tolerances where
  "unit_tolerances = \<lparr>tl_abs = Fin 1, tl_rel = Fin 1, tl_mean = None, tl_cosine = None\<rparr>"

definition eval_world :: world where
  "eval_world = \<lparr>w_files = [], w_dirs = [], w_links = [], w_cwd = [], w_home = [], w_environ = [],
     w_ticks = 0, w_version = Some ''1'', w_commit = Some ''c'', w_registry = Some [], w_schemas = []\<rparr>"

lemma attest_run: "\<exists>d w'. attest sample_ext h a [] metric es eval_world = (Inr d, w')"
  by (simp add: attest_def sha256_canonical_def canonical_json_dumps_def eval_world_def docs_defs bindS_def
    comp_defs)

lemma tiny_below_one: "np_maximum (Fin 1) fl_tiny = Fin 1"
proof -
  have lo: "pow2 (-1022) \<le> 1 / 10 ^ 12" and hi: "1 / 10 ^ 12 \<le> pow2 1023" by (simp_all add: pow2_def)
  from fl_round_finite [OF lo hi]
  obtain r where "fl_tiny = Fin r" "\<bar>r - 1 / 10 ^ 12\<bar> \<le> 1 / 10 ^ 12 / 2 ^ 53"
    unfolding fl_tiny_def by blast
  moreover have "(1 / 10 ^ 12 / 2 ^ 53 :: rat) \<le> 1 / 2" "(1 / 10 ^ 12 :: rat) \<le> 1 / 2" by simp_all
  ultimately have t: "fl_tiny = Fin r" and "r \<le> 1" by (simp_all only: abs_le_iff) linarith
  from this(2) show ?thesis unfolding t by (simp add: np_maximum_def fl_max_def)
qed

lemma sample_diffs: "abs_diffs sample_tensor sample_tensor = [Fin 0]" "rel_diffs sample_tensor sample_tensor = [Fin 0]"
  "abs_diffs sample_tensor nan_tensor = [NaN]"
proof -
  show a: "abs_diffs sample_tensor sample_tensor = [Fin 0]" "abs_diffs sample_tensor nan_tensor = [NaN]"
    by (simp_all add: abs_diffs_def sample_tensor_def nan_tensor_def fl_sub_def)
  show "rel_diffs sample_tensor sample_tensor = [Fin 0]"
    using tiny_below_one by (simp add: rel_diffs_def a) (simp add: sample_tensor_def np_div_def)
qed

lemma sample_compare:
  "\<exists>m. foldR (compare_outputs sample_numpy) [(sample_tensor, sample_tensor)] no_comparison = Inr m
     \<and> equivalence_passed sample_numpy unit_tolerances m"
  "\<exists>m. foldR (compare_outputs sample_numpy) [(sample_tensor, nan_tensor)] no_comparison = Inr m"
proof -
  have "t_shape sample_tensor = t_shape nan_tensor" by (simp add: sample_tensor_def nan_tensor_def)
  then show "\<exists>m. foldR (compare_outputs sample_numpy) [(sample_tensor, nan_tensor)] no_comparison = Inr m"
    by (simp add: compare_outputs_def Let_def)
  show "\<exists>m. foldR (compare_outputs sample_numpy) [(sample_tensor, sample_tensor)] no_comparison = Inr m
     \<and> equivalence_passed sample_numpy unit_tolerances m"
    by (simp add: compare_outputs_def Let_def sample_diffs np_max_def no_comparison_def fl_max_def
      equivalence_passed_def unit_tolerances_def)
qed

theorem equivalence_sound_witness:
  "\<exists>res w'. numeric_equivalence sample_ext sample_numpy [sample_tensor] [sample_tensor] ''h'' ''a'' []
       (Some unit_tolerances) eval_world = (Inr res, w')
     \<and> dget (er_attestation res) ''pass'' = PBool True
     \<and> fl_le (abs_diffs sample_tensor sample_tensor ! 0) (tl_abs unit_tolerances)"
proof -
  obtain m where m: "foldR (compare_outputs sample_numpy) [(sample_tensor, sample_tensor)] no_comparison = Inr m"
      "equivalence_passed sample_numpy unit_tolerances m"
    using sample_compare(1) by blast
  obtain d w' where a: "attest sample_ext ''h'' ''a'' [] ''numeric_equivalence''
      (equivalence_fields sample_numpy unit_tolerances m 1) eval_world = (Inr d, w')"
    using attest_run by blast
  obtain res where run: "numeric_equivalence sample_ext sample_numpy [sample_tensor] [sample_tensor] ''h'' ''a'' []
      (Some unit_tolerances) eval_world = (Inr res, w')" and res: "er_attestation res = d"
    using m(1) a by (simp add: numeric_equivalence_def Let_def bindS_def [of "attest X h a c e f" for X h a c e f])
  have "dget d ''pass'' = PBool (equivalence_passed sample_numpy unit_tolerances m)"
    by (rule attest_entry [OF a]) (simp_all add: equivalence_fields_def Let_def)
  then have pass: "dget (er_attestation res) ''pass'' = PBool True" using m(2) res by simp
  have "\<forall>rc\<in>set (zip [sample_tensor] [sample_tensor]). nan_free rc" by (simp add: nan_free_def sample_diffs)
  from equivalence_sound [OF run this pass] run pass sample_diffs show ?thesis by fastforce
qed

theorem nan_outputs_pass_witness:
  "\<exists>res w'. numeric_equivalence sample_ext sample_numpy [sample_tensor] [nan_tensor] ''h'' ''a'' [] None
       eval_world = (Inr res, w') \<and> dget (er_attestation res) ''pass'' = PBool True \<and> er_value res = Fin 1"
proof -
  obtain m where m: "foldR (compare_outputs sample_numpy) [(sample_tensor, nan_tensor)] no_comparison = Inr m"
    using sample_compare(2) by blast
  obtain d w' where a: "attest sample_ext ''h'' ''a'' [] ''numeric_equivalence''
      (equivalence_fields sample_numpy default_tolerances m 1) eval_world = (Inr d, w')"
    using attest_run by blast
  obtain res where run: "numeric_equivalence sample_ext sample_numpy [sample_tensor] [nan_tensor] ''h'' ''a'' []
      None eval_world = (Inr res, w')"
    using m a by (simp add: numeric_equivalence_def Let_def bindS_def [of "attest X h a c e f" for X h a c e f])
  have "NaN \<in> set (abs_diffs sample_tensor nan_tensor)" by (simp add: sample_diffs)
  from nan_outputs_pass [OF run this] run show ?thesis by blast
qed

theorem accuracy_breakdown_witness:
  "\<exists>r w'. classification_accuracy sample_ext [1, 2, 1] [1, 1, 1] ''h'' ''a'' [] None None (Fin 0) eval_world
       = (Inr r, w') \<and> er_value r = int_div 2 3 \<and> map (entry_int ''count'') (er_breakdown r) = [3]
     \<and> map (entry_int ''correct'') (er_breakdown r) = [2]"
proof -
  obtain d w' where a: "attest sample_ext ''h'' ''a'' [] ''classification_accuracy''
      (quality_fields (int_div (matches [1, 2, 1] [1, 1, 1]) 3) None None (Fin 0) 3
        (class_breakdown [1, 2, 1] [1, 1, 1])) eval_world = (Inr d, w')"
    using attest_run by blast
  obtain r where run: "classification_accuracy sample_ext [1, 2, 1] [1, 1, 1] ''h'' ''a'' [] None None (Fin 0)
      eval_world = (Inr r, w')"
    using a by (simp add: classification_accuracy_def Let_def bindS_def [of "attest X h a c e f" for X h a c e f])
  have "card {i. i < 3 \<and> [1, 2, 1] ! i = ([1, 1, 1] :: int list) ! i} = 2"
      "card {i. i < 3 \<and> ([1, 1, 1] :: int list) ! i = 1} = 3"
      "card {i. i < 3 \<and> ([1, 1, 1] :: int list) ! i = 1 \<and> ([1, 2, 1] :: int list) ! i = 1} = 2"
    by (simp_all add: length_filter_upt [symmetric] upt_rec)
  with accuracy_breakdown [OF run] run show ?thesis by (simp add: eval_nat_numeral)
qed

theorem latency_summary_bounds_witness:
  "\<exists>s. summarize_latencies sample_numpy [Fin 2, Fin 1] 0 (Fin 0) 0 [] = Inr s
     \<and> fl_le (ss_minimum s) (Fin 1) \<and> fl_le (Fin 2) (ss_maximum s)"
proof -
  obtain s where run: "summarize_latencies sample_numpy [Fin 2, Fin 1] 0 (Fin 0) 0 [] = Inr s"
    by (simp add: summarize_latencies_def is_finite_def Let_def)
  from latency_summary_bounds [OF run] run show ?thesis by simp
qed

theorem coco_records_typed_witness:
  "\<exists>rs. normalize_detections_for_coco PNone [PDict [(''image_id'', PInt 1), (''bbox'', PList [])]] = Inr rs
     \<and> list_all coco_typed rs \<and> length rs = 1"
proof -
  obtain rs where run: "normalize_detections_for_coco PNone [PDict [(''image_id'', PInt 1), (''bbox'', PList [])]]
      = Inr rs" and l: "length rs = 1"
    by (simp add: normalize_detections_for_coco_def coco_ids_def py_or_def normalize_detection_def
      coco_shaped_def keep_coco_def)
  from coco_records_typed [OF run] run l show ?thesis by blast
qed

theorem argmax_is_maximum_witness:
  "\<exists>k. softmax_argmax \<lparr>t_shape = [2], t_data = [Fin 1, Fin 2]\<rparr> = Inr k \<and> k < 2 \<and> fl_le (Fin 2) ([Fin 1, Fin 2] ! nat k)"
proof -
  obtain k where run: "softmax_argmax \<lparr>t_shape = [2], t_data = [Fin 1, Fin 2]\<rparr> = Inr k"
    by (simp add: softmax_argmax_def)
  from argmax_is_maximum [OF run] run show ?thesis by simp
qed

end
