(* ===== verification/Stream_Build.thy ===== *)
theory Stream_Build
  imports Datasets Evaluation
begin

text \<open>
  \<open>perceptshift_forge/datasets/stream.py\<close>: the benchmark stream built from two dataset manifests.
  Tensors are reshaped without padding or truncation, images become tightly packed pixel files, and
  everything is written under \<open>inputs/stream\<close> of the workspace. Pillow and numpy's file formats are
  parameters.
\<close>

section \<open>Arrays and images\<close>

text \<open>An array of bytes in C order.\<close>

record raster =
  ra_shape :: "int list"
  ra_bytes :: string

text \<open>
  \<open>im_array bytes mode size\<close> opens an encoded image, converts it to a mode, resizes it when a size is
  given, and reads it as an array. \<open>nd_load\<close> is \<open>np.load\<close>, \<open>nd_fromfile\<close> reads 32-bit floats,
  \<open>nd_bytes\<close> writes them, \<open>nd_f32\<close> rounds to them, \<open>nd_prod\<close> is \<open>np.prod\<close> of a list of integers, which
  may wrap around, and \<open>nd_maxdims\<close> the largest number of dimensions.
\<close>

record arrays =
  im_array :: "string \<Rightarrow> string \<Rightarrow> (int \<times> int) option \<Rightarrow> exc + raster"
  nd_load :: "string \<Rightarrow> exc + tensor"
  nd_fromfile :: "string \<Rightarrow> pyfloat list"
  nd_bytes :: "pyfloat list \<Rightarrow> string"
  nd_f32 :: "pyfloat \<Rightarrow> pyfloat"
  nd_prod :: "int list \<Rightarrow> int"
  nd_maxdims :: nat

definition nd_size :: "tensor \<Rightarrow> int" where
  "nd_size a = int (length (t_data a))"

definition as_f32 :: "arrays \<Rightarrow> tensor \<Rightarrow> tensor" where
  "as_f32 L a = a\<lparr>t_data := map (nd_f32 L) (t_data a)\<rparr>"

text \<open>\<open>reshape\<close>: one negative dimension is inferred, and the size must not change.\<close>

definition nd_reshape :: "arrays \<Rightarrow> tensor \<Rightarrow> int list \<Rightarrow> exc + tensor" where
  "nd_reshape L a shape =
     (if nd_maxdims L < length shape \<or> 1 < length (filter (\<lambda>d. d < 0) shape) then Inl (py_err ValueError)
      else let known = prod_list (filter (\<lambda>d. 0 \<le> d) shape) in
      if filter (\<lambda>d. d < 0) shape = []
      then (if known = nd_size a then Inr (a\<lparr>t_shape := shape\<rparr>) else Inl (py_err ValueError))
      else if known = 0 \<or> nd_size a mod known \<noteq> 0 then Inl (py_err ValueError)
      else Inr (a\<lparr>t_shape := map (\<lambda>d. if d < 0 then nd_size a div known else d) shape\<rparr>))"

section \<open>Raw pixels\<close>

definition PIXEL_EXT :: "(string \<times> string) list" where
  "PIXEL_EXT = [(''rgb8'', ''.rgb''), (''bgr8'', ''.bgr''), (''rgba8'', ''.rgba''),
     (''bgra8'', ''.bgra''), (''mono8'', ''.mono8'')]"

definition CHANNELS :: "(string \<times> int) list" where
  "CHANNELS = [(''rgb8'', 3), (''bgr8'', 3), (''rgba8'', 4), (''bgra8'', 4), (''mono8'', 1)]"

definition dim_at :: "raster \<Rightarrow> nat \<Rightarrow> exc + int" where
  "dim_at r i = (if i < length (ra_shape r) then Inr (ra_shape r ! i) else Inl (py_err IndexError))"

text \<open>\<open>array[:, :, order]\<close>: every pixel's channels in another order.\<close>

definition permute_channels :: "(string \<Rightarrow> string) \<Rightarrow> int \<Rightarrow> raster \<Rightarrow> exc + raster" where
  "permute_channels order least r =
     (if length (ra_shape r) \<noteq> 3 \<or> ra_shape r ! 2 < least then Inl (py_err IndexError)
      else Inr (r\<lparr>ra_bytes := concat (map order (chunks (ra_shape r ! 2) (ra_bytes r)))\<rparr>))"

definition packed_pixels :: "arrays \<Rightarrow> string \<Rightarrow> string \<Rightarrow> exc + raster" where
  "packed_pixels L fmt b =
     (if fmt = ''mono8'' then bindR (im_array L b ''L'' None) (\<lambda>r.
        bindR (guardR (length (ra_shape r) = 2)
          (ps_err DATASET_INVALID ''mono8 materialization produced non-2D array'')) (\<lambda>u. Inr r))
      else if fmt \<in> {''rgb8'', ''bgr8''} then bindR (im_array L b ''RGB'' None) (\<lambda>r.
        if fmt = ''bgr8'' then permute_channels rev 0 r else Inr r)
      else bindR (im_array L b ''RGBA'' None) (\<lambda>r.
        if fmt = ''bgra8'' then permute_channels (\<lambda>c. map (\<lambda>i. c ! i) [2, 1, 0, 3]) 4 r else Inr r))"

record pixel_meta =
  pm_width :: int
  pm_height :: int
  pm_stride :: int
  pm_format :: string
  pm_size :: int

definition pixel_layout :: "string \<Rightarrow> int \<Rightarrow> raster \<Rightarrow> exc + pixel_meta" where
  "pixel_layout fmt channels r = bindR (dim_at r 0) (\<lambda>height. bindR (dim_at r 1) (\<lambda>width.
     let stride = width * channels; expected = stride * height in
     bindR (guardR (int (length (ra_bytes r)) = expected) (ps_err INTERNAL_INVARIANT_FAILED
       (''raw pixel payload size '' @ show_int (int (length (ra_bytes r))) @ '' != stride*height ''
         @ show_int expected @ '' for '' @ fmt @ '' '' @ show_int width @ ''x'' @ show_int height))) (\<lambda>u.
     Inr \<lparr>pm_width = width, pm_height = height, pm_stride = stride, pm_format = fmt, pm_size = expected\<rparr>)))"

definition materialize_raw_image :: "arrays \<Rightarrow> ppath \<Rightarrow> ppath \<Rightarrow> string \<Rightarrow> pixel_meta io" where
  "materialize_raw_image L source dest fmt = (case map_of CHANNELS fmt of
     None \<Rightarrow> raiseS (ps_err INPUT_UNSUPPORTED (''unsupported pixel_format for raw materialization: '' @ fmt))
   | Some channels \<Rightarrow>
       bindS (read_bytes source) (\<lambda>b.
       bindS (liftS (packed_pixels L fmt b)) (\<lambda>r.
       bindS (liftS (pixel_layout fmt channels r)) (\<lambda>meta.
       bindS (mkdirs True (path_parent dest)) (\<lambda>u.
       bindS (write_bytes dest (ra_bytes r)) (\<lambda>u. retS meta))))))"

section \<open>Tensors\<close>

definition write_raw_f32 :: "arrays \<Rightarrow> ppath \<Rightarrow> tensor \<Rightarrow> unit io" where
  "write_raw_f32 L p a = write_bytes p (nd_bytes L (t_data (as_f32 L a)))"

definition safe_id :: "string \<Rightarrow> string" where
  "safe_id s = take 120 (map (\<lambda>c. if is_alnum c \<or> c \<in> set ''-_'' then c else CHR ''_'') s)"

definition shape_of :: "pydict \<Rightarrow> pyval" where
  "shape_of e = py_or (dget e ''shape'') (dget e ''input_shape'')"

definition two_ints :: "pyval \<Rightarrow> pyval \<Rightarrow> exc + (int \<times> int) option" where
  "two_ints a b = bindR (py_int a) (\<lambda>m. bindR (py_int b) (\<lambda>n. Inr (Some (m, n))))"

definition contract_pair :: "pyval \<Rightarrow> string \<Rightarrow> string \<Rightarrow> exc + bool" where
  "contract_pair c k l = bindR (py_contains k c) (\<lambda>b. if b then py_contains l c else Inr False)"

definition resolve_resize :: "pydict \<Rightarrow> pydict \<Rightarrow> exc + (int \<times> int) option" where
  "resolve_resize manifest expected = (let shape = shape_of expected in
     if is_list shape \<and> 4 \<le> length (the_list shape)
     then two_ints (last (the_list shape)) (last (butlast (the_list shape)))
     else let contract = py_or (dget manifest ''preprocess_contract'') (PDict []) in
     bindR (contract_pair contract ''input_width'' ''input_height'') (\<lambda>b.
     if b then bindR (py_item contract ''input_width'') (\<lambda>x. bindR (py_int x) (\<lambda>m.
       bindR (py_item contract ''input_height'') (\<lambda>y. bindR (py_int y) (\<lambda>n. Inr (Some (m, n))))))
     else bindR (contract_pair contract ''width'' ''height'') (\<lambda>b.
     if b then bindR (py_item contract ''width'') (\<lambda>x. bindR (py_int x) (\<lambda>m.
       bindR (py_item contract ''height'') (\<lambda>y. bindR (py_int y) (\<lambda>n. Inr (Some (m, n))))))
     else bindR (as_dict contract) (\<lambda>c. let resize = dget c ''resize'' in
     if is_list resize \<and> length (the_list resize) = 2
     then two_ints (the_list resize ! 0) (the_list resize ! 1) else Inr None))))"

text \<open>Height, width, channels to one batch of channels, height, width, divided by 255 in 32-bit floats.\<close>

definition nchw :: "arrays \<Rightarrow> raster \<Rightarrow> exc + tensor" where
  "nchw L r = (case ra_shape r of
     [h, w, c] \<Rightarrow> Inr \<lparr>t_shape = [1, c, h, w], t_data =
       map (\<lambda>i. nd_f32 L (fl_div (Fin (of_int (code (ra_bytes r ! i)))) (Fin 255)))
         (concat (map (\<lambda>k. concat (map (\<lambda>y. map (\<lambda>x. (y * nat w + x) * nat c + k) [0..<nat w]) [0..<nat h]))
           [0..<nat c]))\<rparr>
   | _ \<Rightarrow> Inl (py_err ValueError))"

definition image_to_nchw :: "arrays \<Rightarrow> ppath \<Rightarrow> (int \<times> int) option \<Rightarrow> tensor io" where
  "image_to_nchw L p sz = bindS (read_bytes p) (\<lambda>b.
     liftS (bindR (im_array L b ''RGB'' sz) (nchw L)))"

definition load_tensor_file :: "arrays \<Rightarrow> ppath \<Rightarrow> tensor io" where
  "load_tensor_file L p = (let sfx = py_lower (path_suffix p) in
     if sfx = ''.npy'' then bindS (read_bytes p) (\<lambda>b. liftS (nd_load L b))
     else if sfx \<in> {''.npz'', ''.bin'', ''.f32''}
     then bindS (read_bytes p) (\<lambda>b. let d = nd_fromfile L b in retS \<lparr>t_shape = [int (length d)], t_data = d\<rparr>)
     else if sfx \<in> {''.png'', ''.jpg'', ''.jpeg'', ''.bmp'', ''.webp''} then image_to_nchw L p None
     else raiseS (ps_error DATASET_INVALID (''Unsupported tensor file type: '' @ path_suffix p) None
       [(''path'', PStr (path_str p))] None))"

text \<open>A dimension is fixed when it is a positive integer; \<open>True\<close> is 1.\<close>

fun fixed_dim :: "pyval \<Rightarrow> int option" where
  "fixed_dim (PInt n) = (if 0 < n then Some n else None)"
| "fixed_dim (PBool b) = (if b then Some 1 else None)"
| "fixed_dim _ = None"

definition target_dim :: "pyval \<Rightarrow> int" where
  "target_dim v = (case fixed_dim v of Some n \<Rightarrow> n | None \<Rightarrow> -1)"

definition maybe_reshape :: "arrays \<Rightarrow> tensor \<Rightarrow> pydict \<Rightarrow> exc + tensor" where
  "maybe_reshape L array expected = (let shape = shape_of expected; arr = as_f32 L array in
     if \<not> is_list shape \<or> the_list shape = [] then Inr arr
     else let dims = the_list shape; target = map target_dim dims;
         dynamic = filter (\<lambda>v. fixed_dim v = None) dims in
     if dynamic = []
     then let needed = nd_prod L target in
       bindR (guardR (nd_size arr = needed) (ps_err MODEL_TENSOR_MISMATCH
         (''Tensor element count '' @ show_int (nd_size arr) @ '' does not match fixed expected shape ''
          @ py_repr (PList dims) @ '' ('' @ show_int needed @ ''); refusing silent pad/truncate''))) (\<lambda>u.
       nd_reshape L arr target)
     else if length dynamic \<noteq> 1
     then Inl (ps_err MODEL_TENSOR_MISMATCH ''Ambiguous unresolved dynamic dimensions; refusing to invent shape'')
     else let known = prod_list (filter (\<lambda>d. 0 < d) target) in
       bindR (guardR (0 < known \<and> nd_size arr mod known = 0)
         (ps_err MODEL_TENSOR_MISMATCH ''Cannot resolve dynamic dimension from concrete tensor size'')) (\<lambda>u.
       nd_reshape L arr (map (\<lambda>d. if d = -1 then nd_size arr div known else d) target)))"

section \<open>One split\<close>

definition split_dest :: "ppath \<Rightarrow> string \<Rightarrow> ppath io" where
  "split_dest stream_dir role = (let dest = path_div stream_dir role in
     bindS (mkdirs True dest) (\<lambda>u. retS dest))"

definition shape_val :: "tensor \<Rightarrow> pyval" where
  "shape_val a = PList (map PInt (t_shape a))"

definition raw_sample ::
    "ext \<Rightarrow> arrays \<Rightarrow> ppath \<Rightarrow> string \<Rightarrow> ppath \<Rightarrow> pydict \<Rightarrow> nat \<times> pyval \<Rightarrow> pydict list \<Rightarrow> pydict list io" where
  "raw_sample X L base role stream_dir expected item samples = (case item of (index, v) \<Rightarrow>
     if \<not> is_dict v then retS samples
     else let d = the_dict v; rel = tensor_rel d;
         sid = py_str (py_or (py_or (dget d ''item_id'') (dget d ''sample_id''))
           (PStr (role @ ''-'' @ show_int (int index)))) in
     bindS (\<lambda>w. (resolve_under_root w base rel False ''item.path'', w)) (\<lambda>resolved.
     bindS (split_dest stream_dir role) (\<lambda>dest.
     let out = path_div dest (safe_id sid @ ''.f32'') in
     bindS (load_tensor_file L resolved) (\<lambda>a0.
     bindS (liftS (maybe_reshape L a0 expected)) (\<lambda>a.
     bindS (write_raw_f32 L out a) (\<lambda>u.
     bindS (sha256_file X out) (\<lambda>h.
     let entry = [(''sample_id'', PStr sid), (''role'', PStr role), (''input_kind'', PStr ''raw_tensor''),
         (''tensor_path'', PStr (''stream/'' @ role @ ''/'' @ path_name out)), (''sha256'', PStr h),
         (''shape'', shape_val a), (''dtype'', PStr ''float32'')] in
     retS (samples @ [if dhas d ''label'' then dset ''label'' (dget d ''label'') entry else entry]))))))))"

text \<open>The files of one image: its encoded original, its pixels, its float tensor.\<close>

record image_files =
  if_source :: ppath
  if_provenance :: string
  if_raw :: string
  if_tensor :: string
  if_meta :: pixel_meta
  if_array :: tensor
  if_sha :: string

definition image_sample ::
    "ext \<Rightarrow> arrays \<Rightarrow> ppath \<Rightarrow> string \<Rightarrow> string \<Rightarrow> string \<Rightarrow> ppath \<Rightarrow> pydict \<Rightarrow> string \<Rightarrow> (int \<times> int) option \<Rightarrow>
     string \<Rightarrow> image_files io" where
  "image_sample X L base rel field role stream_dir expected fmt resize sid =
     bindS (\<lambda>w. (resolve_under_root w base rel False field, w)) (\<lambda>resolved.
     bindS (split_dest stream_dir role) (\<lambda>dest.
     let safe = safe_id sid;
         sfx = py_lower (path_suffix resolved);
         provenance = safe @ ''.source'' @ (if sfx \<noteq> [] then sfx else ''.png'');
         raw = safe @ (case map_of PIXEL_EXT fmt of Some e \<Rightarrow> e | None \<Rightarrow> ''.rgb'') in
     bindS (read_bytes resolved) (\<lambda>b.
     bindS (write_bytes (path_div dest provenance) b) (\<lambda>u.
     bindS (materialize_raw_image L resolved (path_div dest raw) fmt) (\<lambda>meta.
     bindS (image_to_nchw L resolved resize) (\<lambda>a0.
     bindS (liftS (maybe_reshape L a0 expected)) (\<lambda>a.
     bindS (write_raw_f32 L (path_div dest (safe @ ''.f32'')) a) (\<lambda>u.
     bindS (sha256_file X (path_div dest raw)) (\<lambda>h.
     retS \<lparr>if_source = resolved, if_provenance = provenance, if_raw = raw, if_tensor = safe @ ''.f32'',
       if_meta = meta, if_array = a, if_sha = h\<rparr>)))))))))"

definition image_entry :: "string \<Rightarrow> string \<Rightarrow> pyval \<Rightarrow> image_files \<Rightarrow> pydict" where
  "image_entry sid role label f = (let m = if_meta f in
     [(''sample_id'', PStr sid), (''role'', PStr role), (''input_kind'', PStr ''raw_image''),
      (''image_path'', PStr (''stream/'' @ role @ ''/'' @ if_raw f)),
      (''tensor_path'', PStr (''stream/'' @ role @ ''/'' @ if_tensor f)),
      (''provenance_encoded_path'', PStr (''stream/'' @ role @ ''/'' @ if_provenance f)),
      (''source_path'', PStr (path_str (if_source f))), (''sha256'', PStr (if_sha f)), (''label'', label),
      (''pixel_format'', PStr (pm_format m)), (''width'', PInt (pm_width m)), (''height'', PInt (pm_height m)),
      (''source_width'', PInt (pm_width m)), (''source_height'', PInt (pm_height m)),
      (''stride_bytes'', PInt (pm_stride m)), (''byte_size'', PInt (pm_size m)),
      (''shape'', shape_val (if_array f)), (''dtype'', PStr ''float32'')])"

definition resize_val :: "(int \<times> int) option \<Rightarrow> pyval" where
  "resize_val r = opt_val (\<lambda>(a, b). PList [PInt a, PInt b]) r"

definition class_sample ::
    "ext \<Rightarrow> arrays \<Rightarrow> ppath \<Rightarrow> string \<Rightarrow> ppath \<Rightarrow> pydict \<Rightarrow> string \<Rightarrow> (int \<times> int) option \<Rightarrow> nat \<times> pyval \<Rightarrow>
     pydict list \<Rightarrow> pydict list io" where
  "class_sample X L base role stream_dir expected fmt resize item samples = (case item of (index, v) \<Rightarrow>
     if \<not> is_dict v then retS samples
     else let d = the_dict v;
         sid = py_str (py_or (dget d ''item_id'') (PStr (role @ ''-'' @ show_int (int index)))) in
     bindS (image_sample X L base (py_str (dget_or d ''path'' (PStr []))) ''item.path'' role stream_dir expected
       fmt resize sid) (\<lambda>f.
     let entry = image_entry sid role (dget d ''class_id'') f in
     retS (samples @ [if resize = None then entry
       else dset ''expected_resize'' (resize_val resize) entry])))"

definition detection_sample ::
    "ext \<Rightarrow> arrays \<Rightarrow> ppath \<Rightarrow> string \<Rightarrow> ppath \<Rightarrow> pydict \<Rightarrow> string \<Rightarrow> (int \<times> int) option \<Rightarrow> nat \<times> pyval \<Rightarrow>
     pydict list \<Rightarrow> pydict list io" where
  "detection_sample X L base role stream_dir expected fmt resize item samples = (case item of (index, v) \<Rightarrow>
     if \<not> is_dict v then retS samples
     else (case dget (the_dict v) ''file_name'' of
       PStr rel \<Rightarrow> let d = the_dict v;
           sid = py_str (py_or (dget d ''id'') (PStr (role @ ''-'' @ show_int (int index)))) in
         bindS (image_sample X L base rel ''image.file_name'' role stream_dir expected fmt resize sid) (\<lambda>f.
         retS (samples @ [dset ''expected_resize'' (resize_val resize)
           (dset ''image_id'' (dget d ''id'') (image_entry sid role PNone f))]))
     | _ \<Rightarrow> retS samples))"

definition materialize_split ::
    "ext \<Rightarrow> arrays \<Rightarrow> pydict \<Rightarrow> string \<Rightarrow> ppath \<Rightarrow> pydict \<Rightarrow> string \<Rightarrow> pydict list io" where
  "materialize_split X L manifest role stream_dir expected fmt =
     (let kind = dget manifest ''dataset_type'' in
     bindS (liftS (manifest_base manifest)) (\<lambda>base.
     if kind = PStr ''raw_tensor'' then
       bindS (liftS (py_iter (py_or (dget manifest ''items'') (PList [])))) (\<lambda>items.
       foldS (raw_sample X L base role stream_dir expected) (enumerate 0 items) [])
     else if kind = PStr ''image_classification_manifest'' then
       bindS (liftS (resolve_resize manifest expected)) (\<lambda>resize.
       bindS (liftS (py_iter (py_or (dget manifest ''items'') (PList [])))) (\<lambda>items.
       foldS (class_sample X L base role stream_dir expected fmt resize) (enumerate 0 items) []))
     else bindS (liftS (py_in_strs kind [''coco_detection'', ''yolo_v8_detection''])) (\<lambda>detection.
     if detection then
       bindS (case dget manifest ''annotation_path'' of PStr s \<Rightarrow> retS s
         | _ \<Rightarrow> raiseS (ps_err DATASET_INVALID ''Detection manifest missing annotation_path'')) (\<lambda>rel.
       bindS (\<lambda>w. (resolve_under_root w base rel False ''annotation_path'', w)) (\<lambda>q.
       bindS (read_json X q) (\<lambda>v.
       bindS (liftS (as_dict v)) (\<lambda>annotations.
       bindS (liftS (resolve_resize manifest expected)) (\<lambda>resize.
       bindS (liftS (py_iter (py_or (dget annotations ''images'') (PList [])))) (\<lambda>images.
       foldS (detection_sample X L base role stream_dir expected fmt resize) (enumerate 0 images) []))))))
     else raiseS (ps_err DATASET_INVALID
       (''Unsupported dataset_type for benchmark stream: '' @ py_str kind)))))"

section \<open>The stream document\<close>

definition is_eval :: "pydict \<Rightarrow> bool" where
  "is_eval s \<longleftrightarrow> dget s ''role'' = PStr ''eval''"

definition cycled_sample :: "pydict list \<Rightarrow> nat \<Rightarrow> exc + pydict" where
  "cycled_sample evals i = (let base = evals ! (i mod length evals) in
     bindR (ditem base ''sample_id'') (\<lambda>sid.
     Inr (dset ''sample_id'' (PStr (py_str sid @ ''#iter'' @ show_int (int i + 1))) base)))"

definition cycle_samples :: "int \<Rightarrow> pydict list \<Rightarrow> exc + pydict list" where
  "cycle_samples measured samples = (let evals = filter is_eval samples in
     if 1 < measured \<and> evals \<noteq> []
     then bindR (mapR (cycled_sample evals) [0..<nat (measured - int (length evals))]) (\<lambda>more.
       Inr (samples @ more))
     else Inr samples)"

definition build_benchmark_stream ::
    "ext \<Rightarrow> arrays \<Rightarrow> ppath \<Rightarrow> pydict \<Rightarrow> pydict \<Rightarrow> pydict \<Rightarrow> int \<Rightarrow> string \<Rightarrow> ppath io" where
  "build_benchmark_stream X L ws calibration evaluation expected measured fmt =
     (let stream_dir = path_div (path_div ws ''inputs'') ''stream'' in
     bindS (mkdirs True stream_dir) (\<lambda>u.
     bindS (materialize_split X L calibration ''calib'' stream_dir expected fmt) (\<lambda>cs.
     bindS (materialize_split X L evaluation ''eval'' stream_dir expected fmt) (\<lambda>es.
     bindS (guardS (cs @ es \<noteq> []) (ps_error DATASET_INVALID
       ''Benchmark stream has no samples after materialization''
       (Some ''Provide non-empty calibration and/or evaluation manifests'') [] None)) (\<lambda>u.
     bindS (liftS (cycle_samples measured (cs @ es))) (\<lambda>samples.
     bindS (envelope_fields X ''perceptshift.benchmark_stream'') (\<lambda>env.
     let document = dupdate env [(''schema_version'', PStr ''1.0''),
           (''samples'', PList (map PDict samples)), (''sample_count'', PInt (int (length samples)))];
         out = path_div (path_div ws ''inputs'') ''bench-stream.json'' in
     bindS (write_atomic_json X out (PDict document)) (\<lambda>u. retS out))))))))"

section \<open>Reading the stream back\<close>

record stream_tensor =
  st_sample :: pyval
  st_role :: pyval
  st_tensor :: tensor
  st_path :: string
  st_label :: pyval
  st_sha :: pyval

definition tensor_location :: "world \<Rightarrow> ppath \<Rightarrow> string \<Rightarrow> ppath" where
  "tensor_location w stream_base rel = (let p = path_of rel in
     if p_abs p then p
     else let candidate = path_div stream_base rel in
       if \<not> is_file w candidate \<and> prefix ''inputs/'' rel then path_div (path_parent stream_base) rel
       else candidate)"

definition load_array :: "arrays \<Rightarrow> ppath \<Rightarrow> pyval \<Rightarrow> tensor io" where
  "load_array L p shape = bindS (read_bytes p) (\<lambda>b.
     if path_suffix p = ''.npy'' then liftS (nd_load L b)
     else let d = nd_fromfile L b; a = \<lparr>t_shape = [int (length d)], t_data = d\<rparr> in
       if is_list shape \<and> the_list shape \<noteq> []
       then bindS (liftS (mapR py_int (the_list shape))) (\<lambda>dims. liftS (nd_reshape L a dims))
       else retS a)"

definition load_sample ::
    "ext \<Rightarrow> arrays \<Rightarrow> string option \<Rightarrow> ppath \<Rightarrow> pyval \<Rightarrow> stream_tensor list \<Rightarrow> stream_tensor list io" where
  "load_sample X L role stream_base v loaded =
     (if \<not> is_dict v then retS loaded
      else let s = the_dict v in
      if role \<noteq> None \<and> dget s ''role'' \<noteq> PStr (the role) then retS loaded
      else (case dget s ''tensor_path'' of
        PStr rel \<Rightarrow> bindS (getS (\<lambda>w. tensor_location w stream_base rel)) (\<lambda>p.
          bindS (getS (\<lambda>w. is_file w p)) (\<lambda>there.
          bindS (guardS there (ps_err DATASET_INVALID (''Stream tensor missing: '' @ rel))) (\<lambda>u.
          bindS (load_array L p (dget s ''shape'')) (\<lambda>a.
          bindS (if truthy (dget s ''sha256'') then retS (dget s ''sha256'')
            else bindS (sha256_file X p) (\<lambda>h. retS (PStr h))) (\<lambda>h.
          retS (loaded @ [\<lparr>st_sample = dget s ''sample_id'', st_role = dget s ''role'',
            st_tensor = as_f32 L a, st_path = rel, st_label = dget s ''label'', st_sha = h\<rparr>]))))))
      | _ \<Rightarrow> retS loaded))"

definition load_stream_tensors :: "ext \<Rightarrow> arrays \<Rightarrow> ppath \<Rightarrow> string option \<Rightarrow> stream_tensor list io" where
  "load_stream_tensors X L stream_path role =
     bindS (read_json X stream_path) (\<lambda>v.
     bindS (liftS (as_dict v)) (\<lambda>doc.
     bindS (\<lambda>w. (resolve w stream_path, w)) (\<lambda>sp.
     bindS (liftS (py_iter (py_or (dget doc ''samples'') (PList [])))) (\<lambda>samples.
     foldS (load_sample X L role (path_parent sp)) samples []))))"

section \<open>Reshaping\<close>

lemma prod_list_pos: "\<forall>x\<in>set xs. 0 < x \<Longrightarrow> 0 < prod_list (xs :: int list)"
  by (induction xs) auto

lemma nd_reshape_exact:
  "nd_reshape L a shape = Inr t \<Longrightarrow> \<forall>d\<in>set shape. 0 \<le> d \<Longrightarrow>
     t = a\<lparr>t_shape := shape\<rparr> \<and> prod_list shape = nd_size a"
  by (auto simp: nd_reshape_def Let_def filter_empty_conv not_less split: if_splits)

lemma target_dim_fixed: "fixed_dim v = Some n \<Longrightarrow> target_dim v = n \<and> 0 < n"
  by (cases v) (auto simp: target_dim_def split: if_splits)

lemma target_dim_dynamic: "fixed_dim v = None \<Longrightarrow> target_dim v = -1"
  by (simp add: target_dim_def)

lemma maybe_reshape_steps:
  assumes run: "maybe_reshape L a e = Inr t" and shape: "shape_of e = PList dims" "dims \<noteq> []"
  obtains shape' where "nd_reshape L (as_f32 L a) shape' = Inr t" "length shape' = length dims"
    "\<forall>d\<in>set shape'. 0 \<le> d"
    "\<And>i n. i < length dims \<Longrightarrow> fixed_dim (dims ! i) = Some n \<Longrightarrow> shape' ! i = n"
proof (cases "filter (\<lambda>v. fixed_dim v = None) dims = []")
  case True
  with run shape have "nd_reshape L (as_f32 L a) (map target_dim dims) = Inr t"
    by (auto simp: maybe_reshape_def Let_def result_eqs)
  moreover have "\<forall>d\<in>set (map target_dim dims). 0 \<le> d"
    using True target_dim_fixed by (fastforce simp: filter_empty_conv)
  ultimately show ?thesis
    by (intro that [of "map target_dim dims"]) (simp_all add: target_dim_fixed)
next
  case False
  let ?f = "\<lambda>d. if d = -1 then nd_size (as_f32 L a) div prod_list (filter (\<lambda>d. 0 < d) (map target_dim dims)) else d"
  have "nd_reshape L (as_f32 L a) (map ?f (map target_dim dims)) = Inr t"
    using run shape False by (auto simp: maybe_reshape_def Let_def result_eqs split: if_splits)
  moreover have "\<forall>d\<in>set (map ?f (map target_dim dims)). 0 \<le> d"
  proof -
    have "0 < prod_list (filter (\<lambda>d. 0 < d) (map target_dim dims))" by (rule prod_list_pos) simp
    then have nn: "0 \<le> nd_size (as_f32 L a) div prod_list (filter (\<lambda>d. 0 < d) (map target_dim dims))"
      by (simp add: nd_size_def pos_imp_zdiv_nonneg_iff)
    have "0 \<le> ?f (target_dim v)" for v
      using nn target_dim_fixed [of v] target_dim_dynamic [of v] by (cases "fixed_dim v") auto
    then show ?thesis unfolding set_map by (intro ballI) (elim imageE, simp only:)
  qed
  moreover have fixed: "?f (target_dim v) = n" if "fixed_dim v = Some n" for v n
    using target_dim_fixed [OF that] by simp
  have "map ?f (map target_dim dims) ! i = n" if "i < length dims" "fixed_dim (dims ! i) = Some n" for i n
    using that(1) fixed [OF that(2)] by (simp only: nth_map length_map)
  moreover have "length (map ?f (map target_dim dims)) = length dims" by simp
  ultimately show ?thesis using that by blast
qed

text \<open>C39. A tensor reshaped to an expected shape keeps its elements, has every fixed dimension as
  expected, and the product of its dimensions is its size: nothing is padded or cut, whatever
  \<open>np.prod\<close> returned.\<close>

theorem reshape_exact:
  assumes run: "maybe_reshape L a e = Inr t" and shape: "shape_of e = PList dims" "dims \<noteq> []"
  shows "t_data t = map (nd_f32 L) (t_data a) \<and> prod_list (t_shape t) = nd_size a
    \<and> length (t_shape t) = length dims
    \<and> (\<forall>i < length dims. \<forall>n. fixed_dim (dims ! i) = Some n \<longrightarrow> t_shape t ! i = n)"
proof -
  obtain s where s: "nd_reshape L (as_f32 L a) s = Inr t" "length s = length dims" "\<forall>d\<in>set s. 0 \<le> d"
      "\<And>i n. i < length dims \<Longrightarrow> fixed_dim (dims ! i) = Some n \<Longrightarrow> s ! i = n"
    by (rule maybe_reshape_steps [OF assms]) blast
  from nd_reshape_exact [OF s(1,3)] s(2,4) show ?thesis by (simp add: as_f32_def nd_size_def)
qed

section \<open>Raw pixel files\<close>

text \<open>In a world without links, a materialized image is a file of exactly height times stride
  bytes, the stride being the width times the channels of its format.\<close>

theorem image_payload_exact:
  assumes "plain w" and run: "materialize_raw_image L source dest fmt w = (Inr m, w')"
  shows "\<exists>channels b. map_of CHANNELS fmt = Some channels \<and> file_at w' (place w dest) = Some b
    \<and> pm_stride m = pm_width m * channels \<and> pm_size m = pm_stride m * pm_height m
    \<and> int (length b) = pm_size m \<and> pm_format m = fmt"
proof -
  from run obtain channels r u w1 w2 b where c: "map_of CHANNELS fmt = Some channels"
      and rd: "read_bytes source w = (Inr b, w1)"
      and l: "pixel_layout fmt channels r = Inr m" and mk: "mkdirs True (path_parent dest) w1 = (Inr u, w2)"
      and wr: "write_bytes dest (ra_bytes r) w2 = (Inr (), w')"
    by (auto simp: materialize_raw_image_def comp_eqs liftS_def split: option.splits)
  have w1: "w1 = w" using read_bytes_pure [of source w] rd by simp
  note mk' = mkdirs_effect [OF mk, unfolded w1]
  have "plain w2" using mk' assms(1) same_setting_plain by blast
  from write_bytes_effect [OF this wr] mk' have "file_at w' (place w dest) = Some (ra_bytes r)"
    using same_setting_place [of w w2 dest] by simp
  moreover have "pm_stride m = pm_width m * channels \<and> pm_size m = pm_stride m * pm_height m
      \<and> int (length (ra_bytes r)) = pm_size m \<and> pm_format m = fmt"
    using l by (auto simp: pixel_layout_def result_eqs Let_def)
  ultimately show ?thesis using c by blast
qed

section \<open>The document\<close>

lemma cycled_sample_eval: "filter is_eval samples \<noteq> [] \<Longrightarrow>
    cycled_sample (filter is_eval samples) i = Inr s \<Longrightarrow> is_eval s"
proof -
  let ?e = "filter is_eval samples"
  assume ne: "?e \<noteq> []" and c: "cycled_sample ?e i = Inr s"
  have "?e ! (i mod length ?e) \<in> set ?e" by (rule nth_mem) (simp add: ne)
  then have "is_eval (?e ! (i mod length ?e))" by simp
  with c show "is_eval s" by (auto simp: cycled_sample_def Let_def result_eqs is_eval_def)
qed

lemma cycle_samples_enough:
  assumes "cycle_samples measured samples = Inr out" and "filter is_eval samples \<noteq> []"
  shows "measured \<le> int (length (filter is_eval out)) \<and> set samples \<subseteq> set out"
proof (cases "1 < measured")
  case True
  with assms obtain more where m: "mapR (cycled_sample (filter is_eval samples))
      [0..<nat (measured - int (length (filter is_eval samples)))] = Inr more" and out: "out = samples @ more"
    by (auto simp: cycle_samples_def Let_def result_eqs)
  have "list_all is_eval more"
    by (rule mapR_all [OF m, of "\<lambda>i. True"]) (simp, rule cycled_sample_eval [OF assms(2)])
  then have "filter is_eval more = more" by (simp add: list_all_iff)
  with mapR_length [OF m] out show ?thesis by simp
next
  case False
  with assms have "out = samples" by (simp add: cycle_samples_def Let_def)
  moreover have "1 \<le> length (filter is_eval samples)"
    using assms(2) by (cases "filter is_eval samples") simp_all
  moreover have "measured \<le> 1" using False by simp
  ultimately show ?thesis by simp
qed

text \<open>C40. A stream that was built has samples, and when the evaluation split gave any, at least as many
  evaluation samples as iterations are measured; the document written counts them.\<close>

theorem stream_covers_iterations:
  assumes run: "build_benchmark_stream X L ws cal ev expected measured fmt w = (Inr out, w')"
  shows "\<exists>samples document w1. samples \<noteq> []
    \<and> (filter is_eval samples = [] \<or> measured \<le> int (length (filter is_eval samples)))
    \<and> dget document ''samples'' = PList (map PDict samples)
    \<and> dget document ''sample_count'' = PInt (int (length samples))
    \<and> write_atomic_json X out (PDict document) w1 = (Inr (), w')"
proof -
  from run obtain cs es samples env w1 where ne: "cs @ es \<noteq> []"
      and cy: "cycle_samples measured (cs @ es) = Inr samples"
      and wr: "write_atomic_json X out (PDict (dupdate env [(''schema_version'', PStr ''1.0''),
           (''samples'', PList (map PDict samples)), (''sample_count'', PInt (int (length samples)))])) w1
         = (Inr (), w')"
    unfolding build_benchmark_stream_def Let_def comp_eqs liftS_def by (elim exE conjE) auto
  have "set (cs @ es) \<subseteq> set samples \<and> (filter is_eval samples = [] \<or> measured \<le> int (length (filter is_eval samples)))"
  proof (cases "filter is_eval (cs @ es) = []")
    case True
    with cy have "samples = cs @ es" by (simp add: cycle_samples_def Let_def)
    with True show ?thesis by simp
  next
    case False
    from cycle_samples_enough [OF cy False] show ?thesis by blast
  qed
  moreover have "samples \<noteq> []" using calculation ne by auto
  ultimately show ?thesis
    by (intro exI [of _ samples] exI [of _ "dupdate env [(''schema_version'', PStr ''1.0''),
           (''samples'', PList (map PDict samples)), (''sample_count'', PInt (int (length samples)))]"]
        exI [of _ w1]) (use wr in simp)
qed


section \<open>Where the stream is written\<close>

text \<open>Names without a slash, as the components of a path are.\<close>

definition slash_free :: "string list \<Rightarrow> bool" where
  "slash_free ns \<longleftrightarrow> (\<forall>n\<in>set ns. CHR ''/'' \<notin> set n)"

lemma split_on_parts: "n \<in> set (split_on c s) \<Longrightarrow> c \<notin> set n"
  by (induction s arbitrary: n) (auto split: if_splits list.splits)

lemma split_on_whole: "c \<notin> set s \<Longrightarrow> split_on c s = [s]"
  by (induction s) auto

lemma slash_free_path_of: "slash_free (p_parts (path_of s))"
  by (auto simp: slash_free_def path_of_def dest: split_on_parts)

lemma set_norm_parts: "set (norm_parts cur ns) \<subseteq> set cur \<union> set ns"
proof (induction ns arbitrary: cur)
  case (Cons n ns)
  have "set (if n = ''..'' then butlast cur else cur @ [n]) \<subseteq> set cur \<union> {n}"
    by (auto dest: in_set_butlastD)
  with Cons.IH [of "if n = ''..'' then butlast cur else cur @ [n]"] show ?case
    unfolding norm_parts_Cons list.set by blast
qed (simp add: norm_parts_def)

lemma slash_free_norm: "slash_free cur \<Longrightarrow> slash_free ns \<Longrightarrow> slash_free (norm_parts cur ns)"
  using set_norm_parts [of cur ns] unfolding slash_free_def by blast

lemma plain_nameI:
  assumes "CHR ''/'' \<notin> set n" and l: "2 < length n"
  shows "plain_name n"
proof -
  have ne: "n \<noteq> []" "n \<noteq> ''.''" "n \<noteq> ''..''" using l by (auto simp only: list.size)
  have "hd n \<noteq> CHR ''/''" using assms(1) ne(1) hd_in_set by metis
  moreover have "split_on (CHR ''/'') n = [n]" by (rule split_on_whole [OF assms(1)])
  ultimately show ?thesis using ne by (simp only: plain_name_def path_of_def) simp
qed

lemma char_by_code: "c = d \<longleftrightarrow> code c = code d"
  by simp

lemma code_lower: "code (lower_char c) = (if 65 \<le> code c \<and> code c \<le> 90 \<or>
    192 \<le> code c \<and> code c \<le> 222 \<and> code c \<noteq> 215 then code c + 32 else code c)"
  using code_bound [of c] by (auto simp: lower_char_def)

lemma lower_slash: "lower_char c = CHR ''/'' \<Longrightarrow> c = CHR ''/''"
proof -
  have s: "code (CHR ''/'') = 47" by simp
  assume "lower_char c = CHR ''/''"
  then have "code (lower_char c) = 47" using s by (simp only:)
  then have "code c = 47" unfolding code_lower by (auto split: if_splits)
  then show "c = CHR ''/''" using char_by_code [of c "CHR ''/''"] s by (simp only:)
qed

lemma slash_lower: "CHR ''/'' \<notin> set s \<Longrightarrow> CHR ''/'' \<notin> set (py_lower s)"
  unfolding py_lower_def set_map using lower_slash by (metis imageE)

lemma slash_safe_id: "CHR ''/'' \<notin> set (safe_id s)"
proof -
  let ?f = "\<lambda>c. if is_alnum c \<or> c \<in> set ''-_'' then c else CHR ''_''"
  have a: "\<not> is_alnum (CHR ''/'')" "CHR ''/'' \<notin> set ''-_''" "CHR ''/'' \<noteq> CHR ''_''" by code_simp+
  have f: "?f c \<noteq> CHR ''/''" for c
    using a a(3) [symmetric] by (cases "is_alnum c \<or> c \<in> set ''-_''") (simp_all only: if_False if_True not_False_eq_True, metis)
  have "CHR ''/'' \<notin> set (map ?f s)" unfolding set_map
  proof
    assume "CHR ''/'' \<in> ?f ` set s"
    then obtain c where "CHR ''/'' = ?f c" by (rule imageE)
    then show False by (rule notE [OF f sym])
  qed
  then show ?thesis unfolding safe_id_def by (meson in_set_takeD)
qed

lemma takeWhile_rev_mem:
  assumes "length (takeWhile (\<lambda>c. c \<noteq> d) (rev n)) < length n"
  shows "set (d # rev (takeWhile (\<lambda>c. c \<noteq> d) (rev n))) \<subseteq> set n"
proof -
  have "takeWhile (\<lambda>c. c \<noteq> d) (rev n) \<noteq> rev n" using assms by (metis length_rev less_irrefl)
  then have "d \<in> set (rev n)" by (metis (mono_tags, lifting) takeWhile_eq_all_conv)
  moreover have "set (takeWhile (\<lambda>c. c \<noteq> d) (rev n)) \<subseteq> set n" using set_takeWhileD by fastforce
  ultimately show ?thesis by simp
qed

lemma set_name_suffix: "set (name_suffix n) \<subseteq> set n"
  using takeWhile_rev_mem [of "CHR ''.''" n]
  by (simp only: name_suffix_def Let_def split: if_split) (simp add: not_le)

lemma slash_suffix: "slash_free (p_parts p) \<Longrightarrow> CHR ''/'' \<notin> set (path_suffix p)"
proof -
  assume f: "slash_free (p_parts p)"
  have "CHR ''/'' \<notin> set (path_name p)"
    using f last_in_set [of "p_parts p"] by (simp only: path_name_def slash_free_def split: if_split) simp
  then show ?thesis using set_name_suffix [of "path_name p"] unfolding path_suffix_def by blast
qed

lemma resolved_slash_free:
  assumes "plain w" and "slash_free (p_parts base)" and "resolve_under_root w base rel a fl = Inr q"
  shows "slash_free (p_parts q)"
proof -
  from resolve_under_root_Inr [OF assms(3)] obtain r where b: "p_abs base" "real w base = Some r"
      and q: "real w (path_div (abs_path r) rel) = Some (p_parts q)" by blast
  have place: "slash_free (place w p)" if "p_abs p" "slash_free (p_parts p)" for p
    unfolding place_def by (rule slash_free_norm) (use that in \<open>simp_all add: full_parts_def slash_free_def\<close>)
  have r: "slash_free r" using b place [OF b(1) assms(2)] assms(1) by (simp add: real_plain)
  have "p_abs (path_div (abs_path r) rel)" by simp
  moreover have "slash_free (p_parts (path_div (abs_path r) rel))"
    using r slash_free_path_of [of rel] by (auto simp: path_join_def slash_free_def)
  ultimately have "slash_free (place w (path_div (abs_path r) rel))" by (rule place)
  with q assms(1) show ?thesis by (simp add: real_plain)
qed

lemma keeps_resolved:
  assumes base: "slash_free (p_parts base)" and k: "\<And>q. slash_free (p_parts q) \<Longrightarrow> keeps (only_under d) (f q)"
  shows "keeps (only_under d) (bindS (\<lambda>w. (resolve_under_root w base rel a fl, w)) f)"
proof (rule keepsI)
  fix s r t
  assume run: "bindS (\<lambda>w. (resolve_under_root w base rel a fl, w)) f s = (r, t)"
  show "only_under d s t"
  proof (cases "plain s")
    case True
    show ?thesis
    proof (cases "resolve_under_root s base rel a fl")
      case (Inl e)
      with run show ?thesis by (simp add: bindS_def only_under.R_refl)
    next
      case (Inr q)
      with run have "f q s = (r, t)" by (simp add: bindS_def)
      with k [OF resolved_slash_free [OF True base Inr]] show ?thesis by (rule keepsD)
    qed
  qed (simp add: only_under_def)
qed

lemma keeps_manifest_base:
  assumes "\<And>b. slash_free (p_parts b) \<Longrightarrow> keeps (only_under d) (f b)"
  shows "keeps (only_under d) (bindS (liftS (manifest_base m)) f)"
proof (cases "manifest_base m")
  case (Inl e)
  then show ?thesis by (simp add: only_under.keeps_raiseS)
next
  case (Inr b)
  then obtain s where "b = path_of s"
    by (auto simp: manifest_base_def bindR_eq_Inr elim!: path_arg.elims)
  with Inr assms slash_free_path_of show ?thesis by simp
qed

lemma keeps_write_under:
  assumes "\<And>w. prefix (place w d) (place w p)" and "plain_name n"
  shows "keeps (only_under d) (write_bytes (path_div p n) b)"
proof (rule keepsI)
  fix w r w'
  assume run: "write_bytes (path_div p n) b w = (r, w')"
  show "only_under d w w'"
  proof (cases "plain w")
    case True
    have "prefix (place w d) (place w (path_div p n))"
      using assms(1) [of w] by (simp add: place_div [OF assms(2)])
    with write_bytes_effect [OF True run] show ?thesis by (auto simp: only_under_def)
  qed (simp add: only_under_def)
qed

lemmas under_reads = only_under.keeps_rules keeps_pyval keeps_sum
  keeps_same_mkdirs [THEN same_files_only_under] keeps_same_read_bytes [THEN same_files_only_under]
  keeps_same_read_json [THEN same_files_only_under] keeps_same_sha256_file [THEN same_files_only_under]
  keeps_same_envelope [THEN same_files_only_under]

lemma keeps_image_to_nchw: "keeps (only_under d) (image_to_nchw L p sz)"
  unfolding image_to_nchw_def by (intro under_reads)

lemma keeps_load_tensor: "keeps (only_under d) (load_tensor_file L p)"
  unfolding load_tensor_file_def Let_def by (intro under_reads keeps_image_to_nchw)

lemma keeps_materialize:
  assumes "\<And>w. prefix (place w d) (place w p)" and "plain_name n"
  shows "keeps (only_under d) (materialize_raw_image L source (path_div p n) fmt)"
  unfolding materialize_raw_image_def by (intro under_reads keeps_write_under assms)

lemma keeps_write_f32:
  assumes "\<And>w. prefix (place w d) (place w p)" and "plain_name n"
  shows "keeps (only_under d) (write_raw_f32 L (path_div p n) a)"
  unfolding write_raw_f32_def by (intro keeps_write_under assms)

lemma plain_stream_names:
  "plain_name (safe_id s @ ''.f32'')"
  "plain_name (safe_id s @ (case map_of PIXEL_EXT fmt of Some e \<Rightarrow> e | None \<Rightarrow> ''.rgb''))"
  "slash_free (p_parts q) \<Longrightarrow> plain_name (safe_id s @ ''.source'' @ (if py_lower (path_suffix q) \<noteq> []
     then py_lower (path_suffix q) else ''.png''))"
proof -
  have n: "plain_name (safe_id s @ e)" if "CHR ''/'' \<notin> set e" "2 < length e" for e
    by (rule plain_nameI) (use that slash_safe_id in \<open>simp_all only: set_append Un_iff length_append, simp_all\<close>)
  show "plain_name (safe_id s @ ''.f32'')" by (rule n) code_simp+
  have "list_all (\<lambda>e. CHR ''/'' \<notin> set e \<and> 2 < length e) (''.rgb'' # map snd PIXEL_EXT)" by code_simp
  then show "plain_name (safe_id s @ (case map_of PIXEL_EXT fmt of Some e \<Rightarrow> e | None \<Rightarrow> ''.rgb''))"
    by (cases "map_of PIXEL_EXT fmt") (auto simp only: list_all_iff list.set option.case
      dest!: map_of_SomeD intro!: n, force+)
  assume q: "slash_free (p_parts q)"
  have "CHR ''/'' \<notin> set ''.source''" "CHR ''/'' \<notin> set ''.png''" "2 < length ''.source''" by code_simp+
  with slash_lower [OF slash_suffix [OF q]]
  show "plain_name (safe_id s @ ''.source'' @ (if py_lower (path_suffix q) \<noteq> []
     then py_lower (path_suffix q) else ''.png''))"
    by (intro n) (simp_all only: set_append Un_iff length_append split: if_split, simp_all)
qed

text \<open>The steps of a split, for any stream directory below \<open>d\<close>.\<close>

lemma place_dest: "prefix (place w d) (place w sd) \<Longrightarrow> plain_name role \<Longrightarrow>
    prefix (place w d) (place w (path_div sd role))"
  by (simp add: place_div)

lemma keeps_split_dest:
  "(keeps (only_under d) (f (path_div sd role))) \<Longrightarrow> keeps (only_under d) (bindS (split_dest sd role) f)"
  unfolding split_dest_def Let_def bindS_assoc bindS_retS by (intro under_reads)

lemma keeps_raw_sample:
  assumes sd: "\<And>w. prefix (place w d) (place w sd)" and role: "plain_name role"
    and base: "slash_free (p_parts base)"
  shows "keeps (only_under d) (raw_sample X L base role sd expected item samples)"
  unfolding raw_sample_def Let_def
  by (intro under_reads keeps_resolved keeps_split_dest keeps_load_tensor keeps_write_f32 place_dest sd role
    base plain_stream_names)

lemma keeps_image_sample:
  assumes sd: "\<And>w. prefix (place w d) (place w sd)" and role: "plain_name role"
    and base: "slash_free (p_parts base)"
  shows "keeps (only_under d) (image_sample X L base rel field role sd expected fmt resize sid)"
  unfolding image_sample_def Let_def
  by (intro keeps_resolved [OF base] keeps_split_dest only_under.keeps_bind under_reads keeps_materialize
    keeps_write_under keeps_image_to_nchw keeps_write_f32 place_dest sd role plain_stream_names)

lemma keeps_materialize_split:
  assumes sd: "\<And>w. prefix (place w d) (place w sd)" and role: "plain_name role"
  shows "keeps (only_under d) (materialize_split X L manifest role sd expected fmt)"
  unfolding materialize_split_def class_sample_def detection_sample_def Let_def
  by (intro keeps_manifest_base keeps_resolved under_reads keeps_raw_sample keeps_image_sample sd role)

lemma place_inputs: "prefix (place w (path_div ws ''inputs'')) (place w (path_div (path_div ws ''inputs'') ''stream''))"
proof -
  have "plain_name ''stream''" by code_simp
  then show ?thesis by (simp add: place_div)
qed

lemma keeps_write_json:
  assumes "plain_name n" and "plain_name (n @ ''.tmp'')"
  shows "keeps (only_under d) (write_atomic_json X (path_div d n) v)"
  unfolding write_atomic_json_def by (intro under_reads only_under_write_atomic assms)

text \<open>C38. Building a stream, completed or not, changes no file outside the workspace's inputs, whatever
  sample ids and file names the manifests give.\<close>

theorem stream_confined:
  assumes "plain w" and run: "build_benchmark_stream X L ws cal ev expected measured fmt w = (r, w')"
    and "\<not> prefix (place w (path_div ws ''inputs'')) q"
  shows "file_at w' q = file_at w q"
proof -
  have n: "plain_name ''calib''" "plain_name ''eval''" "plain_name ''bench-stream.json''"
      "plain_name (''bench-stream.json'' @ ''.tmp'')"
    by code_simp+
  have "keeps (only_under (path_div ws ''inputs'')) (build_benchmark_stream X L ws cal ev expected measured fmt)"
    unfolding build_benchmark_stream_def Let_def
    by (intro under_reads keeps_materialize_split place_inputs keeps_write_json n)
  from keepsD [OF this run] assms(1,3) show ?thesis by (simp add: only_under_def)
qed

section \<open>Sample runs\<close>

definition stream_arrays :: arrays where
  "stream_arrays = \<lparr>im_array = (\<lambda>b m s. Inr \<lparr>ra_shape = [1, 1, 3], ra_bytes = ''abc''\<rparr>),
     nd_load = (\<lambda>b. Inl (py_err ValueError)), nd_fromfile = map (\<lambda>c. Fin (of_int (code c))),
     nd_bytes = map (\<lambda>f. case f of Fin q \<Rightarrow> char_of \<lfloor>q\<rfloor> | _ \<Rightarrow> CHR ''?''), nd_f32 = id,
     nd_prod = prod_list, nd_maxdims = 64\<rparr>"

definition stream_world :: world where
  "stream_world = \<lparr>w_files = [([''d'', ''a.bin''], ''x''), ([''d'', ''b.bin''], ''y''), ([''d'', ''i.png''], ''z'')],
     w_dirs = [[''d'']], w_links = [], w_cwd = [], w_home = [], w_environ = [], w_ticks = 0,
     w_version = Some ''1'', w_commit = Some ''c'', w_registry = None, w_schemas = []\<rparr>"

definition stream_manifest :: pydict where
  "stream_manifest = [(''dataset_type'', PStr ''raw_tensor''), (''root'', PStr ''/d''), (''items'', PList
     [PDict [(''path'', PStr ''a.bin''), (''item_id'', PStr ''a/b'')],
      PDict [(''path'', PStr ''b.bin''), (''item_id'', PStr ''a_b'')]])]"

text \<open>Distinct sample ids can name one file: the characters a file name may not have all become an
  underscore, so the second tensor replaces the first, whose recorded digest is then of a tensor
  that is no longer there.\<close>

theorem stream_ids_collide:
  "case materialize_split sample_ext stream_arrays stream_manifest ''calib'' (path_of ''/ws/inputs/stream'') []
     ''rgb8'' stream_world of
   (Inr samples, w') \<Rightarrow> length samples = 2
     \<and> dget (samples ! 0) ''sample_id'' = PStr ''a/b'' \<and> dget (samples ! 1) ''sample_id'' = PStr ''a_b''
     \<and> dget (samples ! 0) ''tensor_path'' = PStr ''stream/calib/a_b.f32''
     \<and> dget (samples ! 1) ''tensor_path'' = PStr ''stream/calib/a_b.f32''
     \<and> dget (samples ! 0) ''sha256'' = PStr (x_sha256 sample_ext ''x'')
     \<and> file_at w' [''ws'', ''inputs'', ''stream'', ''calib'', ''a_b.f32''] = Some ''y''
   | (Inl e, w') \<Rightarrow> False"
  by code_simp

theorem reshape_exact_witness:
  "\<exists>t. maybe_reshape stream_arrays \<lparr>t_shape = [4], t_data = [Fin 1, Fin 2, Fin 3, Fin 4]\<rparr>
       [(''shape'', PList [PStr ''n'', PInt 2])] = Inr t
     \<and> prod_list (t_shape t) = 4 \<and> t_shape t ! 1 = 2 \<and> length (t_shape t) = 2"
proof -
  let ?a = "\<lparr>t_shape = [4], t_data = [Fin 1, Fin 2, Fin 3, Fin 4]\<rparr>" and ?e = "[(''shape'', PList [PStr ''n'', PInt 2])]"
  have "maybe_reshape stream_arrays ?a ?e = Inr \<lparr>t_shape = [2, 2], t_data = [Fin 1, Fin 2, Fin 3, Fin 4]\<rparr>"
    by code_simp
  then obtain t where run: "maybe_reshape stream_arrays ?a ?e = Inr t" by blast
  have s: "shape_of ?e = PList [PStr ''n'', PInt 2]" by code_simp
  from reshape_exact [OF run s] have "prod_list (t_shape t) = 4 \<and> length (t_shape t) = 2 \<and> t_shape t ! 1 = 2"
    by (auto simp: nd_size_def dest: spec [of _ 1])
  with run show ?thesis by blast
qed

lemma stream_world_plain: "plain stream_world"
  by (simp add: plain_def stream_world_def)

theorem image_payload_exact_witness:
  "\<exists>m w' b. materialize_raw_image stream_arrays (abs_path [''d'', ''i.png'']) (abs_path [''o'', ''i.rgb'']) ''rgb8''
       stream_world = (Inr m, w')
     \<and> file_at w' (place stream_world (abs_path [''o'', ''i.rgb''])) = Some b \<and> int (length b) = pm_size m"
proof -
  have "case fst (materialize_raw_image stream_arrays (abs_path [''d'', ''i.png'']) (abs_path [''o'', ''i.rgb'']) ''rgb8''
       stream_world) of Inr m \<Rightarrow> True | Inl e \<Rightarrow> False"
    by code_simp
  then obtain m w' where run: "materialize_raw_image stream_arrays (abs_path [''d'', ''i.png''])
      (abs_path [''o'', ''i.rgb'']) ''rgb8'' stream_world = (Inr m, w')"
    by (cases "materialize_raw_image stream_arrays (abs_path [''d'', ''i.png'']) (abs_path [''o'', ''i.rgb'']) ''rgb8''
       stream_world") (auto split: sum.splits)
  from image_payload_exact [OF stream_world_plain this] run show ?thesis by blast
qed

lemma sample_stream:
  "\<exists>out w'. build_benchmark_stream sample_ext stream_arrays (abs_path [''ws'']) stream_manifest stream_manifest [] 3
       ''rgb8'' stream_world = (Inr out, w')"
proof -
  have "case fst (build_benchmark_stream sample_ext stream_arrays (abs_path [''ws'']) stream_manifest stream_manifest [] 3
       ''rgb8'' stream_world) of Inr m \<Rightarrow> True | Inl e \<Rightarrow> False"
    by code_simp
  then show ?thesis
    by (cases "build_benchmark_stream sample_ext stream_arrays (abs_path [''ws'']) stream_manifest stream_manifest [] 3
       ''rgb8'' stream_world") (auto split: sum.splits)
qed

theorem stream_covers_iterations_witness:
  "\<exists>out w' samples w1 d. build_benchmark_stream sample_ext stream_arrays (abs_path [''ws'']) stream_manifest
       stream_manifest [] 3 ''rgb8'' stream_world = (Inr out, w')
     \<and> dget d ''samples'' = PList (map PDict samples)
     \<and> (filter is_eval samples = [] \<or> 3 \<le> length (filter is_eval samples))
     \<and> write_atomic_json sample_ext out (PDict d) w1 = (Inr (), w')"
proof -
  obtain out w' where run: "build_benchmark_stream sample_ext stream_arrays (abs_path [''ws'']) stream_manifest
       stream_manifest [] 3 ''rgb8'' stream_world = (Inr out, w')"
    using sample_stream by blast
  obtain samples d w1 where s: "filter is_eval samples = [] \<or> (3 :: int) \<le> int (length (filter is_eval samples))"
      "dget d ''samples'' = PList (map PDict samples)"
      "write_atomic_json sample_ext out (PDict d) w1 = (Inr (), w')"
    using stream_covers_iterations [OF run] by blast
  have "filter is_eval samples = [] \<or> 3 \<le> length (filter is_eval samples)" using s(1) by linarith
  with run s(2,3) show ?thesis by blast
qed

theorem stream_confined_witness:
  "\<exists>out w'. build_benchmark_stream sample_ext stream_arrays (abs_path [''ws'']) stream_manifest stream_manifest [] 3
       ''rgb8'' stream_world = (Inr out, w') \<and> file_at w' [''d'', ''a.bin''] = Some ''x''"
proof -
  obtain out w' where run: "build_benchmark_stream sample_ext stream_arrays (abs_path [''ws'']) stream_manifest
       stream_manifest [] 3 ''rgb8'' stream_world = (Inr out, w')"
    using sample_stream by blast
  have "\<not> prefix (place stream_world (path_div (abs_path [''ws'']) ''inputs'')) [''d'', ''a.bin'']"
      "file_at stream_world [''d'', ''a.bin''] = Some ''x''"
    by code_simp+
  with stream_confined [OF stream_world_plain run] run show ?thesis by metis
qed

end
