(* ===== verification/Api_Guard.thy ===== *)
theory Api_Guard
  imports Doc_Store
begin

text \<open>
  What every request of the API passes through: \<open>perceptshift_api/errors.py\<close> (the error envelope and
  the exception handlers), \<open>middleware.py\<close> (correlation ids, security headers, body size),
  \<open>auth.py\<close> (bearer tokens, the sliding-window rate limiter), \<open>paths.py\<close> (artifact roots) and
  \<open>config.py\<close> (settings). A fresh \<open>uuid4\<close> is an argument wherever the code draws one.
\<close>

section \<open>Requests and responses\<close>

text \<open>Header names are in lower case, as Starlette looks them up.\<close>

record request =
  rq_correlation :: "string option"
  rq_headers :: "(string \<times> string) list"
  rq_client :: "string option"

record response =
  rs_status :: int
  rs_body :: pyval
  rs_headers :: "(string \<times> string) list"

abbreviation header_of :: "request \<Rightarrow> string \<Rightarrow> string option" where
  "header_of rq name \<equiv> map_of (rq_headers rq) name"

definition filled :: "string option \<Rightarrow> string option" where
  "filled s = (case s of Some t \<Rightarrow> if t \<noteq> [] then Some t else None | None \<Rightarrow> None)"

definition or_else :: "string option \<Rightarrow> string \<Rightarrow> string" where
  "or_else s d = (case filled s of Some t \<Rightarrow> t | None \<Rightarrow> d)"

section \<open>errors.py\<close>

definition api_error :: "string \<Rightarrow> string \<Rightarrow> string \<Rightarrow> int \<Rightarrow> bool \<Rightarrow> pydict \<Rightarrow> string option \<Rightarrow> string option \<Rightarrow> exc" where
  "api_error uuid c message status retryable details remediation correlation =
     ApiErr c message status retryable details remediation (or_else correlation uuid)"

fun to_payload :: "exc \<Rightarrow> pyval" where
  "to_payload (ApiErr c m st retr det rem corr) = PDict [(''error'', PDict
     [(''code'', PStr c), (''message'', PStr m), (''correlation_id'', PStr corr),
      (''retryable'', PBool retr), (''details'', PDict det), (''remediation'', opt_str rem)])]"
| "to_payload _ = PNone"

definition correlation_id :: "string \<Rightarrow> request \<Rightarrow> string" where
  "correlation_id uuid rq = (case filled (rq_correlation rq) of Some c \<Rightarrow> c
     | None \<Rightarrow> or_else (header_of rq ''x-correlation-id'') uuid)"

fun api_error_handler :: "string \<Rightarrow> request \<Rightarrow> exc \<Rightarrow> response" where
  "api_error_handler uuid rq (ApiErr c m st retr det rem corr) =
     (let e = ApiErr c m st retr det rem (if corr = [] then correlation_id uuid rq else corr) in
      \<lparr>rs_status = st, rs_body = to_payload e, rs_headers = []\<rparr>)"
| "api_error_handler uuid rq _ = \<lparr>rs_status = 0, rs_body = PNone, rs_headers = []\<rparr>"

definition error_body :: "string \<Rightarrow> string \<Rightarrow> string \<Rightarrow> bool \<Rightarrow> pydict \<Rightarrow> string option \<Rightarrow> pyval" where
  "error_body c message corr retryable details remediation =
     to_payload (ApiErr c message 0 retryable details remediation corr)"

definition http_code :: "int \<Rightarrow> string" where
  "http_code status = (case map_of [(401, ''AUTH_REQUIRED''), (403, ''FORBIDDEN''), (404, ''NOT_FOUND''),
     (405, ''METHOD_NOT_ALLOWED''), (413, ''REQUEST_TOO_LARGE''), (429, ''RATE_LIMITED'')] status of
     Some c \<Rightarrow> c | None \<Rightarrow> ''HTTP_ERROR'')"

definition http_exception_handler :: "string \<Rightarrow> request \<Rightarrow> int \<Rightarrow> pyval \<Rightarrow> response" where
  "http_exception_handler uuid rq status detail =
     \<lparr>rs_status = status,
      rs_body = error_body (http_code status)
        (case detail of PStr s \<Rightarrow> s | _ \<Rightarrow> ''Request failed'') (correlation_id uuid rq)
        (status \<in> set [408, 429, 503])
        (if is_str detail \<or> detail = PNone then [] else [(''detail'', detail)]) None,
      rs_headers = []\<rparr>"

definition validation_exception_handler :: "string \<Rightarrow> request \<Rightarrow> pyval \<Rightarrow> response" where
  "validation_exception_handler uuid rq issues =
     \<lparr>rs_status = 422,
      rs_body = error_body ''VALIDATION_ERROR'' ''Request validation failed'' (correlation_id uuid rq) False
        [(''issues'', issues)] (Some ''Correct the request body or query parameters and retry''),
      rs_headers = []\<rparr>"

definition unhandled_exception_handler :: "string \<Rightarrow> request \<Rightarrow> response" where
  "unhandled_exception_handler uuid rq =
     \<lparr>rs_status = 500,
      rs_body = error_body ''INTERNAL_ERROR'' ''An unexpected error occurred'' (correlation_id uuid rq) True []
        (Some ''Retry the request; if it persists, inspect API logs''),
      rs_headers = []\<rparr>"

section \<open>middleware.py\<close>

definition SECURITY_HEADERS :: "(string \<times> string) list" where
  "SECURITY_HEADERS =
     [(''Content-Security-Policy'',
        join_with ''; '' (map (\<lambda>d. d @ '' '' @ [CHR 0x27] @ ''none'' @ [CHR 0x27])
          [''default-src'', ''frame-ancestors'', ''base-uri'', ''form-action''])),
      (''X-Content-Type-Options'', ''nosniff''), (''X-Frame-Options'', ''DENY''),
      (''Referrer-Policy'', ''no-referrer''),
      (''Permissions-Policy'', ''geolocation=(), microphone=(), camera=()''),
      (''Cache-Control'', ''no-store'')]"

text \<open>\<open>headers.setdefault\<close>; header names are compared without case.\<close>

definition has_header :: "(string \<times> string) list \<Rightarrow> string \<Rightarrow> bool" where
  "has_header hs k \<longleftrightarrow> list_ex (\<lambda>(n, v). py_lower n = py_lower k) hs"

definition set_header :: "string \<Rightarrow> string \<Rightarrow> (string \<times> string) list \<Rightarrow> (string \<times> string) list" where
  "set_header k v hs = filter (\<lambda>(n, w). py_lower n \<noteq> py_lower k) hs @ [(k, v)]"

definition header_default :: "string \<times> string \<Rightarrow> (string \<times> string) list \<Rightarrow> (string \<times> string) list" where
  "header_default kv hs = (if has_header hs (fst kv) then hs else hs @ [kv])"

text \<open>A middleware takes the rest of the chain. An exception of the rest passes through.\<close>

type_synonym 's handler = "request \<Rightarrow> ('s, exc, response) comp"

definition security_headers :: "string \<Rightarrow> 's handler \<Rightarrow> 's handler" where
  "security_headers uuid call_next rq =
     (let corr = or_else (header_of rq ''x-correlation-id'') uuid in
     bindS (call_next (rq\<lparr>rq_correlation := Some corr\<rparr>)) (\<lambda>r.
     retS (r\<lparr>rs_headers := set_header ''X-Correlation-ID'' corr (fold header_default SECURITY_HEADERS (rs_headers r))\<rparr>)))"

text \<open>The headers Starlette derives from a body, its type and its length, are left out of all responses.\<close>

definition error_response :: "int \<Rightarrow> string \<Rightarrow> string \<Rightarrow> string \<Rightarrow> string option \<Rightarrow> response" where
  "error_response status c message corr remediation =
     \<lparr>rs_status = status, rs_body = error_body c message corr False [] remediation,
      rs_headers = [(''X-Correlation-ID'', corr)]\<rparr>"

definition size_limit :: "int \<Rightarrow> string \<Rightarrow> 's handler \<Rightarrow> 's handler" where
  "size_limit max_bytes uuid call_next rq =
     (let corr = or_else (rq_correlation rq) uuid in
     case header_of rq ''content-length'' of None \<Rightarrow> call_next rq
     | Some v \<Rightarrow> (case parse_int v of
         None \<Rightarrow> retS (error_response 400 ''REQUEST_INVALID'' ''Invalid Content-Length'' corr None)
       | Some n \<Rightarrow> if max_bytes < n
           then retS (error_response 413 ''REQUEST_TOO_LARGE''
             (''Request body exceeds '' @ show_int max_bytes @ '' bytes'') corr
             (Some ''Reduce request payload size''))
           else call_next rq))"

text \<open>\<open>create_app\<close> adds the size limit last, and the middleware added last runs first. This is the chain
  without configured CORS origins, the default; Starlette's CORS middleware would be around it.\<close>

definition app_chain :: "int \<Rightarrow> string \<Rightarrow> string \<Rightarrow> 's handler \<Rightarrow> 's handler" where
  "app_chain max_bytes uuid1 uuid2 routes = size_limit max_bytes uuid1 (security_headers uuid2 routes)"

section \<open>config.py\<close>

record settings =
  se_host :: string
  se_port :: int
  se_token :: "string option"
  se_token_file :: "ppath option"
  se_cors :: "string list"
  se_max_bytes :: int
  se_queue :: int
  se_clients :: int
  se_cache :: int
  se_rate :: int
  se_roots :: "ppath list"
  se_data :: "ppath option"
  se_state :: "ppath option"
  se_database :: "string option"
  se_ros :: bool
  se_console :: string

text \<open>\<open>expanduser\<close>; \<open>pw\<close> is the password database, which gives a user's home.\<close>

definition expanduser :: "(string \<Rightarrow> string list option) \<Rightarrow> world \<Rightarrow> ppath \<Rightarrow> exc + ppath" where
  "expanduser pw w p = (if p_abs p then Inr p else (case p_parts p of
     [] \<Rightarrow> Inr p
   | n # ns \<Rightarrow> (case n of
       [] \<Rightarrow> Inr p
     | c # user \<Rightarrow> if c \<noteq> CHR ''~'' then Inr p
         else if user = [] then Inr (abs_path (w_home w @ ns))
         else (case pw user of None \<Rightarrow> Inl (py_err RuntimeError) | Some h \<Rightarrow> Inr (abs_path (h @ ns))))))"

definition expanded :: "(string \<Rightarrow> string list option) \<Rightarrow> world \<Rightarrow> ppath \<Rightarrow> exc + ppath" where
  "expanded pw w p = bindR (expanduser pw w p) (resolve w)"

definition xdg_home :: "(string \<Rightarrow> string list option) \<Rightarrow> world \<Rightarrow> string \<Rightarrow> ppath \<Rightarrow> exc + ppath" where
  "xdg_home pw w env_name fallback = (case filled (getenv w env_name) of
     Some raw \<Rightarrow> expanded pw w (path_of raw) | None \<Rightarrow> expanded pw w fallback)"

definition default_data_dir :: "(string \<Rightarrow> string list option) \<Rightarrow> world \<Rightarrow> exc + ppath" where
  "default_data_dir pw w = bindR (xdg_home pw w ''XDG_DATA_HOME'' (abs_path (w_home w @ [''.local'', ''share''])))
     (\<lambda>p. Inr (path_div p ''perceptshift''))"

definition default_state_dir :: "(string \<Rightarrow> string list option) \<Rightarrow> world \<Rightarrow> exc + ppath" where
  "default_state_dir pw w = bindR (xdg_home pw w ''XDG_STATE_HOME'' (abs_path (w_home w @ [''.local'', ''state''])))
     (\<lambda>p. Inr (path_div p ''perceptshift''))"

definition default_config_dir :: "(string \<Rightarrow> string list option) \<Rightarrow> world \<Rightarrow> exc + ppath" where
  "default_config_dir pw w = bindR (xdg_home pw w ''XDG_CONFIG_HOME'' (abs_path (w_home w @ [''.config''])))
     (\<lambda>p. Inr (path_div p ''perceptshift''))"

text \<open>The validators of settings given as a string or a list.\<close>

definition parse_cors :: "pyval \<Rightarrow> exc + string list" where
  "parse_cors v = (if v = PNone \<or> v = PStr [] then Inr []
     else (case v of
       PStr s \<Rightarrow> Inr (filter (\<lambda>p. p \<noteq> []) (map py_strip (split_on (CHR '','') s)))
     | PList l \<Rightarrow> Inr (filter (\<lambda>p. p \<noteq> []) (map (\<lambda>x. py_strip (py_str x)) l))
     | _ \<Rightarrow> Inl (PyErr TypeError ''cors_origins must be a comma-separated string or list'')))"

definition parse_roots :: "(string \<Rightarrow> string list option) \<Rightarrow> world \<Rightarrow> pyval \<Rightarrow> exc + ppath list" where
  "parse_roots pw w v = (if v = PNone \<or> v = PStr [] then Inr []
     else (case v of
       PStr s \<Rightarrow> mapR (\<lambda>p. expanduser pw w (path_of p))
         (filter (\<lambda>p. py_strip p \<noteq> []) (split_on (CHR '':'') s))
     | PList l \<Rightarrow> mapR (\<lambda>x. expanduser pw w (path_of (py_str x))) l
     | _ \<Rightarrow> Inl (PyErr TypeError ''artifact_roots must be a path list'')))"

definition resolved_data_dir :: "(string \<Rightarrow> string list option) \<Rightarrow> settings \<Rightarrow> world \<Rightarrow> exc + ppath" where
  "resolved_data_dir pw S w = bindR (case se_data S of Some p \<Rightarrow> Inr p | None \<Rightarrow> default_data_dir pw w) (resolve w)"

definition resolved_state_dir :: "(string \<Rightarrow> string list option) \<Rightarrow> settings \<Rightarrow> world \<Rightarrow> exc + ppath" where
  "resolved_state_dir pw S w = bindR (case se_state S of Some p \<Rightarrow> Inr p | None \<Rightarrow> default_state_dir pw w) (resolve w)"

definition resolved_database_url :: "(string \<Rightarrow> string list option) \<Rightarrow> settings \<Rightarrow> world \<Rightarrow> exc + string" where
  "resolved_database_url pw S w = (case filled (se_database S) of Some u \<Rightarrow> Inr u
     | None \<Rightarrow> bindR (resolved_state_dir pw S w) (\<lambda>d.
         Inr (''sqlite:///'' @ path_str (path_div (path_div d ''api'') ''index.sqlite''))))"

definition add_root :: "ppath \<Rightarrow> ppath list \<Rightarrow> ppath list" where
  "add_root p ps = (if p \<in> set ps then ps else ps @ [p])"

definition resolved_artifact_roots :: "(string \<Rightarrow> string list option) \<Rightarrow> settings \<Rightarrow> world \<Rightarrow> exc + ppath list" where
  "resolved_artifact_roots pw S w =
     bindR (mapR (resolve w) (se_roots S)) (\<lambda>roots.
     bindR (resolved_data_dir pw S w) (\<lambda>data. bindR (resolved_state_dir pw S w) (\<lambda>state.
     Inr (fold add_root [path_div data ''runs'', path_div data ''bundles'', path_div state ''runs'',
       path_div state ''bundles''] roots))))"

text \<open>\<open>read\_text().strip() or None\<close> of the file, if there is one.\<close>

definition token_in :: "ppath \<Rightarrow> string option io" where
  "token_in p = bindS (getS (\<lambda>w. is_file w p)) (\<lambda>there.
     if there then bindS (read_text p) (\<lambda>t. retS (filled (Some (py_strip t)))) else retS None)"

definition resolve_mutation_token :: "(string \<Rightarrow> string list option) \<Rightarrow> settings \<Rightarrow> string option io" where
  "resolve_mutation_token pw S = (case filled (se_token S) of Some t \<Rightarrow> retS (Some t)
     | None \<Rightarrow> (case se_token_file S of
         Some f \<Rightarrow> bindS (\<lambda>w. (expanduser pw w f, w)) token_in
       | None \<Rightarrow> bindS (getS (\<lambda>w. filled (getenv w ''CREDENTIALS_DIRECTORY''))) (\<lambda>cred.
           case cred of None \<Rightarrow> retS None
           | Some d \<Rightarrow> token_in (path_div (path_of d) ''perceptshift-api-token''))))"

definition mutations_enabled :: "(string \<Rightarrow> string list option) \<Rightarrow> settings \<Rightarrow> bool io" where
  "mutations_enabled pw S = bindS (resolve_mutation_token pw S) (\<lambda>t. retS (filled t \<noteq> None))"

definition effective_cors_origins :: "settings \<Rightarrow> string list" where
  "effective_cors_origins S = se_cors S"

section \<open>auth.py\<close>

definition ljust :: "nat \<Rightarrow> string \<Rightarrow> string" where
  "ljust n b = b @ replicate (n - length b) (CHR 0x00)"

text \<open>\<open>len(...).to\_bytes(4, "big")\<close> raises on lengths that need more than four bytes.\<close>

definition four_bytes :: "int \<Rightarrow> exc + string" where
  "four_bytes n = (if n < 2 ^ 32
     then Inr (map (\<lambda>k. char_of (n div 256 ^ k mod 256)) [3, 2, 1, 0]) else Inl (py_err OverflowError))"

definition constant_time_token_equals :: "string \<Rightarrow> string \<Rightarrow> exc + bool" where
  "constant_time_token_equals expected provided =
     (let e = utf8_encode expected; p = utf8_encode provided; m = max (max (length e) (length p)) 1 in
     bindR (four_bytes (int (length e))) (\<lambda>le. bindR (four_bytes (int (length p))) (\<lambda>lp.
     Inr (le = lp \<and> ljust m e = ljust m p))))"

record limiter =
  rl_limit :: int
  rl_events :: "(string \<times> pyfloat list) list"

definition limiter_init :: "int \<Rightarrow> limiter" where
  "limiter_init n = \<lparr>rl_limit = max 1 n, rl_events = []\<rparr>"

definition bucket_of :: "limiter \<Rightarrow> string \<Rightarrow> pyfloat list" where
  "bucket_of l key = (case map_of (rl_events l) key of None \<Rightarrow> [] | Some b \<Rightarrow> b)"

fun expire :: "pyfloat \<Rightarrow> pyfloat list \<Rightarrow> pyfloat list" where
  "expire now [] = []"
| "expire now (t # ts) = (if fl_lt (Fin 60) (fl_sub now t) then expire now ts else t # ts)"

definition put_bucket :: "string \<Rightarrow> pyfloat list \<Rightarrow> limiter \<Rightarrow> limiter" where
  "put_bucket key b l = l\<lparr>rl_events := AList.update key b (rl_events l)\<rparr>"

definition limiter_check :: "string \<Rightarrow> pyfloat \<Rightarrow> string \<Rightarrow> limiter \<Rightarrow> (exc + unit) \<times> limiter" where
  "limiter_check uuid now key l = (let bucket = expire now (bucket_of l key) in
     if rl_limit l \<le> int (length bucket)
     then (Inl (api_error uuid ''RATE_LIMITED'' ''Mutation rate limit exceeded'' 429 True []
       (Some ''Wait before retrying mutation requests'') None), put_bucket key bucket l)
     else (Inr (), put_bucket key (bucket @ [now]) l))"

definition extract_bearer_token :: "request \<Rightarrow> string option" where
  "extract_bearer_token rq = (case filled (header_of rq ''authorization'') of None \<Rightarrow> None
     | Some h \<Rightarrow> (case partition_on (CHR '' '') h of (scheme, sep, value) \<Rightarrow>
         if py_lower scheme \<noteq> ''bearer'' \<or> value = [] then None else Some (py_strip value)))"

text \<open>\<open>secrets.compare\_digest\<close> on strings raises \<open>TypeError\<close> when one is not ASCII.\<close>

definition compare_digest_str :: "string \<Rightarrow> string \<Rightarrow> exc + bool" where
  "compare_digest_str a b = (if list_all (\<lambda>c. code c < 128) (a @ b) then Inr (a = b) else Inl (py_err TypeError))"

definition require_mutation_auth ::
    "(string \<Rightarrow> string list option) \<Rightarrow> string \<Rightarrow> request \<Rightarrow> settings \<Rightarrow> string io" where
  "require_mutation_auth pw uuid rq S =
     bindS (resolve_mutation_token pw S) (\<lambda>expected.
     case filled expected of
       None \<Rightarrow> raiseS (api_error uuid ''MUTATIONS_DISABLED'' ''Mutation endpoints are disabled'' 403 False []
         (Some (''Set PERCEPTSHIFT_API_MUTATION_TOKEN, PERCEPTSHIFT_API_MUTATION_TOKEN_FILE, '' @
           ''or provide systemd credential perceptshift-api-token'')) None)
     | Some e \<Rightarrow> (case extract_bearer_token rq of
         None \<Rightarrow> raiseS (api_error uuid ''AUTH_REQUIRED'' ''Bearer token required for mutations'' 401 False []
           (Some ''Provide Authorization: Bearer <token>'') None)
       | Some p \<Rightarrow> bindS (liftS (constant_time_token_equals e p)) (\<lambda>same.
           if same then retS ''operator''
           else bindS (liftS (compare_digest_str (take 64 p) (take 64 p))) (\<lambda>u.
             raiseS (api_error uuid ''AUTH_INVALID'' ''Invalid mutation token'' 401 False []
               (Some ''Provide a valid mutation token'') None)))))"

section \<open>paths.py\<close>

text \<open>Component by component; a component that is a link is replaced by where it resolves.\<close>

fun walk_links :: "world \<Rightarrow> ppath \<Rightarrow> string list \<Rightarrow> exc + ppath" where
  "walk_links w cur [] = Inr cur"
| "walk_links w cur (n # ns) = (let next_path = cur\<lparr>p_parts := p_parts cur @ [n]\<rparr> in
     if is_symlink w next_path then bindR (resolve w next_path) (\<lambda>t. walk_links w t ns)
     else walk_links w next_path ns)"

definition resolve_nofollow :: "world \<Rightarrow> ppath \<Rightarrow> exc + ppath" where
  "resolve_nofollow w p = walk_links w (abs_path []) (p_parts p)"

definition find_root :: "world \<Rightarrow> ppath \<Rightarrow> ppath list \<Rightarrow> exc + bool" where
  "find_root w q roots = existsR (\<lambda>r. bindR (resolve w r) (\<lambda>rr. Inr (relative_to q rr \<noteq> None))) roots"

definition ensure_within_roots ::
    "(string \<Rightarrow> string list option) \<Rightarrow> string \<Rightarrow> world \<Rightarrow> ppath \<Rightarrow> ppath list \<Rightarrow> bool \<Rightarrow> exc + ppath" where
  "ensure_within_roots pw uuid w p roots follow_symlinks =
     bindR (expanduser pw w p) (\<lambda>candidate.
     bindR (guardR (p_abs candidate) (api_error uuid ''PATH_NOT_ALLOWED'' ''Relative paths are not accepted'' 400
       False [] (Some ''Provide an absolute path under a registered artifact root'') None)) (\<lambda>u.
     bindR (guardR (''..'' \<notin> set (p_parts candidate)) (api_error uuid ''PATH_TRAVERSAL''
       ''Path traversal is not allowed'' 400 False []
       (Some (''Use a canonical absolute path without '' @ [CHR 0x27] @ ''..'' @ [CHR 0x27] @ '' segments'')) None)) (\<lambda>u.
     bindR (case (if follow_symlinks then resolve w candidate else resolve_nofollow w candidate) of
         Inl e \<Rightarrow> if is_os_error e then Inl (api_error uuid ''PATH_INVALID'' ''Unable to resolve path'' 400 False
             [(''reason'', PStr (exc_str e))] None None) else Inl e
       | Inr q \<Rightarrow> Inr q) (\<lambda>resolved.
     bindR (find_root w resolved roots) (\<lambda>found.
     if found then Inr resolved
     else Inl (api_error uuid ''PATH_NOT_ALLOWED'' ''Path is outside registered artifact roots'' 403 False []
       (Some ''Register the directory via PERCEPTSHIFT_API_ARTIFACT_ROOTS'') None))))))"

definition safe_display_path :: "world \<Rightarrow> ppath \<Rightarrow> string" where
  "safe_display_path w p = (let home = path_str (abs_path (w_home w)); txt = path_str p in
     if prefix home txt then ''~'' @ drop (length home) txt else txt)"

definition content_disposition_attachment :: "string \<Rightarrow> string" where
  "content_disposition_attachment filename =
     (let cleaned = py_strip (filter (\<lambda>c. is_alnum c \<or> c \<in> set ''-_. '') filename) in
      ''attachment; filename='' @ [CHR 0x22] @ (if cleaned \<noteq> [] then cleaned else ''artifact.bin'') @ [CHR 0x22])"

section \<open>The rate limiter as a window\<close>

text \<open>A number up to a small integer is not rounded above it.\<close>

lemma fl_round_le_int:
  assumes q: "0 < q" "q \<le> of_int n" and n: "n < 2 ^ 53"
  shows "\<exists>r. fl_round q = Fin r \<and> r \<le> of_int n"
proof -
  let ?e = "max (qlog2 q - 52) (-1074)"
  have "of_int n < (2 ^ 53 :: rat)"
  proof -
    have "(of_int n :: rat) < of_int (2 ^ 53)" using n by (simp only: of_int_less_iff)
    then show ?thesis by simp
  qed
  then have "pow2 (qlog2 q) < pow2 53" using pow2_qlog2 [OF q(1)] q(2) by (simp add: pow2_def)
  then have "qlog2 q < 53" using pow2_mono [of 53 "qlog2 q"] by (meson linorder_not_le)
  then have e: "?e \<le> 0" by simp
  let ?m = "n * 2 ^ nat (- ?e)"
  have scale: "of_int n / pow2 ?e = of_int ?m" using e by (auto simp: pow2_def)
  have "q / pow2 ?e \<le> of_int ?m" unfolding scale [symmetric] using q(2) by (intro divide_right_mono) auto
  from round_half_even_mono [OF this] have le: "round_half_even (q / pow2 ?e) \<le> ?m"
    by (simp only: round_half_even_of_int)
  have "of_int (round_half_even (q / pow2 ?e)) * pow2 ?e \<le> of_int ?m * pow2 ?e"
    by (rule mult_right_mono) (use le in \<open>simp_all only: of_int_le_iff pow2_nonneg\<close>)
  also have "\<dots> = of_int n" unfolding scale [symmetric] by (simp add: less_imp_neq [symmetric])
  finally have r: "of_int (round_half_even (q / pow2 ?e)) * pow2 ?e \<le> of_int n" .
  also have "\<dots> < pow2 1024"
  proof -
    have "pow2 53 \<le> pow2 1024" by (rule pow2_mono) simp
    moreover have "pow2 53 = 2 ^ 53" by (simp add: pow2_def)
    ultimately show ?thesis using \<open>of_int n < 2 ^ 53\<close> by linarith
  qed
  finally show ?thesis using r q(1) by (simp add: fl_round_def Let_def)
qed

lemma fl_round_small_int:
  assumes n: "0 < n" "n < 2 ^ 53"
  shows "fl_round (of_int n) = Fin (of_int n)"
proof -
  let ?q = "of_int n :: rat"
  let ?e = "max (qlog2 ?q - 52) (-1074)"
  have "?q < 2 ^ 53"
  proof -
    have "?q < of_int (2 ^ 53)" using n(2) by (simp only: of_int_less_iff)
    then show ?thesis by simp
  qed
  have "0 < ?q" using n(1) by simp
  with \<open>?q < 2 ^ 53\<close> have "pow2 (qlog2 ?q) < pow2 53" using pow2_qlog2 [of ?q] by (simp add: pow2_def)
  then have "qlog2 ?q < 53" using pow2_mono [of 53 "qlog2 ?q"] by (meson linorder_not_le)
  then have e: "?e \<le> 0" by simp
  have scale: "?q / pow2 ?e = of_int (n * 2 ^ nat (- ?e))" using e by (auto simp: pow2_def)
  have v: "of_int (round_half_even (?q / pow2 ?e)) * pow2 ?e = ?q"
    unfolding scale round_half_even_of_int unfolding scale [symmetric] by (simp add: less_imp_neq [symmetric])
  have "pow2 53 \<le> pow2 1024" by (rule pow2_mono) simp
  moreover have "pow2 53 = 2 ^ 53" by (simp add: pow2_def)
  ultimately have "?q < pow2 1024" using \<open>?q < 2 ^ 53\<close> by linarith
  with v \<open>0 < ?q\<close> show ?thesis by (simp add: fl_round_def Let_def)
qed

lemma expired_is_old: "fl_lt (Fin 60) (fl_sub (Fin t) (Fin a)) \<Longrightarrow> 60 < t - a"
proof (rule ccontr)
  assume old: "fl_lt (Fin 60) (fl_sub (Fin t) (Fin a))" and "\<not> 60 < t - a"
  then have le: "t - a \<le> of_int 60" by simp
  show False
  proof (cases "t - a \<le> 0")
    case True
    have "\<exists>r. fl_round (t - a) = NegInf \<or> (fl_round (t - a) = Fin r \<and> r \<le> 0)"
    proof (cases "t - a = 0")
      case False
      with True have neg: "t - a < 0" by simp
      have "0 \<le> of_int (round_half_even (\<bar>t - a\<bar> / pow2 x)) * pow2 x" for x
        by (simp add: round_half_even_nonneg)
      then show ?thesis using neg by (auto simp: fl_round_def Let_def)
    qed simp
    with old show False by (auto simp: fl_sub_def)
  next
    case False
    then obtain r where "fl_round (t - a) = Fin r" "r \<le> 60" using fl_round_le_int [of "t - a" 60] le by auto
    with old show False by (simp add: fl_sub_def)
  qed
qed

text \<open>The calls accepted, and their times for one key.\<close>

definition limiter_step :: "string \<Rightarrow> rat \<times> string \<Rightarrow> limiter \<times> (rat \<times> string) list \<Rightarrow>
    limiter \<times> (rat \<times> string) list" where
  "limiter_step uuid call st = (case limiter_check uuid (Fin (fst call)) (snd call) (fst st) of
     (r, l) \<Rightarrow> (l, case r of Inl e \<Rightarrow> snd st | Inr u \<Rightarrow> snd st @ [call]))"

definition limiter_run :: "string \<Rightarrow> int \<Rightarrow> (rat \<times> string) list \<Rightarrow> limiter \<times> (rat \<times> string) list" where
  "limiter_run uuid n calls = fold (limiter_step uuid) calls (limiter_init n, [])"

definition accepted_times :: "string \<Rightarrow> (rat \<times> string) list \<Rightarrow> rat list" where
  "accepted_times key acc = map fst (filter (\<lambda>c. snd c = key) acc)"

definition spaced :: "nat \<Rightarrow> rat list \<Rightarrow> bool" where
  "spaced m ts \<longleftrightarrow> (\<forall>i. i + m < length ts \<longrightarrow> 60 < ts ! (i + m) - ts ! i)"

definition limiter_inv :: "int \<Rightarrow> rat \<Rightarrow> limiter \<Rightarrow> (rat \<times> string) list \<Rightarrow> bool" where
  "limiter_inv n now l acc \<longleftrightarrow> rl_limit l = max 1 n \<and> (\<forall>key. spaced (nat (max 1 n)) (accepted_times key acc) \<and>
     (\<exists>k. bucket_of l key = map Fin (drop k (accepted_times key acc)) \<and>
        (\<forall>i < length (accepted_times key acc). i < k \<longrightarrow> 60 < now - accepted_times key acc ! i)))"

lemma expire_drop: "\<exists>j. expire t ts = drop j ts \<and> (\<forall>i < length ts. i < j \<longrightarrow> fl_lt (Fin 60) (fl_sub t (ts ! i)))"
proof (induction ts)
  case (Cons a ts)
  show ?case
  proof (cases "fl_lt (Fin 60) (fl_sub t a)")
    case True
    from Cons obtain j where j: "expire t ts = drop j ts"
      "\<forall>i < length ts. i < j \<longrightarrow> fl_lt (Fin 60) (fl_sub t (ts ! i))" by blast
    with True show ?thesis by (intro exI [of _ "Suc j"]) (auto simp: nth_Cons split: nat.splits)
  qed (intro exI [of _ 0], simp)
qed simp

lemma bucket_of_put [simp]: "bucket_of (put_bucket key b l) k = (if k = key then b else bucket_of l k)"
  by (simp add: bucket_of_def put_bucket_def update_conv')

lemma rl_limit_put [simp]: "rl_limit (put_bucket key b l) = rl_limit l"
  by (simp add: put_bucket_def)

lemma limiter_inv_init: "limiter_inv n now (limiter_init n) []"
  by (simp add: limiter_inv_def limiter_init_def bucket_of_def accepted_times_def spaced_def)

lemma limiter_inv_later: "limiter_inv n now l acc \<Longrightarrow> now \<le> t \<Longrightarrow> limiter_inv n t l acc"
  unfolding limiter_inv_def by (meson diff_right_mono less_le_trans)

lemma limiter_check_window:
  assumes inv: "limiter_inv n now l acc" and t: "now \<le> t"
  shows "limiter_inv n t (fst (limiter_step uuid (t, key) (l, acc))) (snd (limiter_step uuid (t, key) (l, acc)))"
proof -
  let ?A = "accepted_times key acc"
  from inv t have lim: "rl_limit l = max 1 n" by (simp add: limiter_inv_def)
  from limiter_inv_later [OF inv t] obtain k where k: "bucket_of l key = map Fin (drop k ?A)"
    and old: "\<forall>i < length ?A. i < k \<longrightarrow> 60 < t - ?A ! i" and sp: "spaced (nat (max 1 n)) ?A"
    unfolding limiter_inv_def by blast
  obtain j where j: "expire (Fin t) (bucket_of l key) = drop j (bucket_of l key)"
    "\<forall>i < length (bucket_of l key). i < j \<longrightarrow> fl_lt (Fin 60) (fl_sub (Fin t) (bucket_of l key ! i))"
    using expire_drop by blast
  let ?b = "expire (Fin t) (bucket_of l key)"
  have b: "?b = map Fin (drop (k + j) ?A)" using j(1) k by (simp add: drop_map add.commute)
  have old2: "60 < t - ?A ! i" if "i < length ?A" "i < k + j" for i
  proof (cases "i < k")
    case False
    with that have "i - k < length (bucket_of l key)" "i - k < j" "bucket_of l key ! (i - k) = Fin (?A ! i)"
      by (auto simp: k)
    with j(2) expired_is_old show ?thesis by metis
  qed (use old that in blast)
  show ?thesis
  proof (cases "rl_limit l \<le> int (length ?b)")
    case True
    then have s: "limiter_step uuid (t, key) (l, acc) = (put_bucket key ?b l, acc)"
      by (simp add: limiter_step_def limiter_check_def Let_def)
    show ?thesis using limiter_inv_later [OF inv t] b old2 unfolding s limiter_inv_def
      by (auto intro!: exI [of _ "k + j"])
  next
    case False
    then have s: "limiter_step uuid (t, key) (l, acc) = (put_bucket key (?b @ [Fin t]) l, acc @ [(t, key)])"
      by (simp add: limiter_step_def limiter_check_def Let_def)
    have other: "accepted_times k' (acc @ [(t, key)]) = accepted_times k' acc" if "k' \<noteq> key" for k'
      using that by (auto simp: accepted_times_def)
    have A: "accepted_times key (acc @ [(t, key)]) = ?A @ [t]" by (simp add: accepted_times_def)
    from False have len: "length ?A < k + j + nat (max 1 n)" unfolding lim b
      by (simp add: linorder_not_le) linarith
    have "spaced (nat (max 1 n)) (?A @ [t])" unfolding spaced_def
    proof (intro allI impI)
      fix i assume i: "i + nat (max 1 n) < length (?A @ [t])"
      then consider "i + nat (max 1 n) < length ?A" | "i + nat (max 1 n) = length ?A" by fastforce
      then show "60 < (?A @ [t]) ! (i + nat (max 1 n)) - (?A @ [t]) ! i"
      proof cases
        case 1
        then show ?thesis using sp by (simp add: spaced_def nth_append)
      next
        case 2
        then have "i < length ?A" "i < k + j" using len by auto
        with old2 2 show ?thesis by (simp add: nth_append)
      qed
    qed
    moreover have "?b @ [Fin t] = map Fin (drop (min (k + j) (length ?A)) (?A @ [t]))"
      unfolding b by (cases "k + j \<le> length ?A") (simp_all add: min_def)
    moreover have "60 < t - (?A @ [t]) ! i" if "i < min (k + j) (length ?A)" for i
      using that old2 by (simp add: nth_append)
    ultimately show ?thesis using limiter_inv_later [OF inv t] other A unfolding s limiter_inv_def
      by (auto intro!: exI [of _ "min (k + j) (length ?A)"])
  qed
qed

lemma limiter_run_snoc: "limiter_run uuid n (calls @ [c]) = limiter_step uuid c (limiter_run uuid n calls)"
  by (simp add: limiter_run_def)

lemma limiter_run_inv:
  "sorted (map fst calls) \<Longrightarrow> \<forall>c \<in> set calls. fst c \<le> now \<Longrightarrow>
   limiter_inv n now (fst (limiter_run uuid n calls)) (snd (limiter_run uuid n calls))"
proof (induction calls arbitrary: now rule: rev_induct)
  case (snoc c calls)
  then have "limiter_inv n (fst c) (fst (limiter_run uuid n calls)) (snd (limiter_run uuid n calls))"
    by (intro snoc.IH) (auto simp: sorted_append)
  from limiter_check_window [OF this order_refl, of uuid "snd c"]
  have "limiter_inv n (fst c) (fst (limiter_run uuid n (calls @ [c]))) (snd (limiter_run uuid n (calls @ [c])))"
    by (simp add: limiter_run_snoc)
  then show ?case by (rule limiter_inv_later) (use snoc.prems in simp)
qed (simp add: limiter_run_def limiter_inv_init)

lemma expire_head: "expire t ts = h # rest \<Longrightarrow> \<not> fl_lt (Fin 60) (fl_sub t h)"
  by (induction ts) (auto split: if_splits)

lemma refused_is_full:
  assumes inv: "limiter_inv n now l acc" and t: "now \<le> t" and refused: "isl (fst (limiter_check uuid (Fin t) key l))"
  shows "\<exists>i. i + nat (max 1 n) \<le> length (accepted_times key acc)
    \<and> \<not> fl_lt (Fin 60) (fl_sub (Fin t) (Fin (accepted_times key acc ! i)))"
proof -
  let ?A = "accepted_times key acc" and ?b = "expire (Fin t) (bucket_of l key)"
  from inv obtain k where lim: "rl_limit l = max 1 n" and k: "bucket_of l key = map Fin (drop k ?A)"
    unfolding limiter_inv_def by blast
  obtain j where "?b = drop j (bucket_of l key)" using expire_drop by blast
  then have b: "?b = map Fin (drop (k + j) ?A)" using k by (simp add: drop_map add.commute)
  from refused lim have full: "max 1 n \<le> int (length ?b)"
    by (simp add: limiter_check_def Let_def split: if_splits)
  then have le: "k + j + nat (max 1 n) \<le> length ?A" and ne: "k + j < length ?A"
    unfolding b by (simp_all add: le_diff_conv) linarith+
  then have "?b = Fin (?A ! (k + j)) # map Fin (drop (Suc (k + j)) ?A)"
    unfolding b by (simp add: Cons_nth_drop_Suc [symmetric])
  from expire_head [OF this] le show ?thesis by blast
qed

text \<open>C14. The rate limiter is a sliding window. Between an accepted mutation of a client and the one
  \<open>limit\<close> acceptances later more than 60 seconds pass, however many calls were refused or came from
  other clients in between and in spite of the rounding of the clock difference; and the next call is
  refused only when \<open>limit\<close> accepted ones of that client are still in the window by that difference.\<close>

theorem limiter_window:
  assumes "sorted (map fst calls)" and "\<forall>c\<in>set calls. fst c \<le> t" and "limiter_run uuid n calls = (l, acc)"
  shows "spaced (nat (max 1 n)) (accepted_times key acc)
    \<and> (isl (fst (limiter_check uuid (Fin t) key l)) \<longrightarrow>
        (\<exists>i. i + nat (max 1 n) \<le> length (accepted_times key acc)
          \<and> \<not> fl_lt (Fin 60) (fl_sub (Fin t) (Fin (accepted_times key acc ! i)))))"
proof -
  from limiter_run_inv [OF assms(1,2), of n uuid] assms(3) have inv: "limiter_inv n t l acc" by simp
  then show ?thesis using refused_is_full [OF inv order_refl] by (simp add: limiter_inv_def)
qed

definition sample_calls :: "(rat \<times> string) list" where
  "sample_calls = [(0, ''a''), (1, ''b''), (20, ''a''), (60, ''a''), (61, ''a''), (70, ''a'')]"

theorem limiter_window_witness:
  "case limiter_run ''u'' 2 sample_calls of (l, acc) \<Rightarrow>
     accepted_times ''a'' acc = [0, 20, 61] \<and> isl (fst (limiter_check ''u'' (Fin 75) ''a'' l))
     \<and> spaced 2 [0, 20, 61 :: rat] \<and> (\<exists>i. i + 2 \<le> length [0, 20, 61 :: rat]
       \<and> \<not> fl_lt (Fin 60) (fl_sub (Fin 75) (Fin ([0, 20, 61] ! i))))"
proof -
  note rounds = fl_round_small_int [of 20] fl_round_small_int [of 60] fl_round_small_int [of 40]
      fl_round_small_int [of 61] fl_round_small_int [of 41] fl_round_small_int [of 70]
      fl_round_small_int [of 50] fl_round_small_int [of 9] fl_round_small_int [of 55] fl_round_small_int [of 14]
  have d: "fl_sub (Fin 20) (Fin 0) = Fin 20" "fl_sub (Fin 60) (Fin 0) = Fin 60" "fl_sub (Fin 61) (Fin 0) = Fin 61"
      "fl_sub (Fin 61) (Fin 20) = Fin 41" "fl_sub (Fin 70) (Fin 20) = Fin 50" "fl_sub (Fin 75) (Fin 20) = Fin 55"
    using rounds by (simp_all add: fl_sub_def)
  have run: "limiter_run ''u'' 2 sample_calls =
      (\<lparr>rl_limit = 2, rl_events = [(''a'', [Fin 20, Fin 61]), (''b'', [Fin 1])]\<rparr>,
       [(0, ''a''), (1, ''b''), (20, ''a''), (61, ''a'')])"
    by (simp add: sample_calls_def limiter_run_def limiter_step_def limiter_check_def limiter_init_def
      bucket_of_def put_bucket_def d)
  have full: "isl (fst (limiter_check ''u'' (Fin 75) ''a''
      \<lparr>rl_limit = 2, rl_events = [(''a'', [Fin 20, Fin 61]), (''b'', [Fin 1])]\<rparr>))"
    by (simp add: limiter_check_def bucket_of_def d Let_def)
  have "sorted (map fst sample_calls)" "\<forall>c\<in>set sample_calls. fst c \<le> 75" by (simp_all add: sample_calls_def)
  from limiter_window [OF this run, of "''a''"] full show ?thesis by (simp add: run accepted_times_def)
qed

section \<open>Tokens\<close>

lemma utf8_encode_inject: "utf8_encode a = utf8_encode b \<Longrightarrow> a = b"
  by (metis utf8_decode_encode option.inject)

lemma four_bytes_inject:
  assumes "four_bytes m = Inr s" and "four_bytes n = Inr s" and "0 \<le> m" and "0 \<le> n"
  shows "m = n"
proof -
  have code: "code (char_of (k mod 256) :: char) = k mod 256" for k :: int by simp
  have pow: "x div 256 ^ 2 = x div 256 div 256" "x div 256 ^ 3 = x div 256 div 256 div 256" for x :: int
    using zdiv_zmult2_eq [of 256 x 256] zdiv_zmult2_eq [of 256 x "256 * 256"] zdiv_zmult2_eq [of 256 "x div 256" 256]
    by (simp_all only: power2_eq_square power3_eq_cube mult.assoc)
  have lt: "m < 2 ^ 32" "n < 2 ^ 32" using assms(1,2) by (auto simp: four_bytes_def split: if_splits)
  have eq: "map (\<lambda>k. char_of (m div 256 ^ k mod 256) :: char) [3, 2, 1, 0] = map (\<lambda>k. char_of (n div 256 ^ k mod 256)) [3, 2, 1, 0]"
    using assms(1,2) lt by (simp add: four_bytes_def)
  have byte: "(char_of (x mod 256) :: char) = char_of (y mod 256) \<Longrightarrow> x mod 256 = y mod 256" for x y :: int
    by (metis code)
  have "(char_of (m div 256 ^ 3 mod 256) :: char) = char_of (n div 256 ^ 3 mod 256)"
      "(char_of (m div 256 ^ 2 mod 256) :: char) = char_of (n div 256 ^ 2 mod 256)"
      "(char_of (m div 256 ^ 1 mod 256) :: char) = char_of (n div 256 ^ 1 mod 256)"
      "(char_of (m div 256 ^ 0 mod 256) :: char) = char_of (n div 256 ^ 0 mod 256)"
    using eq unfolding list.map list.inject by blast+
  from this [THEN byte]
  have d: "m mod 256 = n mod 256" "m div 256 mod 256 = n div 256 mod 256"
      "m div 256 div 256 mod 256 = n div 256 div 256 mod 256"
      "m div 256 div 256 div 256 mod 256 = n div 256 div 256 div 256 mod 256"
    by (simp_all only: pow power_0 power_one_right div_by_1)
  have "m div 256 div 256 div 256 < 256" "n div 256 div 256 div 256 < 256"
      "0 \<le> m div 256 div 256 div 256" "0 \<le> n div 256 div 256 div 256"
    unfolding pow(2) [symmetric] using lt assms(3,4) by simp_all
  then have "m div 256 div 256 div 256 = n div 256 div 256 div 256" using d(4) by simp
  then have "m div 256 div 256 = n div 256 div 256" using d(3) by (metis div_mult_mod_eq)
  then have "m div 256 = n div 256" using d(2) by (metis div_mult_mod_eq)
  then show ?thesis using d(1) by (metis div_mult_mod_eq)
qed

text \<open>The comparison is equality, except that it raises on tokens of four gigabytes.\<close>

lemma token_equals:
  "constant_time_token_equals a b = (if length (utf8_encode a) < 2 ^ 32 \<and> length (utf8_encode b) < 2 ^ 32
     then Inr (a = b) else Inl (py_err OverflowError))"
proof (cases "length (utf8_encode a) < 2 ^ 32 \<and> length (utf8_encode b) < 2 ^ 32")
  case True
  then have "int (length (utf8_encode a)) < 2 ^ 32" "int (length (utf8_encode b)) < 2 ^ 32" by simp_all
  then obtain x y where xy: "four_bytes (int (length (utf8_encode a))) = Inr x"
      "four_bytes (int (length (utf8_encode b))) = Inr y"
    by (simp add: four_bytes_def)
  have "a = b" if "x = y" and l: "\<And>m. m = max (max (length (utf8_encode a)) (length (utf8_encode b))) 1 \<Longrightarrow>
      ljust m (utf8_encode a) = ljust m (utf8_encode b)"
  proof -
    have "length (utf8_encode a) = length (utf8_encode b)"
      using four_bytes_inject [OF xy(1) _ of_nat_0_le_iff of_nat_0_le_iff] xy(2) \<open>x = y\<close> by simp
    with l [OF refl] have "utf8_encode a = utf8_encode b" by (simp add: ljust_def)
    then show ?thesis by (rule utf8_encode_inject)
  qed
  moreover have "a = b \<Longrightarrow> x = y" using xy by simp
  ultimately show ?thesis using True xy unfolding constant_time_token_equals_def Let_def by auto
next
  case False
  then have "\<not> (int (length (utf8_encode a)) < 2 ^ 32 \<and> int (length (utf8_encode b)) < 2 ^ 32)" by simp
  with False show ?thesis unfolding constant_time_token_equals_def Let_def
    by (auto simp: four_bytes_def)
qed

text \<open>Authentication reads files and changes none.\<close>

lemma keeps_reads_query_fst: "keeps reads_only (\<lambda>w. (f w, w))"
  by (rule reads_only.keeps_query)

lemma keeps_reads_token_in: "keeps reads_only (token_in p)"
  unfolding token_in_def by (intro reads_only_intros)

lemma keeps_reads_resolve_token: "keeps reads_only (resolve_mutation_token pw S)"
  unfolding resolve_mutation_token_def
  by (intro reads_only_intros keeps_reads_token_in keeps_reads_query_fst reads_only.keeps_option)

lemma keeps_reads_auth: "keeps reads_only (require_mutation_auth pw uuid rq S)"
  unfolding require_mutation_auth_def
  by (intro reads_only_intros keeps_reads_resolve_token reads_only.keeps_option)

lemma filled_Some: "filled s = Some t \<longleftrightarrow> s = Some t \<and> t \<noteq> []"
  by (auto simp: filled_def split: option.splits if_splits)

lemma auth_exact:
  "fst (require_mutation_auth pw uuid rq S w) = Inr a \<longleftrightarrow> a = ''operator'' \<and>
     (\<exists>tok. fst (resolve_mutation_token pw S w) = Inr (Some tok) \<and> tok \<noteq> [] \<and>
        extract_bearer_token rq = Some tok \<and> length (utf8_encode tok) < 2 ^ 32)"
proof -
  obtain r w1 where run: "resolve_mutation_token pw S w = (r, w1)" by fastforce
  show ?thesis
  proof (cases "\<exists>e. r = Inr (Some e) \<and> e \<noteq> []")
    case False
    then have "\<not> (\<exists>t. r = Inr t \<and> filled t \<noteq> None)" by (auto simp: filled_def split: option.splits if_splits)
    with False run show ?thesis
      by (cases r) (auto simp: require_mutation_auth_def bindS_def split: option.splits)
  next
    case True
    then obtain e where e: "r = Inr (Some e)" "e \<noteq> []" by blast
    then have f: "filled (Some e) = Some e" by (simp add: filled_def)
    show ?thesis
    proof (cases "extract_bearer_token rq")
      case None
      with run e f show ?thesis by (simp add: require_mutation_auth_def bindS_def)
    next
      case (Some p)
      define bad where "bad = bindS (liftS (compare_digest_str (take 64 p) (take 64 p))) (\<lambda>u.
             raiseS (api_error uuid ''AUTH_INVALID'' ''Invalid mutation token'' 401 False []
               (Some ''Provide a valid mutation token'') None) :: string io)"
      have "fst (require_mutation_auth pw uuid rq S w) = fst (bindS (liftS (constant_time_token_equals e p))
          (\<lambda>same. if same then retS ''operator'' else bad) w1)"
        unfolding bad_def using run e f Some by (simp add: require_mutation_auth_def bindS_def)
      moreover have "\<exists>x. fst (bad w1) = Inl x"
        by (cases "compare_digest_str (take 64 p) (take 64 p)") (simp_all add: bad_def)
      ultimately have "fst (require_mutation_auth pw uuid rq S w) = Inr a \<longleftrightarrow>
          e = p \<and> length (utf8_encode p) < 2 ^ 32 \<and> a = ''operator''"
        by (auto simp: token_equals)
      then show ?thesis using run e Some by auto
    qed
  qed
qed

text \<open>A wrong token with a character outside ASCII is refused with a \<open>TypeError\<close>.\<close>

lemma compare_digest_self:
  "compare_digest_str s s = (if list_all (\<lambda>c. code c < 128) s then Inr True else Inl (py_err TypeError))"
  by (simp add: compare_digest_str_def)

section \<open>Artifact roots\<close>

lemma walk_links_confined:
  "walk_links w cur ns = Inr q \<Longrightarrow> p_abs cur \<Longrightarrow> link_free (map_of (w_links w)) (p_parts cur) \<Longrightarrow>
   ''..'' \<notin> set (p_parts cur) \<Longrightarrow> ''..'' \<notin> set ns \<Longrightarrow>
   p_abs q \<and> link_free (map_of (w_links w)) (p_parts q) \<and> ''..'' \<notin> set (p_parts q)"
proof (induction ns arbitrary: cur)
  case (Cons n ns)
  let ?next = "cur\<lparr>p_parts := p_parts cur @ [n]\<rparr>"
  have n: "n \<noteq> ''..''" "''..'' \<notin> set ns" using Cons.prems by auto
  show ?case
  proof (cases "is_symlink w ?next")
    case True
    with Cons.prems obtain t where t: "resolve w ?next = Inr t" and run: "walk_links w t ns = Inr q"
      by (auto simp: Let_def bindR_eq_Inr)
    from t obtain r where r: "real w ?next = Some r" "t = abs_path r" by (auto simp: resolve_Inr)
    then have "link_free (map_of (w_links w)) r" "''..'' \<notin> set r"
      unfolding real_def by (auto dest: realpath_link_free realpath_no_dotdot)
    with Cons.IH [OF run] r n show ?thesis by simp
  next
    case False
    have real: "real w (abs_path (p_parts cur)) = Some (p_parts cur)"
      using Cons.prems by (simp add: real_def full_parts_def realpath_of_link_free)
    then have "entry w ?next = Some (p_parts cur @ [n])"
      using Cons.prems n by (simp add: entry_def full_parts_def)
    with False have "map_of (w_links w) (p_parts cur @ [n]) = None" by (simp add: is_symlink_def)
    with Cons False n show ?thesis by (simp add: Let_def link_free_snoc)
  qed
qed simp

lemma ensure_within_roots_Inr:
  assumes "ensure_within_roots pw uuid w p roots follow = Inr q"
  shows "real w q = Some (p_parts q) \<and> p_abs q \<and>
    (\<exists>r\<in>set roots. \<exists>rr. real w r = Some rr \<and> prefix rr (p_parts q))"
proof -
  from assms obtain c res where c: "expanduser pw w p = Inr c" "p_abs c" "''..'' \<notin> set (p_parts c)"
    and res: "(case (if follow then resolve w c else resolve_nofollow w c) of
         Inl e \<Rightarrow> if is_os_error e then Inl (api_error uuid ''PATH_INVALID'' ''Unable to resolve path'' 400 False
             [(''reason'', PStr (exc_str e))] None None) else Inl e
       | Inr q \<Rightarrow> Inr q) = Inr res"
    and found: "find_root w res roots = Inr True" and q: "q = res"
    unfolding ensure_within_roots_def by (auto simp: bindR_eq_Inr guardR_eq_Inr split: if_splits)
  have res: "(if follow then resolve w c else resolve_nofollow w c) = Inr res"
    using res by (auto split: sum.splits if_splits)
  have ok: "p_abs q \<and> link_free (map_of (w_links w)) (p_parts q) \<and> ''..'' \<notin> set (p_parts q)"
  proof (cases follow)
    case True
    with res q obtain r where "real w c = Some r" "q = abs_path r" by (auto simp: resolve_Inr)
    then show ?thesis unfolding real_def by (auto dest: realpath_link_free realpath_no_dotdot)
  next
    case False
    with res q have "walk_links w (abs_path []) (p_parts c) = Inr q" by (simp add: resolve_nofollow_def)
    from walk_links_confined [OF this] c show ?thesis by simp
  qed
  then have "real w q = Some (p_parts q)"
    by (simp add: real_def full_parts_def realpath_of_link_free)
  moreover from found q obtain r rr where "r \<in> set roots" "resolve w r = Inr rr" "relative_to q rr \<noteq> None"
    unfolding find_root_def by (auto dest!: existsR_True simp: bindR_eq_Inr)
  then obtain rp where "r \<in> set roots" "real w r = Some rp" "prefix rp (p_parts q)"
    by (auto simp: resolve_Inr dest!: relative_to_Some)
  ultimately show ?thesis using ok by blast
qed

end
