(* ===== verification/Api_Routes.thy ===== *)
theory Api_Routes
  imports Api_Guard Bridge
begin

text \<open>
  The routers of the API over the guards of \<open>Api_Guard\<close>, the mirrored runtime of \<open>Bridge\<close> and the
  index database: \<open>dependencies.py\<close> (session scope, mutation guard), \<open>models.py\<close> (rows),
  \<open>audit.py\<close>, \<open>routers/runtime.py\<close>, \<open>profiles.py\<close>, \<open>bundles.py\<close>, \<open>runs.py\<close> and \<open>system.py\<close>. A
  table is the list of its rows in insertion order. A route is a computation on the state of the
  application; those that call the runtime are partial, since the wait for a service may not end.
\<close>

section \<open>models.py\<close>

record run_row =
  rr_run_id :: string
  rr_host :: "string option"
  rr_model_hash :: "string option"
  rr_data_hash :: "string option"
  rr_valid :: bool
  rr_candidate_count :: int
  rr_quality :: "string option"
  rr_latency :: "string option"
  rr_workspace :: string
  rr_import_status :: string
  rr_pinned :: bool
  rr_created_at :: int

record candidate_row =
  cr_run_id :: string
  cr_candidate_id :: string
  cr_profile_id :: "string option"
  cr_valid :: bool
  cr_quality :: "string option"
  cr_latency :: "string option"
  cr_summary :: "string option"

record profile_row =
  fr_profile_id :: string
  fr_label :: "string option"
  fr_model_hash :: "string option"
  fr_eligible :: bool
  fr_state :: string
  fr_rejections :: "string option"
  fr_quality :: "string option"
  fr_p99 :: "string option"
  fr_peak_rss :: "string option"
  fr_provider :: "string option"
  fr_provenance :: "string option"

record artifact_row =
  ar_artifact_id :: string
  ar_run_id :: string
  ar_path :: string
  ar_content_type :: "string option"

record audit_row =
  au_actor :: string
  au_action :: string
  au_target :: "string option"
  au_details :: string
  au_correlation :: "string option"

record db =
  db_runs :: "run_row list"
  db_candidates :: "candidate_row list"
  db_profiles :: "profile_row list"
  db_artifacts :: "artifact_row list"
  db_audit :: "audit_row list"
  db_pending :: "audit_row list"

text \<open>The state of the application; \<open>db_pending\<close> are the rows the open session has added.\<close>

record api =
  ap_world :: world
  ap_db :: db
  ap_bridge :: bridge
  ap_limiter :: limiter
  ap_settings :: settings

type_synonym 'a route = "(api, exc, 'a) comp"

type_synonym 'a served = "api \<Rightarrow> ((exc + 'a) \<times> api) option"

definition bindO :: "'a served \<Rightarrow> ('a \<Rightarrow> 'b served) \<Rightarrow> 'b served" where
  "bindO m f s = (case m s of None \<Rightarrow> None | Some (Inl e, s1) \<Rightarrow> Some (Inl e, s1) | Some (Inr x, s1) \<Rightarrow> f x s1)"

abbreviation served :: "'a route \<Rightarrow> 'a served" where
  "served m \<equiv> (\<lambda>s. Some (m s))"

text \<open>A computation on one part of the state.\<close>

definition in_world :: "'a io \<Rightarrow> 'a route" where
  "in_world m s = (case m (ap_world s) of (r, w) \<Rightarrow> (r, s\<lparr>ap_world := w\<rparr>))"

definition in_limiter :: "(limiter, exc, 'a) comp \<Rightarrow> 'a route" where
  "in_limiter m s = (case m (ap_limiter s) of (r, l) \<Rightarrow> (r, s\<lparr>ap_limiter := l\<rparr>))"

definition on_bridge :: "(bridge \<Rightarrow> ((exc + 'a) \<times> bridge) option) \<Rightarrow> 'a served" where
  "on_bridge m s = map_option (\<lambda>(r, b). (r, s\<lparr>ap_bridge := b\<rparr>)) (m (ap_bridge s))"

section \<open>dependencies.py and audit.py\<close>

text \<open>The session commits what the request added, or rolls it back when the request raised. The commit
  itself, SQLAlchemy's and the database's, is taken to succeed.\<close>

definition commit :: "db \<Rightarrow> db" where
  "commit d = d\<lparr>db_audit := db_audit d @ db_pending d, db_pending := []\<rparr>"

definition rollback :: "db \<Rightarrow> db" where
  "rollback d = d\<lparr>db_pending := []\<rparr>"

definition db_session :: "'a served \<Rightarrow> 'a served" where
  "db_session m s = map_option (\<lambda>(r, t). (r, t\<lparr>ap_db := (case r of Inl e \<Rightarrow> rollback | Inr x \<Rightarrow> commit) (ap_db t)\<rparr>))
     (m (s\<lparr>ap_db := rollback (ap_db s)\<rparr>))"

definition require_mutations ::
    "(string \<Rightarrow> string list option) \<Rightarrow> string \<Rightarrow> pyfloat \<Rightarrow> request \<Rightarrow> string route" where
  "require_mutations pw uuid monotonic rq s =
     bindS (in_world (require_mutation_auth pw uuid rq (ap_settings s))) (\<lambda>actor.
     bindS (in_limiter (limiter_check uuid monotonic (case rq_client rq of None \<Rightarrow> ''unknown'' | Some h \<Rightarrow> h)))
       (\<lambda>u. retS actor)) s"

definition record_audit ::
    "ext \<Rightarrow> string \<Rightarrow> string \<Rightarrow> string option \<Rightarrow> pydict \<Rightarrow> string option \<Rightarrow> unit route" where
  "record_audit X actor action target details corr = modS (ap_db_update (\<lambda>d. d\<lparr>db_pending := db_pending d @
     [\<lparr>au_actor = actor, au_action = action, au_target = target, au_details = x_dumps X (PDict details),
       au_correlation = corr\<rparr>]\<rparr>))"

text \<open>What the environment gives one mutation request: the fresh id, the clocks, the runtime's side.\<close>

record mutation_env =
  me_pw :: "string \<Rightarrow> string list option"
  me_uuid :: string
  me_monotonic :: pyfloat
  me_call :: call_env

definition with_actor :: "mutation_env \<Rightarrow> request \<Rightarrow> (string \<Rightarrow> 'a served) \<Rightarrow> 'a served" where
  "with_actor M rq handler =
     db_session (bindO (served (require_mutations (me_pw M) (me_uuid M) (me_monotonic M) rq)) handler)"

section \<open>routers/runtime.py\<close>

definition ros_failed :: "string \<Rightarrow> bool \<Rightarrow> exc \<Rightarrow> exc" where
  "ros_failed uuid retryable e = api_error uuid ''ROS_SERVICE_FAILED'' (exc_str e) 503 retryable []
     (Some ''Ensure the ROS runtime node is active and mutation services are enabled'') None"

definition ros_timeout :: "string \<Rightarrow> exc \<Rightarrow> exc" where
  "ros_timeout uuid e = api_error uuid ''ROS_TIMEOUT'' (exc_str e) 504 True []
     (Some ''Retry; if persistent, inspect runtime node load and DDS discovery'') None"

definition ros_mutation_error :: "string \<Rightarrow> exc \<Rightarrow> exc" where
  "ros_mutation_error uuid e = (if is_kind TimeoutError e then ros_timeout uuid e
     else if is_kind RuntimeError e then ros_failed uuid True e else e)"

definition map_error :: "(exc \<Rightarrow> exc) \<Rightarrow> 'a served \<Rightarrow> 'a served" where
  "map_error f m s = map_option (\<lambda>(r, t). (case r of Inl e \<Rightarrow> Inl (f e) | Inr x \<Rightarrow> Inr x, t)) (m s)"

definition ros_mutation :: "string \<Rightarrow> (bridge \<Rightarrow> ((exc + 'a) \<times> bridge) option) \<Rightarrow> 'a served" where
  "ros_mutation uuid call = map_error (ros_mutation_error uuid) (on_bridge call)"

definition runtime_status_route :: "int \<Rightarrow> runtime_status route" where
  "runtime_status_route now = getS (status_of now \<circ> ap_bridge)"

definition runtime_health_route :: "int \<Rightarrow> runtime_health route" where
  "runtime_health_route now = getS (health_of now \<circ> ap_bridge)"

definition runtime_policy_route :: "policy route" where
  "runtime_policy_route = getS (runtime_policy \<circ> ap_bridge)"

text \<open>A validated patch is the dictionary \<open>model\_dump(exclude\_unset=True)\<close> gives.\<close>

definition patch_of :: "pydict \<Rightarrow> policy_patch" where
  "patch_of d = \<lparr>pt_deadline = (case dget d ''deadline_ms'' of PFloat f \<Rightarrow> Some f | _ \<Rightarrow> None),
     pt_auto_switch = (case dget d ''auto_switch_enabled'' of PBool b \<Rightarrow> Some b | _ \<Rightarrow> None),
     pt_recovery = (case dget d ''recovery_enabled'' of PBool b \<Rightarrow> Some b | _ \<Rightarrow> None)\<rparr>"

definition patch_runtime_policy :: "ext \<Rightarrow> mutation_env \<Rightarrow> request \<Rightarrow> pydict \<Rightarrow> policy served" where
  "patch_runtime_policy X M rq patch = with_actor M rq (\<lambda>actor.
     bindO (ros_mutation (me_uuid M) (set_policy (me_call M) (patch_of patch))) (\<lambda>updated.
     bindO (served (record_audit X actor ''runtime.policy.patch'' None patch (rq_correlation rq))) (\<lambda>u.
     served (retS updated))))"

definition runtime_recovery :: "ext \<Rightarrow> mutation_env \<Rightarrow> request \<Rightarrow> string \<Rightarrow> pydict served" where
  "runtime_recovery X M rq action = with_actor M rq (\<lambda>actor.
     bindO (ros_mutation (me_uuid M) (recovery (me_call M) action)) (\<lambda>result.
     bindO (served (record_audit X actor ''runtime.recovery'' None [(''action'', PStr action)] (rq_correlation rq)))
       (\<lambda>u. served (retS result))))"

section \<open>routers/profiles.py\<close>

definition parse_float_or_none :: "string option \<Rightarrow> pyfloat option" where
  "parse_float_or_none v = (case v of None \<Rightarrow> None | Some s \<Rightarrow> parse_float s)"

definition parse_int_or_none :: "string option \<Rightarrow> int option" where
  "parse_int_or_none v = (case v of None \<Rightarrow> None | Some s \<Rightarrow> parse_int s)"

definition parsed_reasons :: "ext \<Rightarrow> string option \<Rightarrow> string list" where
  "parsed_reasons X text = (case filled text of None \<Rightarrow> []
     | Some t \<Rightarrow> (case x_loads X t of None \<Rightarrow> [t] | Some (PList l) \<Rightarrow> map py_str l | Some v \<Rightarrow> []))"

definition from_index :: "ext \<Rightarrow> profile_row \<Rightarrow> string option \<Rightarrow> string option \<Rightarrow> profile_summary" where
  "from_index X row active pinned = \<lparr>pr_id = fr_profile_id row, pr_label = fr_label row,
     pr_hash_prefix = map_option (take 12) (filled (fr_model_hash row)), pr_state = fr_state row,
     pr_eligible = fr_eligible row, pr_rejections = parsed_reasons X (fr_rejections row),
     pr_quality = parse_float_or_none (fr_quality row), pr_certified_p99 = parse_float_or_none (fr_p99 row),
     pr_online_p99 = None, pr_online_bound = None, pr_peak_rss = parse_int_or_none (fr_peak_rss row),
     pr_provider = fr_provider row, pr_active = (Some (fr_profile_id row) = active),
     pr_pinned = (Some (fr_profile_id row) = pinned)\<rparr>"

definition index_summary :: "ext \<Rightarrow> int \<Rightarrow> api \<Rightarrow> profile_row \<Rightarrow> profile_summary" where
  "index_summary X now s row = from_index X row (rs_active (status_of now (ap_bridge s)))
     (po_pinned (runtime_policy (ap_bridge s)))"

definition list_profiles_route :: "ext \<Rightarrow> int \<Rightarrow> profile_summary list route" where
  "list_profiles_route X now = getS (\<lambda>s. let live = list_profiles (ap_bridge s) in
     if live \<noteq> [] then live
     else map (index_summary X now s) (sort_by fr_profile_id (db_profiles (ap_db s))))"

text \<open>\<open>ProfileDetail\<close>: the summary, and a provenance that pydantic requires to be a dictionary.\<close>

definition validation_error :: exc where
  "validation_error = py_err (OtherError ''ValidationError'')"

definition not_found :: "string \<Rightarrow> string \<Rightarrow> string \<Rightarrow> string option \<Rightarrow> exc" where
  "not_found uuid c message remediation = api_error uuid c message 404 False [] remediation None"

definition provenance_of :: "ext \<Rightarrow> string option \<Rightarrow> pyval" where
  "provenance_of X text = (case filled text of None \<Rightarrow> PDict []
     | Some t \<Rightarrow> (case x_loads X t of None \<Rightarrow> PDict [] | Some v \<Rightarrow> v))"

definition get_profile_route :: "ext \<Rightarrow> string \<Rightarrow> int \<Rightarrow> string \<Rightarrow> (profile_summary \<times> pydict) route" where
  "get_profile_route X uuid now pid = (\<lambda>s. case get_profile (ap_bridge s) pid of
     Some p \<Rightarrow> (Inr (p, []), s)
   | None \<Rightarrow> (case find (\<lambda>r. fr_profile_id r = pid) (db_profiles (ap_db s)) of
       None \<Rightarrow> (Inl (not_found uuid ''PROFILE_NOT_FOUND'' (''Profile '' @ quoted pid @ '' was not found'')
         (Some ''Load a profile bundle or connect to a live runtime'')), s)
     | Some row \<Rightarrow> (case provenance_of X (fr_provenance row) of
         PDict d \<Rightarrow> (Inr (index_summary X now s row, d), s) | _ \<Rightarrow> (Inl validation_error, s))))"

definition pin_error :: "string \<Rightarrow> exc \<Rightarrow> exc" where
  "pin_error uuid e = (if is_kind RuntimeError e then ros_failed uuid False e else e)"

definition pin_profile_route :: "ext \<Rightarrow> mutation_env \<Rightarrow> request \<Rightarrow> string \<Rightarrow> string served" where
  "pin_profile_route X M rq pid = with_actor M rq (\<lambda>actor.
     bindO (map_error (pin_error (me_uuid M)) (on_bridge (pin_profile (me_call M) pid))) (\<lambda>u.
     bindO (served (record_audit X actor ''profiles.pin'' (Some pid) [] (rq_correlation rq))) (\<lambda>u.
     served (retS pid))))"

definition clear_pin_route :: "ext \<Rightarrow> mutation_env \<Rightarrow> request \<Rightarrow> unit served" where
  "clear_pin_route X M rq = with_actor M rq (\<lambda>actor.
     bindO (map_error (pin_error (me_uuid M)) (on_bridge (clear_pin (me_call M)))) (\<lambda>u.
     served (record_audit X actor ''profiles.unpin'' None [] (rq_correlation rq))))"

section \<open>routers/bundles.py\<close>

definition find_current_bundle :: "world \<Rightarrow> ppath list \<Rightarrow> ppath option" where
  "find_current_bundle w roots = find (is_file w) (concat (map (\<lambda>root.
     [path_div (path_div root ''current'') ''bundle.manifest.json'', path_div root ''current.json'']) roots))"

definition load_bundle_manifest :: "ext \<Rightarrow> string \<Rightarrow> ppath \<Rightarrow> pyval io" where
  "load_bundle_manifest X uuid p = catchS (bindS (read_text p) (\<lambda>t. liftS (json_loads X t)))
     (\<lambda>e. raiseS (if is_os_error e \<or> is_json_error e then api_error uuid ''BUNDLE_INVALID''
       ''Unable to read bundle manifest'' 400 False [(''reason'', PStr (exc_str e))] None None else e))"

record bundle_info =
  bi_bundle_id :: "string option"
  bi_schema_version :: "string option"
  bi_product_version :: "string option"
  bi_integrity :: string
  bi_signature :: string
  bi_path_display :: "string option"
  bi_profiles :: "string list"
  bi_file_hashes :: "(string \<times> string) list"
  bi_provenance :: pydict
  bi_unavailable :: "(string \<times> string \<times> string) list"

definition no_bundle :: bundle_info where
  "no_bundle = \<lparr>bi_bundle_id = None, bi_schema_version = None, bi_product_version = None,
     bi_integrity = ''unavailable'', bi_signature = ''unavailable'', bi_path_display = None, bi_profiles = [],
     bi_file_hashes = [], bi_provenance = [], bi_unavailable = [(''bundle'', ''BUNDLE_NOT_FOUND'',
       ''No current profile bundle is registered in artifact roots'')]\<rparr>"

text \<open>A field that pydantic declares \<open>str | None\<close>.\<close>

fun str_field :: "pyval \<Rightarrow> exc + string option" where
  "str_field PNone = Inr None"
| "str_field (PStr s) = Inr (Some s)"
| "str_field _ = Inl validation_error"

fun listed_profile :: "pyval \<Rightarrow> string list" where
  "listed_profile (PDict d) = (case map_of d ''profile_id'' of None \<Rightarrow> [] | Some v \<Rightarrow> [py_str v])"
| "listed_profile (PStr s) = [s]"
| "listed_profile _ = []"

fun listed_hash :: "string \<times> pyval \<Rightarrow> (string \<times> string) list" where
  "listed_hash (name, PDict d) = (case map_of d ''sha256'' of None \<Rightarrow> [] | Some v \<Rightarrow> [(name, py_str v)])"
| "listed_hash (name, PStr s) = [(name, s)]"
| "listed_hash (name, v) = []"

definition current_bundle ::
    "ext \<Rightarrow> (string \<Rightarrow> string list option) \<Rightarrow> string \<Rightarrow> settings \<Rightarrow> bundle_info io" where
  "current_bundle X pw uuid S = bindS (\<lambda>w. (resolved_artifact_roots pw S w, w)) (\<lambda>roots.
     bindS (getS (\<lambda>w. find_current_bundle w roots)) (\<lambda>found.
     case found of None \<Rightarrow> retS no_bundle
     | Some p \<Rightarrow> bindS (load_bundle_manifest X uuid p) (\<lambda>doc. bindS (liftS (as_dict doc)) (\<lambda>data.
         bindS (getS (\<lambda>w. safe_display_path w p)) (\<lambda>shown.
         bindS (liftS (str_field (dget data ''bundle_id''))) (\<lambda>bid.
         bindS (liftS (str_field (dget data ''schema_version''))) (\<lambda>sv.
         bindS (liftS (str_field (dget data ''product_version''))) (\<lambda>pv.
         retS \<lparr>bi_bundle_id = bid, bi_schema_version = sv, bi_product_version = pv,
           bi_integrity = ''manifest_present'', bi_signature = ''not_verified'', bi_path_display = Some shown,
           bi_profiles = concat (map listed_profile (the_list (dget data ''profiles''))),
           bi_file_hashes = concat (map listed_hash (the_dict (dget data ''files''))),
           bi_provenance = map (\<lambda>k. (k, dget data k))
             [''calibration_dataset_hash'', ''evaluation_dataset_hash'', ''host_fingerprint_ref''],
           bi_unavailable = []\<rparr>))))))))"

text \<open>The route: the display path, the details and the digest the audit row records.\<close>

record verify_result =
  vr_path :: ppath
  vr_display :: string
  vr_digest :: string
  vr_details :: pydict

definition check_bundle_file ::
    "ext \<Rightarrow> (string \<Rightarrow> string list option) \<Rightarrow> string \<Rightarrow> settings \<Rightarrow> string \<Rightarrow> verify_result io" where
  "check_bundle_file X pw uuid S body_path = bindS (\<lambda>w. (resolved_artifact_roots pw S w, w)) (\<lambda>roots.
     bindS (\<lambda>w. (ensure_within_roots pw uuid w (path_of body_path) roots True, w)) (\<lambda>p.
     bindS (getS (\<lambda>w. is_file w p)) (\<lambda>there.
     bindS (guardS there (not_found uuid ''BUNDLE_NOT_FOUND'' ''Bundle path does not exist or is not a file'' None)) (\<lambda>u.
     bindS (load_bundle_manifest X uuid p) (\<lambda>doc.
     bindS (read_bytes p) (\<lambda>bytes. bindS (liftS (as_dict doc)) (\<lambda>data.
     bindS (liftS (py_len (py_or (dget data ''files'') (PDict [])))) (\<lambda>n.
     bindS (getS (\<lambda>w. safe_display_path w p)) (\<lambda>shown.
     retS \<lparr>vr_path = p, vr_display = shown, vr_digest = sha256_bytes X bytes,
       vr_details = [(''manifest_sha256'', PStr (sha256_bytes X bytes)), (''bundle_id'', dget data ''bundle_id''),
         (''schema_version'', dget data ''schema_version''), (''file_count'', PInt n)]\<rparr>)))))))))"

definition verify_bundle_route :: "ext \<Rightarrow> mutation_env \<Rightarrow> request \<Rightarrow> string \<Rightarrow> verify_result served" where
  "verify_bundle_route X M rq body_path = with_actor M rq (\<lambda>actor s.
     bindO (served (in_world (check_bundle_file X (me_pw M) (me_uuid M) (ap_settings s) body_path))) (\<lambda>v.
     bindO (served (record_audit X actor ''bundles.verify'' (Some (vr_display v))
       [(''manifest_sha256'', PStr (vr_digest v))] (rq_correlation rq))) (\<lambda>u. served (retS v))) s)"

section \<open>routers/runs.py\<close>

text \<open>\<open>order\_by(created\_at.desc())\<close>; rows of equal time keep their order.\<close>

fun insert_newest :: "run_row \<Rightarrow> run_row list \<Rightarrow> run_row list" where
  "insert_newest r [] = [r]"
| "insert_newest r (q # qs) = (if rr_created_at q \<le> rr_created_at r then r # q # qs else q # insert_newest r qs)"

definition newest_first :: "run_row list \<Rightarrow> run_row list" where
  "newest_first rows = foldr insert_newest rows []"

definition list_runs :: "int \<Rightarrow> run_row list route" where
  "list_runs limit = getS (\<lambda>s. take (nat (max 1 (min limit 500))) (newest_first (db_runs (ap_db s))))"

definition get_run :: "string \<Rightarrow> string \<Rightarrow> (run_row \<times> string) route" where
  "get_run uuid run_id = (\<lambda>s. case find (\<lambda>r. rr_run_id r = run_id) (db_runs (ap_db s)) of
     None \<Rightarrow> (Inl (not_found uuid ''RUN_NOT_FOUND'' (''Run '' @ quoted run_id @ '' was not found'')
       (Some ''Import or index a forge run into the artifact store'')), s)
   | Some row \<Rightarrow> (Inr (row, safe_display_path (ap_world s) (path_of (rr_workspace row))), s))"

record candidate_summary =
  cs_candidate_id :: string
  cs_profile_id :: "string option"
  cs_valid :: bool
  cs_quality :: "pyfloat option"
  cs_latency :: "pyfloat option"
  cs_summary :: pydict

definition candidate_summary_of :: "ext \<Rightarrow> candidate_row \<Rightarrow> exc + candidate_summary" where
  "candidate_summary_of X row = (case provenance_of X (cr_summary row) of
     PDict d \<Rightarrow> Inr \<lparr>cs_candidate_id = cr_candidate_id row, cs_profile_id = cr_profile_id row,
       cs_valid = cr_valid row, cs_quality = parse_float_or_none (cr_quality row),
       cs_latency = parse_float_or_none (cr_latency row), cs_summary = d\<rparr>
   | _ \<Rightarrow> Inl validation_error)"

definition list_candidates :: "ext \<Rightarrow> string \<Rightarrow> string \<Rightarrow> candidate_summary list route" where
  "list_candidates X uuid run_id = (\<lambda>s. case find (\<lambda>r. rr_run_id r = run_id) (db_runs (ap_db s)) of
     None \<Rightarrow> (Inl (not_found uuid ''RUN_NOT_FOUND'' (''Run '' @ quoted run_id @ '' was not found'') None), s)
   | Some run \<Rightarrow> (mapR (candidate_summary_of X) (sort_by cr_candidate_id
       (filter (\<lambda>c. cr_run_id c = run_id) (db_candidates (ap_db s)))), s))"

record file_response =
  fl_path :: ppath
  fl_media :: string
  fl_headers :: "(string \<times> string) list"

definition artifact_id_ok :: "string \<Rightarrow> bool" where
  "artifact_id_ok a \<longleftrightarrow> CHR ''/'' \<notin> set a \<and> CHR 0x5C \<notin> set a \<and> \<not> sublist ''..'' a"

definition artifact_file ::
    "(string \<Rightarrow> string list option) \<Rightarrow> string \<Rightarrow> settings \<Rightarrow> world \<Rightarrow> artifact_row \<Rightarrow> exc + ppath" where
  "artifact_file pw uuid S w row =
     bindR (resolved_artifact_roots pw S w) (\<lambda>roots.
     bindR (ensure_within_roots pw uuid w (path_of (ar_path row)) roots True) (\<lambda>p.
     bindR (guardR (is_file w p) (not_found uuid ''ARTIFACT_MISSING'' ''Indexed artifact path is missing on disk'' None)) (\<lambda>u.
     bindR (ensure_within_roots pw uuid w p roots True) (\<lambda>q. Inr p))))"

definition get_artifact ::
    "(string \<Rightarrow> string list option) \<Rightarrow> string \<Rightarrow> string \<Rightarrow> string \<Rightarrow> file_response route" where
  "get_artifact pw uuid run_id artifact_id = (\<lambda>s. (
     bindR (guardR (artifact_id_ok artifact_id)
       (api_error uuid ''PATH_TRAVERSAL'' ''Invalid artifact identifier'' 400 False [] None None)) (\<lambda>u.
     case find (\<lambda>r. ar_run_id r = run_id \<and> ar_artifact_id r = artifact_id) (db_artifacts (ap_db s)) of
       None \<Rightarrow> Inl (not_found uuid ''ARTIFACT_NOT_FOUND''
         (''Artifact '' @ quoted artifact_id @ '' was not found for run '' @ quoted run_id) None)
     | Some row \<Rightarrow> bindR (artifact_file pw uuid (ap_settings s) (ap_world s) row) (\<lambda>p.
         Inr \<lparr>fl_path = p, fl_media = or_else (ar_content_type row) ''application/octet-stream'',
           fl_headers = [(''Content-Disposition'', content_disposition_attachment (path_name p)),
             (''X-Content-Type-Options'', ''nosniff'')]\<rparr>)), s))"

section \<open>routers/system.py\<close>

record readiness =
  rd_ready :: bool
  rd_database :: bool
  rd_ros :: string
  rd_reasons :: "string list"

definition ros_label :: "bridge \<Rightarrow> string" where
  "ros_label b = (if s_connected (b_state b) then ''connected'' else s_reason_code (b_state b))"

text \<open>\<open>db\_answers\<close> says whether the ping statement runs.\<close>

definition readyz :: "bool \<Rightarrow> readiness route" where
  "readyz db_answers = getS (\<lambda>s. let b = b_state (ap_bridge s) in
     \<lparr>rd_ready = db_answers, rd_database = db_answers, rd_ros = ros_label (ap_bridge s),
      rd_reasons = (if db_answers then [] else [''DATABASE_UNAVAILABLE'']) @
        (if se_ros (ap_settings s) \<and> s_mode b = ''ros'' \<and> \<not> s_connected b then [s_reason_code b] else [])\<rparr>)"

record capabilities =
  ca_mutations :: bool
  ca_ros :: string
  ca_cors :: "string list"
  ca_host :: string
  ca_max_bytes :: int

definition capabilities_route :: "(string \<Rightarrow> string list option) \<Rightarrow> capabilities route" where
  "capabilities_route pw s = bindS (in_world (mutations_enabled pw (ap_settings s))) (\<lambda>enabled.
     retS \<lparr>ca_mutations = enabled, ca_ros = ros_label (ap_bridge s),
       ca_cors = effective_cors_origins (ap_settings s), ca_host = se_host (ap_settings s),
       ca_max_bytes = se_max_bytes (ap_settings s)\<rparr>) s"

section \<open>Mutations are authorised and audited\<close>

datatype api_mutation = Patch_request pydict | Recovery_request string | Pin_request string
  | Unpin_request | Verify_request string

abbreviation discard :: "'a served \<Rightarrow> unit served" where
  "discard m \<equiv> bindO m (\<lambda>x. served (retS ()))"

fun serve_mutation :: "ext \<Rightarrow> mutation_env \<Rightarrow> request \<Rightarrow> api_mutation \<Rightarrow> unit served" where
  "serve_mutation X M rq (Patch_request p) = discard (patch_runtime_policy X M rq p)"
| "serve_mutation X M rq (Recovery_request a) = discard (runtime_recovery X M rq a)"
| "serve_mutation X M rq (Pin_request pid) = discard (pin_profile_route X M rq pid)"
| "serve_mutation X M rq Unpin_request = clear_pin_route X M rq"
| "serve_mutation X M rq (Verify_request p) = discard (verify_bundle_route X M rq p)"

fun mutation_action :: "api_mutation \<Rightarrow> string" where
  "mutation_action (Patch_request p) = ''runtime.policy.patch''"
| "mutation_action (Recovery_request a) = ''runtime.recovery''"
| "mutation_action (Pin_request pid) = ''profiles.pin''"
| "mutation_action Unpin_request = ''profiles.unpin''"
| "mutation_action (Verify_request p) = ''bundles.verify''"

definition authorised :: "mutation_env \<Rightarrow> request \<Rightarrow> api \<Rightarrow> bool" where
  "authorised M rq s \<longleftrightarrow> (\<exists>tok. fst (resolve_mutation_token (me_pw M) (ap_settings s) (ap_world s)) = Inr (Some tok)
     \<and> tok \<noteq> [] \<and> extract_bearer_token rq = Some tok)"

lemma bindO_Some:
  "bindO m f s = Some (r, t) \<longleftrightarrow> (\<exists>e. m s = Some (Inl e, t) \<and> r = Inl e) \<or>
     (\<exists>x s1. m s = Some (Inr x, s1) \<and> f x s1 = Some (r, t))"
  by (auto simp: bindO_def split: option.splits prod.splits sum.splits)

lemma discard_Some: "discard m s = Some (r, t) \<longleftrightarrow>
    (\<exists>q. m s = Some (q, t) \<and> r = (case q of Inl e \<Rightarrow> Inl e | Inr x \<Rightarrow> Inr ()))"
proof (cases "m s")
  case (Some qt)
  then obtain q u where "m s = Some (q, u)" by (cases qt) simp
  then show ?thesis by (cases q) (auto simp: bindO_def)
qed (simp add: bindO_def)

text \<open>The guard: it changes the limiter at most, and only for an authorised request.\<close>

lemma require_mutations_cases:
  assumes "require_mutations pw uuid clock rq s = (r, t)"
  shows "ap_db t = ap_db s \<and> ap_bridge t = ap_bridge s \<and> ap_settings t = ap_settings s
    \<and> reads_only (ap_world s) (ap_world t)
    \<and> (if \<exists>tok. fst (resolve_mutation_token pw (ap_settings s) (ap_world s)) = Inr (Some tok)
         \<and> tok \<noteq> [] \<and> extract_bearer_token rq = Some tok then r = Inr ''operator'' \<or> isl r
       else isl r \<and> ap_limiter t = ap_limiter s)"
proof -
  obtain q w where auth: "require_mutation_auth pw uuid rq (ap_settings s) (ap_world s) = (q, w)" by fastforce
  have w: "reads_only (ap_world s) w" using keeps_reads_auth auth by (rule keepsD)
  show ?thesis
  proof (cases q)
    case (Inl e)
    with assms auth have "r = Inl e" "t = s\<lparr>ap_world := w\<rparr>"
      by (simp_all add: require_mutations_def in_world_def bindS_def)
    with w show ?thesis by simp
  next
    case (Inr a)
    with auth have op: "fst (require_mutation_auth pw uuid rq (ap_settings s) (ap_world s)) = Inr a" by simp
    then have a: "a = ''operator''" "\<exists>tok. fst (resolve_mutation_token pw (ap_settings s) (ap_world s)) = Inr (Some tok)
         \<and> tok \<noteq> [] \<and> extract_bearer_token rq = Some tok"
      by (auto simp only: auth_exact)
    obtain q2 l where lim: "limiter_check uuid clock (case rq_client rq of None \<Rightarrow> ''unknown'' | Some h \<Rightarrow> h)
        (ap_limiter s) = (q2, l)" by fastforce
    from assms auth Inr lim have "t = s\<lparr>ap_world := w, ap_limiter := l\<rparr>" "r = Inr a \<or> isl r"
      by (auto simp: require_mutations_def in_world_def in_limiter_def bindS_def split: sum.splits)
    with w a show ?thesis by simp
  qed
qed

text \<open>What a handler behind the guard does to the session: one row added when it returns.\<close>

definition audits :: "string \<Rightarrow> (string \<Rightarrow> 'a served) \<Rightarrow> bool" where
  "audits action h \<longleftrightarrow> (\<forall>a s r t. h a s = Some (r, t) \<longrightarrow> db_audit (ap_db t) = db_audit (ap_db s) \<and>
     (case r of Inl e \<Rightarrow> True | Inr x \<Rightarrow> \<exists>row. au_actor row = a \<and> au_action row = action \<and>
        db_pending (ap_db t) = db_pending (ap_db s) @ [row]))"

lemma audits_same: "audits action h \<Longrightarrow> h a s = Some (r, t) \<Longrightarrow> db_audit (ap_db t) = db_audit (ap_db s)"
  unfolding audits_def by blast

lemma audits_row: "audits action h \<Longrightarrow> h a s = Some (Inr x, t) \<Longrightarrow> \<exists>row. au_actor row = a \<and>
    au_action row = action \<and> db_pending (ap_db t) = db_pending (ap_db s) @ [row]"
  unfolding audits_def by (drule spec [of _ a], drule spec [of _ s], drule spec [of _ "Inr x"], drule spec [of _ t]) simp

lemma audits_record:
  assumes stage: "\<And>a s r t. m a s = Some (r, t) \<Longrightarrow> ap_db t = ap_db s"
  shows "audits action (\<lambda>a. bindO (m a) (\<lambda>x. bindO (served (record_audit X a action (target x) (details x) corr))
      (\<lambda>u. served (retS (f x)))))"
  unfolding audits_def
proof (intro allI impI, goal_cases)
  case (1 a s r t)
  then consider e where "m a s = Some (Inl e, t)" "r = Inl e"
    | x s1 where "m a s = Some (Inr x, s1)" "r = Inr (f x)"
        "t = snd (record_audit X a action (target x) (details x) corr s1)"
    by (auto simp: bindO_Some record_audit_def modS_def)
  then show ?case
  proof cases
    case (2 x s1)
    then have "ap_db s1 = ap_db s" using stage by blast
    with 2 show ?thesis by (auto simp: record_audit_def modS_def)
  qed (auto dest: stage)
qed

lemma on_bridge_db: "on_bridge m s = Some (r, t) \<Longrightarrow> ap_db t = ap_db s"
  by (auto simp: on_bridge_def)

lemma map_error_db: "map_error f (on_bridge m) s = Some (r, t) \<Longrightarrow> ap_db t = ap_db s"
  by (auto simp: map_error_def on_bridge_db)

lemma in_world_db: "in_world m s = (r, t) \<Longrightarrow> ap_db t = ap_db s"
  by (auto simp: in_world_def split: prod.splits)

lemma bindO_ret: "bindO (served m) (\<lambda>u. served (retS ())) = served m"
  by (rule ext, simp add: bindO_def split: prod.splits sum.splits)

lemma with_actor_audits:
  assumes h: "audits action h" and run: "with_actor M rq h s = Some (r, t)"
  shows "(case r of Inl e \<Rightarrow> db_audit (ap_db t) = db_audit (ap_db s)
      | Inr x \<Rightarrow> authorised M rq s \<and> (\<exists>row. au_actor row = ''operator'' \<and> au_action row = action \<and>
          db_audit (ap_db t) = db_audit (ap_db s) @ [row]))
    \<and> (\<not> authorised M rq s \<longrightarrow> isl r \<and> ap_bridge t = ap_bridge s \<and> ap_limiter t = ap_limiter s
        \<and> reads_only (ap_world s) (ap_world t))"
proof -
  let ?s = "s\<lparr>ap_db := rollback (ap_db s)\<rparr>"
  obtain q s1 where guard: "require_mutations (me_pw M) (me_uuid M) (me_monotonic M) rq ?s = (q, s1)" by fastforce
  from require_mutations_cases [OF guard]
  have s1: "ap_db s1 = rollback (ap_db s)" "ap_bridge s1 = ap_bridge s" "reads_only (ap_world s) (ap_world s1)"
    and ok: "authorised M rq s \<Longrightarrow> q = Inr ''operator'' \<or> isl q"
    and no: "\<not> authorised M rq s \<Longrightarrow> isl q \<and> ap_limiter s1 = ap_limiter s"
    by (auto simp: authorised_def split: if_splits)
  from run obtain t1 where t: "bindO (served (require_mutations (me_pw M) (me_uuid M) (me_monotonic M) rq)) h ?s
      = Some (r, t1)" "t = t1\<lparr>ap_db := (case r of Inl e \<Rightarrow> rollback | Inr x \<Rightarrow> commit) (ap_db t1)\<rparr>"
    by (auto simp: with_actor_def db_session_def)
  show ?thesis
  proof (cases q)
    case (Inl e)
    with t guard have "r = Inl e" "t1 = s1" by (auto simp: bindO_Some)
    with t(2) s1 no show ?thesis by (auto simp: rollback_def)
  next
    case (Inr a)
    then have a: "authorised M rq s" "a = ''operator''" using ok no by auto
    from t(1) guard Inr have run1: "h a s1 = Some (r, t1)" by (auto simp: bindO_Some)
    note pre = audits_same [OF h run1]
    show ?thesis
    proof (cases r)
      case (Inl e)
      with t(2) pre s1 a show ?thesis by (simp add: rollback_def)
    next
      case (Inr x)
      from audits_row [OF h run1 [unfolded this]] obtain row where "au_actor row = a" "au_action row = action"
        "db_pending (ap_db t1) = db_pending (ap_db s1) @ [row]" by blast
      with t(2) pre s1 a Inr show ?thesis by (auto simp: rollback_def commit_def)
    qed
  qed
qed

lemma audits_handlers:
  "audits ''runtime.policy.patch'' (\<lambda>actor. bindO (ros_mutation uuid (set_policy E p)) (\<lambda>updated.
     bindO (served (record_audit X actor ''runtime.policy.patch'' None d corr)) (\<lambda>u. served (retS updated))))"
  "audits ''runtime.recovery'' (\<lambda>actor. bindO (ros_mutation uuid (recovery E a)) (\<lambda>result.
     bindO (served (record_audit X actor ''runtime.recovery'' None [(''action'', PStr a)] corr))
       (\<lambda>u. served (retS result))))"
  "audits ''profiles.pin'' (\<lambda>actor. bindO (map_error (pin_error uuid) (on_bridge (pin_profile E pid))) (\<lambda>u.
     bindO (served (record_audit X actor ''profiles.pin'' (Some pid) [] corr)) (\<lambda>u. served (retS pid))))"
  "audits ''profiles.unpin'' (\<lambda>actor. bindO (map_error (pin_error uuid) (on_bridge (clear_pin E))) (\<lambda>u.
     served (record_audit X actor ''profiles.unpin'' None [] corr)))"
  "audits ''bundles.verify'' (\<lambda>actor s. bindO (served (in_world (check_bundle_file X pw uuid (ap_settings s) path)))
     (\<lambda>v. bindO (served (record_audit X actor ''bundles.verify'' (Some (vr_display v))
       [(''manifest_sha256'', PStr (vr_digest v))] corr)) (\<lambda>u. served (retS v))) s)"
proof -
  show "audits ''profiles.unpin'' (\<lambda>actor. bindO (map_error (pin_error uuid) (on_bridge (clear_pin E))) (\<lambda>u.
     served (record_audit X actor ''profiles.unpin'' None [] corr)))"
    using audits_record [where m = "\<lambda>a. map_error (pin_error uuid) (on_bridge (clear_pin E))" and
      target = "\<lambda>x. None" and details = "\<lambda>x. []" and f = "\<lambda>x. ()"] map_error_db
    unfolding bindO_ret by blast
next
  show "audits ''bundles.verify'' (\<lambda>actor s. bindO (served (in_world (check_bundle_file X pw uuid (ap_settings s) path)))
     (\<lambda>v. bindO (served (record_audit X actor ''bundles.verify'' (Some (vr_display v))
       [(''manifest_sha256'', PStr (vr_digest v))] corr)) (\<lambda>u. served (retS v))) s)"
    unfolding bindO_def [of "served (in_world m)" for m]
    using audits_record [where m = "\<lambda>a s. Some (in_world (check_bundle_file X pw uuid (ap_settings s) path) s)" and
      target = "\<lambda>v. Some (vr_display v)" and details = "\<lambda>v. [(''manifest_sha256'', PStr (vr_digest v))]" and
      f = "\<lambda>v. v"] in_world_db
    unfolding bindO_def [of "\<lambda>s. Some (in_world (m s) s)" for m] by blast
qed (unfold ros_mutation_def, (rule audits_record, erule map_error_db)+)

lemma serve_mutation_outcome:
  assumes run: "serve_mutation X M rq op s = Some (r, t)"
  shows "(case r of Inl e \<Rightarrow> db_audit (ap_db t) = db_audit (ap_db s)
      | Inr x \<Rightarrow> authorised M rq s \<and> (\<exists>row. au_actor row = ''operator'' \<and> au_action row = mutation_action op \<and>
          db_audit (ap_db t) = db_audit (ap_db s) @ [row]))
    \<and> (\<not> authorised M rq s \<longrightarrow> isl r \<and> ap_bridge t = ap_bridge s \<and> ap_limiter t = ap_limiter s
        \<and> reads_only (ap_world s) (ap_world t))"
proof (cases op)
  case (Patch_request p)
  with run obtain q where "patch_runtime_policy X M rq p s = Some (q, t)"
    and r: "r = (case q of Inl e \<Rightarrow> Inl e | Inr x \<Rightarrow> Inr ())" by (auto simp only: serve_mutation.simps discard_Some)
  from with_actor_audits [OF audits_handlers(1) this(1) [unfolded patch_runtime_policy_def]] r Patch_request
  show ?thesis by (cases q) simp_all
next
  case (Recovery_request a)
  with run obtain q where "runtime_recovery X M rq a s = Some (q, t)"
    and r: "r = (case q of Inl e \<Rightarrow> Inl e | Inr x \<Rightarrow> Inr ())" by (auto simp only: serve_mutation.simps discard_Some)
  from with_actor_audits [OF audits_handlers(2) this(1) [unfolded runtime_recovery_def]] r Recovery_request
  show ?thesis by (cases q) simp_all
next
  case (Pin_request pid)
  with run obtain q where "pin_profile_route X M rq pid s = Some (q, t)"
    and r: "r = (case q of Inl e \<Rightarrow> Inl e | Inr x \<Rightarrow> Inr ())" by (auto simp only: serve_mutation.simps discard_Some)
  from with_actor_audits [OF audits_handlers(3) this(1) [unfolded pin_profile_route_def]] r Pin_request
  show ?thesis by (cases q) simp_all
next
  case Unpin_request
  with run have "clear_pin_route X M rq s = Some (r, t)" by simp
  from with_actor_audits [OF audits_handlers(4) this [unfolded clear_pin_route_def]] Unpin_request
  show ?thesis by (cases r) simp_all
next
  case (Verify_request p)
  with run obtain q where "verify_bundle_route X M rq p s = Some (q, t)"
    and r: "r = (case q of Inl e \<Rightarrow> Inl e | Inr x \<Rightarrow> Inr ())" by (auto simp only: serve_mutation.simps discard_Some)
  from with_actor_audits [OF audits_handlers(5) this(1) [unfolded verify_bundle_route_def]] r Verify_request
  show ?thesis by (cases q) simp_all
qed

text \<open>C4. Every mutation of the API (policy, recovery, pin, unpin, bundle verification) is authorised and
  audited: without the configured token it fails, leaving the runtime, the limiter and all files as
  they were; one that fails leaves the audit trail as it was; one that succeeds was authorised and
  has added exactly one row, with its actor and action.\<close>

theorem mutations_authorised_audited:
  assumes "serve_mutation X M rq op s = Some (r, t)"
  shows "(case r of Inl e \<Rightarrow> db_audit (ap_db t) = db_audit (ap_db s)
      | Inr x \<Rightarrow> authorised M rq s \<and> (\<exists>row. au_actor row = ''operator'' \<and> au_action row = mutation_action op \<and>
          db_audit (ap_db t) = db_audit (ap_db s) @ [row]))
    \<and> (\<not> authorised M rq s \<longrightarrow> isl r \<and> ap_bridge t = ap_bridge s \<and> ap_limiter t = ap_limiter s
        \<and> reads_only (ap_world s) (ap_world t))"
  by (rule serve_mutation_outcome [OF assms])

definition sample_settings :: settings where
  "sample_settings = \<lparr>se_host = ''127.0.0.1'', se_port = 8741, se_token = Some ''t'', se_token_file = None,
     se_cors = [], se_max_bytes = 1000, se_queue = 4, se_clients = 2, se_cache = 8, se_rate = 5,
     se_roots = [abs_path [''r'']], se_data = Some (abs_path [''d'']), se_state = Some (abs_path [''s'']),
     se_database = None, se_ros = True, se_console = []\<rparr>"

definition sample_api_world :: world where
  "sample_api_world = \<lparr>w_files = [([''r'', ''a.json''], ''{}'')], w_dirs = [[''r'']],
     w_links = [([''l''], abs_path [''r''])], w_cwd = [], w_home = [''h''], w_environ = [], w_ticks = 0, w_version = None,
     w_commit = None, w_registry = None, w_schemas = []\<rparr>"

definition sample_artifact :: artifact_row where
  "sample_artifact = \<lparr>ar_artifact_id = ''m'', ar_run_id = ''x'', ar_path = ''/l/a.json'', ar_content_type = None\<rparr>"

definition sample_api :: api where
  "sample_api = \<lparr>ap_world = sample_api_world,
     ap_db = \<lparr>db_runs = [], db_candidates = [], db_profiles = [], db_artifacts = [sample_artifact],
       db_audit = [], db_pending = []\<rparr>,
     ap_bridge = sample_bridge, ap_limiter = limiter_init 5, ap_settings = sample_settings\<rparr>"

definition sample_request :: "string \<Rightarrow> request" where
  "sample_request token = \<lparr>rq_correlation = Some ''c'', rq_headers = [(''authorization'', ''Bearer '' @ token)],
     rq_client = None\<rparr>"

definition sample_mutation_env :: mutation_env where
  "sample_mutation_env = \<lparr>me_pw = (\<lambda>u. None), me_uuid = ''u'', me_monotonic = Fin 0, me_call = sample_call\<rparr>"

lemma sample_auth: "require_mutation_auth pw uuid (sample_request ''t'') sample_settings w = (Inr ''operator'', w)"
proof -
  have tok: "resolve_mutation_token pw sample_settings = retS (Some ''t'')"
    by (simp add: resolve_mutation_token_def sample_settings_def filled_def)
  have bearer: "extract_bearer_token (sample_request ''t'') = Some ''t''" by code_simp
  have "length (utf8_encode ''t'') = 1" by code_simp
  then have "length (utf8_encode ''t'') < 2 ^ 32" by simp
  then have eq: "constant_time_token_equals ''t'' ''t'' = Inr True" by (simp only: token_equals simp_thms if_True)
  have f: "filled (Some ''t'') = Some ''t''" by (simp add: filled_def)
  show ?thesis
    unfolding require_mutation_auth_def tok bindS_retS f option.case bearer eq bindS_liftS_Inr if_True retS_apply ..
qed

lemma sample_limit: "limiter_check uuid (Fin 0) ''unknown'' (limiter_init 5)
    = (Inr (), put_bucket ''unknown'' [Fin 0] (limiter_init 5))"
  by (simp add: limiter_check_def limiter_init_def bucket_of_def)

lemma sample_api_fields: "ap_settings sample_api = sample_settings" "ap_limiter sample_api = limiter_init 5"
  "ap_bridge sample_api = sample_bridge" "sample_api\<lparr>ap_world := ap_world sample_api\<rparr> = sample_api"
  "sample_api\<lparr>ap_db := rollback (ap_db sample_api)\<rparr> = sample_api" "rq_client (sample_request token) = None"
  "db_audit (ap_db sample_api) = []"
  by (simp_all add: sample_api_def rollback_def sample_request_def)

lemma sample_guard:
  "require_mutations pw uuid (Fin 0) (sample_request ''t'') sample_api
     = (Inr ''operator'', sample_api\<lparr>ap_limiter := put_bucket ''unknown'' [Fin 0] (limiter_init 5)\<rparr>)"
  by (simp add: require_mutations_def in_world_def in_limiter_def bindS_def sample_auth sample_limit
    sample_api_fields del: api.update_convs)

lemma sample_pin_served:
  "\<exists>t. serve_mutation sample_ext sample_mutation_env (sample_request ''t'') (Pin_request ''q'') sample_api
     = Some (Inr (), t) \<and> s_pinned (b_state (ap_bridge t)) = Some ''q''"
proof -
  obtain b' where run: "pin_profile sample_call ''q'' sample_bridge = Some (Inr (), b')"
      and p: "s_pinned (b_state b') = Some ''q''"
    using sample_pin_run by auto
  let ?M = sample_mutation_env
  let ?s1 = "sample_api\<lparr>ap_limiter := put_bucket ''unknown'' [Fin 0] (limiter_init 5)\<rparr>"
  have "map_error (pin_error u) (on_bridge (pin_profile (me_call ?M) ''q'')) ?s1 = Some (Inr (), ?s1\<lparr>ap_bridge := b'\<rparr>)" for u
    using run by (simp add: map_error_def on_bridge_def sample_api_fields sample_mutation_env_def)
  then obtain row where "bindO (served (require_mutations (me_pw ?M) (me_uuid ?M) (me_monotonic ?M) (sample_request ''t'')))
      (\<lambda>actor. bindO (map_error (pin_error (me_uuid ?M)) (on_bridge (pin_profile (me_call ?M) ''q''))) (\<lambda>u.
       bindO (served (record_audit sample_ext actor ''profiles.pin'' (Some ''q'') [] (rq_correlation (sample_request ''t''))))
         (\<lambda>u. served (retS ''q'')))) sample_api
     = Some (Inr ''q'', ap_db_update (\<lambda>d. d\<lparr>db_pending := db_pending d @ [row]\<rparr>) (?s1\<lparr>ap_bridge := b'\<rparr>))"
    using sample_guard [of "me_pw ?M" "me_uuid ?M"]
    by (simp add: bindO_def record_audit_def modS_def sample_mutation_env_def)
  then have "pin_profile_route sample_ext ?M (sample_request ''t'') ''q'' sample_api
     = Some (Inr ''q'', ap_db_update commit (ap_db_update (\<lambda>d. d\<lparr>db_pending := db_pending d @ [row]\<rparr>) (?s1\<lparr>ap_bridge := b'\<rparr>)))"
    unfolding pin_profile_route_def with_actor_def db_session_def sample_api_fields by simp
  then have "serve_mutation sample_ext ?M (sample_request ''t'') (Pin_request ''q'') sample_api
     = Some (Inr (), ap_db_update commit (ap_db_update (\<lambda>d. d\<lparr>db_pending := db_pending d @ [row]\<rparr>) (?s1\<lparr>ap_bridge := b'\<rparr>)))"
    unfolding serve_mutation.simps discard_Some by (intro exI conjI) auto
  with p show ?thesis by (intro exI conjI) auto
qed

theorem mutations_authorised_audited_witness:
  "\<exists>t. serve_mutation sample_ext sample_mutation_env (sample_request ''t'') (Pin_request ''q'') sample_api = Some (Inr (), t)
     \<and> authorised sample_mutation_env (sample_request ''t'') sample_api \<and> length (db_audit (ap_db t)) = 1
     \<and> s_pinned (b_state (ap_bridge t)) = Some ''q''"
proof -
  obtain t where run: "serve_mutation sample_ext sample_mutation_env (sample_request ''t'') (Pin_request ''q'') sample_api
     = Some (Inr (), t)" and p: "s_pinned (b_state (ap_bridge t)) = Some ''q''"
    using sample_pin_served by blast
  from mutations_authorised_audited [OF run] run p show ?thesis by (auto simp: sample_api_fields)
qed

section \<open>Artifacts stay under the roots\<close>

lemma py_strip_set: "set (py_strip s) \<subseteq> set s"
  by (auto simp: py_strip_def dest!: set_dropWhileD)

lemma char_code_inject: "code (c :: char) = code d \<longleftrightarrow> c = d"
  by (metis of_char_eq_iff)

lemma is_alnum_printable: "is_alnum c \<or> c \<in> set ''-_. '' \<Longrightarrow> 32 \<le> code c \<and> code c \<noteq> 34"
  by (auto simp: is_alnum_def is_digit_def)

lemma get_artifact_file:
  assumes "get_artifact pw uuid run_id artifact_id s = (Inr f, t)"
  obtains row where "row \<in> set (db_artifacts (ap_db s))" "artifact_file pw uuid (ap_settings s) (ap_world s) row = Inr (fl_path f)"
    "ar_run_id row = run_id" "ar_artifact_id row = artifact_id" "t = s"
    "fl_headers f = [(''Content-Disposition'', content_disposition_attachment (path_name (fl_path f))),
       (''X-Content-Type-Options'', ''nosniff'')]"
proof -
  note both = assms [unfolded get_artifact_def prod.inject]
  from both have ts: "t = s" by (rule conjE) (rule sym)
  from both [THEN conjunct1] obtain row p where row: "find (\<lambda>r. ar_run_id r = run_id \<and> ar_artifact_id r = artifact_id) (db_artifacts (ap_db s)) = Some row"
    and p: "artifact_file pw uuid (ap_settings s) (ap_world s) row = Inr p"
    and f: "f = \<lparr>fl_path = p, fl_media = or_else (ar_content_type row) ''application/octet-stream'',
           fl_headers = [(''Content-Disposition'', content_disposition_attachment (path_name p)),
             (''X-Content-Type-Options'', ''nosniff'')]\<rparr>"
    unfolding bindR_eq_Inr by (elim exE conjE) (simp split: option.splits add: bindR_eq_Inr, blast)
  have "row \<in> set (db_artifacts (ap_db s))" "ar_run_id row = run_id" "ar_artifact_id row = artifact_id"
    using row by (auto simp: find_Some_iff)
  with that p f ts show thesis by simp
qed

lemma artifact_file_confined:
  assumes "artifact_file pw uuid S w row = Inr p"
  shows "is_file w p \<and> real w p = Some (p_parts p) \<and>
    (\<exists>roots. resolved_artifact_roots pw S w = Inr roots \<and> (\<exists>r\<in>set roots. \<exists>rr. real w r = Some rr \<and> prefix rr (p_parts p)))"
proof -
  from assms obtain roots where "resolved_artifact_roots pw S w = Inr roots" "is_file w p"
      and e: "ensure_within_roots pw uuid w (path_of (ar_path row)) roots True = Inr p"
    unfolding artifact_file_def bindR_eq_Inr guardR_eq_Inr by (elim exE conjE) simp
  with ensure_within_roots_Inr [OF e] show ?thesis by blast
qed

text \<open>C10. An artifact is served from a regular file whose real path, with every symbolic link on it
  resolved, lies under the real path of a configured artifact root, whatever path the index row holds;
  and the name in the \<open>Content-Disposition\<close> header contains no quote and no control character.\<close>

theorem artifact_confined:
  assumes "get_artifact pw uuid run_id artifact_id s = (Inr f, t)"
  shows "t = s \<and> is_file (ap_world s) (fl_path f) \<and> real (ap_world s) (fl_path f) = Some (p_parts (fl_path f))
    \<and> (\<exists>roots. resolved_artifact_roots pw (ap_settings s) (ap_world s) = Inr roots \<and>
        (\<exists>r\<in>set roots. \<exists>rr. real (ap_world s) r = Some rr \<and> prefix rr (p_parts (fl_path f))))
    \<and> (\<exists>n. map_of (fl_headers f) ''Content-Disposition'' = Some (''attachment; filename='' @ [CHR 0x22] @ n @ [CHR 0x22])
        \<and> (\<forall>c\<in>set n. 32 \<le> code c \<and> code c \<noteq> 34))"
proof -
  from assms obtain row where row: "artifact_file pw uuid (ap_settings s) (ap_world s) row = Inr (fl_path f)" "t = s"
    and h: "fl_headers f = [(''Content-Disposition'', content_disposition_attachment (path_name (fl_path f))),
       (''X-Content-Type-Options'', ''nosniff'')]"
    by (rule get_artifact_file)
  have "\<forall>c\<in>set (py_strip (filter (\<lambda>c. is_alnum c \<or> c \<in> set ''-_. '') m)). 32 \<le> code c \<and> code c \<noteq> 34" for m
  proof
    fix c assume "c \<in> set (py_strip (filter (\<lambda>c. is_alnum c \<or> c \<in> set ''-_. '') m))"
    then have "c \<in> set (filter (\<lambda>c. is_alnum c \<or> c \<in> set ''-_. '') m)" using py_strip_set by (rule rev_subsetD)
    then have "is_alnum c \<or> c \<in> set ''-_. ''" unfolding set_filter mem_Collect_eq by (rule conjunct2)
    then show "32 \<le> code c \<and> code c \<noteq> 34" by (rule is_alnum_printable)
  qed
  moreover have "\<forall>c\<in>set ''artifact.bin''. 32 \<le> code c \<and> code c \<noteq> 34" by code_simp
  ultimately have "\<exists>n. content_disposition_attachment m = ''attachment; filename='' @ [CHR 0x22] @ n @ [CHR 0x22]
      \<and> (\<forall>c\<in>set n. 32 \<le> code c \<and> code c \<noteq> 34)" for m
    unfolding content_disposition_attachment_def Let_def by (cases "py_strip (filter (\<lambda>c. is_alnum c \<or> c \<in> set ''-_. '') m) = []")
      (simp_all only: if_True if_False simp_thms, blast+)
  then have "\<exists>n. map_of (fl_headers f) ''Content-Disposition'' = Some (''attachment; filename='' @ [CHR 0x22] @ n @ [CHR 0x22])
        \<and> (\<forall>c\<in>set n. 32 \<le> code c \<and> code c \<noteq> 34)"
    unfolding h map_of.simps fst_conv snd_conv fun_upd_same by (simp only: option.inject)
  with artifact_file_confined [OF row(1)] row(2) show ?thesis by blast
qed

theorem artifact_confined_witness:
  "\<exists>f. get_artifact (\<lambda>u. None) ''u'' ''x'' ''m'' sample_api = (Inr f, sample_api) \<and> fl_path f = abs_path [''r'', ''a.json'']
     \<and> real (ap_world sample_api) (fl_path f) = Some [''r'', ''a.json'']"
proof -
  have "case fst (get_artifact (\<lambda>u. None) ''u'' ''x'' ''m'' sample_api) of Inl e \<Rightarrow> False
      | Inr f \<Rightarrow> fl_path f = abs_path [''r'', ''a.json'']" by code_simp
  then obtain f where f: "fst (get_artifact (\<lambda>u. None) ''u'' ''x'' ''m'' sample_api) = Inr f"
      and p: "fl_path f = abs_path [''r'', ''a.json'']"
    by (auto split: sum.splits)
  have "get_artifact (\<lambda>u. None) ''u'' ''x'' ''m'' sample_api = (Inr f, snd (get_artifact (\<lambda>u. None) ''u'' ''x'' ''m'' sample_api))"
    using f by (metis prod.collapse)
  from artifact_confined [OF this] this p show ?thesis by auto
qed

section \<open>Response headers\<close>

lemma has_header_set: "has_header (set_header k v hs) j \<longleftrightarrow> py_lower k = py_lower j \<or> has_header hs j"
  by (auto simp: has_header_def set_header_def list_ex_iff)

lemma has_header_default: "has_header hs j \<Longrightarrow> has_header (fold header_default kvs hs) j"
  by (induction kvs arbitrary: hs) (auto simp: header_default_def has_header_def)

lemma has_header_fold: "(k, v) \<in> set kvs \<Longrightarrow> has_header (fold header_default kvs hs) k"
proof (induction kvs arbitrary: hs)
  case (Cons kv kvs)
  have "has_header (header_default kv hs) (fst kv)" by (cases kv) (simp add: header_default_def has_header_def)
  with Cons show ?case by (cases "(k, v) = kv") (auto simp: has_header_default)
qed simp

lemma header_step:
  fixes r :: response
  assumes "bindS m (\<lambda>q. retS (q\<lparr>rs_headers := g (rs_headers q)\<rparr>)) s = (Inr r, t)"
  shows "\<exists>q :: response. rs_headers r = g (rs_headers q)"
proof -
  from assms obtain q :: response where "r = q\<lparr>rs_headers := g (rs_headers q)\<rparr>" by (auto simp: bindS_eq_Inr)
  then have "rs_headers r = g (rs_headers q)" by simp
  then show ?thesis by (rule exI)
qed

lemma security_headers_run:
  assumes "security_headers uuid routes rq s = (Inr r, t)"
  shows "\<exists>q :: response. rs_headers r = set_header ''X-Correlation-ID''
     (or_else (header_of rq ''x-correlation-id'') uuid) (fold header_default SECURITY_HEADERS (rs_headers q))"
  by (rule header_step [where g = "\<lambda>h. set_header ''X-Correlation-ID'' (or_else (header_of rq ''x-correlation-id'') uuid)
    (fold header_default SECURITY_HEADERS h)", OF assms [unfolded security_headers_def Let_def]])



end
