(* ===== verification/Host_Probe.thy ===== *)
theory Host_Probe
  imports Doc_Store
begin

text \<open>
  What a run records about its surroundings: \<open>orchestration/environment.py\<close> (the host fingerprint and
  the environment status), \<open>models/inspect.py\<close> (the inspection report of an ONNX model) and
  \<open>runs/storage.py\<close> (the index of runs). The platform module, the processes run, ONNX Runtime and
  the onnx package are parameters; \<open>/proc\<close>, \<open>/sys\<close> and \<open>/etc\<close> are files of the world.
\<close>

section \<open>Lines and listings\<close>

text \<open>\<open>str.splitlines\<close>; the flag says that the last character was a carriage return.\<close>

definition is_line_break :: "char \<Rightarrow> bool" where
  "is_line_break c \<longleftrightarrow> code c \<in> set [10, 11, 12, 13, 28, 29, 30, 133]"

fun lines_acc :: "string \<Rightarrow> string \<Rightarrow> bool \<Rightarrow> string list" where
  "lines_acc [] w cr = (if w = [] then [] else [rev w])"
| "lines_acc (c # cs) w cr = (if cr \<and> code c = 10 then lines_acc cs [] False
     else if is_line_break c then rev w # lines_acc cs [] (code c = 13) else lines_acc cs (c # w) False)"

definition splitlines :: "string \<Rightarrow> string list" where
  "splitlines s = lines_acc s [] False"

text \<open>\<open>sorted(dir.glob("*" + ending))\<close>, as names; hidden files match too.\<close>

definition glob_names :: "world \<Rightarrow> ppath \<Rightarrow> string \<Rightarrow> string list" where
  "glob_names w d ending = sort_by (\<lambda>n. n) (filter (suffix ending) (entry_names w d))"

text \<open>\<open>sort(key, reverse=True)\<close>, which is stable.\<close>

definition sort_descending :: "('a \<Rightarrow> string) \<Rightarrow> 'a list \<Rightarrow> 'a list" where
  "sort_descending k xs = rev (sort_by k (rev xs))"

section \<open>environment.py\<close>

record probe =
  h_machine :: string
  h_system :: string
  h_release :: string
  h_version :: string
  h_processor :: string
  h_cpus :: "int option"
  h_ort_version :: "pyval option"
  h_ort_providers :: "string list option"
  h_git :: "ppath \<Rightarrow> (string \<times> int) option"

text \<open>\<open>h_ort_version\<close> is \<open>None\<close> when ONNX Runtime cannot be imported, \<open>h_ort_providers\<close> when its call
  raises, \<open>h_git\<close> when the process cannot be started.\<close>

definition unavailable_item :: "string \<Rightarrow> reason_code \<Rightarrow> pyval" where
  "unavailable_item field r = PDict [(''field'', PStr field), (''reason_code'', reason_val r), (''message'', reason_val r)]"

definition os_release_line :: "string \<Rightarrow> pydict \<Rightarrow> pydict" where
  "os_release_line line d = (case partition_on (CHR ''='') line of (key, sep, v) \<Rightarrow>
     if sep = [] then d else dset (py_lower key) (PStr (strip_chars [CHR 0x22] (py_strip v))) d)"

definition probe_distro :: "probe \<Rightarrow> pydict io" where
  "probe_distro H = (let d = [(''name'', PStr (h_system H)), (''release'', PStr (h_release H)),
       (''version'', PStr (h_version H))]; p = abs_path [''etc'', ''os-release''] in
     bindS (getS (\<lambda>w. is_file w p)) (\<lambda>there.
     if there then bindS (read_text p) (\<lambda>t. retS (fold os_release_line (splitlines t) d)) else retS d))"

definition second_int :: "string \<Rightarrow> exc + pyval" where
  "second_int line = (if length (py_words line) < 2 then Inl (py_err IndexError)
     else (case parse_int (py_words line ! 1) of None \<Rightarrow> Inl (py_err ValueError) | Some n \<Rightarrow> Inr (PInt n)))"

definition meminfo_line :: "string \<Rightarrow> pydict \<Rightarrow> exc + pydict" where
  "meminfo_line line m0 =
     bindR (if prefix ''MemAvailable:'' line then bindR (second_int line) (\<lambda>n. Inr (dset ''available_kb'' n m0)) else Inr m0)
       (\<lambda>m. if prefix ''MemTotal:'' line then bindR (second_int line) (\<lambda>n. Inr (dset ''total_kb'' n m)) else Inr m)"

definition no_memory :: "pydict \<times> pyval list" where
  "no_memory = ([(''available_kb'', PNone), (''total_kb'', PNone), (''unavailable_reason'', reason_val UNAVAILABLE_DATA)],
     [unavailable_item ''memory'' UNAVAILABLE_DATA])"

definition probe_memory :: "(pydict \<times> pyval list) io" where
  "probe_memory = (let p = abs_path [''proc'', ''meminfo''] in
     catchS (bindS (getS (\<lambda>w. is_file w p)) (\<lambda>there.
       if there then bindS (read_text p) (\<lambda>t. bindS (liftS (foldR meminfo_line (splitlines t) [])) (\<lambda>m. retS (m, [])))
       else retS no_memory))
     (\<lambda>e. if is_os_error e then retS no_memory else raiseS e))"

definition no_thermal :: "pydict \<times> pyval list" where
  "no_thermal = ([(''primary_celsius'', PNone), (''unavailable_reason'', reason_val UNAVAILABLE_THERMAL)],
     [unavailable_item ''thermal'' UNAVAILABLE_THERMAL])"

definition read_int_file :: "ppath \<Rightarrow> int io" where
  "read_int_file p = bindS (read_text p) (\<lambda>t. liftS (case parse_int (py_strip t) of
     None \<Rightarrow> Inl (py_err ValueError) | Some n \<Rightarrow> Inr n))"

definition probe_thermal :: "(pydict \<times> pyval list) io" where
  "probe_thermal = (let p = abs_path [''sys'', ''class'', ''thermal'', ''thermal_zone0'', ''temp''] in
     bindS (getS (\<lambda>w. is_file w p)) (\<lambda>there.
     if there then catchS (bindS (read_int_file p) (\<lambda>milli. bindS (liftS (py_float (PInt milli))) (\<lambda>f.
         retS ([(''primary_celsius'', PFloat (fl_div f (Fin 1000))), (''source'', PStr (path_str p))], []))))
       (\<lambda>e. if is_os_error e \<or> is_value_error e then retS no_thermal else raiseS e)
     else retS no_thermal))"

definition throttle_path :: "string \<Rightarrow> ppath" where
  "throttle_path n = abs_path [''sys'', ''devices'', ''system'', ''cpu'', ''cpu0'', ''thermal_throttle'', n]"

definition throttle_count :: "ppath \<Rightarrow> int list \<Rightarrow> int list io" where
  "throttle_count p counts = bindS (getS (\<lambda>w. is_file w p)) (\<lambda>there.
     if there then catchS (bindS (read_int_file p) (\<lambda>n. retS (counts @ [n])))
       (\<lambda>e. if is_os_error e \<or> is_value_error e then retS counts else raiseS e)
     else retS counts)"

definition probe_throttling :: "(pydict \<times> pyval list) io" where
  "probe_throttling = bindS (foldS throttle_count
     [throttle_path ''core_throttle_count'', throttle_path ''package_throttle_count''] []) (\<lambda>counts.
     retS (if counts \<noteq> [] then ([(''active'', PBool (list_ex (\<lambda>c. 0 < c) counts)), (''counts'', PList (map PInt counts)),
         (''source'', PStr ''sysfs_thermal_throttle'')], [])
       else ([(''active'', PNone), (''unavailable_reason'', reason_val UNAVAILABLE_PERF)],
         [unavailable_item ''throttling'' UNAVAILABLE_PERF])))"

definition probe_ort :: "probe \<Rightarrow> pydict \<times> pyval list" where
  "probe_ort H = (let no = [(''unavailable_reason'', reason_val UNAVAILABLE_DEPENDENCY)];
      item = [unavailable_item ''onnxruntime'' UNAVAILABLE_DEPENDENCY] in
     case h_ort_version H of
       None \<Rightarrow> ([(''version'', PNone), (''providers'', PList [])] @ no, item)
     | Some v \<Rightarrow> (case h_ort_providers H of
         None \<Rightarrow> ([(''version'', v), (''providers'', PList [])] @ no, item)
       | Some ps \<Rightarrow> ([(''version'', v), (''providers'', PList (map PStr ps))], [])))"

definition probe_git :: "probe \<Rightarrow> ppath \<Rightarrow> string \<times> pyval list" where
  "probe_git H cwd = (case h_git H cwd of
     Some (out, rc) \<Rightarrow> if rc = 0 then (if py_strip out \<noteq> [] then py_strip out else ''unknown'', [])
       else (''unknown'', [unavailable_item ''git_commit'' UNAVAILABLE_DATA])
   | None \<Rightarrow> (''unknown'', [unavailable_item ''git_commit'' UNAVAILABLE_DATA]))"

definition probe_cpu :: "probe \<Rightarrow> pydict \<times> pyval list" where
  "probe_cpu H = ([(''model'', if h_processor H \<noteq> [] then PStr (h_processor H) else PNone),
       (''logical_cores'', opt_val PInt (h_cpus H))],
     if h_processor H \<noteq> [] then [] else [unavailable_item ''cpu.model'' UNAVAILABLE_DATA])"

definition environment_status :: "bool \<Rightarrow> bool \<Rightarrow> string" where
  "environment_status ok require_valid = (if ok then ''valid''
     else if \<not> require_valid then ''valid_with_warnings'' else ''invalid'')"

definition performance_env :: "world \<Rightarrow> pydict" where
  "performance_env w = concat (map (\<lambda>k. case getenv w k of None \<Rightarrow> [] | Some v \<Rightarrow> [(k, PStr v)])
     [''OMP_NUM_THREADS'', ''ORT_NUM_THREADS'', ''PERCEPTSHIFT_ORT_INTRA_OP_THREADS''])"

definition host_fingerprint ::
    "ext \<Rightarrow> probe \<Rightarrow> pydict \<Rightarrow> pydict \<Rightarrow> pydict \<Rightarrow> pydict \<Rightarrow> pydict \<Rightarrow> string \<Rightarrow> pyval list \<Rightarrow> pydict io" where
  "host_fingerprint X H distro memory thermal throttling ort commit unavailable =
     bindS (envelope_fields X ''perceptshift.host_fingerprint'') (\<lambda>env.
     bindS (getS (\<lambda>w. path_exists w (abs_path [''.dockerenv'']))) (\<lambda>docker.
     bindS (get_version X) (\<lambda>v. bindS (producer_metadata X) (\<lambda>producer. bindS (utc_now_rfc3339 X) (\<lambda>now.
     retS (dupdate env
       [(''architecture'', PStr (h_machine H)), (''os'', PDict distro), (''hostname_hash'', PNone),
        (''machine_id_hash'', PNone), (''container'', PDict [(''in_container'', PBool docker)]),
        (''cpu'', PDict (fst (probe_cpu H))), (''memory'', PDict memory),
        (''frequency'', PDict [(''unavailable_reason'', reason_val UNAVAILABLE_PERF)]),
        (''thermal'', PDict thermal), (''throttling'', PDict throttling), (''onnxruntime'', PDict ort),
        (''ros'', PNone), (''build'', PDict [(''product_version'', PStr v), (''git_commit'', PStr commit)]),
        (''unavailable'', PList unavailable), (''producer'', PDict producer), (''created_at'', PStr now)]))))))"

definition capture_environment :: "ext \<Rightarrow> probe \<Rightarrow> ppath \<Rightarrow> bool \<Rightarrow> pydict io" where
  "capture_environment X H workspace require_valid = (let env_dir = path_div workspace ''environment'' in
     bindS (mkdirs True env_dir) (\<lambda>u.
     bindS (probe_distro H) (\<lambda>distro.
     bindS probe_memory (\<lambda>(memory, no_mem).
     bindS probe_thermal (\<lambda>(thermal, no_therm).
     bindS probe_throttling (\<lambda>(throttling, no_throttle).
     let (ort, no_ort) = probe_ort H; (commit, no_git) = probe_git H workspace;
       unavailable = snd (probe_cpu H) @ no_mem @ no_therm @ no_throttle @ no_ort @ no_git;
       providers = dget ort ''providers''; ok = (h_machine H \<noteq> [] \<and> truthy providers) in
     bindS (host_fingerprint X H distro memory thermal throttling ort commit unavailable) (\<lambda>fingerprint.
     bindS (write_atomic_json X (path_div env_dir ''host-fingerprint.json'') (PDict fingerprint)) (\<lambda>u.
     bindS (utc_now_rfc3339 X) (\<lambda>now. bindS (get_version X) (\<lambda>v. bindS (getS performance_env) (\<lambda>perf.
     let doc = [(''schema_version'', PStr ''1.0''), (''document_type'', PStr ''perceptshift.environment_status''),
        (''status'', PStr (environment_status ok require_valid)), (''require_valid_environment'', PBool require_valid),
        (''timestamp'', PStr now), (''product_version'', PStr v), (''architecture'', PStr (h_machine H)),
        (''onnxruntime_providers'', py_or providers (PList [])),
        (''valid_for_certification_policy'', PBool (ok \<or> \<not> require_valid)),
        (''unavailable'', PList unavailable), (''active_performance_env'', PDict perf)] in
     bindS (write_atomic_json X (path_div env_dir ''status.json'') (PDict doc)) (\<lambda>u. retS doc))))))))))))"

section \<open>inspect.py\<close>

datatype dim = Dim_value int | Dim_param string | Dim_unset

record tensor_value =
  tv_name :: string
  tv_elem :: int
  tv_dims :: "dim list"

record initializer =
  in_name :: string
  in_dims :: "int list"
  in_type :: int
  in_bytes :: "exc + int"

text \<open>A model as the onnx package loads it, its graph after shape inference.\<close>

record onnx_model =
  om_ir :: int
  om_opsets :: "(string \<times> int) list"
  om_producer :: string
  om_producer_version :: string
  om_inputs :: "tensor_value list"
  om_outputs :: "tensor_value list"
  om_initializers :: "initializer list"
  om_ops :: "string list"

text \<open>\<open>ox_inspect\<close> loads, checks and infers shapes, or raises; \<open>None\<close> when the package is missing.\<close>

record onnx_package =
  ox_inspect :: "(string \<Rightarrow> exc + onnx_model) option"

fun dim_val :: "dim \<Rightarrow> pyval" where
  "dim_val (Dim_value n) = PInt n"
| "dim_val (Dim_param s) = PStr s"
| "dim_val Dim_unset = PNone"

definition tensor_info :: "tensor_value \<Rightarrow> pyval" where
  "tensor_info v = PDict [(''name'', PStr (tv_name v)), (''elem_type'', PInt (tv_elem v)),
     (''shape'', PList (map dim_val (tv_dims v)))]"

definition initializer_names :: "onnx_model \<Rightarrow> string list" where
  "initializer_names m = map in_name (om_initializers m)"

record inspection =
  mi_path :: ppath
  mi_sha :: string
  mi_report :: pydict

definition inspected :: "exc + onnx_model \<Rightarrow> exc + onnx_model" where
  "inspected r = (case r of Inr m \<Rightarrow> Inr m | Inl e \<Rightarrow> Inl (ps_error MODEL_INVALID
     (''ONNX model validation failed: '' @ exc_str e)
     (Some ''Fix the model with onnx.checker / shape inference errors'') [] (Some e)))"

definition inspect_onnx_model :: "ext \<Rightarrow> onnx_package \<Rightarrow> ppath \<Rightarrow> inspection io" where
  "inspect_onnx_model X K p =
     bindS (getS (\<lambda>w. is_file w p)) (\<lambda>there.
     bindS (guardS there (ps_err MODEL_INVALID (''Model file not found: '' @ path_str p))) (\<lambda>u.
     case ox_inspect K of
       None \<Rightarrow> raiseS (ps_error DEPENDENCY_UNAVAILABLE ''onnx package is required for model inspection''
         (Some ''Install onnx via the workspace dependencies'')
         [(''reason_code'', reason_val UNAVAILABLE_DEPENDENCY)] (Some (py_err ImportError)))
     | Some load \<Rightarrow>
       bindS (\<lambda>w. case read_bytes p w of (r, w') \<Rightarrow> (inspected (bindR r load), w')) (\<lambda>m.
       bindS (liftS (mapR in_bytes (om_initializers m))) (\<lambda>sizes.
       bindS (envelope_fields X ''perceptshift.model_inspection'') (\<lambda>env.
       bindS (\<lambda>w. (resolve w p, w)) (\<lambda>rp. bindS (sha256_file X p) (\<lambda>h.
       retS \<lparr>mi_path = p, mi_sha = h, mi_report = dupdate env
         [(''path'', PStr (path_str rp)), (''sha256'', PStr h), (''ir_version'', PInt (om_ir m)),
          (''opset_imports'', PList (map (\<lambda>(d, v). PDict [(''domain'', PStr d), (''version'', PInt v)]) (om_opsets m))),
          (''producer_name'', if om_producer m \<noteq> [] then PStr (om_producer m) else PNone),
          (''producer_version'', if om_producer_version m \<noteq> [] then PStr (om_producer_version m) else PNone),
          (''inputs'', PList (map tensor_info (filter (\<lambda>v. tv_name v \<notin> set (initializer_names m)) (om_inputs m)))),
          (''outputs'', PList (map tensor_info (om_outputs m))),
          (''initializer_count'', PInt (int (length (om_initializers m)))),
          (''node_count'', PInt (int (length (om_ops m)))),
          (''node_ops'', PList (map PStr (sort_by (\<lambda>s. s) (remdups (om_ops m)))))]\<rparr>)))))))"

section \<open>storage.py\<close>

definition index_path :: "ppath io" where
  "index_path = bindS (getS runs_index_dir) (\<lambda>d. bindS (ensure_dir d) (\<lambda>d. retS (path_div d ''index.json'')))"

definition load_index :: "ext \<Rightarrow> pyval io" where
  "load_index X = bindS index_path (\<lambda>p. bindS (getS (\<lambda>w. is_file w p)) (\<lambda>there.
     if there then read_json X p else retS (PDict [(''runs'', PList []), (''updated_at'', PNone)])))"

text \<open>\<open>index.get("runs", [])\<close>.\<close>

definition index_runs :: "ext \<Rightarrow> pyval list io" where
  "index_runs X = bindS (load_index X) (\<lambda>v. bindS (liftS (as_dict v)) (\<lambda>index.
     liftS (py_iter (dget_or index ''runs'' (PList [])))))"

definition index_run :: "ext \<Rightarrow> ppath \<Rightarrow> pydict \<Rightarrow> unit io" where
  "index_run X run_root run_doc =
     bindS (index_runs X) (\<lambda>old.
     bindS (liftS (mapR as_dict old)) (\<lambda>rows.
     bindS (\<lambda>w. (resolve w run_root, w)) (\<lambda>rp. bindS (utc_now_rfc3339 X) (\<lambda>now.
     let others = filter (\<lambda>r. \<not> py_eq (dget r ''run_id'') (dget run_doc ''run_id'')) rows;
       row = [(''run_id'', dget run_doc ''run_id''), (''root'', PStr (path_str rp)),
         (''status'', dget run_doc ''status''), (''config_hash'', dget run_doc ''config_hash''),
         (''product_version'', dget run_doc ''product_version''), (''indexed_at'', PStr now)];
       sorted_rows = sort_descending (\<lambda>r. py_str (dget_or r ''run_id'' (PStr []))) (others @ [row]) in
     bindS index_path (\<lambda>p. bindS (utc_now_rfc3339 X) (\<lambda>now2.
     write_atomic_json X p (PDict [(''runs'', PList (map PDict sorted_rows)), (''updated_at'', PStr now2)])))))))"

definition stored_runs :: "ext \<Rightarrow> pyval list io" where
  "stored_runs X = index_runs X"

end
