(* ===== verification/Native_Tools.thy ===== *)
theory Native_Tools
  imports Bundle Host_Probe
begin

text \<open>
  The native binaries a run starts: \<open>find\_native\_binary\<close> and \<open>launch\_bench\_worker\<close> of
  \<open>orchestration/__init__.py\<close>. Running a program is a parameter: it takes the command line, the
  working directory and the environment given to it, may change the world, and ends with a code and
  its output, by the time limit, or not at all when it cannot be started.
\<close>

record launch =
  la_argv :: "string list"
  la_cwd :: ppath
  la_env :: "(string \<times> string) list"
  la_timeout :: "pyfloat option"

datatype run_end = Not_started exc | Timed_out_after string string | Exited int string string pyfloat

text \<open>\<open>Exited\<close> has the return code, the output, the error output and the seconds it took.\<close>

record programs =
  pt_run :: "launch \<Rightarrow> world \<Rightarrow> run_end \<times> world"
  pt_executable :: "world \<Rightarrow> ppath \<Rightarrow> bool"
  pt_which :: "string \<Rightarrow> string option"
  pt_decode :: "string \<Rightarrow> string"
  pt_here :: ppath

section \<open>Finding a binary\<close>

definition add_unseen :: "ppath \<Rightarrow> ppath list \<Rightarrow> ppath list" where
  "add_unseen p ps = (if p \<in> set ps then ps else ps @ [p])"

definition native_binary_roots :: "programs \<Rightarrow> world \<Rightarrow> exc + ppath list" where
  "native_binary_roots T w = bindR (resolve w (pt_here T)) (\<lambda>here.
     let env = concat (map (\<lambda>k. case getenv w k of None \<Rightarrow> [] | Some v \<Rightarrow> if v \<noteq> [] then [path_of v] else [])
         [''PERCEPTSHIFT_ROOT'', ''GITHUB_WORKSPACE'']);
       up = (if 5 < length (path_parents here) then [path_parents here ! 5] else []) in
     bindR (mapR (resolve w) (env @ [abs_path (w_cwd w)] @ up)) (\<lambda>rs. Inr (fold add_unseen rs [])))"

definition native_build_dirs :: "string list list" where
  "native_build_dirs = [[''build'', ''default'', ''cpp''], [''build'', ''dev-arm64'', ''cpp''],
     [''build'', ''release-arm64'', ''cpp''], [''build'', ''dev-x64'', ''cpp''], [''build'', ''release-x64'', ''cpp''],
     [''build'', ''release'', ''cpp''], [''build-clang'', ''cpp''], [''build'', ''cpp''], [''build'', ''apps''],
     [''cpp'', ''build'', ''apps'']]"

definition build_matches :: "world \<Rightarrow> string \<Rightarrow> ppath \<Rightarrow> ppath list" where
  "build_matches w name r = (let d = path_div r ''build'' in
     map (\<lambda>q. path_join d (rel_path q)) (filter (\<lambda>q. last q = name) (sort_by (join_with [CHR 0x00]) (rglob w d))))"

definition runnable :: "programs \<Rightarrow> world \<Rightarrow> ppath \<Rightarrow> bool" where
  "runnable T w p \<longleftrightarrow> is_file w p \<and> pt_executable T w p"

definition find_native_binary :: "programs \<Rightarrow> string \<Rightarrow> world \<Rightarrow> exc + ppath option" where
  "find_native_binary T name w = bindR (native_binary_roots T w) (\<lambda>roots.
     let built = concat (map (\<lambda>r. map (\<lambda>d. path_join r (rel_path (d @ [name]))) native_build_dirs) roots);
       onpath = (case pt_which T name of None \<Rightarrow> [] | Some s \<Rightarrow> if s \<noteq> [] then [path_of s] else []) in
     Inr (find (runnable T w) (built @ onpath @ concat (map (build_matches w name) roots))))"

section \<open>The environment of a worker\<close>

definition env_or :: "world \<Rightarrow> string \<Rightarrow> string \<Rightarrow> string" where
  "env_or w k d = (case getenv w k of None \<Rightarrow> d | Some v \<Rightarrow> v)"

definition passed_variables :: "string list" where
  "passed_variables = [''LD_LIBRARY_PATH'', ''DYLD_LIBRARY_PATH'', ''PERCEPTSHIFT_ORT_ROOT'', ''ORT_PREFIX'',
     ''PERCEPTSHIFT_ROOT'', ''TMPDIR'', ''TMP'', ''TEMP'']"

definition base_env :: "world \<Rightarrow> (string \<times> string) list" where
  "base_env w = [(''PATH'', env_or w ''PATH'' []), (''HOME'', env_or w ''HOME'' []),
     (''LANG'', env_or w ''LANG'' ''C.UTF-8''), (''LC_ALL'', env_or w ''LC_ALL'' (env_or w ''LANG'' ''C.UTF-8'')),
     (''PERCEPTSHIFT_GIT_COMMIT'', env_or w ''PERCEPTSHIFT_GIT_COMMIT'' [])] @
     concat (map (\<lambda>k. case getenv w k of None \<Rightarrow> [] | Some v \<Rightarrow> if v \<noteq> [] then [(k, v)] else []) passed_variables)"

definition truthy_var :: "(string \<times> string) list \<Rightarrow> string \<Rightarrow> string option" where
  "truthy_var env k = (case map_of env k of None \<Rightarrow> None | Some v \<Rightarrow> if v \<noteq> [] then Some v else None)"

definition add_ort_lib :: "(string \<times> string) list \<Rightarrow> (string \<times> string) list" where
  "add_ort_lib env = (case (case truthy_var env ''PERCEPTSHIFT_ORT_ROOT'' of Some r \<Rightarrow> Some r
       | None \<Rightarrow> truthy_var env ''ORT_PREFIX'') of
     None \<Rightarrow> env
   | Some r \<Rightarrow> let lib = path_str (path_div (path_of r) ''lib'');
       parts = filter (\<lambda>p. p \<noteq> []) (split_on (CHR '':'') (case map_of env ''LD_LIBRARY_PATH'' of None \<Rightarrow> [] | Some v \<Rightarrow> v)) in
     if lib \<in> set parts then env else AList.update ''LD_LIBRARY_PATH'' (join_with '':'' (lib # parts)) env)"

definition worker_env :: "world \<Rightarrow> (string \<times> string) list \<Rightarrow> (string \<times> string) list" where
  "worker_env w extra = fold (\<lambda>(k, v). AList.update k v) extra (add_ort_lib (base_env w))"

section \<open>Launching the bench worker\<close>

text \<open>The scan for the reported peak ends at the first line that is not JSON or whose value is no number.\<close>

fun scan_peak :: "ext \<Rightarrow> string list \<Rightarrow> (pyfloat \<times> string) option \<Rightarrow> exc + (pyfloat \<times> string) option" where
  "scan_peak X [] found = Inr found"
| "scan_peak X (line # ls) found = (if py_strip line = [] then scan_peak X ls found
     else (case json_loads X line of Inl e \<Rightarrow> Inr found
     | Inr row \<Rightarrow> let d = the_dict row in
         if is_dict row \<and> dget d ''document_type'' = PStr ''perceptshift.bench_worker_summary'' \<and> dget d ''peak_rss_mb'' \<noteq> PNone
         then (case py_float (dget d ''peak_rss_mb'') of
             Inl e \<Rightarrow> if is_kind TypeError e \<or> is_value_error e then Inr found else Inl e
           | Inr f \<Rightarrow> scan_peak X ls (Some (f, py_str (py_or (dget d ''peak_rss_method'') (PStr ''worker_self_report'')))))
         else scan_peak X ls found))"

definition reported_peak :: "ext \<Rightarrow> ppath option \<Rightarrow> (pyfloat \<times> string) option io" where
  "reported_peak X stdout_path = bindS (getS (\<lambda>w. case stdout_path of None \<Rightarrow> False | Some p \<Rightarrow> is_file w p)) (\<lambda>there.
     if \<not> there then retS None
     else (\<lambda>w. case read_text (the stdout_path) w of
         (Inl e, w') \<Rightarrow> (if is_os_error e \<or> is_value_error e then Inr None else Inl e, w')
       | (Inr t, w') \<Rightarrow> (scan_peak X (splitlines t) None, w')))"

definition open_output :: "ppath option \<Rightarrow> unit io" where
  "open_output p = (case p of None \<Rightarrow> retS () | Some f \<Rightarrow> write_bytes f [])"

definition put_output :: "ppath option \<Rightarrow> string \<Rightarrow> unit io" where
  "put_output p b = (case p of None \<Rightarrow> retS () | Some f \<Rightarrow> write_bytes f b)"

definition last_chars :: "nat \<Rightarrow> string \<Rightarrow> string" where
  "last_chars n s = drop (length s - n) s"

text \<open>A failed worker: its error output, from the pipe or from the file it was sent to.\<close>

definition failed_worker :: "programs \<Rightarrow> int \<Rightarrow> pydict \<Rightarrow> ppath option \<Rightarrow> pydict io" where
  "failed_worker T rc result stderr_path = (let piped = py_str (py_or (dget result ''stderr'') (PStr [])) in
     bindS (getS (\<lambda>w. piped = [] \<and> (case stderr_path of None \<Rightarrow> False | Some p \<Rightarrow> is_file w p))) (\<lambda>from_file.
     bindS (if from_file then catchS (bindS (read_bytes (the stderr_path)) (\<lambda>b. let t = pt_decode T b in
           retS (t, dset ''stderr'' (PStr (last_chars 8000 t)) result)))
         (\<lambda>e. if is_os_error e then retS ([], result) else raiseS e)
       else retS (piped, result)) (\<lambda>(text, result).
     let snippet = last_chars 800 (join_with '' '' (py_words text)) in
     raiseS (ps_error BENCHMARK_WORKER_CRASHED (''Bench worker exited with code '' @ show_int rc @
       (if snippet \<noteq> [] then '': '' @ snippet else [])) None result None))))"

definition launch_bench_worker ::
    "ext \<Rightarrow> programs \<Rightarrow> string list \<Rightarrow> ppath \<Rightarrow> pyfloat \<Rightarrow> (string \<times> string) list \<Rightarrow> ppath option \<Rightarrow> ppath option \<Rightarrow> pydict io" where
  "launch_bench_worker X T argv cwd timeout extra_env stdout_path stderr_path =
     bindS (guardS (argv \<noteq> []) (ps_err CONFIG_INVALID ''worker_argv must be non-empty'')) (\<lambda>u.
     bindS (guardS (\<not> list_ex (\<lambda>a. CHR 0x0A \<in> set a \<or> CHR 0x00 \<in> set a) argv)
       (ps_err CONFIG_INVALID ''worker argv contains unsafe characters'')) (\<lambda>u.
     bindS (getS (\<lambda>w. worker_env w extra_env)) (\<lambda>env.
     bindS (open_output stdout_path) (\<lambda>u. bindS (open_output stderr_path) (\<lambda>u.
     bindS (\<lambda>w. case pt_run T \<lparr>la_argv = argv, la_cwd = cwd, la_env = env, la_timeout = Some timeout\<rparr> w of (r, w') \<Rightarrow> (Inr r, w')) (\<lambda>r.
     case r of
       Not_started e \<Rightarrow> raiseS e
     | Timed_out_after out err \<Rightarrow> bindS (put_output stdout_path out) (\<lambda>u. bindS (put_output stderr_path err) (\<lambda>u.
         raiseS (ps_error BENCHMARK_TIMEOUT (''Bench worker timed out after '' @ show_float timeout @ ''s'') None
           [(''argv'', PList (map PStr argv))] (Some (py_err (OtherError ''TimeoutExpired''))))))
     | Exited rc out err elapsed \<Rightarrow> bindS (put_output stdout_path out) (\<lambda>u. bindS (put_output stderr_path err) (\<lambda>u.
         bindS (reported_peak X stdout_path) (\<lambda>peak.
         let result = [(''returncode'', PInt rc), (''elapsed_seconds'', PFloat elapsed), (''argv'', PList (map PStr argv)),
             (''peak_rss_mb'', opt_val (PFloat \<circ> fst) peak),
             (''peak_rss_unavailable_reason'', if peak = None then PStr ''unavailable.sensor'' else PNone),
             (''peak_rss_method'', opt_val (PStr \<circ> snd) peak)]
           @ (if stdout_path = None then [(''stdout'', PStr (pt_decode T out))] else [])
           @ (if stderr_path = None then [(''stderr'', PStr (pt_decode T err))] else []) in
         if rc \<noteq> 0 then failed_worker T rc result stderr_path else retS result)))))))))"

end
