(* ===== verification/Quantization.thy ===== *)
theory Quantization
  imports Native_Tools Stream_Build
begin

text \<open>
  Static quantization: \<open>quantization/__init__.py\<close> (the calibration data reader and the call of ONNX
  Runtime), \<open>orchestration/quantize\_step.py\<close> (calibration tensors through the native preprocessor, the
  variants of a run) and \<open>calibration/__init__.py\<close>. The quantizer of ONNX Runtime is a parameter that
  is given what it reads from the data reader.
\<close>

section \<open>The data reader\<close>

type_synonym feed = "(string \<times> tensor) list"

record reader =
  rd_samples :: "feed list"
  rd_input :: string
  rd_index :: nat

definition new_reader :: "feed list \<Rightarrow> string \<Rightarrow> reader" where
  "new_reader samples name = \<lparr>rd_samples = samples, rd_input = name, rd_index = 0\<rparr>"

definition feed_for :: "string \<Rightarrow> feed \<Rightarrow> exc + feed" where
  "feed_for name s = (if map_of s name \<noteq> None then Inr s
     else (case s of [kv] \<Rightarrow> Inr [(name, snd kv)]
     | _ \<Rightarrow> Inl (ps_err QUANTIZATION_FAILED
         (''Calibration sample missing input '' @ [CHR 0x27] @ name @ [CHR 0x27]))))"

definition get_next :: "reader \<Rightarrow> (exc + feed option) \<times> reader" where
  "get_next r = (if length (rd_samples r) \<le> rd_index r then (Inr None, r)
     else (case feed_for (rd_input r) (rd_samples r ! rd_index r) of
         Inl e \<Rightarrow> Inl e | Inr s \<Rightarrow> Inr (Some s), r\<lparr>rd_index := Suc (rd_index r)\<rparr>))"

definition rewind :: "reader \<Rightarrow> reader" where
  "rewind r = r\<lparr>rd_index := 0\<rparr>"

text \<open>The consumer's loop: \<open>get\_next\<close> until it gives \<open>None\<close>; the counter is the number of calls.\<close>

function drain :: "reader \<Rightarrow> feed list \<Rightarrow> nat \<Rightarrow> (exc + feed list) \<times> reader \<times> nat" where
  "drain r acc calls = (case get_next r of
     (Inl e, r') \<Rightarrow> (Inl e, r', Suc calls)
   | (Inr None, r') \<Rightarrow> (Inr acc, r', Suc calls)
   | (Inr (Some s), r') \<Rightarrow> drain r' (acc @ [s]) (Suc calls))"
  by pat_completeness auto
termination
  by (relation "measure (\<lambda>(r, acc, calls). length (rd_samples r) - rd_index r)")
    (auto simp: get_next_def split: if_splits sum.splits)

declare drain.simps [simp del]

section \<open>quantization\<close>

datatype calibration_method = Minmax | Entropy | Percentile

fun method_str :: "calibration_method \<Rightarrow> string" where
  "method_str Minmax = ''minmax''"
| "method_str Entropy = ''entropy''"
| "method_str Percentile = ''percentile''"

definition method_of :: "pyval \<Rightarrow> exc + calibration_method" where
  "method_of v = (if v = PStr ''minmax'' then Inr Minmax else if v = PStr ''entropy'' then Inr Entropy
     else if v = PStr ''percentile'' then Inr Percentile else Inl (py_err ValueError))"

record quant_options =
  qo_method :: calibration_method
  qo_per_channel :: bool
  qo_exclude :: "string list"
  qo_extra :: pydict

text \<open>\<open>qz\_static\<close> quantizes the bytes of a model with what it read and writes a model or nothing;
  \<open>qz\_check\<close> is the onnx checker, \<open>None\<close> when that package is missing.\<close>

record quantizer =
  qz_available :: bool
  qz_static :: "quant_options \<Rightarrow> string \<Rightarrow> feed list \<Rightarrow> exc + string option"
  qz_check :: "(string \<Rightarrow> exc + unit) option"

record quant_result =
  qr_output :: ppath
  qr_options :: quant_options
  qr_sha :: string
  qr_count :: int
  qr_report :: pydict

definition options_dict :: "quant_options \<Rightarrow> pydict" where
  "options_dict q = [(''quant_format'', PStr ''QDQ''), (''activation_type'', PStr ''QInt8''),
     (''weight_type'', PStr ''QInt8''), (''per_channel'', PBool (qo_per_channel q)),
     (''calibrate_method'', PStr (method_str (qo_method q))), (''nodes_to_exclude'', PList (map PStr (qo_exclude q))),
     (''extra_options'', PDict (qo_extra q))]"

definition static_failure :: "quant_options \<Rightarrow> exc \<Rightarrow> exc" where
  "static_failure q e = (if is_ps e then e else ps_error QUANTIZATION_FAILED (''Static quantization failed: '' @ exc_str e)
     (Some ''Inspect model ops, calibration tensors, and ORT quantization logs'') (options_dict q) (Some e))"

definition call_quantizer :: "quantizer \<Rightarrow> quant_options \<Rightarrow> ppath \<Rightarrow> ppath \<Rightarrow> reader \<Rightarrow> unit io" where
  "call_quantizer Q q model_path output_path r = catchS
     (bindS (read_bytes model_path) (\<lambda>model.
      bindS (liftS (fst (drain r [] 0))) (\<lambda>feeds.
      bindS (liftS (qz_static Q q model feeds)) (\<lambda>written.
      case written of None \<Rightarrow> retS () | Some b \<Rightarrow> write_bytes output_path b))))
     (\<lambda>e. raiseS (static_failure q e))"

definition check_quantized :: "quantizer \<Rightarrow> ppath \<Rightarrow> unit io" where
  "check_quantized Q p = (case qz_check Q of None \<Rightarrow> retS ()
     | Some check \<Rightarrow> catchS (bindS (read_bytes p) (\<lambda>b. liftS (check b)))
         (\<lambda>e. raiseS (ps_error QUANTIZATION_FAILED (''Quantized model failed ONNX checker: '' @ exc_str e) None [] (Some e))))"

definition quantize_static_qdq ::
    "ext \<Rightarrow> quantizer \<Rightarrow> ppath \<Rightarrow> ppath \<Rightarrow> quant_options \<Rightarrow> feed list \<Rightarrow> string \<Rightarrow> quant_result io" where
  "quantize_static_qdq X Q model_path output_path q samples input_name =
     bindS (guardS (samples \<noteq> []) (ps_error QUANTIZATION_FAILED
       ''Static quantization requires at least one calibration sample''
       (Some ''Provide real calibration tensors from the calibration dataset'') [] None)) (\<lambda>u.
     bindS (getS (\<lambda>w. is_file w model_path)) (\<lambda>there.
     bindS (guardS there (ps_err MODEL_INVALID (''Baseline model not found: '' @ path_str model_path))) (\<lambda>u.
     bindS (guardS (qz_available Q) (ps_error QUANTIZATION_UNAVAILABLE ''ONNX Runtime quantization APIs are unavailable''
       (Some ''Install onnxruntime==1.28.0 with quantization support'')
       [(''reason_code'', reason_val UNAVAILABLE_QUANTIZATION_API)] (Some (py_err ImportError)))) (\<lambda>u.
     bindS (mkdirs True (path_parent output_path)) (\<lambda>u.
     bindS (call_quantizer Q q model_path output_path (new_reader samples input_name)) (\<lambda>u.
     bindS (getS (\<lambda>w. is_file w output_path)) (\<lambda>written.
     bindS (guardS written (ps_error QUANTIZATION_FAILED ''Quantization completed without writing an output model''
       None (options_dict q) None)) (\<lambda>u.
     bindS (check_quantized Q output_path) (\<lambda>u.
     bindS (sha256_file X output_path) (\<lambda>digest.
     bindS (envelope_fields X ''perceptshift.quantization_result'') (\<lambda>env.
     retS \<lparr>qr_output = output_path, qr_options = q, qr_sha = digest, qr_count = int (length samples),
       qr_report = dupdate env [(''baseline_path'', PStr (path_str model_path)),
         (''output_path'', PStr (path_str output_path)), (''model_sha256'', PStr digest),
         (''calibration_sample_count'', PInt (int (length samples))), (''options'', PDict (options_dict q))]\<rparr>)))))))))))"

section \<open>Calibration tensors\<close>

text \<open>The slice \<open>samples[:n]\<close>.\<close>

definition slice_to :: "int \<Rightarrow> 'a list \<Rightarrow> 'a list" where
  "slice_to n xs = take (nat (if n < 0 then int (length xs) + n else n)) xs"

definition calibration_contract :: "pydict \<Rightarrow> pydict \<Rightarrow> exc + pyval" where
  "calibration_contract config stream = (case dget stream ''preprocess_contract'' of
     PDict d \<Rightarrow> bindR (sub_dict config ''model'') (\<lambda>m. if truthy (dget m ''preprocess'') then Inr (PDict d)
       else bindR (sub_dict config ''datasets'') (\<lambda>ds. Inr (PDict d)))
   | _ \<Rightarrow> bindR (sub_dict config ''model'') (\<lambda>m. if truthy (dget m ''preprocess'') then Inr (dget m ''preprocess'')
       else bindR (sub_dict config ''datasets'') (\<lambda>ds. Inr (py_or (dget ds ''preprocess_contract'') (PDict [])))))"

definition calib_samples :: "pydict \<Rightarrow> int option \<Rightarrow> exc + pydict list" where
  "calib_samples stream limit = bindR (py_iter (py_or (dget stream ''samples'') (PList []))) (\<lambda>vs.
     let ss = filter (\<lambda>s. dget s ''role'' = PStr ''calib'') (map the_dict (filter is_dict vs)) in
     Inr (case limit of None \<Rightarrow> ss | Some n \<Rightarrow> slice_to n ss))"

text \<open>\<open>np.fromfile\<close>, reshaped when the sample gives a shape.\<close>

definition tensor_from_file :: "arrays \<Rightarrow> ppath \<Rightarrow> pyval \<Rightarrow> tensor io" where
  "tensor_from_file L p shape = bindS (read_bytes p) (\<lambda>b. let d = nd_fromfile L b;
       a = \<lparr>t_shape = [int (length d)], t_data = d\<rparr> in
     if is_list shape \<and> the_list shape \<noteq> []
     then bindS (liftS (mapR py_int (the_list shape))) (\<lambda>dims. bindS (liftS (nd_reshape L a dims)) (\<lambda>t. retS (as_f32 L t)))
     else retS (as_f32 L a))"

definition raw_calib_sample :: "arrays \<Rightarrow> ppath \<Rightarrow> ppath \<Rightarrow> string \<Rightarrow> pydict \<Rightarrow> feed list \<Rightarrow> feed list io" where
  "raw_calib_sample L workspace stream_path input_name s tensors = (case dget s ''tensor_path'' of
     PStr rel \<Rightarrow> bindS (getS (\<lambda>w. let p = path_div workspace rel; alt = path_div (path_parent stream_path) rel in
         if is_file w p then p else if is_file w alt then alt else p)) (\<lambda>p.
       bindS (tensor_from_file L p (dget s ''shape'')) (\<lambda>t. retS (tensors @ [[(input_name, t)]])))
   | _ \<Rightarrow> retS tensors)"

definition preprocess_argv :: "ppath \<Rightarrow> ppath \<Rightarrow> ppath \<Rightarrow> ppath \<Rightarrow> pydict \<Rightarrow> exc + string list" where
  "preprocess_argv worker picture contract out s =
     bindR (ditem s ''width'') (\<lambda>a. bindR (py_int a) (\<lambda>width.
     bindR (ditem s ''height'') (\<lambda>b. bindR (py_int b) (\<lambda>height.
     bindR (py_int (py_or (dget s ''stride_bytes'') (PInt 0))) (\<lambda>stride.
     Inr [path_str worker, ''--image'', path_str picture, ''--contract'', path_str contract, ''--output'', path_str out,
       ''--pixel-format'', py_str (py_or (dget s ''pixel_format'') (PStr ''rgb8'')), ''--width'', show_int width,
       ''--height'', show_int height, ''--stride-bytes'', show_int stride])))))"

text \<open>\<open>subprocess.run\<close> without a time limit and with text output.\<close>

definition run_tool :: "programs \<Rightarrow> string list \<Rightarrow> (int \<times> string \<times> string) io" where
  "run_tool T argv = bindS (getS (\<lambda>w. \<lparr>la_argv = argv, la_cwd = abs_path (w_cwd w), la_env = w_environ w, la_timeout = None\<rparr>)) (\<lambda>la.
     bindS (\<lambda>w. case pt_run T la w of (r, w') \<Rightarrow> (Inr r, w')) (\<lambda>r. case r of
       Not_started e \<Rightarrow> raiseS e
     | Timed_out_after out err \<Rightarrow> raiseS (py_err (OtherError ''TimeoutExpired''))
     | Exited rc out err t \<Rightarrow> (case (utf8_decode out, utf8_decode err) of
         (Some o1, Some e1) \<Rightarrow> retS (rc, o1, e1) | _ \<Rightarrow> raiseS (py_err UnicodeDecodeError))))"

definition contract_size :: "pyval \<Rightarrow> string \<Rightarrow> string \<Rightarrow> exc + int" where
  "contract_size contract k l = bindR (as_dict contract) (\<lambda>c.
     py_int (py_or (dget c k) (py_or (dget c l) (PInt 0))))"

definition image_calib_sample ::
    "arrays \<Rightarrow> programs \<Rightarrow> ppath \<Rightarrow> ppath \<Rightarrow> ppath \<Rightarrow> ppath \<Rightarrow> ppath \<Rightarrow> pyval \<Rightarrow> int \<Rightarrow> pydict \<Rightarrow> tensor io" where
  "image_calib_sample L T workspace stream_path worker contract_path out_dir contract idx s = (case dget s ''image_path'' of
     PStr rel \<Rightarrow> bindS (getS (\<lambda>w. let p = path_div workspace rel in
         if is_file w p then p else path_div (path_parent stream_path) rel)) (\<lambda>picture.
       let out = path_div out_dir (''calib_'' @ show_int idx @ ''.f32'') in
       bindS (liftS (preprocess_argv worker picture contract_path out s)) (\<lambda>argv.
       bindS (run_tool T argv) (\<lambda>(rc, o1, e1).
       bindS (guardS (rc = 0) (ps_error QUANTIZATION_FAILED ''Native preprocess worker failed for calibration sample'' None
         [(''stderr'', PStr e1), (''stdout'', PStr o1), (''argv'', PList (map PStr argv))] None)) (\<lambda>u.
       bindS (tensor_from_file L out PNone) (\<lambda>a.
       bindS (liftS (contract_size contract ''input_height'' ''height'')) (\<lambda>h.
       bindS (liftS (contract_size contract ''input_width'' ''width'')) (\<lambda>v.
       if 0 < h \<and> 0 < v \<and> nd_size a = 3 * h * v then liftS (nd_reshape L a [1, 3, h, v]) else retS a)))))))
   | _ \<Rightarrow> raiseS (ps_err QUANTIZATION_FAILED
       (''Calibration sample missing image_path: '' @ py_str (dget s ''sample_id''))))"

definition native_calib_sample ::
    "arrays \<Rightarrow> programs \<Rightarrow> ppath \<Rightarrow> ppath \<Rightarrow> ppath \<Rightarrow> ppath \<Rightarrow> ppath \<Rightarrow> pyval \<Rightarrow> string \<Rightarrow> int \<times> pydict \<Rightarrow>
     feed list \<Rightarrow> feed list io" where
  "native_calib_sample L T workspace stream_path worker contract_path out_dir contract input_name item tensors =
     (if dget (snd item) ''input_kind'' = PStr ''raw_image''
      then bindS (image_calib_sample L T workspace stream_path worker contract_path out_dir contract (fst item) (snd item))
        (\<lambda>t. retS (tensors @ [[(input_name, t)]]))
      else (case dget (snd item) ''tensor_path'' of
        PStr rel \<Rightarrow> bindS (getS (\<lambda>w. let p = path_div workspace rel in
            if is_file w p then p else path_div (path_parent stream_path) rel)) (\<lambda>p.
          bindS (tensor_from_file L p (dget (snd item) ''shape'')) (\<lambda>t. retS (tensors @ [[(input_name, t)]])))
      | _ \<Rightarrow> retS tensors))"

definition raw_stream_meta :: "string \<Rightarrow> int \<Rightarrow> pydict" where
  "raw_stream_meta contract_hash n = [(''path'', PStr ''raw_tensor_stream''), (''preprocess_contract_hash'', PStr contract_hash),
     (''sample_count'', PInt n)]"

definition load_calibration_tensors_native ::
    "ext \<Rightarrow> arrays \<Rightarrow> programs \<Rightarrow> pydict \<Rightarrow> ppath \<Rightarrow> ppath \<Rightarrow> string \<Rightarrow> int option \<Rightarrow> (feed list \<times> pydict) io" where
  "load_calibration_tensors_native X L T config workspace stream_path input_name limit =
     bindS (liftS (sub_dict config ''model'')) (\<lambda>model.
     let adapter = py_str (py_or (dget model ''adapter'') (PStr [])) in
     bindS (read_json X stream_path) (\<lambda>v. bindS (liftS (as_dict v)) (\<lambda>stream.
     bindS (liftS (calib_samples stream limit)) (\<lambda>samples.
     bindS (guardS (samples \<noteq> []) (ps_error QUANTIZATION_FAILED ''No calibration samples in benchmark stream''
       (Some ''Ensure calibration dataset materializes into the benchmark stream'') [] None)) (\<lambda>u.
     bindS (liftS (calibration_contract config stream)) (\<lambda>contract.
     if \<not> truthy contract \<and> adapter = ''raw_tensor'' then
       bindS (foldS (raw_calib_sample L workspace stream_path input_name) samples []) (\<lambda>tensors.
       bindS (liftS (sha256_canonical X (py_or contract (PDict [])))) (\<lambda>h.
       retS (tensors, raw_stream_meta h (int (length tensors)))))
     else
       bindS (\<lambda>w. (find_native_binary T ''perceptshift-preprocess-worker'' w, w)) (\<lambda>found.
       bindS (liftS (case found of Some p \<Rightarrow> Inr p | None \<Rightarrow> Inl (ps_error QUANTIZATION_FAILED
         ''perceptshift-preprocess-worker not found; required for production calibration''
         (Some ''Build native targets including perceptshift-preprocess-worker'') [] None))) (\<lambda>worker.
       let contract_path = path_div (path_div workspace ''inputs'') ''calibration-preprocess-contract.json'';
         out_dir = path_div (path_div workspace ''models'') ''calibration_tensors'' in
       bindS (write_atomic_json X contract_path contract) (\<lambda>u.
       bindS (sha256_file X contract_path) (\<lambda>contract_hash.
       bindS (mkdirs True out_dir) (\<lambda>u.
       bindS (foldS (native_calib_sample L T workspace stream_path worker contract_path out_dir contract input_name)
         (zip (map int [0..<length samples]) samples) []) (\<lambda>tensors.
       bindS (guardS (tensors \<noteq> []) (ps_err QUANTIZATION_FAILED ''Unable to load calibration tensors for quantization'')) (\<lambda>u.
       let meta = [(''path'', PStr ''native_preprocess_worker''), (''preprocess_contract_hash'', PStr contract_hash),
         (''model_adapter'', PStr adapter), (''sample_count'', PInt (int (length tensors))), (''worker'', PStr (path_str worker))] in
       bindS (write_atomic_json X (path_div (path_div workspace ''models'') ''calibration_meta.json'') (PDict meta)) (\<lambda>u.
       retS (tensors, meta)))))))))))))))"

section \<open>The variants of a run\<close>

definition first_input_name :: "pydict \<Rightarrow> exc + string" where
  "first_input_name inspection = (case py_or (dget inspection ''inputs'') (PList []) of
     PList [] \<Rightarrow> Inr ''input''
   | PList (v # vs) \<Rightarrow> Inr (if is_dict v \<and> truthy (dget (the_dict v) ''name'') then py_str (dget (the_dict v) ''name'') else ''input'')
   | PStr s \<Rightarrow> Inr ''input''
   | PDict d \<Rightarrow> Inl (py_err KeyError)
   | _ \<Rightarrow> Inl (py_err TypeError))"

definition variant_label :: "calibration_method \<Rightarrow> bool \<Rightarrow> string" where
  "variant_label m per_channel = method_str m @ ''_pc'' @ (if per_channel then ''1'' else ''0'')"

definition quantize_variant ::
    "ext \<Rightarrow> quantizer \<Rightarrow> ppath \<Rightarrow> ppath \<Rightarrow> ppath \<Rightarrow> feed list \<Rightarrow> pydict \<Rightarrow> string \<Rightarrow> calibration_method \<times> bool \<Rightarrow>
     pydict list \<Rightarrow> pydict list io" where
  "quantize_variant X Q out_root baseline manifest_at tensors meta input_name variant done =
     (let label = variant_label (fst variant) (snd variant); out_path = path_div out_root (label @ ''.onnx'') in
     bindS (quantize_static_qdq X Q baseline out_path \<lparr>qo_method = fst variant, qo_per_channel = snd variant,
       qo_exclude = [], qo_extra = []\<rparr> tensors input_name) (\<lambda>q.
     bindS (write_atomic_json X (path_div out_root (label @ ''.report.json'')) (PDict
       [(''label'', PStr label), (''output_path'', PStr (path_str out_path)), (''model_sha256'', PStr (qr_sha q)),
        (''method'', PStr (method_str (fst variant))), (''per_channel'', PBool (snd variant)),
        (''calibration_sample_count'', PInt (qr_count q)), (''calibration_meta'', PDict meta),
        (''calibration_manifest'', PStr (path_str manifest_at))])) (\<lambda>u.
     retS (done @ [[(''label'', PStr label), (''model_path'', PStr (''models/quantized/'' @ path_name out_path)),
       (''model_sha256'', PStr (qr_sha q)), (''lineage'', PDict [(''transformation'', PStr ''static_qdq''),
         (''label'', PStr label), (''calibration_meta'', PDict meta)])]]))))"

definition run_quantization_variants ::
    "ext \<Rightarrow> arrays \<Rightarrow> programs \<Rightarrow> quantizer \<Rightarrow> ppath \<Rightarrow> pydict \<Rightarrow> ppath \<Rightarrow> ppath \<Rightarrow> ppath \<Rightarrow> pydict \<Rightarrow> pydict list io" where
  "run_quantization_variants X L T Q workspace config baseline manifest_at stream_path inspection =
     bindS (liftS (sub_dict config ''quantization'')) (\<lambda>cfg.
     if \<not> truthy (dget cfg ''enabled'') then retS []
     else bindS (liftS (bindR (py_iter (py_or (dget cfg ''methods'') (PList [PStr ''minmax'']))) (mapR method_of))) (\<lambda>methods.
     bindS (liftS (py_iter (py_or (dget cfg ''per_channel_options'') (PList [PBool False])))) (\<lambda>channels.
     bindS (liftS (first_input_name inspection)) (\<lambda>input_name.
     bindS (liftS (case dget cfg ''calibration_sample_limit'' of PNone \<Rightarrow> Inr None
       | v \<Rightarrow> bindR (py_int v) (\<lambda>n. Inr (Some n)))) (\<lambda>limit.
     bindS (load_calibration_tensors_native X L T config workspace stream_path input_name limit) (\<lambda>(tensors, meta).
     let out_root = path_div (path_div workspace ''models'') ''quantized'' in
     bindS (mkdirs True out_root) (\<lambda>u.
     foldS (quantize_variant X Q out_root baseline manifest_at tensors meta input_name)
       (List.product methods (map truthy channels)) [])))))))"

section \<open>calibration\<close>

record calibration_batch =
  ba_count :: int
  ba_hash :: string
  ba_tensors :: "feed list"

definition class_calib_item ::
    "arrays \<Rightarrow> ppath \<Rightarrow> bool \<Rightarrow> string \<Rightarrow> int option \<Rightarrow> (int \<times> int) option \<Rightarrow> pyval \<Rightarrow> feed list \<Rightarrow> feed list io" where
  "class_calib_item L base allow_symlinks input_name limit image_size item tensors =
     (if (case limit of None \<Rightarrow> False | Some n \<Rightarrow> n \<le> int (length tensors)) \<or> \<not> is_dict item then retS tensors
      else bindS (liftS (ditem (the_dict item) ''path'')) (\<lambda>p.
      bindS (\<lambda>w. (resolve_under_root w base (py_str p) allow_symlinks ''item.path'', w)) (\<lambda>resolved.
      bindS (catchS (image_to_nchw L resolved image_size) (\<lambda>e. raiseS (if is_os_error e
          then ps_error DATASET_INVALID (''Failed to decode calibration image: '' @ py_str p) None [] (Some e) else e))) (\<lambda>t.
      retS (tensors @ [[(input_name, t)]])))))"

definition iter_classification_calibration_tensors ::
    "ext \<Rightarrow> arrays \<Rightarrow> ppath \<Rightarrow> string \<Rightarrow> int option \<Rightarrow> (int \<times> int) option \<Rightarrow> bool \<Rightarrow> calibration_batch io" where
  "iter_classification_calibration_tensors X L manifest_at input_name limit image_size allow_symlinks =
     bindS (validate_image_classification_manifest X manifest_at allow_symlinks) (\<lambda>v.
     bindS (guardS (validation_ok v) (ps_error DATASET_INVALID ''Calibration dataset validation failed'' None
       [(''errors'', PList (map PDict (dv_errors v)))] None)) (\<lambda>u.
     bindS (liftS (bindR (ditem (dv_manifest v) ''root'') path_arg)) (\<lambda>base.
     bindS (liftS (py_iter (py_or (dget (dv_manifest v) ''items'') (PList [])))) (\<lambda>items.
     bindS (foldS (class_calib_item L base allow_symlinks input_name limit image_size) items []) (\<lambda>tensors.
     bindS (guardS (tensors \<noteq> []) (ps_err DATASET_INVALID ''No calibration tensors could be loaded'')) (\<lambda>u.
     retS \<lparr>ba_count = int (length tensors), ba_hash = dv_hash v, ba_tensors = tensors\<rparr>))))))"

section \<open>Draining the reader\<close>

lemma get_next_in_range:
  "rd_index r < length (rd_samples r) \<Longrightarrow> get_next r = (case feed_for (rd_input r) (rd_samples r ! rd_index r) of
     Inl e \<Rightarrow> Inl e | Inr s \<Rightarrow> Inr (Some s), r\<lparr>rd_index := Suc (rd_index r)\<rparr>)"
  by (simp add: get_next_def)

lemma get_next_exhausted: "length (rd_samples r) \<le> rd_index r \<Longrightarrow> get_next r = (Inr None, r)"
  by (simp add: get_next_def)

lemma drain_rest:
  assumes "mapR (feed_for (rd_input r)) (drop (rd_index r) (rd_samples r)) = Inr feeds"
  shows "drain r acc calls = (Inr (acc @ feeds), r\<lparr>rd_index := max (rd_index r) (length (rd_samples r))\<rparr>,
    calls + Suc (length feeds))"
  using assms
proof (induction "length (rd_samples r) - rd_index r" arbitrary: r acc calls feeds)
  case 0
  then have "length (rd_samples r) \<le> rd_index r" by simp
  moreover from this 0 have "feeds = []" by simp
  ultimately show ?case by (simp add: drain.simps [of r] get_next_exhausted)
next
  case (Suc n)
  then have lt: "rd_index r < length (rd_samples r)" by simp
  let ?r = "r\<lparr>rd_index := Suc (rd_index r)\<rparr>"
  have d: "drop (rd_index r) (rd_samples r) = rd_samples r ! rd_index r # drop (Suc (rd_index r)) (rd_samples r)"
    using lt by (simp add: Cons_nth_drop_Suc)
  from Suc.prems obtain s rest where s: "feed_for (rd_input r) (rd_samples r ! rd_index r) = Inr s"
    and rest: "mapR (feed_for (rd_input ?r)) (drop (rd_index ?r) (rd_samples ?r)) = Inr rest" and f: "feeds = s # rest"
    unfolding d by (auto simp: bindR_eq_Inr)
  from Suc.hyps(2) have "n = length (rd_samples ?r) - rd_index ?r" by simp
  from Suc.hyps(1) [OF this rest] have "drain ?r (acc @ [s]) (Suc calls) = (Inr (acc @ [s] @ rest),
      ?r\<lparr>rd_index := length (rd_samples r)\<rparr>, Suc calls + Suc (length rest))"
    using lt by (simp add: max_def)
  moreover have "drain r acc calls = drain ?r (acc @ [s]) (Suc calls)"
    by (subst drain.simps) (simp add: get_next_in_range [OF lt] s)
  ultimately show ?case using lt f by (simp add: max_def)
qed

text \<open>C15. Reading the calibration data to the end terminates after one call for each sample and one
  more: the quantizer is given every sample exactly once, in order, each under the model's input
  name; the reader then stays exhausted, and after a rewind the same reading starts again.\<close>

theorem reader_drains:
  assumes "\<forall>s\<in>set samples. map_of s name \<noteq> None \<or> length s = 1"
  shows "\<exists>feeds r. drain (new_reader samples name) [] 0 = (Inr feeds, r, Suc (length samples))
    \<and> length feeds = length samples
    \<and> (\<forall>i<length samples. map_of (feeds ! i) name = (case map_of (samples ! i) name of
         Some t \<Rightarrow> Some t | None \<Rightarrow> Some (snd (hd (samples ! i)))))
    \<and> get_next r = (Inr None, r) \<and> rewind r = new_reader samples name"
proof -
  define g where "g = (\<lambda>s :: feed. if map_of s name \<noteq> None then s else [(name, snd (hd s))])"
  have "feed_for name s = Inr (g s)" if "s \<in> set samples" for s
  proof (cases "map_of s name = None")
    case True
    with assms that obtain kv where "s = [kv]" by (auto simp: length_Suc_conv)
    with True show ?thesis by (simp add: feed_for_def g_def)
  qed (simp add: feed_for_def g_def)
  then have m: "mapR (feed_for name) samples = Inr (map g samples)" by (rule mapR_Inr)
  let ?r = "new_reader samples name"
  have "drain ?r [] 0 = (Inr (map g samples), ?r\<lparr>rd_index := length samples\<rparr>, Suc (length samples))"
    using drain_rest [of ?r "map g samples" "[]" 0] m by (simp add: new_reader_def)
  moreover have "get_next (?r\<lparr>rd_index := length samples\<rparr>) = (Inr None, ?r\<lparr>rd_index := length samples\<rparr>)"
    by (rule get_next_exhausted) (simp add: new_reader_def)
  moreover have "map_of (g s) name = (case map_of s name of Some t \<Rightarrow> Some t | None \<Rightarrow> Some (snd (hd s)))" for s
    by (auto simp: g_def split: option.split)
  ultimately show ?thesis
    by (intro exI [of _ "map g samples"] exI [of _ "?r\<lparr>rd_index := length samples\<rparr>"] conjI)
      (auto simp: rewind_def new_reader_def)
qed

theorem reader_drains_witness:
  "\<exists>feeds r. drain (new_reader [[(''x'', \<lparr>t_shape = [1], t_data = [Fin 1]\<rparr>)], [(''y'', \<lparr>t_shape = [1], t_data = [Fin 2]\<rparr>)]] ''x'') [] 0
     = (Inr feeds, r, 3) \<and> map_of (feeds ! 1) ''x'' = Some \<lparr>t_shape = [1], t_data = [Fin 2]\<rparr>"
proof -
  let ?s = "[[(''x'', \<lparr>t_shape = [1], t_data = [Fin 1]\<rparr>)], [(''y'', \<lparr>t_shape = [1], t_data = [Fin 2]\<rparr>)]]"
  have "\<forall>s\<in>set ?s. map_of s ''x'' \<noteq> None \<or> length s = 1" by simp
  from reader_drains [OF this] obtain feeds r where d: "drain (new_reader ?s ''x'') [] 0 = (Inr feeds, r, Suc (length ?s))"
      and f: "\<forall>i<length ?s. map_of (feeds ! i) ''x'' = (case map_of (?s ! i) ''x'' of
         Some t \<Rightarrow> Some t | None \<Rightarrow> Some (snd (hd (?s ! i))))"
    by (elim exE conjE)
  from f have "map_of (feeds ! 1) ''x'' = Some \<lparr>t_shape = [1], t_data = [Fin 2]\<rparr>" by simp
  with d show ?thesis by (intro exI conjI) auto
qed

end
