(* ===== verification/Quality_Eval.thy ===== *)
theory Quality_Eval
  imports Stream_Build Host_Probe
begin

text \<open>
  \<open>orchestration/evaluate.py\<close>: the quality document of one candidate, by its adapter. Numeric
  equivalence runs the baseline and the candidate over the evaluation samples; classification takes
  the predictions of the native worker, or runs the model when they are incomplete; detection compares
  the worker's detections with the ground truth. ONNX Runtime is a parameter.
\<close>

record ort_runtime =
  rt_available :: bool
  rt_session :: "string \<Rightarrow> exc + (tensor \<Rightarrow> exc + tensor)"

text \<open>The inputs every evaluator gets.\<close>

record eval_inputs =
  ei_candidate :: string
  ei_adapter :: string
  ei_config :: pydict
  ei_baseline :: ppath
  ei_model :: ppath
  ei_samples :: "stream_tensor list"
  ei_hash :: string
  ei_quality :: pydict
  ei_workspace :: ppath
  ei_manifest :: pydict

definition in_evaluation :: "ppath \<Rightarrow> string \<Rightarrow> ppath" where
  "in_evaluation workspace n = path_div (path_div workspace ''evaluation'') n"

definition attestation_rel :: "string \<Rightarrow> string" where
  "attestation_rel candidate = ''evaluation/'' @ candidate @ ''.attestation.json''"

text \<open>The document of a quality that could not be measured.\<close>

definition unmeasured :: "eval_inputs \<Rightarrow> pyval \<Rightarrow> pydict \<Rightarrow> pyval \<Rightarrow> string \<Rightarrow> pydict" where
  "unmeasured ei metric status reason message = [(''candidate_id'', PStr (ei_candidate ei)), (''adapter'', PStr (ei_adapter ei)),
     (''quality_metric_name'', metric), (''quality_value'', PNone), (''quality_ok'', PBool False),
     (''equivalence_ok'', PBool False)] @ status @ [(''unavailable_reason'', reason), (''message'', PStr message)]"

definition not_required :: pydict where
  "not_required = [(''equivalence_status'', PStr ''not_required'')]"

definition run_onnx :: "ort_runtime \<Rightarrow> ppath \<Rightarrow> tensor list \<Rightarrow> tensor list io" where
  "run_onnx R p tensors =
     bindS (guardS (rt_available R) (ps_error DEPENDENCY_UNAVAILABLE
       ''onnxruntime required for offline quality evaluation'' None [] (Some (py_err ImportError)))) (\<lambda>u.
     bindS (getS (\<lambda>w. is_file w p)) (\<lambda>there.
     bindS (guardS there (ps_err MODEL_INVALID (''Model missing for evaluation: '' @ path_str p))) (\<lambda>u.
     bindS (read_bytes p) (\<lambda>model. liftS (bindR (rt_session R model) (\<lambda>run. mapR run tensors))))))"

section \<open>Raw tensors\<close>

definition default_tolerance :: pyval where
  "default_tolerance = PFloat (fl_round (1 / 10 ^ 4))"

definition evaluate_raw_tensor :: "ext \<Rightarrow> arrays \<Rightarrow> numpy \<Rightarrow> ort_runtime \<Rightarrow> eval_inputs \<Rightarrow> pydict io" where
  "evaluate_raw_tensor X L N R ei = (let tensors = map (as_f32 L \<circ> st_tensor) (ei_samples ei) in
     bindS (run_onnx R (ei_baseline ei) tensors) (\<lambda>baseline_out.
     bindS (run_onnx R (ei_model ei) tensors) (\<lambda>candidate_out.
     bindS (liftS (py_float (dget_or (ei_config ei) ''max_abs_error'' default_tolerance))) (\<lambda>abs_tol.
     bindS (liftS (py_float (dget_or (ei_config ei) ''max_rel_error'' default_tolerance))) (\<lambda>rel_tol.
     bindS (numeric_equivalence X N baseline_out candidate_out (ei_hash ei) (ei_adapter ei) (ei_config ei)
       (Some \<lparr>tl_abs = abs_tol, tl_rel = rel_tol, tl_mean = None, tl_cosine = None\<rparr>)) (\<lambda>r.
     bindS (write_atomic_json X (path_div (ei_workspace ei) (attestation_rel (ei_candidate ei))) (PDict (er_attestation r))) (\<lambda>u.
     let ok = truthy (dget (er_attestation r) ''pass'') in
     retS [(''candidate_id'', PStr (ei_candidate ei)), (''adapter'', PStr (ei_adapter ei)),
       (''quality_metric_name'', PStr ''not_applicable''), (''quality_value'', PNone),
       (''quality_status'', PStr ''not_applicable''), (''quality_ok'', PBool ok), (''equivalence_ok'', PBool ok),
       (''equivalence_score'', PFloat (er_value r)), (''equivalence_status'', PStr (if ok then ''pass'' else ''fail'')),
       (''attestation_path'', PStr (attestation_rel (ei_candidate ei))), (''unavailable_reason'', PNone),
       (''sample_count'', PInt (er_samples r)), (''class_breakdown'', PDict (er_breakdown r)),
       (''metric_name_configured'', dget (ei_quality ei) ''metric_name'')])))))))"

section \<open>Classification\<close>

text \<open>The labels, or \<open>None\<close> when a sample has none.\<close>

fun labels_of :: "stream_tensor list \<Rightarrow> exc + int list option" where
  "labels_of [] = Inr (Some [])"
| "labels_of (s # ss) = (if st_label s = PNone then Inr None
     else bindR (py_int (st_label s)) (\<lambda>n. bindR (labels_of ss) (\<lambda>r. Inr (map_option (Cons n) r))))"

text \<open>\<open>v[0]\<close> of a document.\<close>

fun py_first :: "pyval \<Rightarrow> exc + pyval" where
  "py_first (PList (v # vs)) = Inr v"
| "py_first (PList []) = Inl (py_err IndexError)"
| "py_first (PStr (c # cs)) = Inr (PStr [c])"
| "py_first (PDict d) = Inl (py_err KeyError)"
| "py_first _ = Inl (py_err TypeError)"

text \<open>The class of a row of worker outputs, or \<open>None\<close> when it has none.\<close>

definition row_class :: "pydict \<Rightarrow> exc + int option" where
  "row_class row = (if dhas row ''top_class_id'' then bindR (py_int (dget row ''top_class_id'')) (\<lambda>n. Inr (Some n))
     else if truthy (dget row ''classifications'')
     then bindR (py_first (dget row ''classifications'')) (\<lambda>v. bindR (py_item v ''class_id'') (\<lambda>c.
       bindR (py_int c) (\<lambda>n. Inr (Some n))))
     else Inr None)"

definition rows_by_id :: "pydict \<Rightarrow> exc + (string \<times> pydict) list" where
  "rows_by_id doc = bindR (py_iter (py_or (dget doc ''samples'') (PList []))) (\<lambda>vs.
     Inr (fold (\<lambda>s. AList.update (py_str (dget s ''sample_id'')) s) (map the_dict (filter is_dict vs)) []))"

fun native_predictions :: "(string \<times> pydict) list \<Rightarrow> stream_tensor list \<Rightarrow> exc + int list option" where
  "native_predictions rows [] = Inr (Some [])"
| "native_predictions rows (s # ss) = (case map_of rows (py_str (st_sample s)) of
     None \<Rightarrow> Inr None
   | Some row \<Rightarrow> if row = [] then Inr None else bindR (row_class row) (\<lambda>c. case c of None \<Rightarrow> Inr None
       | Some n \<Rightarrow> bindR (native_predictions rows ss) (\<lambda>r. Inr (map_option (Cons n) r))))"

definition worker_predictions :: "pydict \<Rightarrow> stream_tensor list \<Rightarrow> exc + int list option" where
  "worker_predictions doc samples = bindR (rows_by_id doc) (\<lambda>rows. native_predictions rows samples)"

text \<open>\<open>round(float(x))\<close>.\<close>

fun py_round :: "pyfloat \<Rightarrow> exc + int" where
  "py_round (Fin q) = Inr (round_half_even q)"
| "py_round NaN = Inl (py_err ValueError)"
| "py_round _ = Inl (py_err OverflowError)"

definition output_class :: "tensor \<Rightarrow> exc + int" where
  "output_class out = (case t_data out of [x] \<Rightarrow> py_round x
     | d \<Rightarrow> softmax_argmax \<lparr>t_shape = [int (length d)], t_data = d\<rparr>)"

definition lineage_of :: "pydict \<Rightarrow> exc + pydict" where
  "lineage_of man = bindR (sub_dict man ''provenance'') (\<lambda>p.
     as_dict (py_or (dget p ''lineage'') (py_or (dget man ''lineage'') (PDict []))))"

definition from_baseline :: "pydict \<Rightarrow> exc + bool" where
  "from_baseline man = bindR (lineage_of man) (\<lambda>l. Inr (dget l ''transformation'' = PStr ''baseline''))"

definition baseline_manifest :: "pydict \<Rightarrow> exc + bool" where
  "baseline_manifest man = bindR (from_baseline man) (\<lambda>b.
     Inr (b \<or> prefix ''baseline'' (py_lower (py_str (py_or (dget man ''label'') (PStr []))))))"

definition manifest_of :: "ppath \<Rightarrow> string \<Rightarrow> ppath" where
  "manifest_of workspace candidate =
     path_div (path_div (path_div workspace ''candidates'') ''manifests'') (candidate @ ''.json'')"

definition read_dict :: "ext \<Rightarrow> ppath \<Rightarrow> pydict io" where
  "read_dict X p = bindS (read_json X p) (\<lambda>v. liftS (as_dict v))"

text \<open>Whether the manifest on disk says baseline; \<open>None\<close> when there is none.\<close>

definition manifest_says_baseline :: "ext \<Rightarrow> ppath \<Rightarrow> string \<Rightarrow> bool option io" where
  "manifest_says_baseline X workspace candidate = (let p = manifest_of workspace candidate in
     bindS (getS (\<lambda>w. is_file w p)) (\<lambda>there.
     if there then bindS (read_dict X p) (\<lambda>man. bindS (liftS (baseline_manifest man)) (\<lambda>b. retS (Some b)))
     else retS None))"

definition is_baseline_candidate :: "ext \<Rightarrow> ppath \<Rightarrow> string \<Rightarrow> pydict \<Rightarrow> bool io" where
  "is_baseline_candidate X workspace candidate doc =
     (if sublist ''baseline'' (py_lower candidate) then retS True
      else bindS (manifest_says_baseline X workspace candidate) (\<lambda>m.
        if m = Some True then retS True else liftS (from_baseline doc)))"

text \<open>The first document of worker outputs that belongs to a baseline candidate.\<close>

fun find_baseline_outputs :: "ext \<Rightarrow> ppath \<Rightarrow> string list \<Rightarrow> pydict option io" where
  "find_baseline_outputs X workspace [] = retS None"
| "find_baseline_outputs X workspace (n # ns) = bindS (read_json X (in_evaluation workspace n)) (\<lambda>v.
     if \<not> is_dict v then find_baseline_outputs X workspace ns
     else let doc = the_dict v;
         candidate = py_str (py_or (dget doc ''candidate_id'') (PStr (replace_all ''.native_outputs.json'' [] n))) in
       bindS (is_baseline_candidate X workspace candidate doc) (\<lambda>b.
       if b then retS (Some doc) else find_baseline_outputs X workspace ns))"

definition accuracy_of :: "int list \<Rightarrow> int list \<Rightarrow> pyfloat" where
  "accuracy_of predictions labels = int_div (matches predictions labels) (int (length labels))"

definition predictions_for :: "ext \<Rightarrow> arrays \<Rightarrow> ort_runtime \<Rightarrow> eval_inputs \<Rightarrow> int list io" where
  "predictions_for X L R ei = (let p = in_evaluation (ei_workspace ei) (ei_candidate ei @ ''.native_outputs.json'') in
     bindS (getS (\<lambda>w. is_file w p)) (\<lambda>there.
     bindS (if there then bindS (read_dict X p) (\<lambda>doc. liftS (worker_predictions doc (ei_samples ei))) else retS None) (\<lambda>native.
     case native of Some ps \<Rightarrow> retS ps
     | None \<Rightarrow> bindS (run_onnx R (ei_model ei) (map (as_f32 L \<circ> st_tensor) (ei_samples ei))) (\<lambda>outs.
         liftS (mapR output_class outs)))))"

definition baseline_accuracy :: "ext \<Rightarrow> eval_inputs \<Rightarrow> int list \<Rightarrow> int list \<Rightarrow> pyfloat option io" where
  "baseline_accuracy X ei predictions labels =
     bindS (manifest_says_baseline X (ei_workspace ei) (ei_candidate ei)) (\<lambda>current.
     if current = Some True then retS (Some (accuracy_of predictions labels))
     else bindS (getS (\<lambda>w. glob_names w (path_div (ei_workspace ei) ''evaluation'') ''.native_outputs.json'')) (\<lambda>names.
       bindS (find_baseline_outputs X (ei_workspace ei) names) (\<lambda>doc.
       case doc of None \<Rightarrow> retS None
       | Some d \<Rightarrow> bindS (liftS (worker_predictions d (ei_samples ei))) (\<lambda>ps.
           retS (map_option (\<lambda>ps. accuracy_of ps labels) ps)))))"

text \<open>A limit of the configuration as the float it equals.\<close>

definition degradation_limit :: "pydict \<Rightarrow> exc + pyfloat option" where
  "degradation_limit quality = (case dget quality ''maximum_degradation_from_baseline'' of PNone \<Rightarrow> Inr None
     | v \<Rightarrow> (case num_of v of None \<Rightarrow> Inl (py_err TypeError) | Some f \<Rightarrow> Inr (Some f)))"

definition minimum_quality :: "pydict \<Rightarrow> exc + pyfloat" where
  "minimum_quality quality = py_float (py_or (dget quality ''minimum_absolute_value'') (PFloat (Fin 0)))"

definition evaluate_classification :: "ext \<Rightarrow> arrays \<Rightarrow> ort_runtime \<Rightarrow> eval_inputs \<Rightarrow> pydict io" where
  "evaluate_classification X L R ei = bindS (liftS (labels_of (ei_samples ei))) (\<lambda>ls. case ls of
     None \<Rightarrow> retS (unmeasured ei (PStr ''classification_accuracy'') not_required (PStr ''EVALUATION_REQUIRES_LABELS'')
       ''Evaluation samples missing class labels'')
   | Some labels \<Rightarrow>
     bindS (predictions_for X L R ei) (\<lambda>predictions.
     bindS (baseline_accuracy X ei predictions labels) (\<lambda>baseline.
     bindS (guardS (\<not> (baseline = None \<and> dget (ei_quality ei) ''maximum_degradation_from_baseline'' \<noteq> PNone))
       (ps_err QUALITY_GATE_FAILED (''maximum_degradation_from_baseline requires measured baseline accuracy '' @
         ''from the native production path; baseline native outputs unavailable''))) (\<lambda>u.
     bindS (liftS (minimum_quality (ei_quality ei))) (\<lambda>minimum.
     bindS (liftS (degradation_limit (ei_quality ei))) (\<lambda>degradation.
     bindS (classification_accuracy X predictions labels (ei_hash ei) (ei_adapter ei) (ei_config ei) baseline degradation minimum) (\<lambda>r.
     bindS (write_atomic_json X (path_div (ei_workspace ei) (attestation_rel (ei_candidate ei))) (PDict (er_attestation r))) (\<lambda>u.
     bindS (getS (\<lambda>w. is_file w (in_evaluation (ei_workspace ei) (ei_candidate ei @ ''.native_outputs.json'')))) (\<lambda>native.
     retS [(''candidate_id'', PStr (ei_candidate ei)), (''adapter'', PStr (ei_adapter ei)),
       (''quality_metric_name'', PStr (er_metric r)), (''quality_value'', PFloat (er_value r)),
       (''baseline_accuracy'', opt_val PFloat baseline), (''quality_ok'', PBool (truthy (dget (er_attestation r) ''pass''))),
       (''equivalence_ok'', PBool True), (''equivalence_status'', PStr ''not_required''),
       (''attestation_path'', PStr (attestation_rel (ei_candidate ei))), (''unavailable_reason'', PNone),
       (''sample_count'', PInt (er_samples r)), (''class_breakdown'', PDict (er_breakdown r)),
       (''predictions_source'', PStr (if native then ''native_bench_worker'' else ''ort_fallback''))])))))))))"

section \<open>Detection\<close>

definition detections_of :: "pyval \<Rightarrow> exc + pyval list" where
  "detections_of v = (case v of PList l \<Rightarrow> Inr l
     | _ \<Rightarrow> bindR (as_dict v) (\<lambda>d. py_iter (py_or (dget d ''detections'') (PList []))))"

definition image_ids :: "pydict \<Rightarrow> exc + string list" where
  "image_ids gt = bindR (py_iter (py_or (dget gt ''images'') (PList []))) (\<lambda>imgs.
     Inr (map (\<lambda>i. py_str (dget (the_dict i) ''id'')) (filter is_dict imgs)))"

definition on_images :: "string list \<Rightarrow> pyval list \<Rightarrow> pyval list" where
  "on_images ids ds = filter (\<lambda>v. is_dict v \<and>
     py_str (py_or (dget (the_dict v) ''sample_id'') (py_or (dget (the_dict v) ''image_id'') (PStr []))) \<in> set ids) ds"

definition names_baseline :: "ext \<Rightarrow> ppath \<Rightarrow> string \<Rightarrow> bool io" where
  "names_baseline X workspace candidate = bindS (manifest_says_baseline X workspace candidate) (\<lambda>m.
     retS (case m of None \<Rightarrow> sublist ''baseline'' (py_lower candidate) | Some b \<Rightarrow> b))"

fun find_by_name :: "ext \<Rightarrow> ppath \<Rightarrow> string list \<Rightarrow> ppath option io" where
  "find_by_name X workspace [] = retS None"
| "find_by_name X workspace (n # ns) = bindS (names_baseline X workspace (replace_all ''.detections.json'' [] n)) (\<lambda>b.
     if b then retS (Some (in_evaluation workspace n)) else find_by_name X workspace ns)"

fun find_by_content :: "ext \<Rightarrow> ppath \<Rightarrow> string list \<Rightarrow> ppath option io" where
  "find_by_content X workspace [] = retS None"
| "find_by_content X workspace (n # ns) = bindS (read_dict X (in_evaluation workspace n)) (\<lambda>doc.
     bindS (names_baseline X workspace (py_str (py_or (dget doc ''candidate_id'') (PStr [])))) (\<lambda>b.
     if b then retS (Some (in_evaluation workspace n)) else find_by_content X workspace ns))"

definition baseline_detections :: "ext \<Rightarrow> eval_inputs \<Rightarrow> ppath \<Rightarrow> ppath option io" where
  "baseline_detections X ei own = (let ws = ei_workspace ei in
     bindS (names_baseline X ws (ei_candidate ei)) (\<lambda>current.
     bindS (getS (\<lambda>w. glob_names w (path_div ws ''evaluation'') ''.detections.json'')) (\<lambda>names.
     bindS (find_by_name X ws names) (\<lambda>p1.
     bindS (case p1 of Some p \<Rightarrow> retS (Some p) | None \<Rightarrow> find_by_content X ws names) (\<lambda>p2.
     retS (if current \<and> p2 = None then Some own else p2))))))"

definition map_failed :: "eval_inputs \<Rightarrow> string \<Rightarrow> exc \<Rightarrow> pydict" where
  "map_failed ei prefix_text e = unmeasured ei (PStr ''coco_map_50_95'') not_required
     (PStr (py_str (dget_or (ps_details e) ''reason_code'' (reason_val UNAVAILABLE_COCO_TOOLS)))) (prefix_text @ ps_message e)"

text \<open>The mAP of the baseline, recorded as an attestation of its own; \<open>Inl\<close> is the document to return.\<close>

definition measure_baseline_map ::
    "ext \<Rightarrow> coco_tools \<Rightarrow> eval_inputs \<Rightarrow> ppath \<Rightarrow> string list \<Rightarrow> ppath option \<Rightarrow> (pydict + pyfloat option) io" where
  "measure_baseline_map X T ei gt ids source = (case source of None \<Rightarrow> retS (Inr None)
     | Some p \<Rightarrow> bindS (read_json X p) (\<lambda>v. bindS (liftS (detections_of v)) (\<lambda>ds.
         catchS (bindS (coco_map_50_95 X T gt (on_images ids ds) (ei_hash ei) (ei_adapter ei) (ei_config ei) None None (Fin 0)) (\<lambda>r.
           bindS (write_atomic_json X (in_evaluation (ei_workspace ei) ''baseline_map_attestation.json'') (PDict (er_attestation r))) (\<lambda>u.
           retS (Inr (Some (er_value r))))))
         (\<lambda>e. if is_ps e then retS (Inl (map_failed ei ''Baseline mAP measurement failed: '' e)) else raiseS e))))"

definition candidate_map :: "ext \<Rightarrow> coco_tools \<Rightarrow> eval_inputs \<Rightarrow> ppath \<Rightarrow> pyval list \<Rightarrow> pyfloat option \<Rightarrow> (pydict + evaluation_result) io" where
  "candidate_map X T ei gt ds baseline = catchS
     (bindS (liftS (minimum_quality (ei_quality ei))) (\<lambda>minimum. bindS (liftS (degradation_limit (ei_quality ei))) (\<lambda>degradation.
      bindS (coco_map_50_95 X T gt ds (ei_hash ei) (ei_adapter ei) (ei_config ei) baseline degradation minimum) (\<lambda>r. retS (Inr r)))))
     (\<lambda>e. if is_ps e then retS (Inl (map_failed ei [] e)) else raiseS e)"

definition evaluate_yolo :: "ext \<Rightarrow> coco_tools \<Rightarrow> eval_inputs \<Rightarrow> pydict io" where
  "evaluate_yolo X T ei = (let metric = PStr ''coco_map_50_95''; own = in_evaluation (ei_workspace ei) (ei_candidate ei @ ''.detections.json'') in
     bindS (liftS (bindR (ditem (ei_manifest ei) ''root'') path_arg)) (\<lambda>base.
     case dget (ei_manifest ei) ''annotation_path'' of PStr rel \<Rightarrow>
       (let gt = path_div base rel in
       bindS (getS (\<lambda>w. is_file w own)) (\<lambda>there.
       if \<not> there then retS (unmeasured ei metric not_required (PStr ''EVALUATION_REQUIRES_LABELED_INFERENCE_FOR_ADAPTER'')
         (''YOLO mAP requires normalized detection JSON from the bench worker; missing '' @ path_name own))
       else bindS (read_json X own) (\<lambda>v. bindS (liftS (detections_of v)) (\<lambda>ds.
       bindS (read_dict X gt) (\<lambda>truth. bindS (liftS (image_ids truth)) (\<lambda>ids.
       bindS (baseline_detections X ei own) (\<lambda>source.
       bindS (measure_baseline_map X T ei gt ids source) (\<lambda>b. case b of Inl doc \<Rightarrow> retS doc
       | Inr baseline \<Rightarrow>
         if dget (ei_quality ei) ''maximum_degradation_from_baseline'' \<noteq> PNone \<and> baseline = None
         then retS (unmeasured ei metric not_required (PStr ''BASELINE_MAP_REQUIRED'')
           ''maximum_degradation_from_baseline requires measured baseline mAP on the held-out evaluation set'')
         else bindS (candidate_map X T ei gt (on_images ids ds) baseline) (\<lambda>c. case c of Inl doc \<Rightarrow> retS doc
         | Inr r \<Rightarrow> bindS (write_atomic_json X (path_div (ei_workspace ei) (attestation_rel (ei_candidate ei))) (PDict (er_attestation r))) (\<lambda>u.
             retS [(''candidate_id'', PStr (ei_candidate ei)), (''adapter'', PStr (ei_adapter ei)),
               (''quality_metric_name'', PStr (er_metric r)), (''quality_value'', PFloat (er_value r)),
               (''baseline_map'', opt_val PFloat baseline), (''quality_ok'', PBool (truthy (dget (er_attestation r) ''pass''))),
               (''equivalence_ok'', PBool True), (''equivalence_status'', PStr ''not_required''),
               (''attestation_path'', PStr (attestation_rel (ei_candidate ei))), (''unavailable_reason'', PNone),
               (''sample_count'', PInt (er_samples r))]))))))))))
     | _ \<Rightarrow> retS (unmeasured ei metric not_required (reason_val UNAVAILABLE_DATA) ''YOLO evaluation requires annotation_path'')))"

section \<open>By adapter\<close>

record eval_tools =
  et_arrays :: arrays
  et_numpy :: numpy
  et_ort :: ort_runtime
  et_coco :: coco_tools

definition candidate_model_file :: "ppath \<Rightarrow> pydict \<Rightarrow> exc + ppath" where
  "candidate_model_file workspace man = (if truthy (dget man ''model_absolute_path'') then path_arg (dget man ''model_absolute_path'')
     else Inr (path_div workspace (py_str (dget_or man ''model_path'' (PStr [])))))"

definition evaluate_candidate_quality ::
    "ext \<Rightarrow> eval_tools \<Rightarrow> ppath \<Rightarrow> pydict \<Rightarrow> string \<Rightarrow> pydict \<Rightarrow> ppath \<Rightarrow> pydict \<Rightarrow> string \<Rightarrow> ppath \<Rightarrow> pydict io" where
  "evaluate_candidate_quality X V workspace config candidate man baseline ev_manifest ev_hash stream_path =
     bindS (liftS (sub_dict config ''model'')) (\<lambda>model.
     bindS (liftS (sub_dict config ''quality'')) (\<lambda>quality.
     bindS (liftS (sub_dict model ''adapter_config'')) (\<lambda>adapter_config.
     bindS (liftS (candidate_model_file workspace man)) (\<lambda>model_path.
     bindS (load_stream_tensors X (et_arrays V) stream_path (Some ''eval'')) (\<lambda>samples.
     let adapter = py_str (py_or (dget model ''adapter'') (PStr ''raw_tensor''));
       ei = \<lparr>ei_candidate = candidate, ei_adapter = adapter, ei_config = adapter_config, ei_baseline = baseline,
         ei_model = model_path, ei_samples = samples, ei_hash = ev_hash, ei_quality = quality,
         ei_workspace = workspace, ei_manifest = ev_manifest\<rparr> in
     if samples = [] then retS (unmeasured ei (dget quality ''metric_name'') [] (reason_val UNAVAILABLE_DATA)
       ''No evaluation samples in benchmark stream'')
     else if adapter = ''raw_tensor'' then evaluate_raw_tensor X (et_arrays V) (et_numpy V) (et_ort V) ei
     else if adapter = ''image_classification'' then evaluate_classification X (et_arrays V) (et_ort V) ei
     else if adapter = ''yolo_v8_detection'' then evaluate_yolo X (et_coco V) ei
     else retS (unmeasured ei (dget quality ''metric_name'') [] (PStr ''EVALUATION_UNSUPPORTED_ADAPTER'')
       (''No evaluator wired for adapter '' @ adapter)))))))"

end
