(* ===== verification/Forge_Run.thy ===== *)
theory Forge_Run
  imports Cert_Context Candidates Quantization Quality_Eval
begin

text \<open>
  A forge run from its configuration to the signed bundle: \<open>orchestration/__init__.py\<close>. The run works
  in a directory of its own under a lock; ten steps, each recorded as completed in a status document,
  so that a run that was interrupted resumes after the last completed one. What the steps do is in
  the theories imported here. A document the run reads back from its own workspace is a dict: another
  JSON value is the AttributeError of its first use, raised here at the read.
\<close>

text \<open>
  The surroundings of a run. \<open>fe_kill\<close> is what \<open>os.kill(pid, 0)\<close> raises, \<open>fe_hex\<close> the hex of a
  random UUID, \<open>fe_shuffle\<close> the shuffle of a generator with the given seed.
\<close>

record forge_env =
  fe_host :: probe
  fe_onnx :: onnx_package
  fe_checker :: onnx_lib
  fe_tools :: eval_tools
  fe_programs :: programs
  fe_quantizer :: quantizer
  fe_crypto :: crypto
  fe_pid :: int
  fe_kill :: "int \<Rightarrow> exc option"
  fe_nodename :: string
  fe_millis :: int
  fe_hex :: string
  fe_shuffle :: "int \<Rightarrow> string list \<Rightarrow> string list"

section \<open>The name and the directory of a run\<close>

definition run_id_char :: "char \<Rightarrow> bool" where
  "run_id_char c \<longleftrightarrow> is_digit c \<or> (65 \<le> code c \<and> code c \<le> 90) \<or> (97 \<le> code c \<and> code c \<le> 122)
     \<or> c = CHR ''_'' \<or> c = CHR ''-''"

text \<open>Each maximal stretch of other characters becomes one dash; the flag says one was just written.\<close>

fun safe_label :: "bool \<Rightarrow> string \<Rightarrow> string" where
  "safe_label dashed [] = []"
| "safe_label dashed (c # cs) = (if run_id_char c then c # safe_label False cs
     else if dashed then safe_label True cs else CHR ''-'' # safe_label True cs)"

definition zero_padded :: "nat \<Rightarrow> int \<Rightarrow> string" where
  "zero_padded n i = (let s = show_int \<bar>i\<bar>; sign = (if i < 0 then ''-'' else []) in
     sign @ replicate (n - length sign - length s) (CHR ''0'') @ s)"

definition make_run_id :: "forge_env \<Rightarrow> string \<Rightarrow> string" where
  "make_run_id F project_name = (let label = take 24 (safe_label False (py_lower (py_strip project_name))) in
     zero_padded 13 (fe_millis F) @ ''-'' @ take 10 (fe_hex F) @ ''-'' @ (if label \<noteq> [] then label else ''project''))"

record run_workspace =
  rw_id :: string
  rw_root :: ppath
  rw_config :: pyval
  rw_hash :: string

definition under :: "ppath \<Rightarrow> string list \<Rightarrow> ppath" where
  "under p ns = foldl path_div p ns"

definition workspace_dirs :: "ppath \<Rightarrow> ppath list" where
  "workspace_dirs p = map (path_div p) [''environment'', ''inputs'', ''models'', ''candidates'', ''trials'',
     ''evaluation'', ''certification'', ''bundle'', ''reports'', ''logs'']"

definition model_dirs :: "ppath \<Rightarrow> ppath list" where
  "model_dirs p = map (under p) [[''models'', ''baseline''], [''models'', ''optimized''], [''models'', ''quantized''],
     [''candidates'', ''manifests''], [''candidates'', ''status'']]"

section \<open>The lock\<close>

definition lock_path :: "ppath \<Rightarrow> ppath" where
  "lock_path p = path_div p ''run.lock''"

definition pid_alive :: "forge_env \<Rightarrow> int \<Rightarrow> exc + bool" where
  "pid_alive F pid = (case fe_kill F pid of None \<Rightarrow> Inr True
     | Some e \<Rightarrow> if is_kind (OtherError ''ProcessLookupError'') e then Inr False
       else if is_kind (OtherError ''PermissionError'') e then Inr True else Inl e)"

definition pid_of :: "pyval \<Rightarrow> int option" where
  "pid_of v = (case v of PInt n \<Rightarrow> Some n | PBool b \<Rightarrow> Some (if b then 1 else 0) | _ \<Rightarrow> None)"

definition read_lock :: "ext \<Rightarrow> ppath \<Rightarrow> pyval io" where
  "read_lock X p = catchS (read_json X p)
     (\<lambda>e. if is_os_error e \<or> is_json_error e then retS (PDict []) else raiseS e)"

definition check_lock :: "ext \<Rightarrow> forge_env \<Rightarrow> ppath \<Rightarrow> unit io" where
  "check_lock X F p =
     bindS (read_lock X p) (\<lambda>v. bindS (liftS (as_dict v)) (\<lambda>existing.
     let pid = dget existing ''pid'' in
     bindS (liftS (case pid_of pid of None \<Rightarrow> Inr False | Some n \<Rightarrow> pid_alive F n)) (\<lambda>alive.
     guardS (\<not> alive) (ps_error RUN_LOCK_HELD (''Run lock held by pid '' @ py_str pid) None
       [(''lock'', PStr (path_str p))] None))))"

definition lock_document :: "forge_env \<Rightarrow> string \<Rightarrow> string \<Rightarrow> pyval" where
  "lock_document F now h = PDict [(''pid'', PInt (fe_pid F)), (''created_at'', PStr now), (''hostname_hash'', PStr (take 16 h))]"

definition acquire_lock :: "ext \<Rightarrow> forge_env \<Rightarrow> ppath \<Rightarrow> unit io" where
  "acquire_lock X F run_root = (let p = lock_path run_root in
     bindS (getS (\<lambda>w. path_exists w p)) (\<lambda>there.
     bindS (if there then check_lock X F p else retS ()) (\<lambda>u.
     bindS (utc_now_rfc3339 X) (\<lambda>now. bindS (liftS (sha256_canonical X (PStr (fe_nodename F)))) (\<lambda>h.
     write_atomic_json X p (lock_document F now h))))))"

definition release_lock :: "ppath \<Rightarrow> unit io" where
  "release_lock run_root = bindS (getS (\<lambda>w. path_exists w (lock_path run_root))) (\<lambda>there.
     if there then unlink (lock_path run_root) else retS ())"

section \<open>Creating and loading a run\<close>

definition project_root :: "pydict \<Rightarrow> exc + pyval \<times> ppath" where
  "project_root config = bindR (ditem config ''project'') (\<lambda>project.
     bindR (bindR (py_item project ''output_root'') path_arg) (\<lambda>output_root.
     bindR (guardR (p_abs output_root) (ps_err PATH_UNSAFE ''project.output_root must be absolute'')) (\<lambda>u.
     bindR (py_item project ''name'') (\<lambda>name. Inr (name, output_root)))))"

definition create_run_workspace :: "ext \<Rightarrow> forge_env \<Rightarrow> ppath \<Rightarrow> run_workspace io" where
  "create_run_workspace X F config_path =
     bindS (bindS (load_config_document X config_path) (\<lambda>v. validate_document X v ''forge_config'')) (\<lambda>doc.
     bindS (liftS (bindR (as_dict doc) project_root)) (\<lambda>(name, output_root).
     let run_id = make_run_id F (py_str name); p = path_div output_root run_id in
     bindS (getS (\<lambda>w. path_exists w p)) (\<lambda>taken.
     bindS (guardS (\<not> taken) (ps_err INTERNAL_INVARIANT_FAILED (''Run workspace already exists: '' @ path_str p))) (\<lambda>u.
     bindS (mkdirs False p) (\<lambda>u.
     bindS (mapS (mkdirs True) (workspace_dirs p @ model_dirs p)) (\<lambda>us.
     bindS (liftS (sha256_canonical X doc)) (\<lambda>h.
     bindS (write_atomic_json X (under p [''inputs'', ''config.canonical.json'']) doc) (\<lambda>u.
     bindS (envelope_fields X ''perceptshift.forge_run'') (\<lambda>env.
     bindS (get_version X) (\<lambda>v. bindS (\<lambda>w. (resolve w config_path, w)) (\<lambda>rp.
     bindS (write_atomic_json X (path_div p ''run.json'') (PDict (dupdate env
       [(''run_id'', PStr run_id), (''status'', PStr ''created''), (''config_hash'', PStr h),
        (''product_version'', PStr v), (''config_path'', PStr (path_str rp))]))) (\<lambda>u.
     bindS (acquire_lock X F p) (\<lambda>u.
     retS \<lparr>rw_id = run_id, rw_root = p, rw_config = doc, rw_hash = h\<rparr>)))))))))))))"

definition load_run_workspace :: "ext \<Rightarrow> ppath \<Rightarrow> run_workspace io" where
  "load_run_workspace X run_root =
     bindS (getS (\<lambda>w. is_file w (path_div run_root ''run.json''))) (\<lambda>there.
     bindS (guardS there (ps_err NOT_FOUND (''run.json missing under '' @ path_str run_root))) (\<lambda>u.
     bindS (read_json X (path_div run_root ''run.json'')) (\<lambda>run_doc.
     bindS (read_json X (under run_root [''inputs'', ''config.canonical.json''])) (\<lambda>config.
     bindS (liftS (py_item run_doc ''run_id'')) (\<lambda>i. bindS (liftS (py_item run_doc ''config_hash'')) (\<lambda>h.
     retS \<lparr>rw_id = py_str i, rw_root = run_root, rw_config = config, rw_hash = py_str h\<rparr>))))))"

section \<open>The status of the steps\<close>

definition status_path :: "ppath \<Rightarrow> ppath" where
  "status_path p = under p [''candidates'', ''status'', ''pipeline.json'']"

definition resumable :: "ext \<Rightarrow> run_workspace \<Rightarrow> pydict \<Rightarrow> unit io" where
  "resumable X ws status =
     bindS (guardS (py_eq (dget status ''config_hash'') (PStr (rw_hash ws)))
       (ps_err RUN_RESUME_INVALID ''Config hash mismatch on resume'')) (\<lambda>u.
     bindS (get_version X) (\<lambda>v.
     guardS (py_eq (dget status ''product_version'') (PStr v)) (ps_error RUN_RESUME_INVALID
       ''Product version mismatch on resume''
       (Some ''Supply an explicit incompatible-resume override in a future revision'') [] None)))"

definition initial_status :: "ext \<Rightarrow> run_workspace \<Rightarrow> bool \<Rightarrow> pydict io" where
  "initial_status X ws resume =
     bindS (getS (\<lambda>w. resume \<and> is_file w (status_path (rw_root ws)))) (\<lambda>old.
     if old then bindS (read_dict X (status_path (rw_root ws))) (\<lambda>status.
       bindS (resumable X ws status) (\<lambda>u. retS status))
     else bindS (get_version X) (\<lambda>v.
       retS [(''config_hash'', PStr (rw_hash ws)), (''product_version'', PStr v), (''steps'', PDict [])]))"

definition step_entry :: "pydict \<Rightarrow> string \<Rightarrow> exc + pydict" where
  "step_entry status name = bindR (as_dict (dget_or status ''steps'' (PDict []))) (\<lambda>steps.
     as_dict (dget_or steps name (PDict [])))"

definition step_done :: "pydict \<Rightarrow> string \<Rightarrow> exc + bool" where
  "step_done status name = bindR (step_entry status name) (\<lambda>s. Inr (truthy (dget s ''completed'')))"

definition mark_done :: "ext \<Rightarrow> ppath \<Rightarrow> string \<Rightarrow> pydict \<Rightarrow> pydict \<Rightarrow> pydict io" where
  "mark_done X p name payload status =
     bindS (liftS (as_dict (dget_or status ''steps'' (PDict [])))) (\<lambda>steps.
     bindS (utc_now_rfc3339 X) (\<lambda>now.
     let status' = dset ''steps'' (PDict (dset name (PDict (dupdate
           [(''completed'', PBool True), (''completed_at'', PStr now)] payload)) steps)) status in
     bindS (write_atomic_json X (status_path p) (PDict status')) (\<lambda>u. retS status')))"

text \<open>A step: what it yields when it is done now, with the payload recorded, or when it was done before.\<close>

definition once :: "ext \<Rightarrow> ppath \<Rightarrow> string \<Rightarrow> ('a \<times> pydict) io \<Rightarrow> 'a io \<Rightarrow> pydict \<Rightarrow> ('a \<times> pydict) io" where
  "once X p name fresh again status =
     bindS (liftS (step_done status name)) (\<lambda>done.
     if done then bindS again (\<lambda>x. retS (x, status))
     else bindS fresh (\<lambda>(x, payload). bindS (mark_done X p name payload status) (\<lambda>s. retS (x, s))))"

definition copy2 :: "ppath \<Rightarrow> ppath \<Rightarrow> unit io" where
  "copy2 p q = bindS (getS (\<lambda>w. if is_dir w q then path_div q (path_name p) else q)) (\<lambda>target.
     bindS (getS (\<lambda>w. is_file w p \<and> is_file w target \<and> real w p = real w target)) (\<lambda>same.
     bindS (guardS (\<not> same) (py_err (OtherError ''SameFileError''))) (\<lambda>u. copy_bytes p target)))"

definition int_or :: "pydict \<Rightarrow> string \<Rightarrow> int \<Rightarrow> exc + int" where
  "int_or d k n = py_int (py_or (dget d k) (PInt n))"

section \<open>The steps on the inputs\<close>

text \<open>What the rest of the run reads besides its workspace.\<close>

definition config_path_at :: "pydict \<Rightarrow> string \<Rightarrow> string \<Rightarrow> exc + ppath" where
  "config_path_at config part k = bindR (ditem config part) (\<lambda>v. bindR (py_item v k) path_arg)"

definition environment_step :: "ext \<Rightarrow> forge_env \<Rightarrow> ppath \<Rightarrow> pyval \<Rightarrow> (unit \<times> pydict) io" where
  "environment_step X F p cert_cfg =
     bindS (liftS (as_dict cert_cfg)) (\<lambda>cfg.
     bindS (capture_environment X (fe_host F) p (truthy (dget_or cfg ''require_valid_environment'' (PBool True)))) (\<lambda>doc.
     retS ((), [(''status'', dget doc ''status'')])))"

definition input_file :: "ppath \<Rightarrow> string \<Rightarrow> ppath" where
  "input_file p n = under p [''inputs'', n]"

definition datasets_step :: "ext \<Rightarrow> ppath \<Rightarrow> pydict \<Rightarrow> (unit \<times> pydict) io" where
  "datasets_step X p config =
     bindS (liftS (config_path_at config ''datasets'' ''calibration_manifest'')) (\<lambda>cp.
     bindS (validate_dataset_manifest X cp False) (\<lambda>cal.
     bindS (liftS (config_path_at config ''datasets'' ''evaluation_manifest'')) (\<lambda>ep.
     bindS (validate_dataset_manifest X ep False) (\<lambda>ev.
     bindS (guardS (validation_ok cal \<and> validation_ok ev) (ps_error DATASET_INVALID ''Dataset validation failed'' None
       [(''calibration_errors'', PList (map PDict (dv_errors cal))),
        (''evaluation_errors'', PList (map PDict (dv_errors ev)))] None)) (\<lambda>u.
     bindS (liftS (bindR (ditem config ''datasets'') (\<lambda>d. py_item d ''prohibit_cross_split_duplicates''))) (\<lambda>prohibit.
     bindS (liftS (assert_split_isolation cal ev (truthy prohibit))) (\<lambda>u.
     bindS (write_atomic_json X (input_file p ''calibration-manifest.json'') (PDict (dv_manifest cal))) (\<lambda>u.
     bindS (write_atomic_json X (input_file p ''evaluation-manifest.json'') (PDict (dv_manifest ev))) (\<lambda>u.
     retS ((), [(''calibration_hash'', PStr (dv_hash cal)), (''evaluation_hash'', PStr (dv_hash ev))]))))))))))"

definition baseline_file :: "ppath \<Rightarrow> ppath" where
  "baseline_file p = under p [''models'', ''baseline'', ''model.onnx'']"

definition model_step :: "ext \<Rightarrow> forge_env \<Rightarrow> ppath \<Rightarrow> ppath \<Rightarrow> (pydict \<times> pydict) io" where
  "model_step X F p baseline_src =
     bindS (inspect_onnx_model X (fe_onnx F) baseline_src) (\<lambda>m.
     bindS (getS (\<lambda>w. path_exists w (baseline_file p))) (\<lambda>there.
     bindS (if there then retS () else copy2 baseline_src (baseline_file p)) (\<lambda>u.
     bindS (write_atomic_json X (input_file p ''model-manifest.json'') (PDict (mi_report m))) (\<lambda>u.
     retS (mi_report m, [(''model_sha256'', PStr (mi_sha m))])))))"

text \<open>\<open>str(status.get("steps", {}).get("datasets", {}).get(k) or "")\<close>.\<close>

definition dataset_hash :: "pydict \<Rightarrow> string \<Rightarrow> exc + string" where
  "dataset_hash status k = bindR (step_entry status ''datasets'') (\<lambda>s. Inr (py_str (py_or (dget s k) (PStr []))))"

text \<open>A dimension that is no positive int becomes 1.\<close>

definition bench_dim :: "pyval \<Rightarrow> pyval" where
  "bench_dim d = PInt (case d of PInt n \<Rightarrow> if 0 < n then n else 1 | _ \<Rightarrow> 1)"

definition first_shape :: "pyval \<Rightarrow> exc + pyval" where
  "first_shape inputs = bindR (case inputs of PList (v # vs) \<Rightarrow> as_dict v | PDict d \<Rightarrow> Inl (py_err KeyError)
       | PStr s \<Rightarrow> Inl (py_err AttributeError) | _ \<Rightarrow> Inl (py_err TypeError)) (\<lambda>d. Inr (dget d ''shape''))"

definition bench_input :: "pydict \<Rightarrow> pydict \<Rightarrow> exc + pydict" where
  "bench_input config inspection =
     bindR (bindR (sub_dict config ''model'') (\<lambda>m. sub_dict m ''expected_input'')) (\<lambda>expected.
     if truthy (dget expected ''shape'') \<or> \<not> truthy (dget inspection ''inputs'') then Inr expected
     else bindR (first_shape (dget inspection ''inputs'')) (\<lambda>shape.
       if truthy shape then bindR (py_iter shape) (\<lambda>ds. Inr (dset ''shape'' (PList (map bench_dim ds)) expected))
       else Inr expected))"

definition stream_file :: "ppath \<Rightarrow> ppath" where
  "stream_file p = input_file p ''bench-stream.json''"

definition stream_step :: "ext \<Rightarrow> forge_env \<Rightarrow> ppath \<Rightarrow> pydict \<Rightarrow> pydict \<Rightarrow> pydict \<Rightarrow> pydict \<Rightarrow> (unit \<times> pydict) io" where
  "stream_step X F p config inspection cal_manifest ev_manifest =
     bindS (liftS (bench_input config inspection)) (\<lambda>expected.
     bindS (liftS (bindR (sub_dict config ''benchmark'') (\<lambda>b. int_or b ''measured_iterations'' 1))) (\<lambda>measured.
     bindS (build_benchmark_stream X (et_arrays (fe_tools F)) p cal_manifest ev_manifest expected measured ''rgb8'') (\<lambda>out.
     bindS (read_dict X (stream_file p)) (\<lambda>stream.
     bindS (guardS (\<not> (dhas stream ''synthetic_float_samples'' \<and> \<not> dhas stream ''samples''))
       (ps_err INTERNAL_INVARIANT_FAILED ''Production bench stream must not be synthetic_float_samples-only'')) (\<lambda>u.
     retS ((), [(''sample_count'', dget stream ''sample_count'')]))))))"

definition quantization_step ::
    "ext \<Rightarrow> forge_env \<Rightarrow> ppath \<Rightarrow> pydict \<Rightarrow> pydict \<Rightarrow> (pydict list \<times> pydict) io" where
  "quantization_step X F p config inspection =
     bindS (liftS (config_path_at config ''datasets'' ''calibration_manifest'')) (\<lambda>cp.
     bindS (run_quantization_variants X (et_arrays (fe_tools F)) (fe_programs F) (fe_quantizer F) p config
       (baseline_file p) cp (stream_file p) inspection) (\<lambda>models.
     retS (models, [(''count'', PInt (int (length models)))])))"

definition quantized_dir :: "ppath \<Rightarrow> ppath" where
  "quantized_dir p = under p [''models'', ''quantized'']"

definition quantized_again :: "ext \<Rightarrow> ppath \<Rightarrow> pydict list io" where
  "quantized_again X p =
     bindS (getS (\<lambda>w. glob_names w (quantized_dir p) ''.report.json'')) (\<lambda>names.
     mapS (\<lambda>n. bindS (read_json X (path_div (quantized_dir p) n)) (\<lambda>v.
       let label = replace_all ''.report'' [] (path_stem (path_of n)) in
       bindS (liftS (bindR (py_item v ''output_path'') path_arg)) (\<lambda>out.
       bindS (liftS (py_item v ''model_sha256'')) (\<lambda>h.
       retS [(''label'', PStr label), (''model_path'', PStr (''models/quantized/'' @ path_name out)),
         (''model_sha256'', h),
         (''lineage'', PDict [(''transformation'', PStr ''static_qdq''), (''label'', PStr label)])])))) names)"

definition manifest_file :: "ppath \<Rightarrow> string \<Rightarrow> ppath" where
  "manifest_file p cid = under p [''candidates'', ''manifests'', cid @ ''.json'']"

definition set_candidate_status :: "ext \<Rightarrow> ppath \<Rightarrow> string \<Rightarrow> string \<Rightarrow> pydict \<Rightarrow> unit io" where
  "set_candidate_status X p cid st extra = write_atomic_json X (under p [''candidates'', ''status'', cid @ ''.json''])
     (PDict ([(''candidate_id'', PStr cid), (''status'', PStr st)] @ extra))"

definition register_candidate :: "ext \<Rightarrow> ppath \<Rightarrow> candidate_spec \<Rightarrow> unit io" where
  "register_candidate X p spec =
     bindS (liftS (path_arg (dget_or (cs_manifest spec) ''model_path'' (PStr ''models/baseline/model.onnx'')))) (\<lambda>rel.
     bindS (getS (\<lambda>w. let own = path_join p rel; given = path_of (cs_model_path spec) in
       if \<not> is_file w own \<and> is_file w given then given else own)) (\<lambda>abs_model.
     bindS (\<lambda>w. (resolve w abs_model, w)) (\<lambda>rp.
     bindS (write_atomic_json X (manifest_file p (cs_id spec))
       (PDict (dset ''model_absolute_path'' (PStr (path_str rp)) (cs_manifest spec)))) (\<lambda>u.
     set_candidate_status X p (cs_id spec) ''generated'' []))))"

definition candidates_step ::
    "ext \<Rightarrow> ppath \<Rightarrow> pydict \<Rightarrow> int \<Rightarrow> pydict list \<Rightarrow> pydict \<Rightarrow> (unit \<times> pydict) io" where
  "candidates_step X p config maximum quantized cal_manifest =
     bindS (generate_candidates X config (baseline_file p) quantized maximum (Some cal_manifest)) (\<lambda>specs.
     bindS (mapS (register_candidate X p) specs) (\<lambda>us.
     retS ((), [(''count'', PInt (int (length specs)))])))"

section \<open>Benchmarking\<close>

record bench_plan =
  bp_worker :: ppath
  bp_timeout :: pyfloat
  bp_warmup :: int
  bp_measured :: int
  bp_cold :: int
  bp_resamples :: pyval
  bp_seed :: int
  bp_max_rss :: pyval
  bp_max_drift :: pyval
  bp_start_temp :: pyval

definition host_file :: "ppath \<Rightarrow> ppath" where
  "host_file p = under p [''environment'', ''host-fingerprint.json'']"

text \<open>The limits on the host before anything is measured; missing evidence fails them.\<close>

definition check_start_temperature :: "pyval \<Rightarrow> pydict \<Rightarrow> exc + unit" where
  "check_start_temperature limit thermal = (let start = dget thermal ''primary_celsius'' in
     if limit = PNone then Inr ()
     else if start = PNone then Inl (ps_error BENCHMARK_ENVIRONMENT_INVALID
       (''maximum_start_temperature_c configured but thermal sensor unavailable; '' @
        ''environment validity fails closed'') None [(''thermal'', PDict thermal)] None)
     else bindR (py_float start) (\<lambda>s. bindR (py_float limit) (\<lambda>l.
       guardR (\<not> fl_lt l s) (ps_err BENCHMARK_ENVIRONMENT_INVALID (''Start temperature '' @ py_str start @
         ''C exceeds maximum_start_temperature_c '' @ py_str limit)))))"

definition check_throttling :: "bool \<Rightarrow> pyval \<Rightarrow> exc + unit" where
  "check_throttling required throttling = (if \<not> required then Inr ()
     else bindR (as_dict throttling) (\<lambda>d.
       bindR (guardR (dget d ''active'' \<noteq> PNone) (ps_error BENCHMARK_ENVIRONMENT_INVALID
         (''require_no_throttling=true but throttling evidence unavailable; '' @ ''do not claim not-throttled'')
         None [(''throttling'', PDict d)] None)) (\<lambda>u.
       guardR (dget d ''active'' \<noteq> PBool True) (ps_err BENCHMARK_ENVIRONMENT_INVALID
         ''Host reports thermal throttling while require_no_throttling=true''))))"

definition bench_plan_of :: "ppath \<Rightarrow> pydict \<Rightarrow> pydict \<Rightarrow> exc + bench_plan" where
  "bench_plan_of worker config cfg =
     bindR (py_float (py_or (dget cfg ''per_candidate_timeout_seconds'') (PInt 60))) (\<lambda>timeout.
     bindR (int_or cfg ''warmup_iterations'' 1) (\<lambda>warmup.
     bindR (int_or cfg ''measured_iterations'' 1) (\<lambda>measured.
     bindR (int_or cfg ''cold_start_trials'' 0) (\<lambda>cold.
     bindR (bindR (as_dict (dget_or config ''project'' (PDict []))) (\<lambda>d. int_or d ''random_seed'' 0)) (\<lambda>seed.
     Inr \<lparr>bp_worker = worker, bp_timeout = timeout, bp_warmup = warmup, bp_measured = measured, bp_cold = cold,
       bp_resamples = py_or (dget cfg ''bootstrap_resamples'') (PInt 100), bp_seed = seed,
       bp_max_rss = dget cfg ''maximum_worker_rss_mb'', bp_max_drift = dget cfg ''maximum_temperature_drift_c'',
       bp_start_temp = PNone\<rparr>)))))"

definition admitted_host :: "pydict \<Rightarrow> pydict \<Rightarrow> bench_plan \<Rightarrow> exc + bench_plan" where
  "admitted_host cfg fingerprint bp = bindR (sub_dict fingerprint ''thermal'') (\<lambda>thermal.
     bindR (check_start_temperature (dget cfg ''maximum_start_temperature_c'') thermal) (\<lambda>u.
     bindR (check_throttling (truthy (dget cfg ''require_no_throttling''))
       (py_or (dget fingerprint ''throttling'') (PDict []))) (\<lambda>u.
     Inr (bp\<lparr>bp_start_temp := dget thermal ''primary_celsius''\<rparr>))))"

definition candidate_order :: "ext \<Rightarrow> forge_env \<Rightarrow> ppath \<Rightarrow> bool \<Rightarrow> int \<Rightarrow> string list io" where
  "candidate_order X F p randomize seed =
     bindS (getS (\<lambda>w. glob_names w (under p [''candidates'', ''manifests'']) ''.json'')) (\<lambda>names.
     let order = (if randomize then fe_shuffle F seed names else names) in
     bindS (write_atomic_json X (under p [''trials'', ''candidate_order.json'']) (PDict
       [(''randomize_candidate_order'', PBool randomize), (''seed'', PInt seed),
        (''order'', PList (map (\<lambda>n. PStr (path_stem (path_of n))) order))])) (\<lambda>u. retS order))"

definition worker_argv :: "ppath \<Rightarrow> ppath \<Rightarrow> ppath \<Rightarrow> int \<Rightarrow> int \<Rightarrow> string list" where
  "worker_argv worker man_path stream warmup measured = [path_str worker, ''--candidate'', path_str man_path,
     ''--dataset'', path_str stream, ''--warmup'', show_int warmup, ''--measured'', show_int measured]"

text \<open>One launch whose outputs go to \<open>trials/<tag>.jsonl\<close> and \<open>logs/<tag>.stderr\<close>.\<close>

definition trial_output :: "ppath \<Rightarrow> string \<Rightarrow> ppath" where
  "trial_output p tag = under p [''trials'', tag @ ''.jsonl'']"

definition bench_launch :: "ext \<Rightarrow> forge_env \<Rightarrow> bench_plan \<Rightarrow> ppath \<Rightarrow> ppath \<Rightarrow> string \<Rightarrow> int \<Rightarrow> int \<Rightarrow> pydict io" where
  "bench_launch X F bp p man_path tag warmup measured =
     launch_bench_worker X (fe_programs F) (worker_argv (bp_worker bp) man_path (stream_file p) warmup measured)
       p (bp_timeout bp) [] (Some (trial_output p tag)) (Some (under p [''logs'', tag @ ''.stderr'']))"

fun find_summary :: "pyval list \<Rightarrow> exc + pydict option" where
  "find_summary [] = Inr None"
| "find_summary (x # xs) = bindR (as_dict x) (\<lambda>d.
     if py_eq (dget d ''document_type'') (PStr ''perceptshift.bench_worker_summary'') then Inr (Some d)
     else find_summary xs)"

text \<open>The executor times of some rows; the flag says that one gave only an inference time.\<close>

definition executor_time :: "pyval \<Rightarrow> pyfloat list \<times> bool \<Rightarrow> exc + pyfloat list \<times> bool" where
  "executor_time x acc = (if \<not> is_dict x then Inr acc
     else if dhas (the_dict x) ''executor_ms'' then
       bindR (py_float (dget (the_dict x) ''executor_ms'')) (\<lambda>f. Inr (fst acc @ [f], snd acc))
     else Inr (fst acc, snd acc \<or> dhas (the_dict x) ''inference_ms''))"

definition line_time :: "pyval \<Rightarrow> pyfloat list \<times> bool \<Rightarrow> exc + pyfloat list \<times> bool" where
  "line_time x acc = (if is_dict x \<and> dhas (the_dict x) ''document_type'' then Inr acc else executor_time x acc)"

definition summary_samples :: "pydict option \<Rightarrow> pyval list option" where
  "summary_samples summary = (case summary of None \<Rightarrow> None
     | Some s \<Rightarrow> (case dget s ''samples'' of PList l \<Rightarrow> Some l | _ \<Rightarrow> None))"

definition executor_times :: "string \<Rightarrow> pyval list \<Rightarrow> pydict option \<Rightarrow> exc + pyfloat list" where
  "executor_times cid rows summary =
     bindR (foldR line_time rows ([], False)) (\<lambda>(ms, missing).
     bindR (if ms \<noteq> [] then Inr (ms, missing) else (case summary_samples summary of None \<Rightarrow> Inr (ms, missing)
       | Some l \<Rightarrow> foldR executor_time l (ms, missing))) (\<lambda>(ms, missing).
     bindR (guardR (ms \<noteq> []) (ps_error BENCHMARK_WORKER_CRASHED (''Bench worker for '' @ cid @
         '' did not report executor_ms; certification fails closed rather than substituting inference_ms'')
         None [(''missing_executor_timing'', PBool missing)] None)) (\<lambda>u. Inr ms)))"

definition bench_rows :: "ext \<Rightarrow> ppath \<Rightarrow> string \<Rightarrow> pyval list io" where
  "bench_rows X p cid = bindS (read_text (trial_output p cid)) (\<lambda>t.
     bindS (liftS (mapR (json_loads X) (filter (\<lambda>l. py_strip l \<noteq> []) (splitlines t)))) (\<lambda>rows.
     bindS (guardS (rows \<noteq> []) (ps_err BENCHMARK_WORKER_CRASHED (''Bench worker produced no JSONL for '' @ cid))) (\<lambda>u.
     retS rows)))"

text \<open>The peak the worker reports in its summary is preferred to the one of the launch.\<close>

definition summary_peak :: "pydict option \<Rightarrow> pyval" where
  "summary_peak summary = (case summary of None \<Rightarrow> PNone | Some s \<Rightarrow> dget s ''peak_rss_mb'')"

definition peak_of :: "pydict option \<Rightarrow> pydict \<Rightarrow> exc + pyval" where
  "peak_of summary result = (if summary_peak summary = PNone then Inr (dget result ''peak_rss_mb'')
     else bindR (py_float (summary_peak summary)) (\<lambda>f. Inr (PFloat f)))"

definition trial_document :: "string \<Rightarrow> pydict option \<Rightarrow> summary_stats \<Rightarrow> nat \<Rightarrow> int \<Rightarrow> pyval \<Rightarrow> pydict \<Rightarrow> pydict" where
  "trial_document cid summary stats n warmup peak result =
     [(''candidate_id'', PStr cid), (''status'', PStr ''measured''),
      (''latency_definition'', PStr ''profile_executor_complete''), (''mean_ms'', PFloat (ss_mean stats)),
      (''p50_ms'', PFloat (ss_p50 stats)), (''p99_ms'', PFloat (ss_p99 stats)), (''sample_count'', PInt (int n)),
      (''summary'', opt_val PDict summary), (''warmup_ok'', PBool True), (''warmup_iterations'', PInt warmup),
      (''peak_rss_mb'', peak),
      (''peak_rss_unavailable_reason'', if peak \<noteq> PNone then PNone else dget result ''peak_rss_unavailable_reason''),
      (''peak_rss_method'', if summary_peak summary \<noteq> PNone then PStr ''worker_self_report''
        else dget result ''peak_rss_method''),
      (''stats'', PDict (stats_dict stats))]"

definition trial_file :: "ppath \<Rightarrow> string \<Rightarrow> ppath" where
  "trial_file p cid = under p [''trials'', cid @ ''.summary.json'']"

definition check_worker_rss :: "string \<Rightarrow> pyval \<Rightarrow> pyval \<Rightarrow> exc + unit" where
  "check_worker_rss cid limit peak = (if limit = PNone \<or> peak = PNone then Inr ()
     else bindR (py_float peak) (\<lambda>f. bindR (py_float limit) (\<lambda>l.
       guardR (\<not> fl_lt l f) (ps_error RESOURCE_EXHAUSTED (''Candidate '' @ cid @ '' peak_rss_mb='' @ py_str peak @
         '' exceeds maximum_worker_rss_mb='' @ py_str limit) None
         [(''candidate_id'', PStr cid), (''peak_rss_mb'', peak), (''maximum_worker_rss_mb'', limit)] None))))"

definition drift_within :: "pyval \<Rightarrow> pyval \<Rightarrow> pyval \<Rightarrow> exc + unit" where
  "drift_within start end_temp limit =
     bindR (guardR (end_temp \<noteq> PNone) (ps_err BENCHMARK_ENVIRONMENT_INVALID
       ''maximum_temperature_drift_c configured but end thermal unavailable'')) (\<lambda>u.
     bindR (py_float end_temp) (\<lambda>e. bindR (py_float start) (\<lambda>s. bindR (py_float limit) (\<lambda>l.
     let drift = fl_abs (fl_sub e s) in
     guardR (\<not> fl_lt l drift) (ps_err BENCHMARK_ENVIRONMENT_INVALID (''Temperature drift '' @ show_float drift @
       ''C exceeds maximum_temperature_drift_c='' @ py_str limit))))))"

definition check_drift :: "ext \<Rightarrow> forge_env \<Rightarrow> ppath \<Rightarrow> pydict \<Rightarrow> bench_plan \<Rightarrow> unit io" where
  "check_drift X F p config bp = (if bp_max_drift bp = PNone \<or> bp_start_temp bp = PNone then retS ()
     else bindS (liftS (sub_dict config ''certification'')) (\<lambda>cert.
       bindS (capture_environment X (fe_host F) p (truthy (dget cert ''require_valid_environment''))) (\<lambda>d.
       bindS (read_dict X (host_file p)) (\<lambda>fp. bindS (liftS (sub_dict fp ''thermal'')) (\<lambda>thermal.
       liftS (drift_within (bp_start_temp bp) (dget thermal ''primary_celsius'') (bp_max_drift bp)))))))"

text \<open>The outputs kept for the quality evaluation.\<close>

definition native_rows :: "pydict option \<Rightarrow> pyval list \<Rightarrow> pyval list" where
  "native_rows summary rows = (case summary_samples summary of Some l \<Rightarrow> l
     | None \<Rightarrow> filter (\<lambda>x. is_dict x \<and> dhas (the_dict x) ''sample_id'' \<and> \<not> dhas (the_dict x) ''document_type'') rows)"

definition from_worker :: "string \<Rightarrow> string \<Rightarrow> pyval list \<Rightarrow> pyval" where
  "from_worker cid k vs = PDict [(''candidate_id'', PStr cid), (''source'', PStr ''perceptshift-bench-worker''), (k, PList vs)]"

definition keep_outputs :: "ext \<Rightarrow> ppath \<Rightarrow> string \<Rightarrow> pydict option \<Rightarrow> pyval list \<Rightarrow> unit io" where
  "keep_outputs X p cid summary rows =
     bindS (mkdirs True (path_div p ''evaluation'')) (\<lambda>u.
     bindS (case summary of None \<Rightarrow> retS ()
       | Some s \<Rightarrow> (case dget s ''detections'' of
           PList ds \<Rightarrow> write_atomic_json X (in_evaluation p (cid @ ''.detections.json'')) (from_worker cid ''detections'' ds)
         | _ \<Rightarrow> retS ())) (\<lambda>u.
     let outs = native_rows summary rows in
     if outs = [] then retS ()
     else write_atomic_json X (in_evaluation p (cid @ ''.native_outputs.json'')) (from_worker cid ''samples'' outs)))"

definition cold_trials :: "ext \<Rightarrow> forge_env \<Rightarrow> bench_plan \<Rightarrow> ppath \<Rightarrow> ppath \<Rightarrow> string \<Rightarrow> unit io" where
  "cold_trials X F bp p man_path cid = foldS (\<lambda>i u.
       bindS (bench_launch X F bp p man_path (cid @ ''.cold'' @ show_int (int i)) 0 1) (\<lambda>d. retS ()))
     [0..<nat (bp_cold bp)] ()"

definition measure_candidate ::
    "ext \<Rightarrow> forge_env \<Rightarrow> ppath \<Rightarrow> pydict \<Rightarrow> bench_plan \<Rightarrow> ppath \<Rightarrow> string \<Rightarrow> unit io" where
  "measure_candidate X F p config bp man_path cid =
     bindS (cold_trials X F bp p man_path cid) (\<lambda>u.
     bindS (bench_launch X F bp p man_path cid (bp_warmup bp) (bp_measured bp)) (\<lambda>result.
     bindS (bench_rows X p cid) (\<lambda>rows.
     bindS (liftS (find_summary rows)) (\<lambda>summary.
     bindS (liftS (executor_times cid rows summary)) (\<lambda>ms.
     bindS (liftS (bindR (py_int (bp_resamples bp)) (\<lambda>n. summarize_latencies (et_numpy (fe_tools F)) ms n
       (fl_round (95 / 100)) (bp_seed bp) [''mean'', ''p99'']))) (\<lambda>stats.
     bindS (liftS (peak_of summary result)) (\<lambda>peak.
     bindS (write_atomic_json X (trial_file p cid)
       (PDict (trial_document cid summary stats (length ms) (bp_warmup bp) peak result))) (\<lambda>u.
     bindS (liftS (check_worker_rss cid (bp_max_rss bp) peak)) (\<lambda>u.
     bindS (check_drift X F p config bp) (\<lambda>u.
     bindS (keep_outputs X p cid summary rows) (\<lambda>u.
     set_candidate_status X p cid ''measured'' [])))))))))))"

text \<open>A coded failure is recorded in the candidate's status before it ends the run.\<close>

definition bench_candidate :: "ext \<Rightarrow> forge_env \<Rightarrow> ppath \<Rightarrow> pydict \<Rightarrow> bench_plan \<Rightarrow> string \<Rightarrow> unit io" where
  "bench_candidate X F p config bp name = (let man_path = under p [''candidates'', ''manifests'', name] in
     bindS (read_dict X man_path) (\<lambda>man.
     let cid = py_str (py_or (dget man ''candidate_id'') (PStr (path_stem man_path))) in
     bindS (mkdirs True (path_parent (trial_output p cid))) (\<lambda>u.
     catchS (measure_candidate X F p config bp man_path cid) (\<lambda>e.
       if is_ps e then bindS (set_candidate_status X p cid ''failed'' [(''error'', PDict
           [(''code'', PStr (error_code_str (ps_code e))), (''message'', PStr (ps_message e))])]) (\<lambda>u. raiseS e)
       else raiseS e))))"

definition benchmarking_step :: "ext \<Rightarrow> forge_env \<Rightarrow> ppath \<Rightarrow> pydict \<Rightarrow> (unit \<times> pydict) io" where
  "benchmarking_step X F p config =
     bindS (\<lambda>w. (find_native_binary (fe_programs F) ''perceptshift-bench-worker'' w, w)) (\<lambda>found.
     bindS (liftS (case found of Some worker \<Rightarrow> Inr worker | None \<Rightarrow> Inl (ps_error BENCHMARK_WORKER_CRASHED
       ''perceptshift-bench-worker not found on PATH or under build/''
       (Some (''Build the ORT-enabled native targets and ensure the '' @ ''hyphenated binary is discoverable'')) [] None))) (\<lambda>worker.
     bindS (liftS (sub_dict config ''benchmark'')) (\<lambda>cfg.
     bindS (liftS (bench_plan_of worker config cfg)) (\<lambda>bp0.
     bindS (getS (\<lambda>w. is_file w (host_file p))) (\<lambda>there.
     bindS (if there then read_dict X (host_file p) else retS []) (\<lambda>fingerprint.
     bindS (liftS (admitted_host cfg fingerprint bp0)) (\<lambda>bp.
     bindS (candidate_order X F p (truthy (dget cfg ''randomize_candidate_order'')) (bp_seed bp)) (\<lambda>names.
     bindS (mapS (bench_candidate X F p config bp) names) (\<lambda>us.
     retS ((), [(''worker'', PStr (path_str worker))]))))))))))"

section \<open>Evaluating the quality\<close>

definition evaluate_status_file ::
    "ext \<Rightarrow> forge_env \<Rightarrow> ppath \<Rightarrow> pydict \<Rightarrow> pydict \<Rightarrow> string \<Rightarrow> string \<Rightarrow> unit io" where
  "evaluate_status_file X F p config ev_manifest ev_hash name = (if name = ''pipeline.json'' then retS ()
     else bindS (read_dict X (under p [''candidates'', ''status'', name])) (\<lambda>st.
       if \<not> py_eq (dget st ''status'') (PStr ''measured'') then retS ()
       else bindS (liftS (ditem st ''candidate_id'')) (\<lambda>v. let cid = py_str v in
         bindS (read_dict X (trial_file p cid)) (\<lambda>trial.
         bindS (read_dict X (manifest_file p cid)) (\<lambda>man.
         bindS (if ev_hash \<noteq> [] then retS ev_hash else liftS (sha256_canonical X (PDict ev_manifest))) (\<lambda>h.
         bindS (evaluate_candidate_quality X (fe_tools F) p config cid man (baseline_file p) ev_manifest h (stream_file p)) (\<lambda>ev.
         bindS (write_atomic_json X (in_evaluation p (cid @ ''.json'')) (PDict ev)) (\<lambda>u.
         write_atomic_json X (trial_file p cid) (PDict (dset ''equivalence_ok'' (dget ev ''equivalence_ok'')
           (dset ''quality_value'' (dget ev ''quality_value'') (dset ''quality_ok'' (dget ev ''quality_ok'') trial))))))))))))"

definition quality_step ::
    "ext \<Rightarrow> forge_env \<Rightarrow> ppath \<Rightarrow> pydict \<Rightarrow> pydict \<Rightarrow> string \<Rightarrow> (unit \<times> pydict) io" where
  "quality_step X F p config ev_manifest ev_hash =
     bindS (getS (\<lambda>w. glob_names w (under p [''candidates'', ''status'']) ''.json'')) (\<lambda>names.
     bindS (mapS (evaluate_status_file X F p config ev_manifest ev_hash) names) (\<lambda>us. retS ((), [])))"

section \<open>Certifying\<close>

definition environment_file :: "ppath \<Rightarrow> ppath" where
  "environment_file p = under p [''environment'', ''status.json'']"

definition environment_verdict_of :: "ext \<Rightarrow> ppath \<Rightarrow> pydict \<Rightarrow> string io" where
  "environment_verdict_of X p cert_cfg =
     bindS (getS (\<lambda>w. is_file w (environment_file p))) (\<lambda>there.
     if there then bindS (read_dict X (environment_file p)) (\<lambda>d.
       retS (py_str (py_or (dget d ''status'') (PStr ''invalid''))))
     else if truthy (dget cert_cfg ''require_valid_environment'') then retS ''invalid''
     else bindS (write_atomic_json X (environment_file p) (PDict [(''status'', PStr ''valid_with_warnings''),
         (''message'', PStr ''No environment snapshot; soft-pass because require_valid_environment=false'')])) (\<lambda>u.
       retS ''valid_with_warnings''))"

definition certification_file :: "ppath \<Rightarrow> string \<Rightarrow> ppath" where
  "certification_file p cid = under p [''certification'', cid @ ''.json'']"

definition pareto_quality :: "pydict \<Rightarrow> pyval" where
  "pareto_quality ev = (if dget ev ''quality_value'' = PNone \<and> py_eq (dget ev ''quality_status'') (PStr ''not_applicable'')
     then dget ev ''equivalence_score'' else dget ev ''quality_value'')"

definition certification_row :: "pyval \<Rightarrow> pydict \<Rightarrow> pydict \<Rightarrow> gate_result list \<Rightarrow> pydict" where
  "certification_row cid trial ev results = [(''candidate_id'', cid), (''certified'', PBool (is_certified results)),
     (''quality'', pareto_quality ev), (''p99_latency_ms'', dget trial ''p99_ms''),
     (''peak_rss_mb'', dget trial ''peak_rss_mb''), (''gates'', PList (map (PDict \<circ> gate_result_to_dict) results)),
     (''evidence_root'', PStr (''certification/evidence/'' @ py_str cid))]"

definition certify_trial ::
    "ext \<Rightarrow> forge_env \<Rightarrow> ppath \<Rightarrow> pydict \<Rightarrow> pydict \<Rightarrow> string \<Rightarrow> string \<Rightarrow> pydict io" where
  "certify_trial X F p cert_cfg inspection env_status name =
     bindS (read_dict X (under p [''trials'', name])) (\<lambda>trial.
     bindS (liftS (ditem trial ''candidate_id'')) (\<lambda>v. let cid = py_str v in
     bindS (read_dict X (in_evaluation p (cid @ ''.json''))) (\<lambda>ev.
     bindS (read_dict X (manifest_file p cid)) (\<lambda>man.
     bindS (getS (\<lambda>w. if is_file w (host_file p) then Some (host_file p) else None)) (\<lambda>host.
     bindS (build_certification_context X (fe_checker F) \<lparr>ci_root = p, ci_candidate = cid, ci_manifest = man,
       ci_trial = trial, ci_evaluation = ev, ci_inspection = Some inspection, ci_cfg = cert_cfg,
       ci_environment = Some env_status, ci_host_path = host\<rparr>) (\<lambda>ctx.
     bindS (liftS (run_certification_gates ctx)) (\<lambda>results.
     let row = certification_row v trial ev results in
     bindS (write_atomic_json X (certification_file p cid) (PDict row)) (\<lambda>u. retS row))))))))"

definition certifying_step :: "ext \<Rightarrow> forge_env \<Rightarrow> ppath \<Rightarrow> pydict \<Rightarrow> pydict \<Rightarrow> (pydict list \<times> pydict) io" where
  "certifying_step X F p config inspection =
     bindS (liftS (sub_dict config ''certification'')) (\<lambda>cert_cfg.
     bindS (environment_verdict_of X p cert_cfg) (\<lambda>env_status.
     bindS (getS (\<lambda>w. glob_names w (path_div p ''trials'') ''.summary.json'')) (\<lambda>names.
     bindS (mapS (certify_trial X F p cert_cfg inspection env_status) names) (\<lambda>rows.
     retS (rows, [(''count'', PInt (int (length rows)))])))))"

definition rows_again :: "ext \<Rightarrow> ppath \<Rightarrow> pydict list io" where
  "rows_again X p = (let d = path_div p ''certification'' in
     bindS (getS (\<lambda>w. filter (\<lambda>n. n \<noteq> ''frontier.json'' \<and> \<not> is_dir w (path_div d n)) (glob_names w d ''.json''))) (\<lambda>names.
     mapS (\<lambda>n. read_dict X (path_div d n)) names))"

definition frontier_file :: "ppath \<Rightarrow> ppath" where
  "frontier_file p = under p [''certification'', ''frontier.json'']"

definition frontier_step :: "ext \<Rightarrow> ppath \<Rightarrow> pydict list \<Rightarrow> (pydict list \<times> pydict) io" where
  "frontier_step X p rows =
     bindS (liftS (pareto_select rows)) (\<lambda>frontier.
     bindS (write_atomic_json X (frontier_file p) (PDict [(''frontier'', PList (map PDict frontier)),
       (''count'', PInt (int (length frontier)))])) (\<lambda>u.
     retS (frontier, [(''count'', PInt (int (length frontier)))])))"

definition frontier_again :: "ext \<Rightarrow> ppath \<Rightarrow> pydict list io" where
  "frontier_again X p = bindS (read_dict X (frontier_file p)) (\<lambda>d.
     liftS (bindR (py_iter (dget_or d ''frontier'' (PList []))) (mapR as_dict)))"

section \<open>Building the bundle\<close>

definition bundle_dir :: "ppath \<Rightarrow> ppath" where
  "bundle_dir p = under p [''bundle'', ''profile-bundle'']"

definition listed_file :: "ext \<Rightarrow> ppath \<Rightarrow> string \<Rightarrow> pydict io" where
  "listed_file X bundle rel =
     bindS (guardS (\<not> (p_abs (path_of rel) \<or> ''..'' \<in> set (p_parts (path_of rel))))
       (ps_err PATH_UNSAFE (''Bundle inventory path must be relative: '' @ rel))) (\<lambda>u.
     bindS (sha256_file X (path_div bundle rel)) (\<lambda>h.
     bindS (read_bytes (path_div bundle rel)) (\<lambda>b.
     retS [(''path'', PStr rel), (''sha256'', PStr h), (''size_bytes'', PInt (int (length b)))])))"

text \<open>An attestation that exists is copied into the bundle and inventoried.\<close>

definition attach :: "ext \<Rightarrow> ppath \<Rightarrow> ppath \<Rightarrow> string \<Rightarrow> pydict list io" where
  "attach X bundle src rel = bindS (getS (\<lambda>w. is_file w src)) (\<lambda>there.
     if there then bindS (copy2 src (path_div bundle rel)) (\<lambda>u.
       bindS (listed_file X bundle rel) (\<lambda>e. retS [e]))
     else retS [])"

definition adapter_name :: "pydict \<Rightarrow> exc + pyval" where
  "adapter_name config = bindR (ditem config ''model'') (\<lambda>m. py_item m ''adapter'')"

definition default_session :: pyval where
  "default_session = PDict [(''provider_order'', PList [PStr ''CPUExecutionProvider'']), (''intra_op_threads'', PInt 1)]"

definition profile_document ::
    "string \<Rightarrow> pydict \<Rightarrow> pydict \<Rightarrow> string \<Rightarrow> string \<Rightarrow> int \<Rightarrow> pyval \<Rightarrow> string option \<Rightarrow> pydict" where
  "profile_document cid item man model_hash rel_model model_size adapter attestation =
     [(''profile_id'', PStr cid), (''label'', dget_or man ''label'' (PStr cid)), (''model_sha256'', PStr model_hash),
      (''model_relative_path'', PStr rel_model), (''model_size_bytes'', PInt model_size),
      (''status'', PStr ''certified''), (''session'', py_or (dget man ''session'') default_session),
      (''adapter'', adapter), (''preprocess'', py_or (dget man ''preprocess'') (PDict [(''backend'', PStr ''scalar'')])),
      (''latency_summary'', PDict [(''p99_ms'', dget item ''p99_latency_ms'')]),
      (''peak_rss_summary'', PDict [(''peak_rss_mb'', dget item ''peak_rss_mb'')])]
     @ (case attestation of None \<Rightarrow> [] | Some a \<Rightarrow> [(''quality_attestation_ref'', PStr a)])"

text \<open>One frontier row becomes a profile and the entries of its files.\<close>

definition bundle_profile ::
    "ext \<Rightarrow> ppath \<Rightarrow> pydict \<Rightarrow> ppath \<Rightarrow> pydict \<Rightarrow> pydict list \<times> pydict list \<Rightarrow> (pydict list \<times> pydict list) io" where
  "bundle_profile X p config bundle item acc =
     bindS (liftS (ditem item ''candidate_id'')) (\<lambda>v. let cid = py_str v; rel_model = ''models/'' @ cid @ ''.onnx'';
       dst = path_div bundle rel_model; rel_att = ''attestations/'' @ cid @ ''.quality.json'' in
     bindS (read_dict X (manifest_file p cid)) (\<lambda>man.
     bindS (liftS (bindR (ditem man ''model_absolute_path'') path_arg)) (\<lambda>src.
     bindS (copy2 src dst) (\<lambda>u.
     bindS (sha256_file X dst) (\<lambda>model_hash.
     bindS (attach X bundle (in_evaluation p (cid @ ''.attestation.json'')) rel_att) (\<lambda>att.
     bindS (attach X bundle (certification_file p cid) (''attestations/'' @ cid @ ''.certification.json'')) (\<lambda>cert.
     bindS (read_bytes dst) (\<lambda>model.
     bindS (liftS (if truthy (dget man ''adapter'') then Inr (dget man ''adapter'')
       else bindR (adapter_name config) (\<lambda>a. Inr (PDict [(''name'', a)])))) (\<lambda>adapter.
     let profile = profile_document cid item man model_hash rel_model (int (length model)) adapter
           (if att \<noteq> [] then Some rel_att else None) in
     bindS (write_atomic_json X (under bundle [''profiles'', cid @ ''.json'']) (PDict profile)) (\<lambda>u.
     bindS (listed_file X bundle rel_model) (\<lambda>em.
     bindS (listed_file X bundle (''profiles/'' @ cid @ ''.json'')) (\<lambda>ep.
     retS (fst acc @ [profile], snd acc @ att @ cert @ [em, ep])))))))))))))"

definition quality_metric_of :: "pydict \<Rightarrow> exc + pyval" where
  "quality_metric_of config = bindR (sub_dict config ''quality'') (\<lambda>q. bindR (sub_dict config ''model'') (\<lambda>m.
     Inr (if py_eq (dget m ''adapter'') (PStr ''raw_tensor'') then PStr ''numeric_equivalence''
       else dget q ''metric_name'')))"

definition none_if_empty :: "string \<Rightarrow> pyval" where
  "none_if_empty s = (if s \<noteq> [] then PStr s else PNone)"

definition bundle_manifest ::
    "ext \<Rightarrow> run_workspace \<Rightarrow> pydict \<Rightarrow> string \<Rightarrow> string \<Rightarrow> pydict list \<Rightarrow> pydict list \<Rightarrow> pydict io" where
  "bundle_manifest X ws config cal_hash ev_hash profiles files =
     bindS (liftS (quality_metric_of config)) (\<lambda>metric.
     bindS (envelope_fields X ''perceptshift.profile_bundle'') (\<lambda>env.
     bindS (get_version X) (\<lambda>v. bindS (producer_metadata X) (\<lambda>producer. bindS (utc_now_rfc3339 X) (\<lambda>now.
     bindS (liftS (adapter_name config)) (\<lambda>adapter.
     bindS (liftS (sub_dict config ''quality'')) (\<lambda>quality.
     retS (dupdate env [(''bundle_id'', PStr (''bundle-'' @ rw_id ws)), (''product_version'', PStr v),
       (''minimum_compatible_runtime_version'', PStr ''0.1.0''), (''producer'', PDict producer),
       (''created_at'', PStr now), (''adapter'', PDict [(''name'', adapter)]), (''quality_metric_name'', metric),
       (''quality_direction'', py_or (dget quality ''direction'') (PStr ''higher_is_better'')),
       (''calibration_dataset_hash'', none_if_empty cal_hash), (''evaluation_dataset_hash'', none_if_empty ev_hash),
       (''profiles'', PList (map PDict profiles)), (''files'', PList (map PDict files))]))))))))"

definition sign_if_asked :: "ext \<Rightarrow> forge_env \<Rightarrow> pydict \<Rightarrow> ppath \<Rightarrow> unit io" where
  "sign_if_asked X F config bundle = bindS (liftS (sub_dict config ''certification'')) (\<lambda>cfg.
     if truthy (dget cfg ''sign_bundle'') \<and> truthy (dget cfg ''signing_key_path'')
     then bindS (sign_bundle X (fe_crypto F) bundle (path_of (py_str (dget cfg ''signing_key_path''))) None True) (\<lambda>r. retS ())
     else retS ())"

definition bundle_step ::
    "ext \<Rightarrow> forge_env \<Rightarrow> run_workspace \<Rightarrow> pydict \<Rightarrow> string \<Rightarrow> string \<Rightarrow> pydict list \<Rightarrow> (unit \<times> pydict) io" where
  "bundle_step X F ws config cal_hash ev_hash frontier = (let bundle = bundle_dir (rw_root ws) in
     bindS (guardS (frontier \<noteq> []) (ps_err QUALITY_GATE_FAILED
       ''No certified candidates available for bundle creation'')) (\<lambda>u.
     bindS (mapS (mkdirs True) (bundle # map (path_div bundle) [''models'', ''profiles'', ''attestations''])) (\<lambda>us.
     bindS (foldS (bundle_profile X (rw_root ws) config bundle) frontier ([], [])) (\<lambda>(profiles, files).
     bindS (write_atomic_text (path_div bundle ''NOTICE'') (''PerceptShift certified profile bundle'' @ [CHR 0x0A])) (\<lambda>u.
     bindS (listed_file X bundle ''NOTICE'') (\<lambda>notice.
     bindS (bundle_manifest X ws config cal_hash ev_hash profiles (files @ [notice])) (\<lambda>manifest.
     bindS (write_atomic_json X (path_div bundle ''manifest.json'') (PDict manifest)) (\<lambda>u.
     bindS (sha256_file X (path_div bundle ''manifest.json'')) (\<lambda>h.
     bindS (write_atomic_text (path_div bundle ''manifest.sha256'') (h @ [CHR 0x0A])) (\<lambda>u.
     bindS (sign_if_asked X F config bundle) (\<lambda>u.
     retS ((), [(''bundle_root'', PStr (path_str bundle)), (''profiles'', PInt (int (length profiles)))]))))))))))))"

section \<open>The run\<close>

definition close_run :: "ext \<Rightarrow> run_workspace \<Rightarrow> pydict \<Rightarrow> pydict io" where
  "close_run X ws status = (let p = path_div (rw_root ws) ''run.json'' in
     bindS (read_dict X p) (\<lambda>d0. bindS (utc_now_rfc3339 X) (\<lambda>now.
     let run_doc = dset ''updated_at'' (PStr now) (dset ''status'' (PStr ''completed'') d0) in
     bindS (write_atomic_json X p (PDict run_doc)) (\<lambda>u.
     bindS (index_run X (rw_root ws) run_doc) (\<lambda>u.
     retS [(''run_id'', PStr (rw_id ws)), (''root'', PStr (path_str (rw_root ws))),
       (''status'', dget run_doc ''status''), (''steps'', dget_or status ''steps'' (PDict []))])))))"

text \<open>From the candidates' trials on: certification, selection, bundle.\<close>

definition conclude_run ::
    "ext \<Rightarrow> forge_env \<Rightarrow> run_workspace \<Rightarrow> pydict \<Rightarrow> pydict \<Rightarrow> string \<Rightarrow> string \<Rightarrow> pydict \<Rightarrow> pydict io" where
  "conclude_run X F ws config inspection cal_hash ev_hash status = (let p = rw_root ws in
     bindS (once X p ''certifying'' (certifying_step X F p config inspection) (rows_again X p) status) (\<lambda>(rows, status).
     bindS (once X p ''selecting_frontier'' (frontier_step X p rows) (frontier_again X p) status) (\<lambda>(frontier, status).
     bindS (once X p ''building_bundle'' (bundle_step X F ws config cal_hash ev_hash frontier) (retS ()) status) (\<lambda>(u, status).
     close_run X ws status))))"

text \<open>The steps before: from the host's environment to the quality of every measured candidate. What the
  last steps need is the configuration, the inspection, the hashes of the two splits and the status.\<close>

definition prepare_run :: "ext \<Rightarrow> forge_env \<Rightarrow> run_workspace \<Rightarrow> int \<Rightarrow> bool \<Rightarrow>
    (pydict \<times> pydict \<times> string \<times> string \<times> pydict) io" where
  "prepare_run X F ws maximum resume = (let p = rw_root ws in
     bindS (initial_status X ws resume) (\<lambda>status.
     bindS (liftS (as_dict (rw_config ws))) (\<lambda>config.
     let cert_cfg = py_or (dget config ''certification'') (PDict []) in
     bindS (once X p ''environment'' (environment_step X F p cert_cfg) (retS ()) status) (\<lambda>(u, status).
     bindS (once X p ''datasets'' (datasets_step X p config) (retS ()) status) (\<lambda>(u, status).
     bindS (liftS (config_path_at config ''model'' ''baseline_path'')) (\<lambda>baseline_src.
     bindS (once X p ''model'' (model_step X F p baseline_src)
       (read_dict X (input_file p ''model-manifest.json'')) status) (\<lambda>(inspection, status).
     bindS (read_dict X (input_file p ''calibration-manifest.json'')) (\<lambda>cal_manifest.
     bindS (read_dict X (input_file p ''evaluation-manifest.json'')) (\<lambda>ev_manifest.
     bindS (liftS (dataset_hash status ''calibration_hash'')) (\<lambda>cal_hash.
     bindS (liftS (dataset_hash status ''evaluation_hash'')) (\<lambda>ev_hash.
     bindS (once X p ''dataset_stream'' (stream_step X F p config inspection cal_manifest ev_manifest) (retS ()) status) (\<lambda>(u, status).
     bindS (once X p ''quantization'' (quantization_step X F p config inspection) (quantized_again X p) status) (\<lambda>(quantized, status).
     bindS (once X p ''candidates'' (candidates_step X p config maximum quantized cal_manifest) (retS ()) status) (\<lambda>(u, status).
     bindS (once X p ''benchmarking'' (benchmarking_step X F p config) (retS ()) status) (\<lambda>(u, status).
     bindS (once X p ''evaluating_quality'' (quality_step X F p config ev_manifest ev_hash) (retS ()) status) (\<lambda>(u, status).
     retS (config, inspection, cal_hash, ev_hash, status)))))))))))))))))"

definition execute_run :: "ext \<Rightarrow> forge_env \<Rightarrow> run_workspace \<Rightarrow> int \<Rightarrow> bool \<Rightarrow> pydict io" where
  "execute_run X F ws maximum resume =
     bindS (prepare_run X F ws maximum resume) (\<lambda>(config, inspection, cal_hash, ev_hash, status).
     conclude_run X F ws config inspection cal_hash ev_hash status)"

definition run_forge :: "ext \<Rightarrow> forge_env \<Rightarrow> ppath \<Rightarrow> int \<Rightarrow> pydict io" where
  "run_forge X F config_path maximum = bindS (create_run_workspace X F config_path) (\<lambda>ws.
     finallyS (execute_run X F ws maximum False) (release_lock (rw_root ws)))"

definition resume_forge :: "ext \<Rightarrow> forge_env \<Rightarrow> ppath \<Rightarrow> int \<Rightarrow> pydict io" where
  "resume_forge X F run_root maximum = bindS (load_run_workspace X run_root) (\<lambda>ws.
     bindS (acquire_lock X F (rw_root ws)) (\<lambda>u.
     finallyS (execute_run X F ws maximum True) (release_lock (rw_root ws))))"

section \<open>The lock excludes\<close>

lemma read_json_state: "read_json X p w = (r, u) \<Longrightarrow> u = w"
proof -
  have "snd (read_json X p w) = w"
    by (simp add: read_json_def read_text_def bindS_def split: prod.splits sum.splits)
      (metis read_bytes_pure snd_conv)
  then show "read_json X p w = (r, u) \<Longrightarrow> u = w" by simp
qed

lemma load_run_workspace_state: "load_run_workspace X r w = (q, u) \<Longrightarrow> u = w \<and> (\<forall>ws. q = Inr ws \<longrightarrow> rw_root ws = r)"
  unfolding load_run_workspace_def
  by (auto simp: bindS_def getS_def guardS_def liftS_def split: prod.splits sum.splits dest!: read_json_state)

lemma lock_proper: "proper_file (lock_path p)"
  by (simp add: proper_file_def lock_path_def path_join_def path_name_def path_of_def)

lemma keeps_check_lock: "keeps reads_only (check_lock X F p)"
  unfolding check_lock_def read_lock_def by (intro reads_only_intros)

text \<open>After it is taken, the lock names the process that took it.\<close>

lemma acquired_lock_file:
  assumes "plain w" and "acquire_lock X F p w = (Inr (), w')"
  shows "plain w' \<and> (\<exists>now h. read_text (lock_path p) w' = (Inr (x_dumps X (lock_document F now h) @ [CHR 0x0A]), w'))"
proof -
  from assms(2) obtain u u1 now h t where a: "(if path_exists w (lock_path p) then check_lock X F (lock_path p) else retS ()) w = (Inr (), u)"
    and b: "utc_now_rfc3339 X u = (Inr now, u1)" and c: "canonical_json_dumps X (lock_document F now h) = Inr t"
    and d: "write_atomic_text (lock_path p) (t @ [CHR 0x0A]) u1 = (Inr (), w')"
    unfolding acquire_lock_def Let_def write_atomic_json_def comp_eqs liftS_def by (elim exE conjE) auto
  have t: "t = x_dumps X (lock_document F now h)"
    using c by (auto simp: canonical_json_dumps_def bindR_eq_Inr)
  have "keeps reads_only (if path_exists w (lock_path p) then check_lock X F (lock_path p) else retS ())"
    by (intro reads_only_intros keeps_check_lock)
  from keepsD [OF this a] have "plain u" using assms(1) by (simp add: reads_only_def plain_def)
  then have p1: "plain u1" using b by (auto simp: utc_now_rfc3339_def plain_def)
  from text_store.write_fit [OF p1 lock_proper d] text_store.read_after_write [OF p1 lock_proper d] t
  show ?thesis by blast
qed

lemma read_text_exists: "read_text p w = (Inr t, w') \<Longrightarrow> path_exists w p"
  by (auto simp: read_text_def comp_eqs path_exists_def is_file_def read_bytes_def split: option.splits if_splits)

lemma live_lock_refuses:
  assumes "read_text (lock_path p) w = (Inr t, w)" and "x_loads X t = Some (PDict d)"
    and "dget d ''pid'' = PInt n" and "pid_alive F n = Inr True"
  shows "acquire_lock X F p w = (Inl (ps_error RUN_LOCK_HELD (''Run lock held by pid '' @ show_int n) None
    [(''lock'', PStr (path_str (lock_path p)))] None), w)"
proof -
  have "read_json X (lock_path p) w = (Inr (PDict d), w)"
    using assms(1,2) by (simp add: read_json_def bindS_def json_loads_def liftS_def)
  then have "read_lock X (lock_path p) w = (Inr (PDict d), w)"
    by (simp add: read_lock_def catchS_def)
  then have "check_lock X F (lock_path p) w = (Inl (ps_error RUN_LOCK_HELD (''Run lock held by pid '' @ show_int n) None
    [(''lock'', PStr (path_str (lock_path p)))] None), w)"
    using assms(3,4) by (simp add: check_lock_def bindS_def pid_of_def liftS_def guardS_def guardR_def)
  then show ?thesis
    using read_text_exists [OF assms(1)] by (simp add: acquire_lock_def bindS_def getS_def Let_def)
qed

text \<open>C7. The run lock excludes: once a process has taken it, a resume by any process that sees the
  first one alive ends in an error and leaves the world as it was, and the error is that the lock is
  held when the run's documents can be read. The JSON codec is assumed to read back the process id.\<close>

theorem lock_excludes:
  assumes "plain w" and taken: "acquire_lock X F p w = (Inr (), w')"
    and codec: "\<And>now h. \<exists>d. x_loads X (x_dumps X (lock_document F now h) @ [CHR 0x0A]) = Some (PDict d)
      \<and> dget d ''pid'' = PInt (fe_pid F)"
    and alive: "pid_alive F' (fe_pid F) = Inr True"
  shows "\<exists>e. resume_forge X F' p maximum w' = (Inl e, w')
    \<and> (load_run_workspace X p w' = (Inl e, w') \<or> ps_code e = RUN_LOCK_HELD)"
proof -
  from acquired_lock_file [OF assms(1) taken] obtain now h where
    rd: "read_text (lock_path p) w' = (Inr (x_dumps X (lock_document F now h) @ [CHR 0x0A]), w')" by (elim exE conjE)
  from codec [of now h] obtain d where d: "x_loads X (x_dumps X (lock_document F now h) @ [CHR 0x0A]) = Some (PDict d)"
      "dget d ''pid'' = PInt (fe_pid F)" by (elim exE conjE)
  let ?e = "ps_error RUN_LOCK_HELD (''Run lock held by pid '' @ show_int (fe_pid F)) None
    [(''lock'', PStr (path_str (lock_path p)))] None"
  have held: "acquire_lock X F' p w' = (Inl ?e, w')" by (rule live_lock_refuses [OF rd d alive])
  obtain q u where load: "load_run_workspace X p w' = (q, u)" by fastforce
  note st = load_run_workspace_state [OF load]
  show ?thesis
  proof (cases q)
    case (Inl e)
    with load st have "resume_forge X F' p maximum w' = (Inl e, w')" by (simp add: resume_forge_def bindS_def)
    with Inl load st show ?thesis by auto
  next
    case (Inr ws)
    with load st held have "resume_forge X F' p maximum w' = (Inl ?e, w')" by (simp add: resume_forge_def bindS_def)
    moreover have "ps_code ?e = RUN_LOCK_HELD" by (simp add: ps_error_def)
    ultimately show ?thesis by blast
  qed
qed

section \<open>Only certified candidates are bundled\<close>

lemma bindS_pairE:
  assumes "bindS m (\<lambda>(a, b). f a b) s = (Inr y, t)"
  obtains a b u where "m s = (Inr (a, b), u)" and "f a b u = (Inr y, t)"
  using assms by (auto simp: bindS_eq_Inr)

text \<open>Marking a step changes no other step's record.\<close>

lemma mark_done_other:
  assumes "mark_done X p name payload status w = (Inr s, w')" and "n \<noteq> name"
  shows "step_done s n = step_done status n"
proof -
  from assms(1) obtain steps now where st: "as_dict (dget_or status ''steps'' (PDict [])) = Inr steps"
    and s: "s = dset ''steps'' (PDict (dset name (PDict (dupdate [(''completed'', PBool True), (''completed_at'', PStr now)]
      payload)) steps)) status"
    unfolding mark_done_def Let_def comp_eqs liftS_def by (elim exE conjE) (auto simp: retS_def)
  show ?thesis unfolding step_done_def step_entry_def s using st assms(2) by simp
qed

lemma once_other:
  assumes "once X p name fresh again status w = (Inr (x, s), w')" and "n \<noteq> name"
  shows "step_done s n = step_done status n"
  using assms mark_done_other
  by (auto simp: once_def comp_eqs liftS_def retS_def split: if_splits)

lemma once_fresh:
  assumes "once X p name fresh again status w = (Inr (x, s), w')" and "step_done status name = Inr False"
  obtains payload u where "fresh w = (Inr (x, payload), u)" and "mark_done X p name payload status u = (Inr s, w')"
  using assms by (auto simp: once_def comp_eqs liftS_def retS_def split: if_splits)

text \<open>
  A row that this run certified: as the certifying step of the workspace, started in \<open>v\<close>, came to one
  of the trials, it built the context of that trial there and every gate passed on it; the row is the
  record of those gate results.
\<close>

definition trial_names :: "world \<Rightarrow> ppath \<Rightarrow> string list" where
  "trial_names w p = glob_names w (path_div p ''trials'') ''.summary.json''"

definition certified_during :: "ext \<Rightarrow> forge_env \<Rightarrow> ppath \<Rightarrow> pydict \<Rightarrow> pydict \<Rightarrow> world \<Rightarrow> pydict \<Rightarrow> bool" where
  "certified_during X F p config inspection v row \<longleftrightarrow> (\<exists>cfg env u i before s ci ctx t results.
     sub_dict config ''certification'' = Inr cfg \<and> environment_verdict_of X p cfg v = (Inr env, u)
     \<and> i < length (trial_names u p)
     \<and> mapS (certify_trial X F p cfg inspection env) (take i (trial_names u p)) u = (Inr before, s)
     \<and> fst (read_dict X (under p [''trials'', trial_names u p ! i]) s) = Inr (ci_trial ci)
     \<and> ci_root ci = p \<and> ci_inspection ci = Some inspection \<and> ci_cfg ci = cfg \<and> ci_environment ci = Some env
     \<and> ci_candidate ci = py_str (dget (ci_trial ci) ''candidate_id'')
     \<and> build_certification_context X (fe_checker F) ci s = (Inr ctx, t)
     \<and> run_certification_gates ctx = Inr results \<and> is_certified results
     \<and> row = certification_row (dget (ci_trial ci) ''candidate_id'') (ci_trial ci) (ci_evaluation ci) results)"

lemma ditem_dget: "ditem d k = Inr v \<Longrightarrow> dget d k = v"
  by (simp add: ditem_def dget_def split: option.splits)

lemma read_dict_state: "read_dict X p w = (r, u) \<Longrightarrow> u = w"
  by (auto simp: read_dict_def bindS_def liftS_def split: prod.splits sum.splits dest: read_json_state)

lemma certify_trial_row:
  assumes "certify_trial X F p cfg inspection env name s = (Inr row, t)"
  obtains ci ctx u results where "fst (read_dict X (under p [''trials'', name]) s) = Inr (ci_trial ci)"
    and "ci_root ci = p" "ci_inspection ci = Some inspection" "ci_cfg ci = cfg" "ci_environment ci = Some env"
    and "ci_candidate ci = py_str (dget (ci_trial ci) ''candidate_id'')"
    and "build_certification_context X (fe_checker F) ci s = (Inr ctx, u)" and "run_certification_gates ctx = Inr results"
    and "row = certification_row (dget (ci_trial ci) ''candidate_id'') (ci_trial ci) (ci_evaluation ci) results"
proof -
  from assms obtain trial s1 v s2 ev s3 man s4 host ctx u results where
      r: "read_dict X (under p [''trials'', name]) s = (Inr trial, s1)" "ditem trial ''candidate_id'' = Inr v"
        "read_dict X (in_evaluation p (py_str v @ ''.json'')) s1 = (Inr ev, s2)"
        "read_dict X (manifest_file p (py_str v)) s2 = (Inr man, s3)"
    and b: "build_certification_context X (fe_checker F) \<lparr>ci_root = p, ci_candidate = py_str v, ci_manifest = man,
       ci_trial = trial, ci_evaluation = ev, ci_inspection = Some inspection, ci_cfg = cfg,
       ci_environment = Some env, ci_host_path = host\<rparr> s3 = (Inr ctx, u)"
    and g: "run_certification_gates ctx = Inr results" "row = certification_row v trial ev results"
    unfolding certify_trial_def Let_def comp_eqs liftS_def retS_def by (elim exE conjE) auto
  have "s3 = s" using r(1,3,4) by (auto dest!: read_dict_state)
  with b have "build_certification_context X (fe_checker F) \<lparr>ci_root = p, ci_candidate = py_str v, ci_manifest = man,
       ci_trial = trial, ci_evaluation = ev, ci_inspection = Some inspection, ci_cfg = cfg,
       ci_environment = Some env, ci_host_path = host\<rparr> s = (Inr ctx, u)" by simp
  from that [OF _ _ _ _ _ _ this] show thesis using r(1) g ditem_dget [OF r(2)] by simp
qed

lemma mapS_position:
  assumes "mapS f xs w = (Inr ys, w')" and "i < length ys"
  shows "i < length xs \<and> (\<exists>s t. mapS f (take i xs) w = (Inr (take i ys), s) \<and> f (xs ! i) s = (Inr (ys ! i), t))"
  using assms
proof (induction xs arbitrary: w ys i)
  case (Cons x xs)
  from Cons.prems(1) obtain y u zs where h: "f x w = (Inr y, u)" "mapS f xs u = (Inr zs, w')" "ys = y # zs"
    by (auto simp: bindS_eq_Inr retS_def)
  show ?case
  proof (cases i)
    case 0
    with h show ?thesis by (auto simp: retS_def)
  next
    case (Suc j)
    with Cons.IH [OF h(2), of j] Cons.prems(2) h show ?thesis by (auto simp: bindS_def retS_def)
  qed
qed (simp add: retS_def)

lemma certifying_step_rows:
  assumes "certifying_step X F p config inspection v = (Inr (rows, payload), v')" and "row \<in> set rows" and "is_feasible row"
  shows "certified_during X F p config inspection v row"
proof -
  from assms(1) obtain cfg env u t where c: "sub_dict config ''certification'' = Inr cfg"
      "environment_verdict_of X p cfg v = (Inr env, u)"
    and m: "mapS (certify_trial X F p cfg inspection env) (trial_names u p) u = (Inr rows, t)"
    unfolding certifying_step_def trial_names_def Let_def comp_eqs liftS_def retS_def getS_def by (elim exE conjE) auto
  from assms(2) obtain i where i: "i < length rows" "rows ! i = row" by (auto simp: in_set_conv_nth)
  from mapS_position [OF m i(1)] i(2) obtain s t' where n: "i < length (trial_names u p)"
      "mapS (certify_trial X F p cfg inspection env) (take i (trial_names u p)) u = (Inr (take i rows), s)"
    and r: "certify_trial X F p cfg inspection env (trial_names u p ! i) s = (Inr row, t')" by auto
  from r obtain ci ctx w' results where k: "fst (read_dict X (under p [''trials'', trial_names u p ! i]) s) = Inr (ci_trial ci)"
      "ci_root ci = p" "ci_inspection ci = Some inspection" "ci_cfg ci = cfg" "ci_environment ci = Some env"
      "ci_candidate ci = py_str (dget (ci_trial ci) ''candidate_id'')"
      "build_certification_context X (fe_checker F) ci s = (Inr ctx, w')" "run_certification_gates ctx = Inr results"
      "row = certification_row (dget (ci_trial ci) ''candidate_id'') (ci_trial ci) (ci_evaluation ci) results"
    by (rule certify_trial_row)
  have "is_certified results" using assms(3) unfolding k(9) by (simp add: certification_row_def dget_def is_feasible_def)
  with c n k show ?thesis unfolding certified_during_def by blast
qed

lemma frontier_step_select:
  assumes "frontier_step X p rows w = (Inr (frontier, payload), w')"
  shows "pareto_select rows = Inr frontier" and "row \<in> set frontier \<Longrightarrow> row \<in> set rows \<and> is_feasible row"
proof -
  from assms show sel: "pareto_select rows = Inr frontier"
    unfolding frontier_step_def comp_eqs liftS_def retS_def by (elim exE conjE) auto
  from pareto_select_by_set [OF this [unfolded pareto_select_def]]
  have "set frontier \<subseteq> set (filter is_feasible rows)" by (auto simp del: set_filter intro: nth_mem)
  then show "row \<in> set frontier \<Longrightarrow> row \<in> set rows \<and> is_feasible row" by auto
qed

text \<open>Each frontier row becomes one profile, under its candidate's id.\<close>

lemma bundle_profile_adds:
  assumes "bundle_profile X p config bundle item acc w = (Inr acc', w')"
  shows "\<exists>profile. fst acc' = fst acc @ [profile] \<and> dget profile ''profile_id'' = PStr (py_str (dget item ''candidate_id''))"
proof -
  from assms obtain v man h rel n adapter att where v: "ditem item ''candidate_id'' = Inr v"
    and a: "fst acc' = fst acc @ [profile_document (py_str v) item man h rel n adapter att]"
    unfolding bundle_profile_def Let_def comp_eqs liftS_def retS_def by (elim exE conjE) auto
  moreover have "dget (profile_document (py_str v) item man h rel n adapter att) ''profile_id'' = PStr (py_str v)"
    by (simp add: profile_document_def dget_def)
  ultimately show ?thesis using ditem_dget [OF v] by blast
qed

lemma bundle_profiles_add:
  assumes "foldS (bundle_profile X p config bundle) items acc w = (Inr acc', w')"
  shows "\<exists>profiles. fst acc' = fst acc @ profiles \<and>
    list_all2 (\<lambda>item profile. dget profile ''profile_id'' = PStr (py_str (dget item ''candidate_id''))) items profiles"
  using assms
proof (induction items arbitrary: acc w)
  case Nil
  then show ?case by (simp add: retS_def)
next
  case (Cons item items)
  from Cons.prems obtain acc1 w1 where b: "bundle_profile X p config bundle item acc w = (Inr acc1, w1)"
    and r: "foldS (bundle_profile X p config bundle) items acc1 w1 = (Inr acc', w')" by (auto simp: bindS_eq_Inr)
  from bundle_profile_adds [OF b] Cons.IH [OF r] show ?case by force
qed

text \<open>No step from the certification on makes a symbolic link.\<close>

definition stays_plain :: "world \<Rightarrow> world \<Rightarrow> bool" where
  "stays_plain w w' \<longleftrightarrow> (plain w \<longrightarrow> plain w')"

interpretation stays_plain: state_preorder stays_plain
  by unfold_locales (auto simp: stays_plain_def)

lemma plain_write_bytes: "keeps stays_plain (write_bytes p b)"
  by (rule keepsI) (auto simp: stays_plain_def plain_def write_bytes_def split: option.splits if_splits)

lemma plain_rename: "keeps stays_plain (rename p q)"
  by (rule keepsI) (auto simp: stays_plain_def plain_def rename_def split: option.splits if_splits)

lemma plain_only_under: "keeps (only_under d) m \<Longrightarrow> keeps stays_plain m"
  by (auto simp: keeps_def only_under_def stays_plain_def same_setting_plain)

lemma plain_same_files: "keeps same_files m \<Longrightarrow> keeps stays_plain m"
  by (simp add: keeps_def same_files_def stays_plain_def) (meson same_setting_plain)

lemma plain_reads: "keeps reads_only m \<Longrightarrow> keeps stays_plain m"
  by (rule plain_same_files) (rule reads_same_files)

lemma plain_write_text: "keeps stays_plain (write_atomic_text p t)"
  unfolding write_atomic_text_def write_text_def
  by (intro stays_plain.keeps_rules plain_write_bytes plain_rename keeps_same_mkdirs [THEN plain_same_files])

lemma plain_write_json: "keeps stays_plain (write_atomic_json X p v)"
  unfolding write_atomic_json_def by (intro stays_plain.keeps_rules plain_write_text)

lemma keeps_reads_read_dict: "keeps reads_only (read_dict X p)"
  unfolding read_dict_def by (intro reads_only_intros)

lemma keeps_reads_listed: "keeps reads_only (listed_file X b r)"
  unfolding listed_file_def by (intro reads_only_intros)

lemmas plain_intros = stays_plain.keeps_rules plain_write_json plain_write_text plain_write_bytes
  keeps_same_mkdirs [THEN plain_same_files] keeps_reads_read_dict [THEN plain_reads]
  keeps_reads_listed [THEN plain_reads] reads_only_intros [THEN plain_reads] keeps_build [THEN plain_only_under]

lemma plain_certifying: "keeps stays_plain (certifying_step X F p config inspection)"
  unfolding certifying_step_def certify_trial_def environment_verdict_of_def by (intro plain_intros)

lemma plain_frontier: "keeps stays_plain (frontier_step X p rows)"
  unfolding frontier_step_def by (intro plain_intros)

lemma plain_mark_done: "keeps stays_plain (mark_done X p name payload status)"
  unfolding mark_done_def by (intro plain_intros)

lemma plain_bundle_profile: "keeps stays_plain (bundle_profile X p config bundle item acc)"
  unfolding bundle_profile_def attach_def copy2_def copy_bytes_def by (intro plain_intros)

text \<open>Writes to other names leave a file as it is, in whatever directory it lies.\<close>

definition spares :: "string \<Rightarrow> world \<Rightarrow> world \<Rightarrow> bool" where
  "spares n w w' \<longleftrightarrow> (plain w \<longrightarrow> same_setting w w'
     \<and> (\<forall>q. q \<noteq> [] \<and> last q = n \<longrightarrow> file_at w' q = file_at w q))"

interpretation spares: state_preorder "spares n"
proof
  show "spares n w w" for w by (simp add: spares_def same_setting_def)
  show "spares n s u" if "spares n s t" "spares n t u" for s t u
    using that same_setting_plain [of s t] by (auto simp: spares_def same_setting_def)
qed

lemma spares_reads: "keeps reads_only m \<Longrightarrow> keeps (spares n) m"
  by (auto simp: keeps_def spares_def reads_only_def same_setting_def)

lemma spares_same_files: "keeps same_files m \<Longrightarrow> keeps (spares n) m"
  by (auto simp: keeps_def same_files_def spares_def)

lemma spares_write_text:
  assumes "path_name p \<noteq> []" and "path_name p \<noteq> ''..''" and "path_name p \<noteq> n" and "path_name p @ ''.tmp'' \<noteq> n"
  shows "keeps (spares n) (write_atomic_text p t)"
proof (rule keepsI)
  fix w r w' assume run: "write_atomic_text p t w = (r, w')"
  have ne: "p_parts p \<noteq> []" using assms(1) by (auto simp: path_name_def)
  with assms(1,2) have pf: "proper_file p" by (simp add: proper_file_def)
  from place_parent [OF ne assms(2)] place_tmp(1) [OF ne assms(2)] assms(3,4)
  have "q \<noteq> place w p \<and> q \<noteq> place w (tmp_path p)" if "last q = n" for q using that by auto
  with write_atomic_text_effect [OF _ pf run] show "spares n w w'" by (auto simp: spares_def)
qed

lemma spares_write_json:
  assumes "path_name p \<noteq> []" and "path_name p \<noteq> ''..''" and "path_name p \<noteq> n" and "path_name p @ ''.tmp'' \<noteq> n"
  shows "keeps (spares n) (write_atomic_json X p v)"
  unfolding write_atomic_json_def by (intro spares.keeps_rules spares_write_text assms)

lemma path_name_div: "plain_name n \<Longrightarrow> path_name (path_div p n) = n"
  by (simp add: plain_name_def path_join_def path_name_def)

lemma spared_file:
  assumes "spares (path_name p) w w'" and "plain w" and "proper_file p" and "read_text p w = (Inr t, w)"
  shows "plain w'" and "read_text p w' = (Inr t, w')"
proof -
  from assms(1,2) have ss: "same_setting w w'" by (simp add: spares_def)
  then show pl: "plain w'" using assms(2) same_setting_plain by blast
  have "place w p \<noteq> [] \<and> last (place w p) = path_name p"
    using assms(3) place_parent [of p w] by (simp add: proper_file_def)
  with assms(1,2) have "file_at w' (place w' p) = file_at w (place w p)"
    unfolding same_setting_place [OF ss] by (simp add: spares_def)
  with assms(2,4) pl show "read_text p w' = (Inr t, w')"
    by (auto simp: read_text_def read_bytes_def bindS_def real_plain split: option.splits sum.splits)
qed

lemma run_names:
  "plain_name ''manifest.sha256''" "plain_name ''manifest.sig''" "plain_name ''pipeline.json''" "plain_name ''run.json''"
  "plain_name ''index.json''" "plain_name ''manifest.json''" "plain_name ''candidates''" "plain_name ''status''"
  by (simp_all add: plain_name_def path_of_def)

lemma spares_bind_result:
  assumes "keeps (spares n) m" and "\<And>s x t. m s = (Inr x, t) \<Longrightarrow> keeps (spares n) (f x)"
  shows "keeps (spares n) (bindS m f)"
proof (rule keepsI)
  fix s r t assume run: "bindS m f s = (r, t)"
  obtain q u where m: "m s = (q, u)" by fastforce
  with run keepsD [OF assms(1) m] show "spares n s t"
    by (cases q) (auto simp: bindS_def intro: spares.R_trans keepsD [OF assms(2)])
qed

lemmas manifest_spared = spares.keeps_rules reads_only_intros [THEN spares_reads] keeps_reads_read_dict [THEN spares_reads]
  keeps_reads_verify_bundle [THEN spares_reads] keeps_same_mkdirs [THEN spares_same_files]

lemma spares_sign: "keeps (spares ''manifest.json'') (sign_if_asked X F config bundle)"
proof -
  have n: "path_name (sig_path bundle) = ''manifest.sig''" by (simp add: sig_path_def path_name_div run_names)
  show ?thesis unfolding sign_if_asked_def sign_bundle_def load_ed25519_private_key_def
    by (intro manifest_spared spares_write_json) (simp_all add: n)
qed

lemma spares_mark_done: "keeps (spares ''manifest.json'') (mark_done X p name payload status)"
proof -
  have n: "path_name (status_path p) = ''pipeline.json''"
    by (simp add: status_path_def under_def path_name_div run_names)
  show ?thesis unfolding mark_done_def by (intro manifest_spared spares_write_json) (simp_all add: n)
qed

lemma spares_index_run: "keeps (spares ''manifest.json'') (index_run X p d)"
proof -
  have k: "keeps (spares ''manifest.json'') index_path"
    unfolding index_path_def ensure_dir_def by (intro manifest_spared)
  have n: "path_name q = ''index.json''" if "index_path s = (Inr q, t)" for q s t
    using that by (auto simp: index_path_def comp_eqs retS_def path_name_div run_names)
  have w: "keeps (spares ''manifest.json'') (bindS index_path (\<lambda>q. bindS (utc_now_rfc3339 X) (\<lambda>now. write_atomic_json X q (v now))))" for v
    by (rule spares_bind_result [OF k], intro manifest_spared spares_write_json) (simp_all add: n)
  show ?thesis unfolding index_run_def index_runs_def load_index_def Let_def by (intro w k manifest_spared)
qed

lemma spares_close_run: "keeps (spares ''manifest.json'') (close_run X ws status)"
proof -
  have n: "path_name (path_div (rw_root ws) ''run.json'') = ''run.json''" by (simp add: path_name_div run_names)
  show ?thesis unfolding close_run_def Let_def by (intro manifest_spared spares_index_run spares_write_json) (simp_all add: n)
qed

text \<open>What the manifest of the built bundle lists.\<close>

definition bundle_lists :: "ext \<Rightarrow> ppath \<Rightarrow> world \<Rightarrow> pydict list \<Rightarrow> bool" where
  "bundle_lists X p w frontier \<longleftrightarrow> (\<exists>profiles manifest.
     list_all2 (\<lambda>row profile. dget profile ''profile_id'' = PStr (py_str (dget row ''candidate_id''))) frontier profiles
     \<and> dget manifest ''profiles'' = PList (map PDict profiles)
     \<and> read_text (path_div (bundle_dir p) ''manifest.json'') w = (Inr (x_dumps X (PDict manifest) @ [CHR 0x0A]), w))"

lemma bundle_lists_spared:
  assumes "bundle_lists X p w frontier" and "spares ''manifest.json'' w w'" and "plain w"
  shows "bundle_lists X p w' frontier" and "plain w'"
proof -
  let ?p = "path_div (bundle_dir p) ''manifest.json''"
  have n: "path_name ?p = ''manifest.json''" by (simp add: path_name_div run_names)
  then have "proper_file ?p" by (auto simp: proper_file_def path_name_def)
  note sp = spared_file [of ?p, unfolded n, OF assms(2,3) this]
  from assms(1) sp(2) show "bundle_lists X p w' frontier" unfolding bundle_lists_def by blast
  from assms(1) sp(1) show "plain w'" unfolding bundle_lists_def by blast
qed

lemma bundle_step_manifest:
  assumes "bundle_step X F ws config ch eh frontier w = (Inr (x, payload), w')" and "plain w"
  shows "frontier \<noteq> [] \<and> bundle_lists X (rw_root ws) w' frontier \<and> plain w'"
proof -
  let ?b = "bundle_dir (rw_root ws)"
  let ?p = "path_div ?b ''manifest.json''"
  from assms(1) obtain u1 w1 u2 w2 profiles fs w3 u4 w4 notice w5 manifest w6 u7 w7 h w8 u9 w9 u10 where ne: "frontier \<noteq> []"
    and a: "guardS (frontier \<noteq> []) (ps_err QUALITY_GATE_FAILED ''No certified candidates available for bundle creation'') w = (Inr u1, w1)"
      "mapS (mkdirs True) (?b # map (path_div ?b) [''models'', ''profiles'', ''attestations'']) w1 = (Inr u2, w2)"
    and f: "foldS (bundle_profile X (rw_root ws) config ?b) frontier ([], []) w2 = (Inr (profiles, fs), w3)"
    and b: "write_atomic_text (path_div ?b ''NOTICE'') (''PerceptShift certified profile bundle'' @ [CHR 0x0A]) w3 = (Inr u4, w4)"
      "listed_file X ?b ''NOTICE'' w4 = (Inr notice, w5)"
    and m: "bundle_manifest X ws config ch eh profiles (fs @ [notice]) w5 = (Inr manifest, w6)"
    and wr: "write_atomic_json X ?p (PDict manifest) w6 = (Inr u7, w7)"
    and d: "sha256_file X ?p w7 = (Inr h, w8)"
      "write_atomic_text (path_div ?b ''manifest.sha256'') (h @ [CHR 0x0A]) w8 = (Inr u9, w9)"
      "sign_if_asked X F config ?b w9 = (Inr u10, w')"
    unfolding bundle_step_def Let_def
    by (elim bindS_pairE bindS_InrE) (auto simp: guardS_Inr retS_def simp del: mapS.simps foldS.simps list.map)
  have "keeps reads_only (bundle_manifest X ws config ch eh profiles (fs @ [notice]))"
    unfolding bundle_manifest_def producer_metadata_def by (intro reads_only_intros keeps_reads_git_commit)
  note k = keepsD [OF plain_intros(5) a(1)] keepsD [OF stays_plain.keeps_mapS [OF keeps_same_mkdirs [THEN plain_same_files]] a(2)]
    keepsD [OF stays_plain.keeps_foldS [OF plain_bundle_profile] f] keepsD [OF plain_write_text b(1)]
    keepsD [OF keeps_reads_listed [THEN plain_reads] b(2)] keepsD [OF this [THEN plain_reads] m]
  have pl: "plain w6" using k assms(2) by (simp add: stays_plain_def)
  have pf: "proper_file ?p" "path_name ?p = ''manifest.json''"
    using path_name_div [OF run_names(6), of ?b] by (auto simp: proper_file_def path_name_def)
  from wr obtain t where t: "canonical_json_dumps X (PDict manifest) = Inr t" "write_atomic_text ?p (t @ [CHR 0x0A]) w6 = (Inr (), w7)"
    unfolding write_atomic_json_def comp_eqs liftS_def by auto
  then have t': "t = x_dumps X (PDict manifest)" by (auto simp: canonical_json_dumps_def bindR_eq_Inr)
  have "dget manifest ''profiles'' = PList (map PDict profiles)"
    using m unfolding bundle_manifest_def comp_eqs liftS_def retS_def
    by (elim exE conjE) (auto simp: dupdate_def dget_def dset_def update_conv')
  with bundle_profiles_add [OF f] text_store.read_after_write [OF pl pf(1) t(2)]
  have l: "bundle_lists X (rw_root ws) w7 frontier" unfolding bundle_lists_def t' by auto
  have "path_name (path_div ?b ''manifest.sha256'') = ''manifest.sha256''" by (simp add: path_name_div run_names)
  then have "keeps (spares ''manifest.json'') (write_atomic_text (path_div ?b ''manifest.sha256'') (h @ [CHR 0x0A]))"
    by (intro spares_write_text) simp_all
  note sp = keepsD [OF keeps_reads_sha256_file [THEN spares_reads] d(1)] keepsD [OF this d(2)] keepsD [OF spares_sign d(3)]
  have "spares ''manifest.json'' w7 w'" using sp by (blast intro: spares.R_trans)
  from bundle_lists_spared [OF l this] text_store.write_fit [OF pl pf(1) t(2)] ne show ?thesis by blast
qed

lemma conclude_certified:
  assumes "conclude_run X F ws config inspection ch eh status v = (Inr doc, w')" and "plain v"
    and "step_done status ''certifying'' = Inr False" "step_done status ''selecting_frontier'' = Inr False"
      "step_done status ''building_bundle'' = Inr False"
  shows "\<exists>rows payload v1 frontier.
    certifying_step X F (rw_root ws) config inspection v = (Inr (rows, payload), v1) \<and> pareto_select rows = Inr frontier
    \<and> frontier \<noteq> [] \<and> (\<forall>row\<in>set frontier. certified_during X F (rw_root ws) config inspection v row)
    \<and> bundle_lists X (rw_root ws) w' frontier"
proof -
  let ?p = "rw_root ws"
  from assms(1) obtain rows s1 w1 frontier s2 w2 u s3 w3 where
      a: "once X ?p ''certifying'' (certifying_step X F ?p config inspection) (rows_again X ?p) status v = (Inr (rows, s1), w1)"
    and b: "once X ?p ''selecting_frontier'' (frontier_step X ?p rows) (frontier_again X ?p) s1 w1 = (Inr (frontier, s2), w2)"
    and c: "once X ?p ''building_bundle'' (bundle_step X F ws config ch eh frontier) (retS ()) s2 w2 = (Inr (u, s3), w3)"
    and e: "close_run X ws s3 w3 = (Inr doc, w')"
    unfolding conclude_run_def Let_def by (elim bindS_pairE) simp
  have d: "step_done s1 ''selecting_frontier'' = Inr False" "step_done s2 ''building_bundle'' = Inr False"
    using once_other [OF a] once_other [OF b] assms(4,5) by simp_all
  obtain pa ta where ra: "certifying_step X F ?p config inspection v = (Inr (rows, pa), ta)"
    and ma: "mark_done X ?p ''certifying'' pa status ta = (Inr s1, w1)" by (rule once_fresh [OF a assms(3)])
  obtain pb tb where rb: "frontier_step X ?p rows w1 = (Inr (frontier, pb), tb)"
    and mb: "mark_done X ?p ''selecting_frontier'' pb s1 tb = (Inr s2, w2)" by (rule once_fresh [OF b d(1)])
  obtain pc tc where rc: "bundle_step X F ws config ch eh frontier w2 = (Inr (u, pc), tc)"
    and mc: "mark_done X ?p ''building_bundle'' pc s2 tc = (Inr s3, w3)" by (rule once_fresh [OF c d(2)])
  have pl: "plain w2"
    using keepsD [OF plain_certifying ra] keepsD [OF plain_mark_done ma] keepsD [OF plain_frontier rb]
      keepsD [OF plain_mark_done mb] assms(2) by (simp add: stays_plain_def)
  from bundle_step_manifest [OF rc pl] have f: "frontier \<noteq> []" "bundle_lists X ?p tc frontier" "plain tc" by simp_all
  have "spares ''manifest.json'' tc w'"
    using keepsD [OF spares_mark_done mc] keepsD [OF spares_close_run e] by (rule spares.R_trans)
  from bundle_lists_spared(1) [OF f(2) this f(3)] ra f(1) frontier_step_select [OF rb] certifying_step_rows [OF ra]
  show ?thesis by blast
qed

lemma prepare_other_steps:
  assumes "prepare_run X F ws maximum resume w = (Inr (config, inspection, ch, eh, status), v)"
    and "initial_status X ws resume w = (Inr s0, w0)"
    and "n \<in> set [''certifying'', ''selecting_frontier'', ''building_bundle'']"
  shows "step_done status n = step_done s0 n"
proof -
  let ?p = "rw_root ws"
  from assms(1,2) obtain x1 s1 v0 v1 f1 a1 x2 s2 v2 u2 f2 a2 x3 s3 v3 u3 f3 a3 x4 s4 v4 u4 f4 a4 x5 s5 v5 u5 f5 a5
      x6 s6 v6 u6 f6 a6 x7 s7 v7 u7 f7 a7 x8 v8 u8 f8 a8 where
      o: "once X ?p ''environment'' f1 a1 s0 v0 = (Inr (x1 :: unit, s1), v1)"
      "once X ?p ''datasets'' f2 a2 s1 u2 = (Inr (x2 :: unit, s2), v2)"
      "once X ?p ''model'' f3 a3 s2 u3 = (Inr (x3 :: pydict, s3), v3)"
      "once X ?p ''dataset_stream'' f4 a4 s3 u4 = (Inr (x4 :: unit, s4), v4)"
      "once X ?p ''quantization'' f5 a5 s4 u5 = (Inr (x5 :: pydict list, s5), v5)"
      "once X ?p ''candidates'' f6 a6 s5 u6 = (Inr (x6 :: unit, s6), v6)"
      "once X ?p ''benchmarking'' f7 a7 s6 u7 = (Inr (x7 :: unit, s7), v7)"
      "once X ?p ''evaluating_quality'' f8 a8 s7 u8 = (Inr (x8 :: unit, status), v8)"
    unfolding prepare_run_def Let_def by (elim bindS_pairE bindS_InrE) (simp add: liftS_def retS_def)
  have "n \<noteq> ''environment''" "n \<noteq> ''datasets''" "n \<noteq> ''model''" "n \<noteq> ''dataset_stream''" "n \<noteq> ''quantization''"
    "n \<noteq> ''candidates''" "n \<noteq> ''benchmarking''" "n \<noteq> ''evaluating_quality''" using assms(3) by auto
  with once_other [OF o(1)] once_other [OF o(2)] once_other [OF o(3)] once_other [OF o(4)] once_other [OF o(5)]
    once_other [OF o(6)] once_other [OF o(7)] once_other [OF o(8)] show ?thesis by simp
qed

text \<open>C2. A run bundles the certified frontier and nothing else. Take a run that completes, whose last
  three steps had not been done before, and the world \<open>v\<close> in which its preparations ended, without
  symbolic links. The rows are those its certifying step computes from \<open>v\<close>, the frontier is what the
  selection makes of them, and it is not empty; the bundle manifest that lies in the workspace when
  the run is over has one profile for each frontier row, in order and under the row's id, and no
  other; and each of these rows was certified in this run: its trial's context, built at that trial's
  turn of the certifying step, passed every gate.\<close>

theorem run_bundles_certified:
  assumes "execute_run X F ws maximum resume w = (Inr doc, w')"
    and "prepare_run X F ws maximum resume w = (Inr (config, inspection, ch, eh, status), v)" and "plain v"
    and "initial_status X ws resume w = (Inr s0, w0)"
    and "step_done s0 ''certifying'' = Inr False" "step_done s0 ''selecting_frontier'' = Inr False"
      "step_done s0 ''building_bundle'' = Inr False"
  shows "\<exists>rows payload v1 frontier profiles manifest.
    certifying_step X F (rw_root ws) config inspection v = (Inr (rows, payload), v1)
    \<and> pareto_select rows = Inr frontier \<and> frontier \<noteq> []
    \<and> (\<forall>row\<in>set frontier. certified_during X F (rw_root ws) config inspection v row)
    \<and> list_all2 (\<lambda>row profile. dget profile ''profile_id'' = PStr (py_str (dget row ''candidate_id''))) frontier profiles
    \<and> dget manifest ''profiles'' = PList (map PDict profiles)
    \<and> read_text (path_div (bundle_dir (rw_root ws)) ''manifest.json'') w' = (Inr (x_dumps X (PDict manifest) @ [CHR 0x0A]), w')"
proof -
  have c: "conclude_run X F ws config inspection ch eh status v = (Inr doc, w')"
    using assms(1,2) by (simp add: execute_run_def bindS_def)
  have "step_done status ''certifying'' = Inr False" "step_done status ''selecting_frontier'' = Inr False"
      "step_done status ''building_bundle'' = Inr False"
    using prepare_other_steps [OF assms(2,4)] assms(5-7) by simp_all
  from conclude_certified [OF c assms(3) this] show ?thesis unfolding bundle_lists_def by blast
qed

section \<open>Sample runs\<close>

definition sample_env :: forge_env where
  "sample_env = \<lparr>fe_host = \<lparr>h_machine = ''m'', h_system = [], h_release = [], h_version = [], h_processor = [],
       h_cpus = None, h_ort_version = None, h_ort_providers = None, h_git = (\<lambda>p. None)\<rparr>,
     fe_onnx = \<lparr>ox_inspect = None\<rparr>, fe_checker = sample_onnx,
     fe_tools = \<lparr>et_arrays = stream_arrays, et_numpy = sample_numpy,
       et_ort = \<lparr>rt_available = False, rt_session = (\<lambda>m. Inl (py_err ImportError))\<rparr>,
       et_coco = \<lparr>k_installed = False, k_images = (\<lambda>s. Inl (py_err ImportError)),
         k_evaluate = (\<lambda>s ds. Inl (py_err ImportError))\<rparr>\<rparr>,
     fe_programs = \<lparr>pt_run = (\<lambda>l w. (Exited 0 [] [] (Fin 0), w)), pt_executable = (\<lambda>w p. True),
       pt_which = (\<lambda>n. None), pt_decode = (\<lambda>b. b), pt_here = abs_path [''s'']\<rparr>,
     fe_quantizer = \<lparr>qz_available = False, qz_static = (\<lambda>opts m fs. Inl (py_err ImportError)), qz_check = None\<rparr>,
     fe_crypto = sample_crypto, fe_pid = 7, fe_kill = (\<lambda>n. None), fe_nodename = ''host'', fe_millis = 5,
     fe_hex = ''0123456789abcdef'', fe_shuffle = (\<lambda>s xs. xs)\<rparr>"

definition lock_ext :: ext where
  "lock_ext = sample_ext\<lparr>x_loads := (\<lambda>s. Some (PDict [(''pid'', PInt 7), (''run_id'', PStr ''r''), (''config_hash'', PStr ''h'')]))\<rparr>"

definition lock_world :: world where
  "lock_world = \<lparr>w_files = [([''r'', ''run.json''], ''{}''), ([''r'', ''inputs'', ''config.canonical.json''], ''{}'')],
     w_dirs = [[''r'', ''inputs''], [''r'']], w_links = [], w_cwd = [], w_home = [], w_environ = [],
     w_ticks = 0, w_version = None, w_commit = None, w_registry = None, w_schemas = []\<rparr>"

lemma lock_taken: "\<exists>w'. acquire_lock lock_ext sample_env (abs_path [''r'']) lock_world = (Inr (), w')
    \<and> (\<exists>ws. load_run_workspace lock_ext (abs_path [''r'']) w' = (Inr ws, w'))"
proof -
  have *: "case acquire_lock lock_ext sample_env (abs_path [''r'']) lock_world of (Inr u, w') \<Rightarrow>
      (case load_run_workspace lock_ext (abs_path [''r'']) w' of (Inr ws, w'') \<Rightarrow> True | _ \<Rightarrow> False) | _ \<Rightarrow> False"
    by code_simp
  then obtain w' ws w'' where a: "acquire_lock lock_ext sample_env (abs_path [''r'']) lock_world = (Inr (), w')"
      and l: "load_run_workspace lock_ext (abs_path [''r'']) w' = (Inr ws, w'')"
    by (auto split: prod.splits sum.splits)
  from load_run_workspace_state [OF l] a l show ?thesis by blast
qed

theorem lock_excludes_witness:
  "\<exists>w' e. resume_forge lock_ext sample_env (abs_path [''r'']) 1 w' = (Inl e, w') \<and> ps_code e = RUN_LOCK_HELD"
proof -
  obtain w' ws where t: "acquire_lock lock_ext sample_env (abs_path [''r'']) lock_world = (Inr (), w')"
      and l: "load_run_workspace lock_ext (abs_path [''r'']) w' = (Inr ws, w')"
    using lock_taken by (elim exE conjE)
  have "\<exists>e. resume_forge lock_ext sample_env (abs_path [''r'']) 1 w' = (Inl e, w')
      \<and> (load_run_workspace lock_ext (abs_path [''r'']) w' = (Inl e, w') \<or> ps_code e = RUN_LOCK_HELD)"
  proof (rule lock_excludes [OF _ t])
    show "plain lock_world" by (simp add: plain_def lock_world_def)
    show "\<exists>d. x_loads lock_ext (x_dumps lock_ext (lock_document sample_env now h) @ [CHR 0x0A]) = Some (PDict d)
        \<and> dget d ''pid'' = PInt (fe_pid sample_env)" for now h
      by (simp add: lock_ext_def sample_env_def dget_def)
    show "pid_alive sample_env (fe_pid sample_env) = Inr True" by (simp add: pid_alive_def sample_env_def)
  qed
  with l show ?thesis by auto
qed

text \<open>A resumed run in the sample workspace of the certification: its trials are done.\<close>

definition sample_config :: pydict where
  "sample_config = [(''model'', PDict [(''baseline_path'', PStr ''/m''), (''adapter'', PStr ''raw_tensor'')]),
     (''certification'', PDict sample_cfg)]"

definition sample_run :: run_workspace where
  "sample_run = \<lparr>rw_id = ''r'', rw_root = abs_path [''ws''], rw_config = PDict sample_config, rw_hash = ''h''\<rparr>"

lemma once_done: "step_done status n = Inr True \<Longrightarrow> once X p n fresh again status = bindS again (\<lambda>x. retS (x, status))"
  by (rule ext) (simp add: once_def)

lemma sample_steps_done:
  "step_done sample_document ''environment'' = Inr True" "step_done sample_document ''datasets'' = Inr True"
  "step_done sample_document ''model'' = Inr True" "step_done sample_document ''dataset_stream'' = Inr True"
  "step_done sample_document ''quantization'' = Inr True" "step_done sample_document ''candidates'' = Inr True"
  "step_done sample_document ''benchmarking'' = Inr True" "step_done sample_document ''evaluating_quality'' = Inr True"
  "step_done sample_document ''certifying'' = Inr False" "step_done sample_document ''selecting_frontier'' = Inr False"
  "step_done sample_document ''building_bundle'' = Inr False"
  by code_simp+

lemma read_sample: "read_text p w = (Inr t, w) \<Longrightarrow> read_dict cert_ext p w = (Inr sample_document, w)"
  by (simp add: read_dict_def read_json_def bindS_def json_loads_def cert_ext_simps)

lemma sample_texts:
  "read_text (status_path (abs_path [''ws''])) sample_world = (Inr ''{}'', sample_world)"
  "read_text (input_file (abs_path [''ws'']) ''model-manifest.json'') sample_world = (Inr ''{}'', sample_world)"
  "read_text (input_file (abs_path [''ws'']) ''calibration-manifest.json'') sample_world = (Inr ''{}'', sample_world)"
  "read_text (input_file (abs_path [''ws'']) ''evaluation-manifest.json'') sample_world = (Inr ''{}'', sample_world)"
  "read_text (environment_file (abs_path [''ws''])) sample_world = (Inr ''{}'', sample_world)"
  "read_text (under (abs_path [''ws'']) [''trials'', ''c1.summary.json'']) sample_world = (Inr ''{}'', sample_world)"
  "read_text (in_evaluation (abs_path [''ws'']) (''c1'' @ ''.json'')) sample_world = (Inr ''{}'', sample_world)"
  "read_text (manifest_file (abs_path [''ws'']) ''c1'') sample_world = (Inr ''{}'', sample_world)"
  by (simp_all add: status_path_def input_file_def environment_file_def under_def in_evaluation_def manifest_file_def
      sample_world_def world_defs cong: run_congs)

lemmas sample_reads_run = sample_texts [THEN read_sample]

lemma sample_status: "initial_status cert_ext sample_run True sample_world = (Inr sample_document, sample_world)"
proof -
  have "is_file sample_world (status_path (abs_path [''ws'']))"
    using sample_texts(1) by (auto simp: is_file_read_bytes read_text_def comp_eqs) 
  moreover have "resumable cert_ext sample_run sample_document sample_world = (Inr (), sample_world)"
    by (simp add: resumable_def bindS_def guardS_def guardR_def get_version_def getS_def sample_world_def sample_run_def sample_document_def)
  ultimately show ?thesis using sample_reads_run(1)
    by (simp add: initial_status_def bindS_def getS_def sample_run_def)
qed

lemma sample_prefix: "prepare_run cert_ext sample_env sample_run 1 True sample_world =
  (Inr (sample_config, sample_document, [], [], sample_document), sample_world)"
proof -
  have q: "quantized_again cert_ext (abs_path [''ws'']) sample_world = (Inr [], sample_world)"
    by code_simp
  have h: "dataset_hash sample_document ''calibration_hash'' = Inr []" "dataset_hash sample_document ''evaluation_hash'' = Inr []"
    by code_simp+
  have b: "config_path_at sample_config ''model'' ''baseline_path'' = Inr (path_of ''/m'')" by code_simp
  have "rw_root sample_run = abs_path [''ws'']" "rw_config sample_run = PDict sample_config" by (simp_all add: sample_run_def)
  then show ?thesis unfolding prepare_run_def Let_def
    by (simp only: bindS_def sample_status prod.case sum.case liftS_apply as_dict.simps once_done [OF sample_steps_done(1)]
      once_done [OF sample_steps_done(2)] once_done [OF sample_steps_done(3)] once_done [OF sample_steps_done(4)]
      once_done [OF sample_steps_done(5)] once_done [OF sample_steps_done(6)] once_done [OF sample_steps_done(7)]
      once_done [OF sample_steps_done(8)] q h b sample_reads_run retS_apply)
qed


definition sample_row :: pydict where
  "sample_row = certification_row (PStr ''c1'') sample_document sample_document sample_gates"

definition sample_certified_world :: world where
  "sample_certified_world = (sample_after 13)\<lparr>w_files := w_files (sample_after 13) @
     [([''ws'', ''certification'', ''c1.json''], ''{}'' @ [CHR 0x0A])]\<rparr>"

lemma sample_row_finite: "json_finite (PDict sample_row)"
proof -
  have "json_finite (PList (map (PDict \<circ> gate_result_to_dict) sample_gates))"
    using sample_verdict(3) by (simp add: list_all_iff gate_finite_def)
  then show ?thesis by (simp add: sample_row_def certification_row_def sample_document_def pareto_quality_def)
qed

lemma sample_row_write: "write_atomic_json cert_ext (certification_file (abs_path [''ws'']) ''c1'') (PDict sample_row) (sample_after 13)
   = (Inr (), sample_certified_world)"
proof -
  have p: "certification_file (abs_path [''ws'']) ''c1'' = abs_path ([''ws'', ''certification''] @ [''c1.json''])" by code_simp
  have w: "write_atomic_text (abs_path ([''ws'', ''certification''] @ [''c1.json''])) (''{}'' @ [CHR 0x0A]) (sample_after 13)
      = (Inr (), (sample_after 13)\<lparr>w_files := w_files (sample_after 13) @
        [([''ws'', ''certification''] @ [''c1.json''], utf8_encode (''{}'' @ [CHR 0x0A]))]\<rparr>)"
  proof (rule write_atomic_fresh)
    have t: "i = 0 \<or> i = 1 \<or> 2 \<le> i" for i :: nat by auto
    show "take i [''ws'', ''certification''] \<in> set (w_dirs (sample_after 13))"
      if "0 < i" "i \<le> length [''ws'', ''certification'']" for i
      using t [of i] that by (auto simp: sample_after_def sample_world_def)
    show "map_of (w_files (sample_after 13)) (take i [''ws'', ''certification'']) = None" for i
      using t [of i] by (elim disjE) (simp_all add: map_of_eq_None_iff sample_after_def sample_world_def image_image image_iff)
  qed (auto simp: sample_after_def sample_world_def plain_def)
  show ?thesis unfolding write_atomic_json_def p
    using sample_row_finite w by (simp add: cert_dumps bindS_def sample_certified_world_def utf8_encode_def)
qed

lemma sample_certify: "certify_trial cert_ext sample_env (abs_path [''ws'']) sample_cfg sample_document ''valid'' ''c1.summary.json'' sample_world
   = (Inr sample_row, sample_certified_world)"
proof -
  have c: "ditem sample_document ''candidate_id'' = Inr (PStr ''c1'')" by code_simp
  have h: "is_file sample_world sample_host" "host_file (abs_path [''ws'']) = sample_host"
    by (simp_all add: sample_host_def sample_world_def world_defs host_file_def under_def cong: run_congs)
  have i: "\<lparr>ci_root = abs_path [''ws''], ci_candidate = ''c1'', ci_manifest = sample_document,
       ci_trial = sample_document, ci_evaluation = sample_document, ci_inspection = Some sample_document, ci_cfg = sample_cfg,
       ci_environment = Some ''valid'', ci_host_path = Some sample_host\<rparr> = sample_inputs" by (simp add: sample_inputs_def)
  have f: "fe_checker sample_env = sample_onnx" by (simp add: sample_env_def)
  show ?thesis unfolding certify_trial_def Let_def
    by (simp only: bindS_def sample_reads_run prod.case sum.case liftS_apply c py_str.simps getS_def h if_True i f sample_built
      sample_verdict(1) sample_row_def [symmetric] sample_row_write retS_apply)
qed

lemma sample_certifying: "certifying_step cert_ext sample_env (abs_path [''ws'']) sample_config sample_document sample_world
   = (Inr ([sample_row], [(''count'', PInt 1)]), sample_certified_world)"
proof -
  have c: "sub_dict sample_config ''certification'' = Inr sample_cfg" by code_simp
  have e: "environment_verdict_of cert_ext (abs_path [''ws'']) sample_cfg sample_world = (Inr ''valid'', sample_world)"
  proof -
    have "is_file sample_world (environment_file (abs_path [''ws'']))"
      using sample_texts(5) by (auto simp: is_file_read_bytes read_text_def comp_eqs)
    then show ?thesis using sample_reads_run(5)
      by (simp add: environment_verdict_of_def bindS_def getS_def sample_document_def py_or_def)
  qed
  have n: "glob_names sample_world (path_div (abs_path [''ws'']) ''trials'') ''.summary.json'' = [''c1.summary.json'']" by code_simp
  show ?thesis unfolding certifying_step_def
    by (simp only: bindS_def c e n liftS_apply prod.case sum.case getS_def mapS.simps sample_certify retS_apply) simp
qed

definition sample_tail :: "pydict io" where
  "sample_tail = (let p = abs_path [''ws''] in
     bindS (mark_done cert_ext p ''certifying'' [(''count'', PInt 1)] sample_document) (\<lambda>status.
     bindS (once cert_ext p ''selecting_frontier'' (frontier_step cert_ext p [sample_row]) (frontier_again cert_ext p) status) (\<lambda>(frontier, status).
     bindS (once cert_ext p ''building_bundle'' (bundle_step cert_ext sample_env sample_run sample_config [] [] frontier) (retS ()) status) (\<lambda>(u, status).
     close_run cert_ext sample_run status))))"

lemma sample_tail_ends: "case fst (sample_tail sample_certified_world) of Inr d \<Rightarrow> True | Inl e \<Rightarrow> False"
  by code_simp

lemma sample_conclusion: "conclude_run cert_ext sample_env sample_run sample_config sample_document [] [] sample_document sample_world
   = sample_tail sample_certified_world"
proof -
  have r: "rw_root sample_run = abs_path [''ws'']" by (simp add: sample_run_def)
  have o: "once cert_ext (abs_path [''ws'']) ''certifying'' (certifying_step cert_ext sample_env (abs_path [''ws'']) sample_config sample_document)
      again sample_document sample_world
    = bindS (mark_done cert_ext (abs_path [''ws'']) ''certifying'' [(''count'', PInt 1)] sample_document) (\<lambda>s. retS ([sample_row], s))
        sample_certified_world" for again
    by (simp add: once_def bindS_def [of "liftS _"] bindS_def [of "certifying_step _ _ _ _ _"] sample_steps_done sample_certifying)
  show ?thesis unfolding conclude_run_def sample_tail_def r Let_def
    by (simp add: bindS_def [of "once _ _ ''certifying'' _ _ _"] o) (simp add: bindS_def split: prod.split sum.split)
qed

lemma sample_completes: "\<exists>doc w'. execute_run cert_ext sample_env sample_run 1 True sample_world = (Inr doc, w')"
  using sample_tail_ends
  by (cases "sample_tail sample_certified_world")
    (auto simp: execute_run_def bindS_def sample_prefix sample_conclusion split: sum.splits)

theorem run_bundles_certified_witness:
  "\<exists>doc w' profile profiles manifest. execute_run cert_ext sample_env sample_run 1 True sample_world = (Inr doc, w')
    \<and> dget manifest ''profiles'' = PList (map PDict (profile # profiles))
    \<and> read_text (path_div (bundle_dir (abs_path [''ws''])) ''manifest.json'') w'
        = (Inr (x_dumps cert_ext (PDict manifest) @ [CHR 0x0A]), w')"
proof -
  from sample_completes obtain doc w' where run: "execute_run cert_ext sample_env sample_run 1 True sample_world = (Inr doc, w')"
    by blast
  have "plain sample_world" by (simp add: plain_def sample_world_def)
  from run_bundles_certified [OF run sample_prefix this sample_status sample_steps_done(9-11)]
  obtain frontier profiles manifest where m: "frontier \<noteq> []" "dget manifest ''profiles'' = PList (map PDict profiles)"
      "read_text (path_div (bundle_dir (rw_root sample_run)) ''manifest.json'') w'
        = (Inr (x_dumps cert_ext (PDict manifest) @ [CHR 0x0A]), w')"
    and l: "list_all2 (\<lambda>row profile. dget profile ''profile_id'' = PStr (py_str (dget row ''candidate_id''))) frontier profiles"
    by (elim exE conjE)
  from m(1) l obtain profile more where "profiles = profile # more" by (cases profiles) auto
  with m(2,3) run show ?thesis by (auto simp: sample_run_def)
qed

end
