(* ===== verification/Reporting.thy ===== *)
theory Reporting
  imports Native_Tools
begin

text \<open>
  \<open>reporting/__init__.py\<close>, the report document, its redaction and its JSON, Markdown and HTML exports,
  and \<open>inspection/__init__.py\<close>, the host doctor. \<open>json.dumps\<close> in the three layouts used and the import
  of packages are parameters; \<open>str.replace\<close>, the one regular expression and \<open>html.escape\<close> are written
  out. The theorem says that the values of a report never contain the home directory.
\<close>

section \<open>Redaction\<close>

text \<open>\<open>str.replace\<close>, which for an empty first argument inserts before every character and at the end.\<close>

definition py_replace :: "string \<Rightarrow> string \<Rightarrow> string \<Rightarrow> string" where
  "py_replace old new s = (if old = [] then new @ concat (map (\<lambda>c. c # new) s) else replace_all old new s)"

text \<open>
  \<open>re.sub("(?<=/)(user)(?=/)", "${USER}", text)\<close>: leftmost matches that do not overlap, each between
  two slashes of the text. The flag says that the character before is a slash.
\<close>

function redact_user :: "string \<Rightarrow> bool \<Rightarrow> string \<Rightarrow> string" where
  "redact_user u after [] = []"
| "redact_user u after (c # cs) =
     (if after \<and> u \<noteq> [] \<and> prefix (u @ ''/'') (c # cs)
      then ''${USER}'' @ redact_user u (last u = CHR ''/'') (drop (length u) (c # cs))
      else c # redact_user u (c = CHR ''/'') cs)"
  by pat_completeness auto
termination
  by (relation "measure (\<lambda>(u, after, s). length s)") (auto simp: prefix_def)

definition home_path :: "world \<Rightarrow> string" where
  "home_path w = path_str (abs_path (w_home w))"

definition user_name :: "world \<Rightarrow> string option" where
  "user_name w = (case getenv w ''USER'' of
     Some u \<Rightarrow> if u \<noteq> [] then Some u else getenv w ''USERNAME''
   | None \<Rightarrow> getenv w ''USERNAME'')"

definition redact_path :: "world \<Rightarrow> string option \<Rightarrow> string \<Rightarrow> string" where
  "redact_path w home text =
     (let redacted = py_replace (case home of Some h \<Rightarrow> h | None \<Rightarrow> home_path w) ''${HOME}'' text in
      case user_name w of None \<Rightarrow> redacted | Some u \<Rightarrow> if u \<noteq> [] then redact_user u False redacted else redacted)"

text \<open>Values are redacted; the keys of a dictionary are kept as they are.\<close>

fun redact_structure :: "(string \<Rightarrow> string) \<Rightarrow> pyval \<Rightarrow> pyval" where
  "redact_structure f (PStr s) = PStr (f s)"
| "redact_structure f (PList l) = PList (map (redact_structure f) l)"
| "redact_structure f (PDict d) = PDict (map (\<lambda>kv. (fst kv, redact_structure f (snd kv))) d)"
| "redact_structure f v = v"

definition sanitize_report :: "world \<Rightarrow> pyval \<Rightarrow> pyval" where
  "sanitize_report w report = redact_structure (redact_path w None) report"

section \<open>The report document\<close>

definition report_fields :: "(string \<times> pyval) list" where
  "report_fields =
     [(''run_identity'', PDict []), (''host_fingerprint'', PNone), (''provenance'', PDict []),
      (''methodology'', PDict []), (''preflight'', PNone), (''candidates'', PList []),
      (''provider_assignment'', PNone), (''quality'', PList []), (''latency'', PList []),
      (''invalid_trials'', PList []), (''pareto'', PList []), (''certification_gates'', PList []),
      (''selected_profiles'', PList []), (''limitations'', PList []), (''reproduction'', PDict []),
      (''artifact_links'', PList [])]"

definition build_report_document :: "ext \<Rightarrow> pyval \<Rightarrow> pyval io" where
  "build_report_document X run_data =
     bindS (envelope_fields X ''perceptshift.forge_report'') (\<lambda>env.
     bindS (liftS (as_dict run_data)) (\<lambda>run.
     let doc = dupdate env (map (\<lambda>(k, default). (k, dget_or run k default)) report_fields) in
     getS (\<lambda>w. redact_structure (redact_path w None) (PDict doc))))"

section \<open>Exports\<close>

text \<open>\<open>json.dumps\<close> with \<open>indent=2, sort_keys=True\<close>, with \<open>indent=2\<close>, and with \<open>sort_keys=True\<close>.\<close>

record json_text =
  jt_sorted :: "pyval \<Rightarrow> string"
  jt_indented :: "pyval \<Rightarrow> string"
  jt_line :: "pyval \<Rightarrow> string"

abbreviation newline :: string where
  "newline \<equiv> [CHR 0x0A]"

definition export_json :: "json_text \<Rightarrow> pyval \<Rightarrow> ppath \<Rightarrow> unit io" where
  "export_json J report p = write_atomic_text p (jt_sorted J report @ newline)"

definition quoted :: "string \<Rightarrow> string" where
  "quoted s = [CHR 0x60] @ s @ [CHR 0x60]"

definition gate_line :: "pyval \<Rightarrow> exc + string" where
  "gate_line v = bindR (as_dict v) (\<lambda>g. Inr (''- '' @ quoted (py_str (dget g ''name'')) @ '': pass='' @
     py_str (dget g ''pass'') @ '' required='' @ py_str (dget g ''required'') @ '' reasons='' @
     py_str (dget g ''reason_codes'')))"

definition limitation_lines :: "json_text \<Rightarrow> pyval \<Rightarrow> exc + string list" where
  "limitation_lines J v = (let limitations = py_or v (PList []) in
     if \<not> truthy limitations then Inr [''_None recorded._'']
     else bindR (py_iter limitations) (\<lambda>items. Inr (map (\<lambda>i. ''- '' @ jt_line J i) items)))"

definition markdown_lines :: "json_text \<Rightarrow> pydict \<Rightarrow> exc + string list" where
  "markdown_lines J report =
     bindR (sub_dict report ''run_identity'') (\<lambda>identity.
     bindR (limitation_lines J (dget report ''limitations'')) (\<lambda>limits.
     bindR (py_iter (py_or (dget report ''certification_gates'') (PList []))) (\<lambda>items.
     bindR (mapR gate_line items) (\<lambda>gates.
     Inr ([''# PerceptShift Forge Report'', [],
         ''- schema_version: '' @ quoted (py_str (dget report ''schema_version'')),
         ''- created_at: '' @ quoted (py_str (dget report ''created_at'')),
         ''- run_id: '' @ quoted (py_str (dget identity ''run_id'')), [],
         ''## Limitations / unavailable metrics'', []] @ limits @
       [[], ''## Certification gates'', []] @ gates @
       [[], ''## Reproduction'', [], replicate 3 (CHR 0x60),
         jt_indented J (py_or (dget report ''reproduction'') (PDict [])), replicate 3 (CHR 0x60), []])))))"

definition export_markdown :: "json_text \<Rightarrow> pydict \<Rightarrow> ppath \<Rightarrow> unit io" where
  "export_markdown J report p =
     bindS (liftS (markdown_lines J report)) (\<lambda>ls. write_atomic_text p (join_with newline ls))"

definition escape_char :: "char \<Rightarrow> string" where
  "escape_char c = (if c = CHR ''&'' then ''&amp;'' else if c = CHR ''<'' then ''&lt;''
     else if c = CHR ''>'' then ''&gt;'' else if c = CHR 0x22 then ''&quot;''
     else if c = CHR 0x27 then ''&#x27;'' else [c])"

definition html_escape :: "string \<Rightarrow> string" where
  "html_escape s = concat (map escape_char s)"

definition html_document :: "string \<Rightarrow> string" where
  "html_document body = join_with newline
     [''<!DOCTYPE html>'',
      ''<html lang='' @ [CHR 0x22] @ ''en'' @ [CHR 0x22] @ ''>'',
      ''<head>'',
      ''  <meta charset='' @ [CHR 0x22] @ ''utf-8'' @ [CHR 0x22] @ ''/>'',
      ''  <title>PerceptShift Forge Report</title>'',
      ''  <style>'',
      ''    body { font-family: ui-monospace, SFMono-Regular, Menlo, monospace; margin: 2rem; }'',
      ''    pre { white-space: pre-wrap; word-break: break-word; }'',
      ''  </style>'',
      ''</head>'',
      ''<body>'',
      ''  <h1>PerceptShift Forge Report</h1>'',
      ''  <p>Factual export. No marketing claims. Paths redacted.</p>'',
      ''  <pre>'' @ body @ ''</pre>'',
      ''</body>'',
      ''</html>'',
      []]"

definition export_html :: "json_text \<Rightarrow> pyval \<Rightarrow> ppath \<Rightarrow> unit io" where
  "export_html J report p = write_atomic_text p (html_document (html_escape (jt_sorted J report)))"

section \<open>The host doctor\<close>

text \<open>
  What the doctor learns from outside: an import (its error's message, or the value of the module's
  \<open>__version__\<close>), the version of an installed distribution, ONNX Runtime's providers (\<open>None\<close> when
  the call raises), and the interpreter.
\<close>

record packages =
  pk_import :: "string \<Rightarrow> string + pyval"
  pk_dist :: "string \<Rightarrow> string option"
  pk_providers :: "string list option"
  pk_python :: string
  pk_executable :: string
  pk_platform :: string
  pk_machine :: string

definition DIST_NAMES :: "(string \<times> string) list" where
  "DIST_NAMES = [(''onnx'', ''onnx''), (''onnxruntime'', ''onnxruntime''), (''numpy'', ''numpy''),
     (''PIL'', ''pillow''), (''jsonschema'', ''jsonschema''), (''yaml'', ''PyYAML''), (''pydantic'', ''pydantic'')]"

definition package_version :: "packages \<Rightarrow> string \<Rightarrow> pyval \<Rightarrow> pyval" where
  "package_version K dname raw = (case pk_dist K dname of Some v \<Rightarrow> PStr v
     | None \<Rightarrow> if dname = ''jsonschema'' then PNone else if raw \<noteq> PNone then PStr (py_str raw) else PNone)"

definition probed_package :: "packages \<Rightarrow> string \<times> string \<Rightarrow> string \<times> pyval" where
  "probed_package K nd = (fst nd, PDict (case pk_import K (fst nd) of
     Inr raw \<Rightarrow> [(''available'', PBool True), (''version'', package_version K (snd nd) raw)]
   | Inl message \<Rightarrow> [(''available'', PBool False), (''reason_code'', reason_val UNAVAILABLE_DEPENDENCY),
       (''message'', PStr message)]))"

definition dependency_probe :: "packages \<Rightarrow> pydict" where
  "dependency_probe K = (let deps = map (probed_package K) DIST_NAMES in
     case (pk_import K ''onnxruntime'', pk_providers K) of
       (Inr raw, Some ps) \<Rightarrow>
         dset ''onnxruntime'' (PDict (dset ''providers'' (PList (map PStr ps)) (the_dict (dget deps ''onnxruntime'')))) deps
     | _ \<Rightarrow> deps)"

definition inspect_binary :: "programs \<Rightarrow> world \<Rightarrow> exc + ppath option" where
  "inspect_binary T w = bindR (find_native_binary T ''perceptshift_inspect'' w) (\<lambda>a.
     case a of Some b \<Rightarrow> Inr (Some b) | None \<Rightarrow>
     bindR (find_native_binary T ''inspect_worker'' w) (\<lambda>a.
     case a of Some b \<Rightarrow> Inr (Some b) | None \<Rightarrow>
     Inr (case pt_which T ''perceptshift-inspect'' of None \<Rightarrow> None
       | Some s \<Rightarrow> if s \<noteq> [] then Some (path_of s) else None)))"

definition inspect_failed :: "ppath \<Rightarrow> string \<Rightarrow> pydict" where
  "inspect_failed binary message = [(''available'', PBool False),
     (''reason_code'', reason_val UNAVAILABLE_NATIVE_BINARY),
     (''message'', PStr (''Failed to execute native inspect: '' @ message)), (''binary'', PStr (path_str binary))]"

definition inspect_payload :: "ext \<Rightarrow> ppath \<Rightarrow> int \<Rightarrow> string \<Rightarrow> string \<Rightarrow> pydict" where
  "inspect_payload X binary rc out err =
     [(''available'', PBool (rc = 0)), (''binary'', PStr (path_str binary)), (''returncode'', PInt rc)] @
     (if rc \<noteq> 0 then [(''reason_code'', reason_val UNAVAILABLE_NATIVE_BINARY), (''stderr'', PStr (py_strip err))]
      else (case x_loads X out of Some v \<Rightarrow> [(''report'', v)] | None \<Rightarrow> [(''stdout'', PStr out)]))"

text \<open>\<open>text=True\<close> decodes the output strictly; the inherited environment is passed on.\<close>

definition run_inspect :: "ext \<Rightarrow> programs \<Rightarrow> ppath \<Rightarrow> pydict io" where
  "run_inspect X T binary w =
     (case pt_run T \<lparr>la_argv = [path_str binary, ''--json''], la_cwd = abs_path (w_cwd w),
         la_env = w_environ w, la_timeout = Some (Fin 30)\<rparr> w of
       (Not_started e, w') \<Rightarrow> (if is_os_error e then Inr (inspect_failed binary (exc_str e)) else Inl e, w')
     | (Timed_out_after out err, w') \<Rightarrow> (Inr (inspect_failed binary (''Command '' @
         py_repr (PList [PStr (path_str binary), PStr ''--json'']) @ '' timed out after 30 seconds'')), w')
     | (Exited rc out err secs, w') \<Rightarrow> (case (utf8_decode out, utf8_decode err) of
           (Some t, Some e) \<Rightarrow> Inr (inspect_payload X binary rc t e)
         | _ \<Rightarrow> Inl (py_err UnicodeDecodeError), w'))"

definition native_inspect :: "ext \<Rightarrow> programs \<Rightarrow> pydict io" where
  "native_inspect X T = bindS (\<lambda>w. (inspect_binary T w, w)) (\<lambda>found. case found of
     None \<Rightarrow> retS [(''available'', PBool False), (''reason_code'', reason_val UNAVAILABLE_NATIVE_BINARY),
       (''message'', PStr ''Native inspect binary not found'')]
   | Some binary \<Rightarrow> run_inspect X T binary)"

definition run_doctor :: "ext \<Rightarrow> packages \<Rightarrow> programs \<Rightarrow> pydict io" where
  "run_doctor X K T =
     bindS (envelope_fields X ''perceptshift.doctor_report'') (\<lambda>report.
     bindS (get_version X) (\<lambda>v. bindS (getS path_inventory) (\<lambda>dirs.
     bindS (native_inspect X T) (\<lambda>native.
     retS (dupdate report
       [(''product_version'', PStr v),
        (''python'', PDict [(''version'', PStr (pk_python K)), (''executable'', PStr (pk_executable K)),
           (''platform'', PStr (pk_platform K)), (''machine'', PStr (pk_machine K))]),
        (''paths'', PDict dirs), (''dependencies'', PDict (dependency_probe K)), (''native'', PDict native)])))))"

section \<open>What a report hides\<close>

text \<open>The strings among the values of a document: its keys are not values.\<close>

fun text_values :: "pyval \<Rightarrow> string list" where
  "text_values (PStr s) = [s]"
| "text_values (PList l) = concat (map text_values l)"
| "text_values (PDict d) = concat (map (\<lambda>kv. text_values (snd kv)) d)"
| "text_values v = []"

text \<open>
  A mark that begins with a dollar and has no slash: where a text without dollars and beginning with
  a slash occurs in the result of a replacement by the mark, it occurs in the text replaced.
\<close>

definition mark :: "string \<Rightarrow> bool" where
  "mark m \<longleftrightarrow> m \<noteq> [] \<and> hd m = CHR ''$'' \<and> CHR ''/'' \<notin> set m"

definition bare :: "string \<Rightarrow> bool" where
  "bare h \<longleftrightarrow> h \<noteq> [] \<and> hd h = CHR ''/'' \<and> CHR ''$'' \<notin> set h"

lemma marks [simp]: "mark ''${HOME}''" "mark ''${USER}''"
  by (simp_all add: mark_def)

lemma prefix_mark: "mark m \<Longrightarrow> CHR ''$'' \<notin> set p \<Longrightarrow> prefix p (m @ s) \<Longrightarrow> p = []"
  by (cases p; cases m) (auto simp: mark_def)

lemma sublist_past: "CHR ''/'' \<notin> set m \<Longrightarrow> bare h \<Longrightarrow> sublist h (m @ s) \<Longrightarrow> sublist h s"
proof (induction m)
  case (Cons c m)
  have "\<not> prefix h (c # m @ s)" using Cons.prems by (cases h) (auto simp: bare_def)
  with Cons show ?case by (simp add: sublist_Cons_right)
qed simp

lemma prefix_replace:
  "mark new \<Longrightarrow> CHR ''$'' \<notin> set p \<Longrightarrow> prefix p (replace_all old new s) \<Longrightarrow> prefix p s"
proof (induction old new s arbitrary: p rule: replace_all.induct)
  case (2 old new x xs)
  show ?case
  proof (cases "old \<noteq> [] \<and> prefix old (x # xs)")
    case True
    with 2(3-5) prefix_mark show ?thesis by fastforce
  next
    case False
    with 2 show ?thesis by (cases p) auto
  qed
qed simp

lemma sublist_drop: "sublist h (drop n s) \<Longrightarrow> sublist h s"
  by (metis append_take_drop_id sublist_append)

text \<open>What is replaced is gone.\<close>

lemma replaced_gone: "mark new \<Longrightarrow> bare old \<Longrightarrow> \<not> sublist old (replace_all old new s)"
proof (induction old new s rule: replace_all.induct)
  case (1 old new)
  then show ?case by (simp add: bare_def)
next
  case (2 old new x xs)
  have ne: "old \<noteq> []" using 2(4) by (simp add: bare_def)
  show ?case
  proof (cases "prefix old (x # xs)")
    case True
    with 2(1) [OF _ 2(3,4)] ne sublist_past [of new old] 2(3,4) show ?thesis by (auto simp: mark_def)
  next
    case False
    then have "\<not> prefix old (x # replace_all old new xs)"
      using prefix_replace [OF 2(3), of "tl old" old xs] 2(4) by (cases old) (auto simp: bare_def)
    with 2(2) [OF _ 2(3,4)] False show ?thesis by (simp add: sublist_Cons_right)
  qed
qed

lemma prefix_redact_user:
  "CHR ''$'' \<notin> set p \<Longrightarrow> prefix p (redact_user u after s) \<Longrightarrow> prefix p s"
proof (induction u after s arbitrary: p rule: redact_user.induct)
  case (2 u after c cs)
  show ?case
  proof (cases "after \<and> u \<noteq> [] \<and> prefix (u @ ''/'') (c # cs)")
    case True
    with 2(3,4) prefix_mark [OF marks(2)] show ?thesis by fastforce
  next
    case False
    with 2 show ?thesis by (cases p) auto
  qed
qed simp

lemma redact_user_keeps_out:
  "bare h \<Longrightarrow> \<not> sublist h s \<Longrightarrow> \<not> sublist h (redact_user u after s)"
proof (induction u after s rule: redact_user.induct)
  case (1 u after)
  then show ?case by simp
next
  case (2 u after c cs)
  show ?case
  proof (cases "after \<and> u \<noteq> [] \<and> prefix (u @ ''/'') (c # cs)")
    case True
    let ?r = "redact_user u (last u = CHR ''/'') (drop (length u) (c # cs))"
    have eq: "redact_user u after (c # cs) = ''${USER}'' @ ?r"
      by (simp only: redact_user.simps(2) True simp_thms if_True)
    have "\<not> sublist h (drop (length u) (c # cs))" using 2(4) sublist_drop by blast
    then have "\<not> sublist h ?r" by (rule 2(1) [OF True 2(3)])
    then show ?thesis unfolding eq using sublist_past [OF _ 2(3), of "''${USER}''" ?r] marks(2)
      unfolding mark_def by blast
  next
    case False
    then have "\<not> prefix h (c # redact_user u (c = CHR ''/'') cs)"
      using prefix_redact_user [of "tl h" u "c = CHR ''/''" cs] 2(3,4)
      by (cases h) (auto simp: bare_def sublist_Cons_right)
    with 2(2) [OF False 2(3)] 2(4) False show ?thesis by (auto simp: sublist_Cons_right)
  qed
qed

lemma redact_path_hides: "CHR ''$'' \<notin> set (home_path w) \<Longrightarrow> \<not> sublist (home_path w) (redact_path w None s)"
proof -
  assume no: "CHR ''$'' \<notin> set (home_path w)"
  then have b: "bare (home_path w)" by (simp add: bare_def home_path_def path_str_def)
  then have "\<not> sublist (home_path w) (py_replace (home_path w) ''${HOME}'' s)"
    using replaced_gone [OF marks(1)] by (simp add: py_replace_def bare_def)
  with b redact_user_keeps_out show ?thesis by (auto simp: redact_path_def Let_def split: option.split)
qed

lemma redact_structure_values:
  "(\<And>s. P (f s)) \<Longrightarrow> list_all P (text_values (redact_structure f v))"
  by (induction f v rule: redact_structure.induct) (auto simp: list_all_iff)

lemma lift_get_run:
  "bindS (liftS m) (\<lambda>x. getS (g x)) s = (Inr y, t) \<Longrightarrow> \<exists>x. m = Inr x \<and> y = g x s \<and> t = s"
  by (cases m) (auto simp: getS_def)

text \<open>C21. A report hides the home directory: no string among the values of a report document contains
  the path of the home directory, whatever the run's data hold, provided the path has no dollar sign
  (the mark that replaces it has one); and building the document changes no file.\<close>

theorem report_hides_home:
  assumes "build_report_document X run_data w = (Inr doc, w')" and "CHR ''$'' \<notin> set (home_path w)"
  shows "reads_only w w' \<and> list_all (\<lambda>s. \<not> sublist (home_path w) s) (text_values doc)"
proof -
  let ?doc = "\<lambda>env run. PDict (dupdate env (map (\<lambda>(k, default). (k, dget_or run k default)) report_fields))"
  from assms(1) obtain env u where env: "envelope_fields X ''perceptshift.forge_report'' w = (Inr env, u)"
    and rest: "bindS (liftS (as_dict run_data)) (\<lambda>run.
      getS (\<lambda>w. redact_structure (redact_path w None) (?doc env run))) u = (Inr doc, w')"
    unfolding build_report_document_def Let_def bindS_eq_Inr [of "envelope_fields X ''perceptshift.forge_report''"]
    by (elim exE conjE)
  from lift_get_run [OF rest] obtain run where doc: "doc = redact_structure (redact_path u None) (?doc env run)"
    and u: "w' = u" by blast
  from keepsD [OF keeps_reads_envelope env] have kept: "reads_only w u" .
  then have home: "home_path u = home_path w" by (simp add: reads_only_def home_path_def)
  have hides: "\<not> sublist (home_path w) (redact_path u None t)" for t
    using redact_path_hides [of u t] assms(2) unfolding home .
  have "list_all (\<lambda>s. \<not> sublist (home_path w) s) (text_values doc)"
    unfolding doc by (rule redact_structure_values) (rule hides)
  with kept show ?thesis unfolding u by blast
qed

definition report_run :: pyval where
  "report_run = PDict [(''run_identity'', PDict [(''run_id'', PStr ''r-1'')]),
     (''provenance'', PDict [(''model'', PStr ''/home/ana/models/a.onnx''), (''log'', PStr ''/var/ana/log'')])]"

definition report_world :: world where
  "report_world = \<lparr>w_files = [], w_dirs = [], w_links = [], w_cwd = [], w_home = [''home'', ''ana''],
     w_environ = [(''USER'', ''ana'')], w_ticks = 0, w_version = Some ''0.1.0'', w_commit = Some ''abc'',
     w_registry = None, w_schemas = []\<rparr>"

theorem report_hides_home_witness:
  "case build_report_document sample_ext report_run report_world of (r, w') \<Rightarrow>
     (case r of Inl e \<Rightarrow> False | Inr doc \<Rightarrow>
       dget (the_dict doc) ''provenance'' = PDict [(''model'', PStr ''${HOME}/models/a.onnx''), (''log'', PStr ''/var/${USER}/log'')]
       \<and> reads_only report_world w' \<and> list_all (\<lambda>s. \<not> sublist ''/home/ana'' s) (text_values doc))"
proof -
  let ?run = "build_report_document sample_ext report_run report_world"
  have ok: "case fst ?run of Inl e \<Rightarrow> False | Inr doc \<Rightarrow>
      dget (the_dict doc) ''provenance'' = PDict [(''model'', PStr ''${HOME}/models/a.onnx''), (''log'', PStr ''/var/${USER}/log'')]"
    by code_simp
  then obtain doc w' where run: "?run = (Inr doc, w')" by (cases ?run) (auto split: sum.splits)
  have home: "home_path report_world = ''/home/ana''" by code_simp
  then have "CHR ''$'' \<notin> set (home_path report_world)" by simp
  from report_hides_home [OF run this] ok show ?thesis unfolding run home by simp
qed

end
