(* ===== verification/Cli.thy ===== *)
theory Cli
  imports Forge_Run Reporting
begin

text \<open>
  \<open>perceptshift_cli\<close>: the output helpers, the commands of the sub-applications and \<open>main\<close>. A command is
  a computation on a terminal, the world with what was written to standard output. Typer's check of
  the path options is written out; Typer's parsing, Rich's rendering, httpx and numpy's loader are
  parameters. \<open>model preprocess\<close> (onnx in and out) and \<open>evaluate run\<close> are not modelled.
\<close>

section \<open>output.py\<close>

record terminal =
  tm_world :: world
  tm_out :: string

type_synonym 'a command = "(terminal, exc, 'a) comp"

record console =
  co_json :: bool
  co_quiet :: bool

text \<open>\<open>ce_http\<close> is a GET with its status and body, or an \<open>httpx.HTTPError\<close>.\<close>

record cli_env =
  ce_forge :: forge_env
  ce_packages :: packages
  ce_json :: json_text
  ce_rich :: "string \<Rightarrow> string"
  ce_http :: "string \<Rightarrow> exc + int \<times> string"
  ce_npy :: "string \<Rightarrow> exc + tensor"

definition on_world :: "'a io \<Rightarrow> 'a command" where
  "on_world m t = (case m (tm_world t) of (r, w) \<Rightarrow> (r, t\<lparr>tm_world := w\<rparr>))"

definition put_text :: "string \<Rightarrow> unit command" where
  "put_text s = modS (tm_out_update (\<lambda>o1. o1 @ s))"

definition emit_json :: "json_text \<Rightarrow> pydict \<Rightarrow> unit command" where
  "emit_json J payload = put_text (jt_sorted J (PDict payload) @ newline)"

definition emit :: "cli_env \<Rightarrow> console \<Rightarrow> pydict \<Rightarrow> string option \<Rightarrow> unit command" where
  "emit C ctx payload human =
     (if co_quiet ctx \<and> \<not> co_json ctx then retS ()
      else if co_json ctx then emit_json (ce_json C) payload
      else put_text (ce_rich C (case human of Some h \<Rightarrow> h | None \<Rightarrow> jt_sorted (ce_json C) (PDict payload))))"

definition bad_parameter :: "string \<Rightarrow> exc" where
  "bad_parameter message = PyErr (OtherError ''BadParameter'') message"

definition exit_with :: "int \<Rightarrow> exc" where
  "exit_with n = PyErr (OtherError ''Exit'') (show_int n)"

section \<open>benchmark.py and run\_cmd.py\<close>

definition bench_run :: "ext \<Rightarrow> cli_env \<Rightarrow> ppath \<Rightarrow> ppath \<Rightarrow> ppath option \<Rightarrow> pyfloat \<Rightarrow> pydict io" where
  "bench_run X C worker request cwd timeout =
     bindS (getS (\<lambda>w. case cwd of Some p \<Rightarrow> p | None \<Rightarrow> abs_path (w_cwd w))) (\<lambda>dir.
     launch_bench_worker X (fe_programs (ce_forge C)) [path_str worker, ''--request'', path_str request] dir timeout
       [] None None)"

definition bench_resume :: "pydict io" where
  "bench_resume = raiseS (ps_error DEPENDENCY_UNAVAILABLE
     ''Standalone benchmark resume is available through `perceptshift forge resume`'' None
     [(''reason_code'', reason_val UNAVAILABLE_DATA)] None)"

definition sample_line :: "ext \<Rightarrow> string \<Rightarrow> pyfloat list \<Rightarrow> exc + pyfloat list" where
  "sample_line X line values = (if py_strip line = [] then Inr values
     else bindR (json_loads X line) (\<lambda>v. bindR (as_dict v) (\<lambda>row.
       if dget row ''valid'' = PBool False then Inr values
       else let duration = py_or (dget row ''inference_duration_ns'') (dget row ''total_duration_ns'') in
         if duration = PNone then Inr values
         else bindR (py_float duration) (\<lambda>f. Inr (values @ [f])))))"

definition bench_summarize :: "ext \<Rightarrow> cli_env \<Rightarrow> ppath \<Rightarrow> int \<Rightarrow> int \<Rightarrow> pydict io" where
  "bench_summarize X C samples resamples seed =
     bindS (read_text samples) (\<lambda>t. bindS (liftS (foldR (sample_line X) (splitlines t) [])) (\<lambda>values.
     bindS (guardS (values \<noteq> []) (ps_err NOT_FOUND ''No valid latency samples found'')) (\<lambda>u.
     bindS (liftS (summarize_latencies (et_numpy (fe_tools (ce_forge C))) values resamples
       (fl_round (95 / 100)) seed [''mean'', ''p99''])) (\<lambda>stats. retS (stats_dict stats)))))"

definition bench_compare :: "ext \<Rightarrow> ppath \<Rightarrow> ppath \<Rightarrow> pydict io" where
  "bench_compare X left right = bindS (read_json X left) (\<lambda>a. bindS (read_json X right) (\<lambda>b.
     retS [(''left'', a), (''right'', b)]))"

definition run_standalone :: "ext \<Rightarrow> cli_env \<Rightarrow> ppath \<Rightarrow> pyfloat \<Rightarrow> pydict io" where
  "run_standalone X C config timeout = (let T = fe_programs (ce_forge C) in
     bindS (\<lambda>w. (find_native_binary T ''perceptshift_runtime'' w, w)) (\<lambda>a.
     bindS (case a of Some b \<Rightarrow> retS (Some b) | None \<Rightarrow> (\<lambda>w. (find_native_binary T ''runtime'' w, w))) (\<lambda>found.
     case found of
       None \<Rightarrow> raiseS (ps_error DEPENDENCY_UNAVAILABLE ''Native runtime binary not found''
         (Some ''Build cpp/ apps and ensure perceptshift_runtime is on PATH'')
         [(''reason_code'', reason_val UNAVAILABLE_NATIVE_BINARY)] None)
     | Some binary \<Rightarrow> bindS (getS w_cwd) (\<lambda>cwd.
         launch_bench_worker X T [path_str binary, ''--config'', path_str config] (abs_path cwd) timeout [] None None))))"

section \<open>bundle.py\<close>

definition operator_profile :: "string \<Rightarrow> string \<Rightarrow> string \<Rightarrow> pydict" where
  "operator_profile profile_id model_hash rel_model =
     [(''profile_id'', PStr profile_id), (''label'', PStr profile_id), (''model_sha256'', PStr model_hash),
      (''model_relative_path'', PStr rel_model), (''status'', PStr ''operator_provided''),
      (''session'', PDict [(''provider_order'', PList [PStr ''CPUExecutionProvider'']), (''intra_op_threads'', PInt 1),
         (''inter_op_threads'', PInt 1), (''graph_optimization_level'', PStr ''all'')]),
      (''adapter'', PDict [(''name'', PStr ''raw_tensor'')]), (''preprocess'', PDict [(''backend'', PStr ''scalar'')])]"

definition sized_entry :: "ppath \<Rightarrow> string \<Rightarrow> string \<Rightarrow> pyval io" where
  "sized_entry out rel h = bindS (read_bytes (path_div out rel)) (\<lambda>b.
     retS (PDict [(''path'', PStr rel), (''sha256'', PStr h), (''size_bytes'', PInt (int (length b)))]))"

definition operator_manifest :: "ext \<Rightarrow> string \<Rightarrow> pydict \<Rightarrow> ppath \<Rightarrow> (string \<times> string) list \<Rightarrow> pydict io" where
  "operator_manifest X profile_id profile out files =
     bindS (envelope_fields X ''perceptshift.profile_bundle'') (\<lambda>env.
     bindS (get_version X) (\<lambda>v. bindS (producer_metadata X) (\<lambda>producer. bindS (utc_now_rfc3339 X) (\<lambda>now.
     bindS (mapS (\<lambda>(rel, h). sized_entry out rel h) files) (\<lambda>entries.
     retS (dupdate env [(''bundle_id'', PStr (''bundle-'' @ profile_id)), (''product_version'', PStr v),
       (''minimum_compatible_runtime_version'', PStr ''0.1.0''), (''producer'', PDict producer),
       (''created_at'', PStr now), (''adapter'', PDict [(''name'', PStr ''raw_tensor'')]),
       (''quality_metric_name'', PStr ''numeric_equivalence''), (''quality_direction'', PStr ''higher_is_better''),
       (''profiles'', PList [PDict profile]), (''files'', PList entries)]))))))"

definition bundle_create :: "ext \<Rightarrow> cli_env \<Rightarrow> ppath \<Rightarrow> string \<Rightarrow> ppath option \<Rightarrow> pydict io" where
  "bundle_create X C out profile_id model = (case model of
     None \<Rightarrow> raiseS (bad_parameter (''bundle create requires --model PATH to a real ONNX artifact; '' @
       ''placeholder/zero-hash draft bundles are not supported''))
   | Some src \<Rightarrow> let rel_model = ''models/'' @ profile_id @ ''.onnx''; rel_profile = ''profiles/'' @ profile_id @ ''.json'' in
     bindS (mapS (mkdirs True) (out # map (path_div out) [''models'', ''profiles'', ''attestations'', ''schemas''])) (\<lambda>us.
     bindS (read_bytes src) (\<lambda>b. bindS (write_bytes (path_div out rel_model) b) (\<lambda>u.
     bindS (sha256_file X (path_div out rel_model)) (\<lambda>model_hash.
     bindS (guardS (set model_hash \<noteq> {CHR ''0''}) (bad_parameter ''refusing zero model hash'')) (\<lambda>u.
     bindS (write_atomic_text (path_div out ''NOTICE'') (''PerceptShift profile bundle'' @ newline)) (\<lambda>u.
     bindS (sha256_file X (path_div out ''NOTICE'')) (\<lambda>notice_hash.
     let profile = operator_profile profile_id model_hash rel_model in
     bindS (write_atomic_json X (path_div out rel_profile) (PDict profile)) (\<lambda>u.
     bindS (sha256_file X (path_div out rel_profile)) (\<lambda>profile_hash.
     bindS (operator_manifest X profile_id profile out
       [(''NOTICE'', notice_hash), (rel_profile, profile_hash), (rel_model, model_hash)]) (\<lambda>manifest.
     bindS (write_atomic_json X (path_div out ''manifest.json'') (PDict manifest)) (\<lambda>u.
     bindS (sha256_file X (path_div out ''manifest.json'')) (\<lambda>digest.
     bindS (write_atomic_text (path_div out ''manifest.sha256'') (digest @ newline)) (\<lambda>u.
     verify_bundle X (fe_crypto (ce_forge C)) out None False))))))))))))))"

section \<open>candidate.py, certify.py, dataset.py and evaluate.py\<close>

definition put_candidate :: "ext \<Rightarrow> ppath \<Rightarrow> candidate_spec \<Rightarrow> unit io" where
  "put_candidate X dir spec = write_atomic_json X (path_div dir (cs_id spec @ ''.json'')) (PDict (cs_manifest spec))"

definition candidate_generate :: "ext \<Rightarrow> ppath \<Rightarrow> ppath \<Rightarrow> int \<Rightarrow> pydict io" where
  "candidate_generate X config out maximum =
     bindS (load_config_document X config) (\<lambda>v. bindS (validate_document X v ''forge_config'') (\<lambda>v.
     bindS (liftS (bindR (py_item v ''model'') (\<lambda>m. bindR (py_item m ''baseline_path'') path_arg))) (\<lambda>baseline.
     bindS (generate_candidates X (the_dict v) baseline [] maximum None) (\<lambda>specs.
     bindS (mkdirs True out) (\<lambda>u.
     bindS (mapS (put_candidate X out) specs) (\<lambda>us.
     retS [(''count'', PInt (int (length specs))), (''output_dir'', PStr (path_str out))]))))))"

definition listed_candidate :: "ext \<Rightarrow> ppath \<Rightarrow> string \<Rightarrow> pyval io" where
  "listed_candidate X dir name = bindS (load_json_document X (path_div dir name)) (\<lambda>v.
     bindS (liftS (as_dict v)) (\<lambda>doc.
     retS (PDict [(''candidate_id'', dget doc ''candidate_id''), (''label'', dget doc ''label''),
       (''path'', PStr (path_str (path_div dir name)))])))"

definition candidate_list :: "ext \<Rightarrow> ppath \<Rightarrow> pydict io" where
  "candidate_list X dir = bindS (getS (\<lambda>w. glob_names w dir ''.json'')) (\<lambda>names.
     bindS (mapS (listed_candidate X dir) names) (\<lambda>items. retS [(''candidates'', PList items)]))"

definition candidate_validate :: "ext \<Rightarrow> ppath \<Rightarrow> pydict io" where
  "candidate_validate X p = bindS (load_json_document X p) (\<lambda>v. bindS (validate_document X v ''candidate_manifest'') (\<lambda>v.
     bindS (liftS (as_dict v)) (\<lambda>doc. retS [(''ok'', PBool True), (''candidate_id'', dget doc ''candidate_id'')])))"

definition certify_gates :: "ext \<Rightarrow> ppath \<Rightarrow> gate_result list io" where
  "certify_gates X p = bindS (read_json X p) (\<lambda>v. bindS (liftS (as_dict v)) (\<lambda>ctx.
     liftS (run_certification_gates ctx)))"

definition certify_run :: "ext \<Rightarrow> ppath \<Rightarrow> pydict io" where
  "certify_run X p = bindS (certify_gates X p) (\<lambda>results.
     retS [(''certified'', PBool (is_certified results)), (''gates'', PList (map (PDict \<circ> gate_result_to_dict) results))])"

definition certify_explain :: "ext \<Rightarrow> ppath \<Rightarrow> pydict io" where
  "certify_explain X p = bindS (certify_gates X p) (\<lambda>results.
     retS [(''failed_gates'', PList (map (PDict \<circ> gate_result_to_dict) (filter (\<lambda>r. \<not> g_passed r) results))),
       (''certified'', PBool (is_certified results))])"

definition dataset_validate :: "ext \<Rightarrow> ppath \<Rightarrow> bool \<Rightarrow> (pydict \<times> bool) io" where
  "dataset_validate X p allow_symlinks = bindS (validate_dataset_manifest X p allow_symlinks) (\<lambda>r.
     bindS (summarize_result X r) (\<lambda>payload. retS (payload, validation_ok r)))"

definition dataset_hashes :: "ext \<Rightarrow> ppath \<Rightarrow> pydict io" where
  "dataset_hashes X p = bindS (validate_dataset_manifest X p False) (\<lambda>r.
     bindS (liftS (sha256_canonical X (PList (map PStr (dv_contents r))))) (\<lambda>digest.
     retS [(''manifest_hash'', PStr (dv_hash r)), (''content_hash_digest'', PStr digest),
       (''item_count'', PInt (dv_items r))]))"

definition dataset_summarize :: "ext \<Rightarrow> ppath \<Rightarrow> pydict io" where
  "dataset_summarize X p = bindS (validate_dataset_manifest X p False) (summarize_result X)"

definition value_delta :: "pydict \<Rightarrow> pydict \<Rightarrow> exc + pyval" where
  "value_delta a b = (if dget a ''candidate_value'' = PNone \<or> dget b ''candidate_value'' = PNone then Inr PNone
     else bindR (py_float (dget b ''candidate_value'')) (\<lambda>y. bindR (py_float (dget a ''candidate_value'')) (\<lambda>x.
       Inr (PFloat (fl_sub y x)))))"

definition evaluate_compare :: "ext \<Rightarrow> ppath \<Rightarrow> ppath \<Rightarrow> pydict io" where
  "evaluate_compare X left right = bindS (read_json X left) (\<lambda>l. bindS (read_json X right) (\<lambda>r.
     bindS (liftS (as_dict l)) (\<lambda>a. bindS (liftS (as_dict r)) (\<lambda>b.
     bindS (liftS (value_delta a b)) (\<lambda>delta.
     retS [(''left_value'', dget a ''candidate_value''), (''right_value'', dget b ''candidate_value''), (''delta'', delta)])))))"

section \<open>inspect.py, model.py, report.py, runtime.py and system.py\<close>

definition find_run :: "string \<Rightarrow> pyval list \<Rightarrow> exc + pydict" where
  "find_run run_id runs =
     bindR (foldR (\<lambda>v found. case found of Some d \<Rightarrow> Inr (Some d)
       | None \<Rightarrow> bindR (as_dict v) (\<lambda>d. Inr (if dget d ''run_id'' = PStr run_id then Some d else None))) runs None) (\<lambda>found.
     case found of Some d \<Rightarrow> Inr d
     | None \<Rightarrow> Inl (ps_error NOT_FOUND (''Run not found: '' @ run_id) None [(''reason_code'', reason_val UNAVAILABLE_DATA)] None))"

definition inspect_run :: "ext \<Rightarrow> string option \<Rightarrow> pydict io" where
  "inspect_run X run_id = bindS (stored_runs X) (\<lambda>runs. case run_id of
     None \<Rightarrow> retS [(''runs'', PList runs)]
   | Some i \<Rightarrow> bindS (liftS (find_run i runs)) (\<lambda>row. bindS (liftS (ditem row ''root'')) (\<lambda>root.
       let run_json = path_div (path_of (py_str root)) ''run.json'' in
       bindS (getS (\<lambda>w. is_file w run_json)) (\<lambda>there.
       if there then bindS (read_json X run_json) (\<lambda>v. liftS (as_dict v)) else retS row))))"

definition inspect_model :: "ext \<Rightarrow> cli_env \<Rightarrow> ppath \<Rightarrow> pydict io" where
  "inspect_model X C p = bindS (inspect_onnx_model X (fe_onnx (ce_forge C)) p) (\<lambda>r. retS (mi_report r))"

definition model_validate :: "ext \<Rightarrow> cli_env \<Rightarrow> ppath \<Rightarrow> pydict io" where
  "model_validate X C p = bindS (inspect_onnx_model X (fe_onnx (ce_forge C)) p) (\<lambda>r.
     retS [(''ok'', PBool True), (''sha256'', PStr (mi_sha r)), (''node_count'', dget (mi_report r) ''node_count'')])"

definition model_compare :: "ext \<Rightarrow> cli_env \<Rightarrow> ppath \<Rightarrow> ppath \<Rightarrow> pydict io" where
  "model_compare X C left right = bindS (inspect_onnx_model X (fe_onnx (ce_forge C)) left) (\<lambda>a.
     bindS (inspect_onnx_model X (fe_onnx (ce_forge C)) right) (\<lambda>b.
     retS [(''left_sha256'', PStr (mi_sha a)), (''right_sha256'', PStr (mi_sha b)),
       (''identical_hash'', PBool (mi_sha a = mi_sha b)), (''left_nodes'', dget (mi_report a) ''node_count''),
       (''right_nodes'', dget (mi_report b) ''node_count'')]))"

text \<open>\<open>array[i : i + 1]\<close> for each index of the first axis.\<close>

definition batch_slices :: "tensor \<Rightarrow> tensor list" where
  "batch_slices t = (let n = nat (prod_list (tl (t_shape t))) in
     map (\<lambda>i. \<lparr>t_shape = 1 # tl (t_shape t), t_data = take n (drop (i * n) (t_data t))\<rparr>) [0..<nat (hd (t_shape t))])"

definition model_quantize ::
    "ext \<Rightarrow> cli_env \<Rightarrow> ppath \<Rightarrow> ppath \<Rightarrow> string \<Rightarrow> string \<Rightarrow> ppath option \<Rightarrow> bool \<Rightarrow> pydict io" where
  "model_quantize X C p out method_name input_name npy per_channel =
     bindS (getS (\<lambda>w. case npy of None \<Rightarrow> False | Some q \<Rightarrow> is_file w q)) (\<lambda>there.
     bindS (guardS there (ps_error QUANTIZATION_FAILED ''--calibration-npy is required and must point to a real array''
       (Some ''Provide calibration tensors derived from the calibration dataset'') [] None)) (\<lambda>u.
     bindS (read_bytes (the npy)) (\<lambda>b. bindS (liftS (ce_npy C b)) (\<lambda>a.
     bindS (guardS (length (t_shape a) = 4)
       (ps_err QUANTIZATION_FAILED ''Calibration array must have shape (N,C,H,W)'')) (\<lambda>u.
     let samples = map (\<lambda>t. [(input_name, as_f32 (et_arrays (fe_tools (ce_forge C))) t)]) (batch_slices a) in
     bindS (liftS (method_of (PStr method_name))) (\<lambda>m.
     bindS (quantize_static_qdq X (fe_quantizer (ce_forge C)) p out
       \<lparr>qo_method = m, qo_per_channel = per_channel, qo_exclude = [], qo_extra = []\<rparr> samples input_name) (\<lambda>r.
     retS (qr_report r))))))))"

definition built_report :: "ext \<Rightarrow> ppath \<Rightarrow> pydict io" where
  "built_report X input = bindS (read_json X input) (\<lambda>raw. bindS (build_report_document X raw) (\<lambda>v.
     liftS (as_dict v)))"

definition report_build :: "ext \<Rightarrow> json_text \<Rightarrow> ppath \<Rightarrow> ppath \<Rightarrow> pydict io" where
  "report_build X J input out = bindS (built_report X input) (\<lambda>report.
     bindS (mkdirs True out) (\<lambda>u.
     bindS (export_json J (PDict report) (path_div out ''report.json'')) (\<lambda>u.
     bindS (export_markdown J report (path_div out ''report.md'')) (\<lambda>u.
     bindS (export_html J (PDict report) (path_div out ''report.html'')) (\<lambda>u.
     retS [(''ok'', PBool True), (''output_dir'', PStr (path_str out))])))))"

definition report_serve :: "ppath \<Rightarrow> pydict io" where
  "report_serve p = bindS (\<lambda>w. (resolve w p, w)) (\<lambda>q. retS [(''path'', PStr (path_str q)), (''mode'', PStr ''static-file'')])"

definition report_export :: "ext \<Rightarrow> json_text \<Rightarrow> ppath \<Rightarrow> ppath \<Rightarrow> string \<Rightarrow> pydict io" where
  "report_export X J input out format = bindS (built_report X input) (\<lambda>report.
     bindS (if format = ''json'' then export_json J (PDict report) out
       else if format = ''markdown'' then export_markdown J report out
       else if format = ''html'' then export_html J (PDict report) out
       else raiseS (bad_parameter ''format must be json|markdown|html'')) (\<lambda>u.
     retS [(''ok'', PBool True), (''output'', PStr (path_str out))]))"

definition report_sanitize :: "ext \<Rightarrow> json_text \<Rightarrow> ppath \<Rightarrow> ppath \<Rightarrow> pydict io" where
  "report_sanitize X J input out = bindS (read_json X input) (\<lambda>raw.
     bindS (getS (\<lambda>w. sanitize_report w raw)) (\<lambda>cleaned.
     bindS (write_text out (jt_sorted J cleaned @ newline)) (\<lambda>u.
     retS [(''ok'', PBool True), (''output'', PStr (path_str out))])))"

definition rstrip_slashes :: "string \<Rightarrow> string" where
  "rstrip_slashes s = rev (dropWhile (\<lambda>c. c = CHR ''/'') (rev s))"

definition runtime_status_cmd :: "ext \<Rightarrow> cli_env \<Rightarrow> string \<Rightarrow> pydict io" where
  "runtime_status_cmd X C api_url =
     bindS (getS (\<lambda>w. case runtime_dir w of None \<Rightarrow> None
       | Some d \<Rightarrow> let p = path_div d ''runtime-state.json'' in if is_file w p then Some p else None)) (\<lambda>state_file.
     case state_file of
       Some p \<Rightarrow> bindS (read_json X p) (\<lambda>v. retS [(''source'', PStr ''runtime_state_file''), (''status'', v)])
     | None \<Rightarrow> (let gone = [(''source'', PStr ''api''), (''available'', PBool False),
           (''reason_code'', reason_val UNAVAILABLE_RUNTIME_STATUS)] in
         case ce_http C (rstrip_slashes api_url @ ''/v1/runtime/status'') of
           Inl e \<Rightarrow> retS (gone @ [(''message'', PStr (exc_str e))])
         | Inr (status, body) \<Rightarrow> if status = 200
             then bindS (liftS (json_loads X body)) (\<lambda>v. retS [(''source'', PStr ''api''), (''status'', v)])
             else retS (gone @ [(''http_status'', PInt status)])))"

section \<open>forge.py and the commands of one call\<close>

definition forge_start :: "ext \<Rightarrow> cli_env \<Rightarrow> ppath \<Rightarrow> int \<Rightarrow> pydict io" where
  "forge_start X C config maximum = run_forge X (ce_forge C) config maximum"

definition forge_restart :: "ext \<Rightarrow> cli_env \<Rightarrow> ppath \<Rightarrow> int \<Rightarrow> pydict io" where
  "forge_restart X C run_root maximum = resume_forge X (ce_forge C) run_root maximum"

definition forge_status :: "ext \<Rightarrow> pydict io" where
  "forge_status X = bindS (stored_runs X) (\<lambda>runs. retS [(''runs'', PList runs)])"

definition bundle_check :: "ext \<Rightarrow> cli_env \<Rightarrow> ppath \<Rightarrow> pydict io" where
  "bundle_check X C p = verify_bundle X (fe_crypto (ce_forge C)) p None False"

definition bundle_import :: "ext \<Rightarrow> cli_env \<Rightarrow> ppath \<Rightarrow> ppath \<Rightarrow> pydict io" where
  "bundle_import X C p destination = import_bundle X (fe_crypto (ce_forge C)) p destination"

definition bundle_sign :: "ext \<Rightarrow> cli_env \<Rightarrow> ppath \<Rightarrow> ppath \<Rightarrow> pydict io" where
  "bundle_sign X C p key = sign_bundle X (fe_crypto (ce_forge C)) p key None True"

definition host_doctor :: "ext \<Rightarrow> cli_env \<Rightarrow> pydict io" where
  "host_doctor X C = run_doctor X (ce_packages C) (fe_programs (ce_forge C))"

definition product_version :: "ext \<Rightarrow> pydict io" where
  "product_version X = bindS (get_version X) (\<lambda>v.
     retS [(''product'', PStr ''perceptshift''), (''version'', PStr v)])"

definition prepare_benchmark :: pydict where
  "prepare_benchmark = [(''status'', PStr ''noop''),
     (''message'', PStr ''No system governor changes applied; document host prep manually'')]"

definition restore_benchmark :: pydict where
  "restore_benchmark = [(''status'', PStr ''noop''),
     (''message'', PStr ''No system governor changes to restore'')]"

section \<open>app.py\<close>

datatype cli_command =
    Version | Doctor | Inspect_host | Inspect_model ppath | Inspect_bundle ppath | Inspect_run "string option"
  | Dataset_validate ppath bool | Dataset_hash ppath | Dataset_summarize ppath
  | Model_inspect ppath | Model_validate ppath | Model_compare ppath ppath
  | Model_quantize ppath ppath string string "ppath option" bool
  | Candidate_generate ppath ppath int | Candidate_list ppath | Candidate_validate ppath
  | Benchmark_run ppath ppath "ppath option" pyfloat | Benchmark_resume ppath | Benchmark_summarize ppath int int
  | Benchmark_compare ppath ppath | Evaluate_compare ppath ppath
  | Forge_start ppath int | Forge_resume ppath int | Forge_status
  | Certify_run ppath | Certify_explain ppath
  | Bundle_create ppath string "ppath option" | Bundle_verify ppath | Bundle_import ppath ppath
  | Bundle_sign ppath ppath | Bundle_inspect ppath
  | Report_build ppath ppath | Report_serve ppath | Report_export ppath ppath string | Report_sanitize ppath ppath
  | Run_standalone ppath pyfloat | Runtime_status string
  | System_paths | Prepare_benchmark | Restore_benchmark

text \<open>Typer's checks: an argument that must exist, as a file (\<open>dir_okay=False\<close>), a directory or either.\<close>

datatype arg_kind = An_entry | A_file | A_directory

definition arg_ok :: "world \<Rightarrow> arg_kind \<times> ppath \<Rightarrow> bool" where
  "arg_ok w kp = (path_exists w (snd kp) \<and> (case fst kp of An_entry \<Rightarrow> True
     | A_file \<Rightarrow> \<not> is_dir w (snd kp) | A_directory \<Rightarrow> is_dir w (snd kp)))"

fun cli_arguments :: "cli_command \<Rightarrow> (arg_kind \<times> ppath) list" where
  "cli_arguments (Inspect_model p) = [(A_file, p)]"
| "cli_arguments (Inspect_bundle p) = [(A_directory, p)]"
| "cli_arguments (Dataset_validate p a) = [(A_file, p)]"
| "cli_arguments (Dataset_hash p) = [(A_file, p)]"
| "cli_arguments (Dataset_summarize p) = [(A_file, p)]"
| "cli_arguments (Model_inspect p) = [(A_file, p)]"
| "cli_arguments (Model_validate p) = [(A_file, p)]"
| "cli_arguments (Model_compare p q) = [(A_file, p), (A_file, q)]"
| "cli_arguments (Model_quantize p q m i c k) = [(A_file, p)]"
| "cli_arguments (Candidate_generate p q n) = [(A_file, p)]"
| "cli_arguments (Candidate_list p) = [(A_directory, p)]"
| "cli_arguments (Candidate_validate p) = [(A_file, p)]"
| "cli_arguments (Benchmark_run p q d t) = [(A_file, p), (A_file, q)]"
| "cli_arguments (Benchmark_resume p) = [(An_entry, p)]"
| "cli_arguments (Benchmark_summarize p n s) = [(A_file, p)]"
| "cli_arguments (Benchmark_compare p q) = [(A_file, p), (A_file, q)]"
| "cli_arguments (Evaluate_compare p q) = [(A_file, p), (A_file, q)]"
| "cli_arguments (Forge_start p n) = [(A_file, p)]"
| "cli_arguments (Forge_resume p n) = [(A_directory, p)]"
| "cli_arguments (Certify_run p) = [(A_file, p)]"
| "cli_arguments (Certify_explain p) = [(A_file, p)]"
| "cli_arguments (Bundle_create out i m) = (case m of None \<Rightarrow> [] | Some p \<Rightarrow> [(A_file, p)])"
| "cli_arguments (Bundle_verify p) = [(A_directory, p)]"
| "cli_arguments (Bundle_import p d) = [(A_directory, p)]"
| "cli_arguments (Bundle_sign p k) = [(A_directory, p), (A_file, k)]"
| "cli_arguments (Bundle_inspect p) = [(A_directory, p)]"
| "cli_arguments (Report_build p d) = [(A_file, p)]"
| "cli_arguments (Report_serve p) = [(An_entry, p)]"
| "cli_arguments (Report_export p q f) = [(A_file, p)]"
| "cli_arguments (Report_sanitize p q) = [(A_file, p)]"
| "cli_arguments (Run_standalone p t) = [(A_file, p)]"
| "cli_arguments c = []"

definition check_arguments :: "cli_command \<Rightarrow> unit io" where
  "check_arguments c = bindS (getS (\<lambda>w. list_all (arg_ok w) (cli_arguments c))) (\<lambda>ok.
     guardS ok (bad_parameter ''Invalid value''))"

text \<open>The payload of a command; the flag is false where the command exits with code 2 after its output.\<close>

abbreviation passing :: "pydict io \<Rightarrow> (pydict \<times> bool) io" where
  "passing m \<equiv> bindS m (\<lambda>d. retS (d, True))"

fun cli_payload :: "ext \<Rightarrow> cli_env \<Rightarrow> cli_command \<Rightarrow> (pydict \<times> bool) io" where
  "cli_payload X C Version = passing (product_version X)"
| "cli_payload X C Doctor = passing (host_doctor X C)"
| "cli_payload X C Inspect_host = passing (host_doctor X C)"
| "cli_payload X C (Inspect_model p) = passing (inspect_model X C p)"
| "cli_payload X C (Inspect_bundle p) = passing (bundle_check X C p)"
| "cli_payload X C (Inspect_run i) = passing (inspect_run X i)"
| "cli_payload X C (Dataset_validate p a) = dataset_validate X p a"
| "cli_payload X C (Dataset_hash p) = passing (dataset_hashes X p)"
| "cli_payload X C (Dataset_summarize p) = passing (dataset_summarize X p)"
| "cli_payload X C (Model_inspect p) = passing (inspect_model X C p)"
| "cli_payload X C (Model_validate p) = passing (model_validate X C p)"
| "cli_payload X C (Model_compare p q) = passing (model_compare X C p q)"
| "cli_payload X C (Model_quantize p q m i c k) = passing (model_quantize X C p q m i c k)"
| "cli_payload X C (Candidate_generate p q n) = passing (candidate_generate X p q n)"
| "cli_payload X C (Candidate_list p) = passing (candidate_list X p)"
| "cli_payload X C (Candidate_validate p) = passing (candidate_validate X p)"
| "cli_payload X C (Benchmark_run p q d t) = passing (bench_run X C p q d t)"
| "cli_payload X C (Benchmark_resume p) = passing bench_resume"
| "cli_payload X C (Benchmark_summarize p n s) = passing (bench_summarize X C p n s)"
| "cli_payload X C (Benchmark_compare p q) = passing (bench_compare X p q)"
| "cli_payload X C (Evaluate_compare p q) = passing (evaluate_compare X p q)"
| "cli_payload X C (Forge_start p n) = passing (forge_start X C p n)"
| "cli_payload X C (Forge_resume p n) = passing (forge_restart X C p n)"
| "cli_payload X C Forge_status = passing (forge_status X)"
| "cli_payload X C (Certify_run p) = passing (certify_run X p)"
| "cli_payload X C (Certify_explain p) = passing (certify_explain X p)"
| "cli_payload X C (Bundle_create out i m) = passing (bundle_create X C out i m)"
| "cli_payload X C (Bundle_verify p) = passing (bundle_check X C p)"
| "cli_payload X C (Bundle_import p d) = passing (bundle_import X C p d)"
| "cli_payload X C (Bundle_sign p k) = passing (bundle_sign X C p k)"
| "cli_payload X C (Bundle_inspect p) = passing (bundle_check X C p)"
| "cli_payload X C (Report_build p d) = passing (report_build X (ce_json C) p d)"
| "cli_payload X C (Report_serve p) = passing (report_serve p)"
| "cli_payload X C (Report_export p q f) = passing (report_export X (ce_json C) p q f)"
| "cli_payload X C (Report_sanitize p q) = passing (report_sanitize X (ce_json C) p q)"
| "cli_payload X C (Run_standalone p t) = passing (run_standalone X C p t)"
| "cli_payload X C (Runtime_status url) = passing (runtime_status_cmd X C url)"
| "cli_payload X C System_paths = passing (getS path_inventory)"
| "cli_payload X C Prepare_benchmark = passing (retS prepare_benchmark)"
| "cli_payload X C Restore_benchmark = passing (retS restore_benchmark)"

definition human_text :: "cli_env \<Rightarrow> cli_command \<Rightarrow> pydict \<Rightarrow> string option" where
  "human_text C c payload = (case c of
     Version \<Rightarrow> Some (''perceptshift '' @ py_str (dget payload ''version''))
   | Doctor \<Rightarrow> Some (jt_indented (ce_json C) (PDict payload))
   | _ \<Rightarrow> None)"

definition run_command :: "ext \<Rightarrow> cli_env \<Rightarrow> console \<Rightarrow> cli_command \<Rightarrow> unit command" where
  "run_command X C ctx c =
     bindS (on_world (check_arguments c)) (\<lambda>u.
     bindS (on_world (cli_payload X C c)) (\<lambda>(payload, ok).
     bindS (emit C ctx payload (human_text C c payload)) (\<lambda>u.
     if ok then retS () else raiseS (exit_with 2))))"

text \<open>
  \<open>app()\<close>, as Typer runs it under Click: a command that returns ends the process with status 0, an Exit
  raised inside with its code, a usage error with 2, each by a \<open>SystemExit\<close>; other exceptions leave it.
\<close>

definition system_exit :: "int \<Rightarrow> exc" where
  "system_exit n = PyErr (OtherError ''SystemExit'') (show_int n)"

definition click_exit :: "exc \<Rightarrow> exc" where
  "click_exit e = (if is_kind (OtherError ''Exit'') e then PyErr (OtherError ''SystemExit'') (py_message e)
     else if is_kind (OtherError ''BadParameter'') e then system_exit 2 else e)"

definition run_app :: "ext \<Rightarrow> cli_env \<Rightarrow> console \<Rightarrow> cli_command \<Rightarrow> unit command" where
  "run_app X C ctx c = bindS (catchS (run_command X C ctx c) (\<lambda>e. raiseS (click_exit e)))
     (\<lambda>u. raiseS (system_exit 0))"

text \<open>\<open>main\<close>: an error of the product is printed as JSON whatever the options; the exit raised then is
  outside \<open>app()\<close>, so it reaches the interpreter as an exception like any other.\<close>

definition cli_main :: "ext \<Rightarrow> cli_env \<Rightarrow> console \<Rightarrow> cli_command \<Rightarrow> unit command" where
  "cli_main X C ctx c = catchS (run_app X C ctx c) (\<lambda>e.
     if is_ps e then bindS (emit_json (ce_json C) (to_dict e)) (\<lambda>u. raiseS (exit_with 2)) else raiseS e)"

text \<open>How the interpreter ends: with the status of a \<open>SystemExit\<close>, or with a traceback and status 1.\<close>

datatype process_end = Ends int | Crashes exc

definition exit_status :: "exc \<Rightarrow> int" where
  "exit_status e = (case parse_int (py_message e) of Some n \<Rightarrow> n | None \<Rightarrow> 1)"

definition process_end_of :: "exc + unit \<Rightarrow> process_end" where
  "process_end_of r = (case r of Inr u \<Rightarrow> Ends 0
     | Inl e \<Rightarrow> if is_kind (OtherError ''SystemExit'') e then Ends (exit_status e) else Crashes e)"

fun process_status :: "process_end \<Rightarrow> int" where
  "process_status (Ends n) = n"
| "process_status (Crashes e) = 1"

definition cli_process :: "ext \<Rightarrow> cli_env \<Rightarrow> console \<Rightarrow> cli_command \<Rightarrow> terminal \<Rightarrow> process_end \<times> terminal" where
  "cli_process X C ctx c t = (case cli_main X C ctx c t of (r, t') \<Rightarrow> (process_end_of r, t'))"

section \<open>The machine contract\<close>

text \<open>One JSON document with its final line break.\<close>

definition json_document :: "cli_env \<Rightarrow> pydict \<Rightarrow> string" where
  "json_document C payload = jt_sorted (ce_json C) (PDict payload) @ newline"

definition command_outcome :: "ext \<Rightarrow> cli_env \<Rightarrow> cli_command \<Rightarrow> (pydict \<times> bool) io" where
  "command_outcome X C c = bindS (check_arguments c) (\<lambda>u. cli_payload X C c)"

lemma on_world_bind: "bindS (on_world m) (\<lambda>x. on_world (f x)) = on_world (bindS m f)"
  by (rule ext) (simp add: bindS_def on_world_def split: prod.split sum.split)

lemma run_command_outcome:
  "run_command X C ctx c = bindS (on_world (command_outcome X C c)) (\<lambda>(payload, ok).
     bindS (emit C ctx payload (human_text C c payload)) (\<lambda>u. if ok then retS () else raiseS (exit_with 2)))"
  unfolding run_command_def command_outcome_def on_world_bind [symmetric] bindS_assoc ..

lemma exit_not_ps [simp]: "\<not> is_ps (exit_with n)"
  by (simp add: exit_with_def)

lemma emit_json_run: "emit_json J payload t = (Inr (), t\<lparr>tm_out := tm_out t @ jt_sorted J (PDict payload) @ newline\<rparr>)"
  by (simp add: emit_json_def put_text_def modS_def)

lemma emit_run:
  "emit C ctx payload human t = (Inr (), t\<lparr>tm_out := tm_out t @
     (if co_json ctx then json_document C payload else if co_quiet ctx then []
      else ce_rich C (case human of Some h \<Rightarrow> h | None \<Rightarrow> jt_sorted (ce_json C) (PDict payload)))\<rparr>)"
  by (simp add: emit_def emit_json_run json_document_def put_text_def modS_def)

lemma system_exit_status:
  "process_end_of (Inl (system_exit 0)) = Ends 0" "process_end_of (Inl (system_exit 2)) = Ends 2"
  "process_end_of (Inl (click_exit (exit_with 2))) = Ends 2"
  by code_simp+

lemma system_exit_not_ps [simp]: "\<not> is_ps (system_exit n)"
  by (simp add: system_exit_def)

lemma click_exit_ps: "is_ps (click_exit e) \<longleftrightarrow> is_ps e" "is_ps e \<Longrightarrow> click_exit e = e"
  by (cases e; simp add: click_exit_def)+

lemma click_exit_end:
  assumes "\<not> is_ps e"
  shows "process_end_of (Inl (click_exit e)) =
     (if is_kind (OtherError ''BadParameter'') e then Ends 2
      else if is_kind (OtherError ''Exit'') e \<or> is_kind (OtherError ''SystemExit'') e then Ends (exit_status e)
      else Crashes e)"
proof (cases "is_kind (OtherError ''BadParameter'') e")
  case True
  then have "click_exit e = system_exit 2" by (cases e) (auto simp: click_exit_def)
  with True system_exit_status(2) show ?thesis by simp
next
  case False
  then show ?thesis by (cases e) (auto simp: click_exit_def process_end_of_def exit_status_def)
qed

text \<open>C22. The command line keeps its machine contract up to the exit of a failed command. With
  \<open>--json\<close> a command that completes writes exactly one JSON document, its payload, and the process
  ends with status 0 or, for a dataset that is not valid, with 2. A command that fails with an error of
  the product writes exactly one document, the error's, but the process then ends with a traceback and
  status 1 instead of 2; a usage error ends it with 2 and any other failure with a traceback, and
  neither writes anything. With \<open>--quiet\<close> alone a command that completes writes nothing. The files
  are those the command's own work left.\<close>

theorem machine_contract:
  assumes "command_outcome X C c (tm_world t) = (q, w)" and "co_json ctx \<or> co_quiet ctx"
  shows "cli_process X C ctx c t = (case q of
      Inr (payload, ok) \<Rightarrow> (Ends (if ok then 0 else 2),
        \<lparr>tm_world = w, tm_out = tm_out t @ (if co_json ctx then json_document C payload else [])\<rparr>)
    | Inl e \<Rightarrow> (if is_ps e then Crashes (exit_with 2)
          else if is_kind (OtherError ''BadParameter'') e then Ends 2
          else if is_kind (OtherError ''Exit'') e \<or> is_kind (OtherError ''SystemExit'') e then Ends (exit_status e)
          else Crashes e,
        \<lparr>tm_world = w, tm_out = tm_out t @ (if is_ps e then json_document C (to_dict e) else [])\<rparr>))"
proof -
  have ow: "on_world (command_outcome X C c) t = (q, t\<lparr>tm_world := w\<rparr>)" using assms(1) by (simp add: on_world_def)
  show ?thesis
  proof (cases q)
    case (Inl e)
    then have "run_command X C ctx c t = (Inl e, t\<lparr>tm_world := w\<rparr>)"
      by (simp add: run_command_outcome bindS_def ow)
    then have a: "run_app X C ctx c t = (Inl (click_exit e), t\<lparr>tm_world := w\<rparr>)"
      by (simp add: run_app_def catchS_def bindS_def)
    show ?thesis
    proof (cases "is_ps e")
      case True
      moreover have "process_end_of (Inl (exit_with 2)) = Crashes (exit_with 2)"
        by (simp add: process_end_of_def exit_with_def)
      ultimately show ?thesis using Inl a
        by (simp add: cli_process_def cli_main_def catchS_def bindS_def click_exit_ps(2) emit_json_run json_document_def)
    next
      case False
      with Inl a click_exit_end [OF False] show ?thesis
        by (simp add: cli_process_def cli_main_def catchS_def click_exit_ps(1))
    qed
  next
    case (Inr x)
    obtain payload ok where x: "x = (payload, ok)" by (cases x)
    have "run_command X C ctx c t = (if ok then Inr () else Inl (exit_with 2),
        \<lparr>tm_world = w, tm_out = tm_out t @ (if co_json ctx then json_document C payload else [])\<rparr>)"
      using assms(2) by (auto simp: run_command_outcome bindS_def ow Inr x emit_run)
    then have "cli_main X C ctx c t = (Inl (if ok then system_exit 0 else click_exit (exit_with 2)),
        \<lparr>tm_world = w, tm_out = tm_out t @ (if co_json ctx then json_document C payload else [])\<rparr>)"
      by (simp add: cli_main_def run_app_def catchS_def bindS_def click_exit_ps(1))
    then show ?thesis using Inr x system_exit_status by (simp add: cli_process_def)
  qed
qed

definition sample_cli :: cli_env where
  "sample_cli = \<lparr>ce_forge = sample_env, ce_packages = \<lparr>pk_import = Inl, pk_dist = (\<lambda>d. None), pk_providers = None,
       pk_python = ''3.12'', pk_executable = ''python'', pk_platform = ''Linux'', pk_machine = ''x86_64''\<rparr>,
     ce_json = \<lparr>jt_sorted = (\<lambda>v. ''{}''), jt_indented = (\<lambda>v. ''{}''), jt_line = (\<lambda>v. ''{}'')\<rparr>,
     ce_rich = id, ce_http = (\<lambda>u. Inl (py_err TypeError)), ce_npy = (\<lambda>b. Inl (py_err ValueError))\<rparr>"

definition sample_terminal :: terminal where
  "sample_terminal = \<lparr>tm_world = sample_world, tm_out = ''> ''\<rparr>"

theorem machine_contract_witness:
  "cli_process sample_ext sample_cli \<lparr>co_json = False, co_quiet = True\<rparr> Prepare_benchmark sample_terminal
     = (Ends 0, sample_terminal)
   \<and> cli_process sample_ext sample_cli \<lparr>co_json = True, co_quiet = False\<rparr> (Benchmark_resume (abs_path [''ws''])) sample_terminal
     = (Crashes (exit_with 2), sample_terminal\<lparr>tm_out := ''> {}'' @ newline\<rparr>)"
proof -
  have w: "tm_world sample_terminal = sample_world" "tm_out sample_terminal = ''> ''" by (simp_all add: sample_terminal_def)
  have "command_outcome sample_ext sample_cli Prepare_benchmark sample_world = (Inr (prepare_benchmark, True), sample_world)"
    by (simp add: command_outcome_def check_arguments_def bindS_def getS_def guardS_def)
  from machine_contract [of _ _ _ sample_terminal, unfolded w, OF this, of "\<lparr>co_json = False, co_quiet = True\<rparr>"]
  have quiet: "cli_process sample_ext sample_cli \<lparr>co_json = False, co_quiet = True\<rparr> Prepare_benchmark sample_terminal
      = (Ends 0, sample_terminal)" by (simp add: sample_terminal_def)
  have there: "path_exists sample_world (abs_path [''ws''])" by code_simp
  have "command_outcome sample_ext sample_cli (Benchmark_resume (abs_path [''ws''])) sample_world
     = (case fst (bench_resume sample_world) of Inl e \<Rightarrow> Inl e | Inr d \<Rightarrow> Inr (d, True), sample_world)"
    by (simp add: command_outcome_def check_arguments_def arg_ok_def there bench_resume_def bindS_def getS_def guardS_def)
  from machine_contract [of _ _ _ sample_terminal, unfolded w, OF this, of "\<lparr>co_json = True, co_quiet = False\<rparr>"]
  have "cli_process sample_ext sample_cli \<lparr>co_json = True, co_quiet = False\<rparr> (Benchmark_resume (abs_path [''ws''])) sample_terminal
     = (Crashes (exit_with 2), sample_terminal\<lparr>tm_out := ''> {}'' @ newline\<rparr>)"
    by (simp add: bench_resume_def json_document_def sample_cli_def sample_terminal_def)
  with quiet show ?thesis by blast
qed

end
