(* ===== verification/Spec2Isabelle.thy ===== *)
theory Spec2Isabelle
  imports Cert_Context Candidates Bundle Bridge Stream_Build Api_Routes Quantization Quality_Eval Forge_Run Cli
begin

text \<open>
  A model of the Python packages of PerceptShift and the theorems that hold of it.

  \<^bold>\<open>The program.\<close> PerceptShift certifies variants of a perception model on a host and serves the result.
  \<open>perceptshift_common\<close> holds the error taxonomy, hashing, schemas and paths. \<open>perceptshift_forge\<close> runs the
  pipeline: it validates datasets, inspects and quantizes the model, generates candidates, measures each in a
  native worker process, evaluates its quality, certifies it through thirteen gates, selects the Pareto frontier
  and packs a profile bundle with digests and a signature. \<open>perceptshift_api\<close> serves the bundles, the run index
  and the state mirrored from the ROS runtime, and forwards authorised mutations to it. \<open>perceptshift_cli\<close> is
  the operator's front end to the forge. Paths below are relative to \<open>src/python\<close>.

  \<^bold>\<open>How code becomes definitions.\<close> A Python value that came from JSON or YAML is a \<open>pyval\<close>, a dictionary the
  list of its items in order, a float an exact rational rounded to 53 bits or an infinity or NaN (\<open>Py_Float\<close>), an
  integer an unbounded \<open>int\<close>, a string its code points below 256. A function that can raise returns \<open>exc + 'a\<close>
  (\<open>bindR\<close>); one that also reads or writes files, the environment, the clock or a cache is a \<open>world\<close>
  computation \<open>'a io\<close> (\<open>bindS\<close>), and an exception keeps the changes made before it. Every \<open>raise\<close>, early
  return and \<open>except\<close> clause is a branch. The world has files, directories, symbolic links, the working
  directory, the environment and the \<open>lru_cache\<close> contents. What is not under \<open>src/\<close> is an argument: the record
  \<open>ext\<close> (SHA-256, JSON and YAML codecs, schema validator, clock, git), \<open>crypto\<close>, \<open>numpy\<close>, \<open>arrays\<close>,
  \<open>coco_tools\<close>, \<open>quantizer\<close>, \<open>onnx_package\<close>, \<open>programs\<close> (processes), \<open>probe\<close> (host), \<open>json_text\<close>,
  \<open>packages\<close> and the ROS clients of \<open>Bridge\<close>. No law of them is assumed except as a named hypothesis of a
  theorem, and such a theorem has a witness with a concrete function in the parameter's place.

  \<^bold>\<open>Theories.\<close>
  \<^item> \<open>Prelude\<close>: the combinators, the locale \<open>state_preorder\<close> (what a computation keeps, interpreted for "reads
    only", "same files" and "only files under a directory"), sorting by a key.
  \<^item> \<open>Py_Float\<close>, \<open>Py_Value\<close>, \<open>Errors\<close>: Python's numbers, strings and dictionaries;
    \<open>perceptshift_common/errors.py\<close>, \<open>reason_codes.py\<close>.
  \<^item> \<open>World\<close>, \<open>Common_Docs\<close>, \<open>Doc_Store\<close>: files, \<open>hashing.py\<close>, \<open>version.py\<close>, \<open>producer.py\<close>, \<open>paths.py\<close>,
    \<open>path_security.py\<close>, \<open>schema.py\<close>; the locale \<open>document_store\<close> with its interpretation on the atomic writes.
  \<^item> \<open>Datasets\<close> (\<open>perceptshift_forge/datasets\<close>), \<open>Stream_Build\<close> (\<open>datasets/stream.py\<close>), \<open>Preprocess\<close>
    (\<open>preprocess.py\<close>), \<open>Candidates\<close> (\<open>candidates\<close>), \<open>Quantization\<close> (\<open>quantization\<close>, \<open>calibration\<close>,
    \<open>orchestration/quantize_step.py\<close>), \<open>Evaluation\<close> (\<open>evaluation\<close>, \<open>statistics\<close>), \<open>Quality_Eval\<close>
    (\<open>orchestration/evaluate.py\<close>).
  \<^item> \<open>Certification\<close> (\<open>certification/__init__.py\<close>, the gates as interpretations of the locales
    \<open>certification_gate\<close> and \<open>mandatory_gate\<close>) and \<open>Cert_Context\<close> (\<open>certification/context.py\<close>).
  \<^item> \<open>Bundle\<close> (\<open>bundle.py\<close>), \<open>Host_Probe\<close> (\<open>orchestration/environment.py\<close>, \<open>models/inspect.py\<close>,
    \<open>runs/storage.py\<close>), \<open>Native_Tools\<close> and \<open>Forge_Run\<close> (\<open>orchestration/__init__.py\<close>: the worker launch;
    the lock, the resumable steps and the run that composes all of the above), \<open>Reporting\<close> (\<open>reporting\<close>,
    \<open>inspection\<close>).
  \<^item> \<open>Telemetry\<close> (\<open>perceptshift_api/telemetry.py\<close>, its router; the locale \<open>bounded_fifo\<close>), \<open>Bridge\<close>
    (\<open>ros_bridge.py\<close>), \<open>Api_Guard\<close> (\<open>errors.py\<close>, \<open>middleware.py\<close>, \<open>config.py\<close>, \<open>auth.py\<close>, \<open>paths.py\<close>) and
    \<open>Api_Routes\<close> (\<open>dependencies.py\<close>, \<open>audit.py\<close>, the routers over one application state).
  \<^item> \<open>Cli\<close> (\<open>perceptshift_cli\<close>): the commands as computations on a terminal, which call the forge's.

  \<^bold>\<open>What the theorems show.\<close> The chain from a candidate to a bundle: a certificate means what its gates say, with
  a model file of the recorded digest (\<open>certified_candidate\<close>, \<open>certified_iff_context\<close>,
  \<open>verdict_is_explained\<close>, \<open>provider_ok_requires\<close>); the frontier is the set of undominated candidates when every
  objective was measured, and can be empty otherwise (\<open>pareto_frontier\<close>, \<open>pareto_frontier_can_vanish\<close>); the
  bundle manifest a run leaves on disk lists exactly the frontier of the rows it certified, and its lock keeps
  others out (\<open>run_bundles_certified\<close>, \<open>lock_excludes\<close>); a verified bundle is what its digests and signature commit to (\<open>verified_bundle_trusted\<close>,
  \<open>signed_bundle_chain\<close>, \<open>signed_bundle_verifies\<close>). The inputs of the chain: dataset manifests, splits, the
  benchmark stream, preprocessing contracts, candidate ids, calibration reading, equivalence and accuracy. The
  service: mutations need the token, the limiter, the runtime's acceptance and leave an audit row
  (\<open>mutations_authorised_audited\<close>, \<open>limiter_window\<close>, \<open>mutation_needs_acceptance\<close>), artifacts stay under their
  roots, responses carry their headers, the mirrored state is consistent in all reachable states and client
  queues are windows of the event stream. The front end: the machine contract of \<open>--json\<close>, down to how the
  process ends (\<open>machine_contract\<close>), and the redaction of reports. Several theorems state what the code does where it differs from what it means to do; the differences
  are listed as findings beside the development.

  \<^bold>\<open>Bounds and fuel.\<close> Path resolution follows at most \<open>link_fuel\<close> = 40 symbolic links, the limit of the
  operating system, and then reports a loop as it does. The tree copy of an import has fuel \<open>recursion_limit\<close> =
  1000, Python's own recursion limit. Files are hashed in chunks of \<open>default_chunk\<close>, which \<open>sha256_file_whole\<close>
  shows to make no difference. The shortest decimal of a float is searched up to 17 digits, which are enough for
  53 bits. The polling wait of a service call runs over the list of clock readings it is given, and
  \<open>service_wait_ends\<close> shows that it stops by the deadline. All other recursions are structural or have a measure.

  \<^bold>\<open>Not modelled.\<close> Permission bits and concurrent writers of a file; characters above 255; the wiring of asyncio,
  uvicorn, SQLAlchemy and Alembic (\<open>app.py\<close> beyond its middlewares, \<open>database.py\<close>, \<open>migrations\<close>), the
  declarative launch files; the CORS middleware, which is only there when origins are configured, the
  headers Starlette derives from a body (type and length) and the failure of a database commit; and the C++,
  ROS and web programs, which the Python code meets as processes and services. Of the command line,
  \<open>evaluate run\<close> and \<open>model preprocess\<close>, and Typer's own parsing. Each operation of the hub, the bridge and
  the limiter is one step, as their locks make it.
\<close>

end
